(* ===== verification/Prelude.thy ===== *)
theory Prelude
  imports Main
begin

text \<open>
  Shared vocabulary of the development.

  \<^item> The error discipline of a mapping: a handler either returns the next store or halts the
    indexer. Both are a value of \<open>'x + 's\<close>, composed by \<open>bind_halt\<close>.
  \<^item> \<open>run\<close>, the indexer's main loop: handlers are applied to the events in chain order and
    the first halt stops indexing.
  \<^item> \<open>msum\<close>, the sum of a measure over the entities of a finite store, with the lemmas that
    say how saving one entity changes it.
  \<^item> Three interfaces: \<open>entity_class\<close> (what \<open>load\<close> and \<open>save\<close> of a generated entity class
    promise), \<open>counted_indexer\<close> (a handler family whose every step moves a counter by a known
    weight, so a run moves it by the sum of the weights) and \<open>indexer_refinement\<close> (a handler
    family that simulates an abstract machine).
\<close>

named_theorems handler_defs \<open>definitions of the event handlers\<close>
named_theorems entity_defs \<open>definitions of the save operations of the entity classes\<close>
named_theorems users_steps \<open>backward rules for steps on the users\<close>
named_theorems enum_defs \<open>definitions of the enum-to-string helpers\<close>

section \<open>Results that may halt\<close>

definition bind_halt :: "'x + 'a \<Rightarrow> ('a \<Rightarrow> 'x + 'b) \<Rightarrow> 'x + 'b" where
  "bind_halt r f = (case r of Inl e \<Rightarrow> Inl e | Inr a \<Rightarrow> f a)"

lemma bind_halt_simps [simp]:
  "bind_halt (Inl e) f = Inl e"
  "bind_halt (Inr a) f = f a"
  by (simp_all add: bind_halt_def)

lemma bind_halt_Inr_iff:
  "bind_halt r f = Inr b \<longleftrightarrow> (\<exists>a. r = Inr a \<and> f a = Inr b)"
  by (cases r) simp_all

lemma bind_halt_InrE [elim]:
  assumes "bind_halt r f = Inr b"
  obtains a where "r = Inr a" and "f a = Inr b"
  using assms by (auto simp: bind_halt_Inr_iff)

lemma bind_halt_assoc: "bind_halt (bind_halt r f) g = bind_halt r (\<lambda>a. bind_halt (f a) g)"
  by (cases r) simp_all

section \<open>The indexing loop\<close>

fun run :: "('e \<Rightarrow> 's \<Rightarrow> 'x + 's) \<Rightarrow> 'e list \<Rightarrow> 's \<Rightarrow> 'x + 's" where
  "run step [] s = Inr s"
| "run step (e # es) s = bind_halt (step e s) (run step es)"

lemma run_append: "run step (es @ fs) s = bind_halt (run step es s) (run step fs)"
  by (induction es arbitrary: s) (simp_all add: bind_halt_def split: sum.splits)

lemma run_invariant:
  assumes step: "\<And>e s s'. e \<in> set es \<Longrightarrow> step e s = Inr s' \<Longrightarrow> I s \<Longrightarrow> I s'"
    and run: "run step es s = Inr s'" and init: "I s"
  shows "I s'"
  using step run init
proof (induction es arbitrary: s)
  case Nil
  then show ?case by simp
next
  case (Cons e es)
  from Cons.prems(2) obtain t where t: "step e s = Inr t" and r: "run step es t = Inr s'"
    by auto
  have "I t" using Cons.prems(1) [of e s t] t Cons.prems(3) by simp
  with Cons.IH [of t] r Cons.prems(1) show ?case by (metis list.set_intros(2))
qed

lemma run_relation:
  assumes step: "\<And>e s s'. step e s = Inr s' \<Longrightarrow> R s s'"
    and refl: "\<And>s. R s s" and trans: "\<And>s t u. R s t \<Longrightarrow> R t u \<Longrightarrow> R s u"
    and run: "run step es s = Inr s'"
  shows "R s s'"
  using run
proof (induction es arbitrary: s)
  case Nil
  then show ?case by (simp add: refl)
next
  case (Cons e es)
  from Cons.prems obtain t where "step e s = Inr t" and "run step es t = Inr s'" by auto
  then show ?case using step trans Cons.IH by blast
qed

lemma run_total:
  assumes "\<And>e s. e \<in> set es \<Longrightarrow> \<exists>s'. step e s = Inr s'"
  shows "\<exists>s'. run step es s = Inr s'"
  using assms
proof (induction es arbitrary: s)
  case Nil
  then show ?case by simp
next
  case (Cons e es)
  obtain t where t: "step e s = Inr t" using Cons.prems [of e s] by auto
  moreover obtain s' where "run step es t = Inr s'" using Cons.IH [of t] Cons.prems by auto
  ultimately show ?case by simp
qed

text \<open>
  A counter that every event moves by a weight depending on the event only: after a run it has
  moved by the sum of the weights. The claim may be restricted to a set of states \<open>ok\<close> that the
  steps keep (a counter inside an entity needs the entity) and to \<open>allowed\<close> events (an event that
  creates the entity anew would reset the counter).
\<close>

locale counted_indexer =
  fixes step :: "'e \<Rightarrow> 's \<Rightarrow> 'x + 's"
    and allowed :: "'e \<Rightarrow> bool"
    and ok :: "'s \<Rightarrow> bool"
    and counter :: "'s \<Rightarrow> int"
    and weight :: "'e \<Rightarrow> int"
  assumes ok_step: "ok s \<Longrightarrow> allowed e \<Longrightarrow> step e s = Inr s' \<Longrightarrow> ok s'"
    and counter_step: "ok s \<Longrightarrow> allowed e \<Longrightarrow> step e s = Inr s' \<Longrightarrow> counter s' = counter s + weight e"
begin

lemma run_counter:
  "run step es s = Inr s' \<Longrightarrow> list_all allowed es \<Longrightarrow> ok s \<Longrightarrow>
     ok s' \<and> counter s' = counter s + sum_list (map weight es)"
proof (induction es arbitrary: s)
  case Nil
  then show ?case by simp
next
  case (Cons e es)
  from Cons.prems(1) obtain t where t: "step e s = Inr t" and r: "run step es t = Inr s'"
    by auto
  with Cons.IH [OF r] Cons.prems show ?case
    by (simp add: ok_step [OF _ _ t] counter_step [OF _ _ t])
qed

end

text \<open>
  Refinement of an abstract machine by an indexer: a forward simulation lifts from single events
  to runs. The abstract machine says which event sequences are possible, the indexer must then
  neither halt nor lose the correspondence.
\<close>

locale indexer_refinement =
  fixes astep :: "'e \<Rightarrow> 'a \<Rightarrow> 'y + 'a"
    and cstep :: "'e \<Rightarrow> 's \<Rightarrow> 'x + 's"
    and sim :: "'a \<Rightarrow> 's \<Rightarrow> bool"
  assumes sim_step: "sim A s \<Longrightarrow> astep e A = Inr A' \<Longrightarrow> \<exists>s'. cstep e s = Inr s' \<and> sim A' s'"
begin

lemma run_refines:
  "sim A s \<Longrightarrow> run astep es A = Inr A' \<Longrightarrow> \<exists>s'. run cstep es s = Inr s' \<and> sim A' s'"
proof (induction es arbitrary: A s)
  case Nil
  then show ?case by simp
next
  case (Cons e es)
  from Cons.prems(2) obtain B where B: "astep e A = Inr B" and r: "run astep es B = Inr A'" by auto
  obtain t where "cstep e s = Inr t" and "sim B t" using sim_step [OF Cons.prems(1) B] by blast
  with Cons.IH [OF _ r] show ?case by auto
qed

end

section \<open>Finite maps of entities\<close>

lemma insert_dom_Some [simp]: "m k = Some v \<Longrightarrow> insert k (dom m) = dom m"
  by auto

lemma map_upd_same_iff [simp]: "m(k \<mapsto> a) = m(k \<mapsto> b) \<longleftrightarrow> a = b"
  by (metis map_upd_Some_unfold)

definition msum :: "('v \<Rightarrow> int) \<Rightarrow> ('k \<rightharpoonup> 'v) \<Rightarrow> int" where
  "msum f m = (\<Sum>k\<in>dom m. f (the (m k)))"

definition contribution_of :: "('v \<Rightarrow> int) \<Rightarrow> 'v option \<Rightarrow> int" where
  "contribution_of f x = (case x of None \<Rightarrow> 0 | Some v \<Rightarrow> f v)"

lemma contribution_of_simps [simp]:
  "contribution_of f None = 0"
  "contribution_of f (Some v) = f v"
  by (simp_all add: contribution_of_def)

lemma msum_empty [simp]: "msum f Map.empty = 0"
  by (simp add: msum_def)

lemma msum_update:
  assumes "finite (dom m)"
  shows "msum f (m(k \<mapsto> v)) = msum f m - contribution_of f (m k) + f v"
proof -
  have split: "(\<Sum>j\<in>dom m. f (the (m j))) =
      contribution_of f (m k) + (\<Sum>j\<in>dom m - {k}. f (the (m j)))"
    using assms sum.remove [of "dom m" k "\<lambda>j. f (the (m j))"] by (cases "m k") (auto simp: domIff)
  have "msum f (m(k \<mapsto> v)) = f v + (\<Sum>j\<in>dom m - {k}. f (the ((m(k \<mapsto> v)) j)))"
    using assms by (simp add: msum_def sum.insert_remove)
  also have "(\<Sum>j\<in>dom m - {k}. f (the ((m(k \<mapsto> v)) j))) = (\<Sum>j\<in>dom m - {k}. f (the (m j)))"
    by (rule sum.cong) auto
  finally show ?thesis using split unfolding msum_def by linarith
qed

lemma msum_fresh: "finite (dom m) \<Longrightarrow> m k = None \<Longrightarrow> msum f (m(k \<mapsto> v)) = msum f m + f v"
  by (simp add: msum_update)

lemma msum_zero: "(\<And>k v. m k = Some v \<Longrightarrow> f v = 0) \<Longrightarrow> msum f m = 0"
  by (auto simp: msum_def intro!: sum.neutral)

section \<open>The contract of a generated entity class\<close>

text \<open>
  Every class of \<open>generated/schema.ts\<close> offers \<open>load(id)\<close> and \<open>save()\<close>. What the handlers
  rely on: a save is seen by the next load of the same id, and by no other load of that class.
\<close>

locale entity_class =
  fixes load :: "'s \<Rightarrow> string \<rightharpoonup> 'e"
    and save :: "'e \<Rightarrow> 's \<Rightarrow> 's"
    and ident :: "'e \<Rightarrow> string"
  assumes load_after_save: "load (save e s) = (load s)(ident e \<mapsto> e)"
begin

lemma load_save_same: "load (save e s) (ident e) = Some e"
  by (simp add: load_after_save)

lemma load_save_other: "k \<noteq> ident e \<Longrightarrow> load (save e s) k = load s k"
  by (simp add: load_after_save)

lemma save_save_same: "ident e' = ident e \<Longrightarrow> load (save e' (save e s)) = load (save e' s)"
  by (auto simp: load_after_save)

lemma save_keeps_keyed:
  assumes "\<forall>k x. load s k = Some x \<longrightarrow> ident x = k"
  shows "\<forall>k x. load (save e s) k = Some x \<longrightarrow> ident x = k"
  using assms by (simp add: load_after_save)

lemma save_keeps_all:
  assumes "\<forall>k x. load s k = Some x \<longrightarrow> P x" and "P e"
  shows "\<forall>k x. load (save e s) k = Some x \<longrightarrow> P x"
  using assms by (simp add: load_after_save)

lemma save_keeps_finite: "finite (dom (load s)) \<Longrightarrow> finite (dom (load (save e s)))"
  by (simp add: load_after_save)

lemma save_dom: "dom (load (save e s)) = insert (ident e) (dom (load s))"
  by (simp add: load_after_save)

lemma msum_save:
  "finite (dom (load s)) \<Longrightarrow>
     msum f (load (save e s)) = msum f (load s) - contribution_of f (load s (ident e)) + f e"
  by (simp add: load_after_save msum_update)

end

end
