(* ===== verification/Encoding.thy ===== *)
theory Encoding
  imports Prelude "HOL-Library.Word"
begin

text \<open>
  Bytes and strings as the TypeScript sources use them. A byte is an \<open>8 word\<close>, a \<open>Bytes\<close>,
  \<open>Address\<close> or hash value is a list of bytes, and a string is a list of UTF-16 code units below
  256 (\<open>char\<close>), which is all that \<open>String.fromCharCode\<close> of a byte can produce.

  \<^item> \<open>toHex\<close> is \<open>Bytes.toHex()\<close> and \<open>Bytes.toHexString()\<close>: the prefix \<open>0x\<close> and two
    lower-case digits per byte.
  \<^item> \<open>show_int\<close> is \<open>BigInt.toString()\<close>.
  \<^item> \<open>toLowerCase\<close> is the string method of that name on those code units.

  The lemmas are what entity keys need: \<open>toHex\<close> and \<open>show_int\<close> are injective, hex strings are
  fixed by \<open>toLowerCase\<close> and contain no dash, and strings joined by a dash can be split again.
\<close>

type_synonym byte = "8 word"
type_synonym bytes = "byte list"

section \<open>Hexadecimal\<close>

definition hexdigit :: "nat \<Rightarrow> char" where
  "hexdigit n = char_of (if n < 10 then 48 + n else 87 + n)"

definition hexval :: "char \<Rightarrow> nat option" where
  "hexval c =
     (let n = (of_char c :: nat)
      in if 48 \<le> n \<and> n \<le> 57 then Some (n - 48)
         else if 97 \<le> n \<and> n \<le> 102 then Some (n - 87)
         else if 65 \<le> n \<and> n \<le> 70 then Some (n - 55)
         else None)"

definition byte_hex :: "byte \<Rightarrow> string" where
  "byte_hex b = [hexdigit (unat b div 16), hexdigit (unat b mod 16)]"

definition toHex :: "bytes \<Rightarrow> string" where
  "toHex bs = ''0x'' @ concat (map byte_hex bs)"

definition lower_char :: "char \<Rightarrow> char" where
  "lower_char c =
     (let n = (of_char c :: nat)
      in if (65 \<le> n \<and> n \<le> 90) \<or> (192 \<le> n \<and> n \<le> 222 \<and> n \<noteq> 215) then char_of (n + 32) else c)"

definition toLowerCase :: "string \<Rightarrow> string" where
  "toLowerCase s = map lower_char s"

definition fromCharCode :: "byte \<Rightarrow> char" where
  "fromCharCode b = char_of (unat b)"

definition charCodeAt :: "char \<Rightarrow> nat" where
  "charCodeAt c = of_char c"

lemma of_char_char_of_less [simp]: "n < 256 \<Longrightarrow> (of_char (char_of n) :: nat) = n"
  by simp

lemma of_char_hexdigit: "n < 16 \<Longrightarrow> (of_char (hexdigit n) :: nat) = (if n < 10 then 48 + n else 87 + n)"
  by (simp add: hexdigit_def)

lemma hexval_hexdigit [simp]: "n < 16 \<Longrightarrow> hexval (hexdigit n) = Some n"
  by (simp add: hexval_def of_char_hexdigit)

lemma hexdigit_inj: "m < 16 \<Longrightarrow> n < 16 \<Longrightarrow> hexdigit m = hexdigit n \<longleftrightarrow> m = n"
  by (metis hexval_hexdigit option.inject)

lemma lower_hexdigit [simp]: "n < 16 \<Longrightarrow> lower_char (hexdigit n) = hexdigit n"
  by (simp add: lower_char_def of_char_hexdigit)

lemma hexdigit_not_dash [simp]: "n < 16 \<Longrightarrow> hexdigit n \<noteq> CHR ''-''"
  using of_char_hexdigit [of n] by (auto split: if_splits)

lemma unat_byte_less: "unat (b :: byte) < 256"
  using unsigned_less [of b, where ?'a = nat] by simp

lemma byte_nibbles: "unat (b :: byte) div 16 < 16" "unat b mod 16 < 16"
  using unat_byte_less [of b] by auto

lemma byte_hex_inject: "byte_hex a = byte_hex b \<longleftrightarrow> a = b"
proof
  assume "byte_hex a = byte_hex b"
  then have "unat a div 16 = unat b div 16" and "unat a mod 16 = unat b mod 16"
    by (simp_all add: byte_hex_def hexdigit_inj byte_nibbles)
  then have "unat a = unat b" by (metis div_mult_mod_eq)
  then show "a = b" by (simp add: word_unat_eq_iff)
qed simp

lemma length_byte_hex [simp]: "length (byte_hex b) = 2"
  by (simp add: byte_hex_def)

lemma concat_byte_hex_inject: "concat (map byte_hex as) = concat (map byte_hex bs) \<Longrightarrow> as = bs"
proof (induction as arbitrary: bs)
  case Nil
  then show ?case by (cases bs) (auto simp: byte_hex_def)
next
  case (Cons a as)
  then obtain b bs' where bs: "bs = b # bs'" by (cases bs) (auto simp: byte_hex_def)
  with Cons.prems have "byte_hex a = byte_hex b" and "concat (map byte_hex as) = concat (map byte_hex bs')"
    by (simp_all add: append_eq_append_conv)
  with Cons.IH bs show ?case by (simp add: byte_hex_inject)
qed

lemma toHex_inject [simp]: "toHex as = toHex bs \<longleftrightarrow> as = bs"
  by (auto simp: toHex_def dest: concat_byte_hex_inject)

lemma lower_byte_hex: "map lower_char (byte_hex b) = byte_hex b"
  by (simp add: byte_hex_def byte_nibbles)

lemma toLowerCase_toHex [simp]: "toLowerCase (toHex bs) = toHex bs"
proof -
  have "map lower_char (concat (map byte_hex bs)) = concat (map byte_hex bs)"
    by (induction bs) (simp_all add: lower_byte_hex)
  then show ?thesis by (simp add: toLowerCase_def toHex_def) (simp add: lower_char_def)
qed

lemma toHex_no_dash [simp]: "CHR ''-'' \<notin> set (toHex bs)"
proof -
  have "CHR ''-'' \<notin> set (concat (map byte_hex bs))"
    by (induction bs) (simp_all add: byte_hex_def byte_nibbles hexdigit_not_dash [symmetric])
  then show ?thesis by (simp add: toHex_def)
qed

lemma toHex_prefix: "take 2 (toHex bs) = ''0x''"
  by (simp add: toHex_def)

lemma length_toHex: "length (toHex bs) = 2 + 2 * length bs"
  by (induction bs) (simp_all add: toHex_def)

lemma toHex_nonempty [simp]: "toHex bs \<noteq> []" "[] \<noteq> toHex bs"
  by (simp_all add: toHex_def)

lemma fromCharCode_inject [simp]: "fromCharCode a = fromCharCode b \<longleftrightarrow> a = b"
proof
  assume "fromCharCode a = fromCharCode b"
  then have "(of_char (fromCharCode a) :: nat) = of_char (fromCharCode b)" by simp
  then have "unat a = unat b" by (simp add: fromCharCode_def unat_byte_less)
  then show "a = b" by (simp add: word_unat_eq_iff)
qed simp

lemma charCodeAt_fromCharCode [simp]: "charCodeAt (fromCharCode b) = unat b"
  by (simp add: charCodeAt_def fromCharCode_def unat_byte_less)

text \<open>
  Reading hexadecimal back. \<open>show_hex\<close> is \<open>Number.toString(16)\<close>, \<open>padStart\<close> the string
  method with a one-character filler, and \<open>hex_decode\<close> reads pairs of digits (\<open>None\<close> on an
  odd length or a character that is no digit).
\<close>

fun show_hex :: "nat \<Rightarrow> string" where
  "show_hex n = (if n < 16 then [hexdigit n] else show_hex (n div 16) @ [hexdigit (n mod 16)])"

declare show_hex.simps [simp del]

definition padStart :: "nat \<Rightarrow> char \<Rightarrow> string \<Rightarrow> string" where
  "padStart n c s = replicate (n - length s) c @ s"

fun hex_decode :: "string \<Rightarrow> bytes option" where
  "hex_decode [] = Some []"
| "hex_decode [c] = None"
| "hex_decode (c # d # cs) =
     (case (hexval c, hexval d) of
        (Some h, Some l) \<Rightarrow> map_option ((#) (word_of_nat (16 * h + l))) (hex_decode cs)
      | _ \<Rightarrow> None)"

lemma hex_decode_byte_hex: "hex_decode (byte_hex b @ cs) = map_option ((#) b) (hex_decode cs)"
proof -
  have "word_of_nat (16 * (unat b div 16) + unat b mod 16) = b" by simp
  then show ?thesis by (simp add: byte_hex_def byte_nibbles)
qed

lemma hex_decode_encode [simp]: "hex_decode (concat (map byte_hex bs)) = Some bs"
  by (induction bs) (simp_all add: hex_decode_byte_hex)

lemma padStart_show_hex: "padStart 2 CHR ''0'' (show_hex (unat b)) = byte_hex b"
proof -
  have zero: "hexdigit 0 = CHR ''0''" by code_simp
  show ?thesis
  proof (cases "unat b < 16")
    case True
    then show ?thesis by (simp add: show_hex.simps [of "unat b"] padStart_def byte_hex_def zero)
  next
    case False
    have "show_hex (unat b div 16) = [hexdigit (unat b div 16)]"
      using byte_nibbles(1) [of b] by (simp add: show_hex.simps [of "unat b div 16"])
    with False show ?thesis by (simp add: show_hex.simps [of "unat b"] padStart_def byte_hex_def)
  qed
qed

section \<open>Decimal\<close>

fun show_nat :: "nat \<Rightarrow> string" where
  "show_nat n = (if n < 10 then [char_of (48 + n)] else show_nat (n div 10) @ [char_of (48 + n mod 10)])"

declare show_nat.simps [simp del]

definition show_int :: "int \<Rightarrow> string" where
  "show_int i = (if i < 0 then CHR ''-'' # show_nat (nat (- i)) else show_nat (nat i))"

definition read_nat :: "string \<Rightarrow> nat" where
  "read_nat s = foldl (\<lambda>a c. 10 * a + (of_char c - 48)) 0 s"

lemma read_show_nat [simp]: "read_nat (show_nat n) = n"
proof (induction n rule: show_nat.induct)
  case (1 n)
  show ?case
  proof (cases "n < 10")
    case True
    then show ?thesis by (simp add: show_nat.simps [of n] read_nat_def)
  next
    case False
    have "n mod 10 < 10" by simp
    then have "48 + n mod 10 < 256" by linarith
    with False "1.IH" show ?thesis
      by (simp add: show_nat.simps [of n] read_nat_def del: of_char_of)
  qed
qed

lemma show_nat_inject [simp]: "show_nat m = show_nat n \<longleftrightarrow> m = n"
  by (metis read_show_nat)

lemma show_nat_digits: "c \<in> set (show_nat n) \<Longrightarrow> 48 \<le> (of_char c :: nat) \<and> (of_char c :: nat) \<le> 57"
proof (induction n rule: show_nat.induct)
  case (1 n)
  have "n mod 10 < 10" by simp
  then have m: "48 + n mod 10 < 256" by linarith
  show ?case
  proof (cases "n < 10")
    case True
    with "1.prems" show ?thesis by (auto simp: show_nat.simps [of n])
  next
    case False
    with "1" m show ?thesis by (auto simp: show_nat.simps [of n] simp del: of_char_of)
  qed
qed

lemma show_nat_no_dash [simp]: "CHR ''-'' \<notin> set (show_nat n)"
  using show_nat_digits [of "CHR ''-''" n] by auto

lemma show_nat_nonempty [simp]: "show_nat n \<noteq> []"
  by (subst show_nat.simps) simp

lemma show_int_inject [simp]: "show_int i = show_int j \<longleftrightarrow> i = j"
proof -
  have neq: "CHR ''-'' # show_nat m \<noteq> show_nat n" for m n
    by (metis list.set_intros(1) show_nat_no_dash)
  then have "show_nat n \<noteq> CHR ''-'' # show_nat m" for m n by metis
  with neq show ?thesis by (auto simp: show_int_def)
qed

section \<open>Composite keys\<close>

lemma dash_split:
  assumes "a @ CHR ''-'' # b = a' @ CHR ''-'' # b'" and "CHR ''-'' \<notin> set a" and "CHR ''-'' \<notin> set a'"
  shows "a = a' \<and> b = b'"
  using assms
proof (induction a arbitrary: a')
  case Nil
  then show ?case by (cases a') auto
next
  case (Cons x xs)
  then show ?case by (cases a') auto
qed

lemma hex_dash_inject [simp]:
  "toHex a @ CHR ''-'' # b = toHex a' @ CHR ''-'' # b' \<longleftrightarrow> a = a' \<and> b = b'"
  using dash_split [of "toHex a" b "toHex a'" b'] by auto

section \<open>Optional strings\<close>

text \<open>
  A string that may be \<open>undefined\<close>: \<open>a || b\<close>, \<open>a || ''\<close>, and truthiness. White space is what \<open>trim\<close>
  and \<open>parseInt\<close> skip.
\<close>

definition js_or :: "string option \<Rightarrow> string option \<Rightarrow> string option" where
  "js_or a b = (case a of None \<Rightarrow> b | Some s \<Rightarrow> if s = [] then b else Some s)"

definition or_empty :: "string option \<Rightarrow> string" where
  "or_empty a = (case a of None \<Rightarrow> [] | Some s \<Rightarrow> s)"

definition nonempty :: "string option \<Rightarrow> bool" where
  "nonempty a \<longleftrightarrow> a \<noteq> None \<and> a \<noteq> Some []"

definition js_space :: "char \<Rightarrow> bool" where
  "js_space c \<longleftrightarrow> (let n = (of_char c :: nat) in (9 \<le> n \<and> n \<le> 13) \<or> n = 32 \<or> n = 160)"

definition trim :: "string \<Rightarrow> string" where
  "trim s = rev (dropWhile js_space (rev (dropWhile js_space s)))"

end
