(* ===== verification/Entities.thy ===== *)
theory Entities
  imports Encoding
begin

text \<open>
  The data of the subgraph: what graph-node hands to a handler, the entity classes of
  \<open>packages/subgraph/generated/schema.ts\<close>, the entity store, and the host interface.

  \<^item> One \<^theory_text>\<open>record\<close> per entity class, with the fields of the class in the order of the
    schema; a field that the schema marks nullable is an \<open>option\<close>. Derived fields
    (\<open>@derivedFrom\<close>) are queries and hold no data. Since records share one name space, the
    fields of a class carry a short prefix (\<open>u_totalVotes\<close> is \<open>User.totalVotes\<close>).
  \<^item> \<open>store\<close> is the entity store: one map from ids to entities per class, and the addresses
    for which a \<open>Treasury\<close> data source was instantiated from the template.
  \<^item> \<open>X_save\<close> is \<open>X.save()\<close>; \<open>X.load(id)\<close> is application of the map. Each class is an
    interpretation of \<open>entity_class\<close>, under the class's plural name.
  \<^item> \<open>host\<close> holds what the handlers call and the repository does not contain: the decimal
    arithmetic of \<open>BigDecimal\<close> and the read-only contract call \<open>try_getOrganization\<close>. It is an
    argument of every handler that uses it. \<open>BigInt\<close> is unbounded and is \<open>int\<close>.
  \<^item> \<open>prime\<close> of an organization is required by the schema, but one handler builds an
    organization without it, so the field is optional here and \<open>Organization_save\<close> refuses an
    entity without it, as the store does (see the comment in \<open>utils/ids.ts\<close>). A \<open>User\<close>
    that is built from its address alone is a \<open>user_draft\<close>, refused in the same way.
\<close>

section \<open>What a handler receives\<close>

record eth_block =
  b_number :: int
  b_timestamp :: int
  b_hash :: bytes

record eth_transaction =
  t_hash :: bytes
  t_from :: bytes
  t_to :: "bytes option"
  t_gasPrice :: int

record eth_event =
  ev_address :: bytes
  ev_block :: eth_block
  ev_transaction :: eth_transaction
  ev_logIndex :: int

abbreviation ev_number :: "eth_event \<Rightarrow> int" where
  "ev_number ev \<equiv> b_number (ev_block ev)"

abbreviation ev_timestamp :: "eth_event \<Rightarrow> int" where
  "ev_timestamp ev \<equiv> b_timestamp (ev_block ev)"

abbreviation ev_txHash :: "eth_event \<Rightarrow> bytes" where
  "ev_txHash ev \<equiv> t_hash (ev_transaction ev)"

text \<open>Why a handler stops the indexer.\<close>

datatype halt =
    IndexOutOfRange
  | MissingField string string

text \<open>The organization struct that the Control contract returns from \<open>getOrganization\<close>.\<close>

record org_data =
  od_name :: string
  od_metadataURI :: string
  od_prime :: bytes
  od_treasury :: bytes
  od_orgType :: int
  od_accessModel :: int
  od_feeModel :: int
  od_memberLimit :: int
  od_memberCount :: int
  od_totalCampaigns :: int
  od_totalProposals :: int
  od_membershipFee :: int
  od_gameStakeRequired :: int
  od_state :: int
  od_createdAt :: int
  od_updatedAt :: int

record 'd host =
  bd_fromString :: "string \<Rightarrow> 'd"
  bd_fromBigInt :: "int \<Rightarrow> 'd"
  bd_plus :: "'d \<Rightarrow> 'd \<Rightarrow> 'd"
  bd_minus :: "'d \<Rightarrow> 'd \<Rightarrow> 'd"
  bd_times :: "'d \<Rightarrow> 'd \<Rightarrow> 'd"
  bd_div :: "'d \<Rightarrow> 'd \<Rightarrow> 'd"
  bd_gt :: "'d \<Rightarrow> 'd \<Rightarrow> bool"
  bd_truncate_digits :: "'d \<Rightarrow> int"
  try_getOrganization :: "eth_block \<Rightarrow> bytes \<Rightarrow> bytes \<Rightarrow> org_data option"

section \<open>Entity classes\<close>

record 'd globalStats =
  gs_id :: string
  gs_totalModules :: int
  gs_activeModules :: int
  gs_totalOrganizations :: int
  gs_activeOrganizations :: int
  gs_totalMembers :: int
  gs_totalCampaigns :: int
  gs_activeCampaigns :: int
  gs_totalRaised :: 'd
  gs_totalProposals :: int
  gs_activeProposals :: int
  gs_totalVotes :: int
  gs_totalProfiles :: int
  gs_verifiedProfiles :: int
  gs_totalAchievements :: int
  gs_totalTokenTransfers :: int
  gs_totalTreasuryTransactions :: int
  gs_updatedAt :: int

record 'd indexingStatus =
  st_id :: string
  st_currentBlock :: int
  st_latestBlock :: int
  st_isFullySynced :: bool
  st_totalBlocks :: int
  st_blocksRemaining :: int
  st_syncPercentage :: 'd
  st_blocksPerSecond :: 'd
  st_estimatedTimeToSync :: int
  st_lastUpdatedAt :: int
  st_lastUpdatedBlock :: int
  st_hasErrors :: bool
  st_lastError :: "string option"
  st_errorCount :: int

record blockInfo =
  bi_id :: string
  bi_number :: int
  bi_timestamp :: int
  bi_hash :: bytes
  bi_processedAt :: int
  bi_transactionCount :: int
  bi_eventCount :: int
  bi_organizationEvents :: int
  bi_campaignEvents :: int
  bi_proposalEvents :: int
  bi_profileEvents :: int
  bi_stakingEvents :: int

record module =
  mo_id :: string
  mo_address :: bytes
  mo_admin :: bytes
  mo_enabled :: bool
  mo_version :: int
  mo_registeredAt :: int
  mo_updatedAt :: int

record moduleRegistration =
  mr_id :: string
  mr_module :: string
  mr_address :: bytes
  mr_admin :: bytes
  mr_timestamp :: int
  mr_blockNumber :: int
  mr_transaction :: string

record moduleUpgrade =
  mu_id :: string
  mu_module :: string
  mu_oldAddress :: bytes
  mu_newAddress :: bytes
  mu_timestamp :: int
  mu_blockNumber :: int
  mu_transaction :: string

record 'd tokenTransfer =
  tt_id :: string
  tt_from :: string
  tt_to :: string
  tt_token :: bytes
  tt_amount :: 'd
  tt_timestamp :: int
  tt_blockNumber :: int
  tt_transaction :: string

record 'd treasury =
  tr_id :: string
  tr_organization :: string
  tr_address :: bytes
  tr_createdAt :: int
  tr_lastActivityAt :: int
  tr_totalDeposits :: 'd
  tr_totalSpent :: 'd

record 'd treasuryTransaction =
  tx_id :: string
  tx_treasury :: string
  tx_token :: bytes
  tx_from :: string
  tx_to :: string
  tx_amount :: 'd
  tx_purpose :: string
  tx_timestamp :: int
  tx_transactionType :: string
  tx_spender :: "string option"
  tx_blockNumber :: int
  tx_transaction :: string

record organizationStake =
  os_id :: string
  os_organizationId :: bytes
  os_staker :: string
  os_amount :: int
  os_stakedAt :: int
  os_active :: bool
  os_organization :: string
  os_blockNumber :: int
  os_transaction :: string

record userStake =
  us_id :: string
  us_user :: string
  us_purpose :: string
  us_amount :: int
  us_stakedAt :: int
  us_lastClaimTime :: int
  us_preferredStrategy :: string
  us_pendingRewards :: int
  us_blockNumber :: int
  us_transaction :: string

record unstakeRequest =
  ur_id :: string
  ur_user :: string
  ur_purpose :: string
  ur_amount :: int
  ur_requestTime :: int
  ur_strategy :: string
  ur_processed :: bool
  ur_blockNumber :: int
  ur_transaction :: string

record stakingPool =
  sp_id :: string
  sp_purpose :: string
  sp_totalStaked :: int
  sp_rewardRate :: int
  sp_totalRewardsDistributed :: int
  sp_active :: bool

record organization =
  org_id :: string
  org_name :: string
  org_metadataURI :: string
  org_creator :: string
  org_prime :: "bytes option"
  org_treasury :: "string option"
  org_treasuryAddress :: bytes
  org_orgType :: string
  org_accessModel :: string
  org_feeModel :: string
  org_memberLimit :: int
  org_memberCount :: int
  org_totalCampaigns :: int
  org_totalProposals :: int
  org_membershipFee :: int
  org_gameStakeRequired :: int
  org_state :: string
  org_createdAt :: int
  org_updatedAt :: int
  org_blockNumber :: int
  org_transaction :: string

record member =
  mem_id :: string
  mem_organization :: string
  mem_user :: string
  mem_state :: string
  mem_tier :: string
  mem_joinedAt :: int
  mem_reputation :: int
  mem_stake :: int
  mem_blockNumber :: int
  mem_transaction :: string

record user =
  u_id :: string
  u_address :: bytes
  u_totalOrganizations :: int
  u_totalMemberships :: int
  u_totalContributions :: int
  u_totalProposals :: int
  u_totalVotes :: int
  u_firstSeenAt :: int
  u_lastActiveAt :: int

record campaign =
  cam_id :: string
  cam_organization :: string
  cam_creator :: string
  cam_title :: string
  cam_description :: string
  cam_metadataURI :: string
  cam_flowType :: string
  cam_state :: string
  cam_paymentToken :: bytes
  cam_target :: int
  cam_min :: int
  cam_max :: int
  cam_raised :: int
  cam_contributorCount :: int
  cam_startTime :: int
  cam_endTime :: int
  cam_createdAt :: int
  cam_updatedAt :: int
  cam_blockNumber :: int
  cam_transaction :: string

record contribution =
  con_id :: string
  con_campaign :: string
  con_contributor :: string
  con_amount :: int
  con_timestamp :: int
  con_blockNumber :: int
  con_transaction :: string

record proposal =
  pro_id :: string
  pro_hierarchicalId :: string
  pro_organization :: string
  pro_creator :: string
  pro_title :: string
  pro_description :: string
  pro_metadataURI :: string
  pro_proposalType :: string
  pro_votingType :: string
  pro_votingPower :: string
  pro_state :: string
  pro_startTime :: int
  pro_endTime :: int
  pro_executionTime :: int
  pro_forVotes :: int
  pro_againstVotes :: int
  pro_abstainVotes :: int
  pro_totalVotes :: int
  pro_quorumReached :: bool
  pro_createdAt :: int
  pro_executedAt :: int
  pro_executor :: "bytes option"
  pro_blockNumber :: int
  pro_transaction :: string

record vote =
  vo_id :: string
  vo_proposal :: string
  vo_voter :: string
  vo_choice :: string
  vo_votingPower :: int
  vo_timestamp :: int
  vo_reason :: string
  vo_convictionTime :: int
  vo_convictionMultiplier :: int
  vo_blockNumber :: int
  vo_transaction :: string

record delegation =
  del_id :: string
  del_delegator :: string
  del_delegatee :: string
  del_amount :: int
  del_timestamp :: int
  del_blockNumber :: int
  del_transaction :: string

record profile =
  prf_id :: string
  prf_user :: string
  prf_organization :: string
  prf_metadata :: string
  prf_createdAt :: int
  prf_blockNumber :: int
  prf_transaction :: string

record votingDelegation =
  vd_id :: string
  vd_organization :: string
  vd_delegator :: string
  vd_delegatee :: string
  vd_amount :: int
  vd_timestamp :: int
  vd_active :: bool
  vd_blockNumber :: int
  vd_transaction :: string

record txRecord =
  txn_id :: string
  txn_hash :: bytes
  txn_from :: bytes
  txn_to :: "bytes option"
  txn_gasUsed :: int
  txn_gasPrice :: int
  txn_blockNumber :: int
  txn_timestamp :: int

section \<open>The entity store\<close>

record 'd store =
  globalStatsStore :: "string \<rightharpoonup> 'd globalStats"
  indexingStatuses :: "string \<rightharpoonup> 'd indexingStatus"
  blockInfos :: "string \<rightharpoonup> blockInfo"
  modules :: "string \<rightharpoonup> module"
  moduleRegistrations :: "string \<rightharpoonup> moduleRegistration"
  moduleUpgrades :: "string \<rightharpoonup> moduleUpgrade"
  tokenTransfers :: "string \<rightharpoonup> 'd tokenTransfer"
  treasuries :: "string \<rightharpoonup> 'd treasury"
  treasuryTransactions :: "string \<rightharpoonup> 'd treasuryTransaction"
  organizationStakes :: "string \<rightharpoonup> organizationStake"
  userStakes :: "string \<rightharpoonup> userStake"
  unstakeRequests :: "string \<rightharpoonup> unstakeRequest"
  stakingPools :: "string \<rightharpoonup> stakingPool"
  organizations :: "string \<rightharpoonup> organization"
  members :: "string \<rightharpoonup> member"
  users :: "string \<rightharpoonup> user"
  campaigns :: "string \<rightharpoonup> campaign"
  contributions :: "string \<rightharpoonup> contribution"
  proposals :: "string \<rightharpoonup> proposal"
  votes :: "string \<rightharpoonup> vote"
  delegations :: "string \<rightharpoonup> delegation"
  profiles :: "string \<rightharpoonup> profile"
  votingDelegations :: "string \<rightharpoonup> votingDelegation"
  transactions :: "string \<rightharpoonup> txRecord"
  treasuryTemplates :: "bytes list"

definition empty_store :: "'d store" where
  "empty_store =
     \<lparr>globalStatsStore = Map.empty,
      indexingStatuses = Map.empty,
      blockInfos = Map.empty,
      modules = Map.empty,
      moduleRegistrations = Map.empty,
      moduleUpgrades = Map.empty,
      tokenTransfers = Map.empty,
      treasuries = Map.empty,
      treasuryTransactions = Map.empty,
      organizationStakes = Map.empty,
      userStakes = Map.empty,
      unstakeRequests = Map.empty,
      stakingPools = Map.empty,
      organizations = Map.empty,
      members = Map.empty,
      users = Map.empty,
      campaigns = Map.empty,
      contributions = Map.empty,
      proposals = Map.empty,
      votes = Map.empty,
      delegations = Map.empty,
      profiles = Map.empty,
      votingDelegations = Map.empty,
      transactions = Map.empty,
      treasuryTemplates = []\<rparr>"

lemma empty_store_simps [simp]:
  "globalStatsStore empty_store = Map.empty"
  "indexingStatuses empty_store = Map.empty"
  "blockInfos empty_store = Map.empty"
  "modules empty_store = Map.empty"
  "moduleRegistrations empty_store = Map.empty"
  "moduleUpgrades empty_store = Map.empty"
  "tokenTransfers empty_store = Map.empty"
  "treasuries empty_store = Map.empty"
  "treasuryTransactions empty_store = Map.empty"
  "organizationStakes empty_store = Map.empty"
  "userStakes empty_store = Map.empty"
  "unstakeRequests empty_store = Map.empty"
  "stakingPools empty_store = Map.empty"
  "organizations empty_store = Map.empty"
  "members empty_store = Map.empty"
  "users empty_store = Map.empty"
  "campaigns empty_store = Map.empty"
  "contributions empty_store = Map.empty"
  "proposals empty_store = Map.empty"
  "votes empty_store = Map.empty"
  "delegations empty_store = Map.empty"
  "profiles empty_store = Map.empty"
  "votingDelegations empty_store = Map.empty"
  "transactions empty_store = Map.empty"
  "treasuryTemplates empty_store = []"
  by (simp_all add: empty_store_def)

definition GlobalStats_save :: "'d globalStats \<Rightarrow> 'd store \<Rightarrow> 'd store" where
  [entity_defs]: "GlobalStats_save e s = s\<lparr>globalStatsStore := (globalStatsStore s)(gs_id e \<mapsto> e)\<rparr>"

definition SubgraphIndexingStatus_save :: "'d indexingStatus \<Rightarrow> 'd store \<Rightarrow> 'd store" where
  [entity_defs]: "SubgraphIndexingStatus_save e s = s\<lparr>indexingStatuses := (indexingStatuses s)(st_id e \<mapsto> e)\<rparr>"

definition BlockInfo_save :: "blockInfo \<Rightarrow> 'd store \<Rightarrow> 'd store" where
  [entity_defs]: "BlockInfo_save e s = s\<lparr>blockInfos := (blockInfos s)(bi_id e \<mapsto> e)\<rparr>"

definition Module_save :: "module \<Rightarrow> 'd store \<Rightarrow> 'd store" where
  [entity_defs]: "Module_save e s = s\<lparr>modules := (modules s)(mo_id e \<mapsto> e)\<rparr>"

definition ModuleRegistration_save :: "moduleRegistration \<Rightarrow> 'd store \<Rightarrow> 'd store" where
  [entity_defs]: "ModuleRegistration_save e s = s\<lparr>moduleRegistrations := (moduleRegistrations s)(mr_id e \<mapsto> e)\<rparr>"

definition ModuleUpgrade_save :: "moduleUpgrade \<Rightarrow> 'd store \<Rightarrow> 'd store" where
  [entity_defs]: "ModuleUpgrade_save e s = s\<lparr>moduleUpgrades := (moduleUpgrades s)(mu_id e \<mapsto> e)\<rparr>"

definition TokenTransfer_save :: "'d tokenTransfer \<Rightarrow> 'd store \<Rightarrow> 'd store" where
  [entity_defs]: "TokenTransfer_save e s = s\<lparr>tokenTransfers := (tokenTransfers s)(tt_id e \<mapsto> e)\<rparr>"

definition Treasury_save :: "'d treasury \<Rightarrow> 'd store \<Rightarrow> 'd store" where
  [entity_defs]: "Treasury_save e s = s\<lparr>treasuries := (treasuries s)(tr_id e \<mapsto> e)\<rparr>"

definition TreasuryTransaction_save :: "'d treasuryTransaction \<Rightarrow> 'd store \<Rightarrow> 'd store" where
  [entity_defs]: "TreasuryTransaction_save e s = s\<lparr>treasuryTransactions := (treasuryTransactions s)(tx_id e \<mapsto> e)\<rparr>"

definition OrganizationStake_save :: "organizationStake \<Rightarrow> 'd store \<Rightarrow> 'd store" where
  [entity_defs]: "OrganizationStake_save e s = s\<lparr>organizationStakes := (organizationStakes s)(os_id e \<mapsto> e)\<rparr>"

definition UserStake_save :: "userStake \<Rightarrow> 'd store \<Rightarrow> 'd store" where
  [entity_defs]: "UserStake_save e s = s\<lparr>userStakes := (userStakes s)(us_id e \<mapsto> e)\<rparr>"

definition UnstakeRequest_save :: "unstakeRequest \<Rightarrow> 'd store \<Rightarrow> 'd store" where
  [entity_defs]: "UnstakeRequest_save e s = s\<lparr>unstakeRequests := (unstakeRequests s)(ur_id e \<mapsto> e)\<rparr>"

definition StakingPool_save :: "stakingPool \<Rightarrow> 'd store \<Rightarrow> 'd store" where
  [entity_defs]: "StakingPool_save e s = s\<lparr>stakingPools := (stakingPools s)(sp_id e \<mapsto> e)\<rparr>"

definition Member_save :: "member \<Rightarrow> 'd store \<Rightarrow> 'd store" where
  [entity_defs]: "Member_save e s = s\<lparr>members := (members s)(mem_id e \<mapsto> e)\<rparr>"

definition User_save :: "user \<Rightarrow> 'd store \<Rightarrow> 'd store" where
  "User_save e s = s\<lparr>users := (users s)(u_id e \<mapsto> e)\<rparr>"

definition Campaign_save :: "campaign \<Rightarrow> 'd store \<Rightarrow> 'd store" where
  [entity_defs]: "Campaign_save e s = s\<lparr>campaigns := (campaigns s)(cam_id e \<mapsto> e)\<rparr>"

definition Contribution_save :: "contribution \<Rightarrow> 'd store \<Rightarrow> 'd store" where
  [entity_defs]: "Contribution_save e s = s\<lparr>contributions := (contributions s)(con_id e \<mapsto> e)\<rparr>"

definition Proposal_save :: "proposal \<Rightarrow> 'd store \<Rightarrow> 'd store" where
  [entity_defs]: "Proposal_save e s = s\<lparr>proposals := (proposals s)(pro_id e \<mapsto> e)\<rparr>"

definition Vote_save :: "vote \<Rightarrow> 'd store \<Rightarrow> 'd store" where
  [entity_defs]: "Vote_save e s = s\<lparr>votes := (votes s)(vo_id e \<mapsto> e)\<rparr>"

definition Delegation_save :: "delegation \<Rightarrow> 'd store \<Rightarrow> 'd store" where
  [entity_defs]: "Delegation_save e s = s\<lparr>delegations := (delegations s)(del_id e \<mapsto> e)\<rparr>"

definition Profile_save :: "profile \<Rightarrow> 'd store \<Rightarrow> 'd store" where
  [entity_defs]: "Profile_save e s = s\<lparr>profiles := (profiles s)(prf_id e \<mapsto> e)\<rparr>"

definition VotingDelegation_save :: "votingDelegation \<Rightarrow> 'd store \<Rightarrow> 'd store" where
  [entity_defs]: "VotingDelegation_save e s = s\<lparr>votingDelegations := (votingDelegations s)(vd_id e \<mapsto> e)\<rparr>"

definition Transaction_save :: "txRecord \<Rightarrow> 'd store \<Rightarrow> 'd store" where
  [entity_defs]: "Transaction_save e s = s\<lparr>transactions := (transactions s)(txn_id e \<mapsto> e)\<rparr>"

text \<open>
  An organization without its \<open>prime\<close> is refused. \<open>Organization_put\<close> is the accepted save,
  used where the entity was loaded or built with every field.
\<close>

definition Organization_put :: "organization \<Rightarrow> 'd store \<Rightarrow> 'd store" where
  [entity_defs]: "Organization_put e s = s\<lparr>organizations := (organizations s)(org_id e \<mapsto> e)\<rparr>"

definition Organization_save :: "organization \<Rightarrow> 'd store \<Rightarrow> halt + 'd store" where
  "Organization_save e s =
     (case org_prime e of
        None \<Rightarrow> Inl (MissingField ''Organization'' ''prime'')
      | Some _ \<Rightarrow> Inr (Organization_put e s))"

text \<open>\<open>new User(id)\<close> before its fields are assigned.\<close>

record user_draft =
  ud_id :: string
  ud_address :: "bytes option"
  ud_totalOrganizations :: "int option"
  ud_totalMemberships :: "int option"
  ud_totalContributions :: "int option"
  ud_totalProposals :: "int option"
  ud_totalVotes :: "int option"
  ud_firstSeenAt :: "int option"
  ud_lastActiveAt :: "int option"

definition User_new :: "string \<Rightarrow> user_draft" where
  "User_new i =
     \<lparr>ud_id = i, ud_address = None, ud_totalOrganizations = None, ud_totalMemberships = None,
      ud_totalContributions = None, ud_totalProposals = None, ud_totalVotes = None,
      ud_firstSeenAt = None, ud_lastActiveAt = None\<rparr>"

definition user_draft_missing :: "user_draft \<Rightarrow> string option" where
  "user_draft_missing d =
     (if ud_address d = None then Some ''address''
      else if ud_totalOrganizations d = None then Some ''totalOrganizations''
      else if ud_totalMemberships d = None then Some ''totalMemberships''
      else if ud_totalContributions d = None then Some ''totalContributions''
      else if ud_totalProposals d = None then Some ''totalProposals''
      else if ud_totalVotes d = None then Some ''totalVotes''
      else if ud_firstSeenAt d = None then Some ''firstSeenAt''
      else if ud_lastActiveAt d = None then Some ''lastActiveAt''
      else None)"

definition user_of_draft :: "user_draft \<Rightarrow> user" where
  "user_of_draft d =
     \<lparr>u_id = ud_id d, u_address = the (ud_address d),
      u_totalOrganizations = the (ud_totalOrganizations d),
      u_totalMemberships = the (ud_totalMemberships d),
      u_totalContributions = the (ud_totalContributions d),
      u_totalProposals = the (ud_totalProposals d), u_totalVotes = the (ud_totalVotes d),
      u_firstSeenAt = the (ud_firstSeenAt d), u_lastActiveAt = the (ud_lastActiveAt d)\<rparr>"

definition User_save_draft :: "user_draft \<Rightarrow> 'd store \<Rightarrow> halt + 'd store" where
  "User_save_draft d s =
     (case user_draft_missing d of
        Some f \<Rightarrow> Inl (MissingField ''User'' f)
      | None \<Rightarrow> Inr (User_save (user_of_draft d) s))"

text \<open>\<open>TreasuryTemplate.create(address)\<close>.\<close>

definition TreasuryTemplate_create :: "bytes \<Rightarrow> 'd store \<Rightarrow> 'd store" where
  [entity_defs]: "TreasuryTemplate_create a s = s\<lparr>treasuryTemplates := treasuryTemplates s @ [a]\<rparr>"

section \<open>Every class keeps the load and save contract\<close>

interpretation globals_class: entity_class globalStatsStore GlobalStats_save gs_id
  by unfold_locales (simp add: GlobalStats_save_def)

interpretation indexingStatuses_class: entity_class indexingStatuses SubgraphIndexingStatus_save st_id
  by unfold_locales (simp add: SubgraphIndexingStatus_save_def)

interpretation blockInfos_class: entity_class blockInfos BlockInfo_save bi_id
  by unfold_locales (simp add: BlockInfo_save_def)

interpretation modules_class: entity_class modules Module_save mo_id
  by unfold_locales (simp add: Module_save_def)

interpretation moduleRegistrations_class: entity_class moduleRegistrations ModuleRegistration_save mr_id
  by unfold_locales (simp add: ModuleRegistration_save_def)

interpretation moduleUpgrades_class: entity_class moduleUpgrades ModuleUpgrade_save mu_id
  by unfold_locales (simp add: ModuleUpgrade_save_def)

interpretation tokenTransfers_class: entity_class tokenTransfers TokenTransfer_save tt_id
  by unfold_locales (simp add: TokenTransfer_save_def)

interpretation treasuries_class: entity_class treasuries Treasury_save tr_id
  by unfold_locales (simp add: Treasury_save_def)

interpretation treasuryTransactions_class: entity_class treasuryTransactions TreasuryTransaction_save tx_id
  by unfold_locales (simp add: TreasuryTransaction_save_def)

interpretation organizationStakes_class: entity_class organizationStakes OrganizationStake_save os_id
  by unfold_locales (simp add: OrganizationStake_save_def)

interpretation userStakes_class: entity_class userStakes UserStake_save us_id
  by unfold_locales (simp add: UserStake_save_def)

interpretation unstakeRequests_class: entity_class unstakeRequests UnstakeRequest_save ur_id
  by unfold_locales (simp add: UnstakeRequest_save_def)

interpretation stakingPools_class: entity_class stakingPools StakingPool_save sp_id
  by unfold_locales (simp add: StakingPool_save_def)

interpretation organizations_class: entity_class organizations Organization_put org_id
  by unfold_locales (simp add: Organization_put_def)

interpretation members_class: entity_class members Member_save mem_id
  by unfold_locales (simp add: Member_save_def)

interpretation users_class: entity_class users User_save u_id
  by unfold_locales (simp add: User_save_def)

interpretation campaigns_class: entity_class campaigns Campaign_save cam_id
  by unfold_locales (simp add: Campaign_save_def)

interpretation contributions_class: entity_class contributions Contribution_save con_id
  by unfold_locales (simp add: Contribution_save_def)

interpretation proposals_class: entity_class proposals Proposal_save pro_id
  by unfold_locales (simp add: Proposal_save_def)

interpretation votes_class: entity_class votes Vote_save vo_id
  by unfold_locales (simp add: Vote_save_def)

interpretation delegations_class: entity_class delegations Delegation_save del_id
  by unfold_locales (simp add: Delegation_save_def)

interpretation profiles_class: entity_class profiles Profile_save prf_id
  by unfold_locales (simp add: Profile_save_def)

interpretation votingDelegations_class: entity_class votingDelegations VotingDelegation_save vd_id
  by unfold_locales (simp add: VotingDelegation_save_def)

interpretation transactions_class: entity_class transactions Transaction_save txn_id
  by unfold_locales (simp add: Transaction_save_def)

lemma User_save_frame [simp]:
  "globalStatsStore (User_save u s) = globalStatsStore s"
  "indexingStatuses (User_save u s) = indexingStatuses s"
  "blockInfos (User_save u s) = blockInfos s"
  "modules (User_save u s) = modules s"
  "moduleRegistrations (User_save u s) = moduleRegistrations s"
  "moduleUpgrades (User_save u s) = moduleUpgrades s"
  "tokenTransfers (User_save u s) = tokenTransfers s"
  "treasuries (User_save u s) = treasuries s"
  "treasuryTransactions (User_save u s) = treasuryTransactions s"
  "organizationStakes (User_save u s) = organizationStakes s"
  "userStakes (User_save u s) = userStakes s"
  "unstakeRequests (User_save u s) = unstakeRequests s"
  "stakingPools (User_save u s) = stakingPools s"
  "organizations (User_save u s) = organizations s"
  "members (User_save u s) = members s"
  "campaigns (User_save u s) = campaigns s"
  "contributions (User_save u s) = contributions s"
  "proposals (User_save u s) = proposals s"
  "votes (User_save u s) = votes s"
  "delegations (User_save u s) = delegations s"
  "profiles (User_save u s) = profiles s"
  "votingDelegations (User_save u s) = votingDelegations s"
  "transactions (User_save u s) = transactions s"
  "treasuryTemplates (User_save u s) = treasuryTemplates s"
  by (simp_all add: User_save_def)

section \<open>Values the handlers build again and again\<close>

text \<open>The block that every handler with a \<open>Transaction\<close> record repeats.\<close>

definition newTransaction :: "eth_event \<Rightarrow> int \<Rightarrow> txRecord" where
  "newTransaction ev gasPrice =
     \<lparr>txn_id = toHex (ev_txHash ev), txn_hash = ev_txHash ev,
      txn_from = t_from (ev_transaction ev), txn_to = t_to (ev_transaction ev),
      txn_gasUsed = 0, txn_gasPrice = gasPrice,
      txn_blockNumber = ev_number ev, txn_timestamp = ev_timestamp ev\<rparr>"

text \<open>A \<open>User\<close> with zero counters.\<close>

definition newUser :: "string \<Rightarrow> bytes \<Rightarrow> int \<Rightarrow> int \<Rightarrow> user" where
  "newUser i a firstSeen lastActive =
     \<lparr>u_id = i, u_address = a, u_totalOrganizations = 0, u_totalMemberships = 0,
      u_totalContributions = 0, u_totalProposals = 0, u_totalVotes = 0,
      u_firstSeenAt = firstSeen, u_lastActiveAt = lastActive\<rparr>"

text \<open>\<open>GlobalStats\<close> as the handlers initialise it, with the decimal zero they pass.\<close>

definition zeroGlobalStats :: "'d \<Rightarrow> int \<Rightarrow> 'd globalStats" where
  "zeroGlobalStats zero updatedAt =
     \<lparr>gs_id = ''global'', gs_totalModules = 0, gs_activeModules = 0,
      gs_totalOrganizations = 0, gs_activeOrganizations = 0, gs_totalMembers = 0,
      gs_totalCampaigns = 0, gs_activeCampaigns = 0, gs_totalRaised = zero,
      gs_totalProposals = 0, gs_activeProposals = 0, gs_totalVotes = 0,
      gs_totalProfiles = 0, gs_verifiedProfiles = 0, gs_totalAchievements = 0,
      gs_totalTokenTransfers = 0, gs_totalTreasuryTransactions = 0,
      gs_updatedAt = updatedAt\<rparr>"

abbreviation global_stats :: "'d store \<Rightarrow> 'd globalStats option" where
  "global_stats s \<equiv> globalStatsStore s ''global''"

lemma newTransaction_simps [simp]:
  "txn_id (newTransaction ev g) = toHex (ev_txHash ev)"
  "txn_gasPrice (newTransaction ev g) = g"
  by (simp_all add: newTransaction_def)

lemma newUser_simps [simp]:
  "u_id (newUser i a f l) = i" "u_address (newUser i a f l) = a"
  "u_totalOrganizations (newUser i a f l) = 0" "u_totalMemberships (newUser i a f l) = 0"
  "u_totalContributions (newUser i a f l) = 0" "u_totalProposals (newUser i a f l) = 0"
  "u_totalVotes (newUser i a f l) = 0"
  "u_firstSeenAt (newUser i a f l) = f" "u_lastActiveAt (newUser i a f l) = l"
  by (simp_all add: newUser_def)

lemma zeroGlobalStats_simps [simp]:
  "gs_id (zeroGlobalStats z t) = ''global''"
  "gs_totalModules (zeroGlobalStats z t) = 0" "gs_activeModules (zeroGlobalStats z t) = 0"
  "gs_totalOrganizations (zeroGlobalStats z t) = 0" "gs_activeOrganizations (zeroGlobalStats z t) = 0"
  "gs_totalMembers (zeroGlobalStats z t) = 0"
  "gs_totalCampaigns (zeroGlobalStats z t) = 0" "gs_activeCampaigns (zeroGlobalStats z t) = 0"
  "gs_totalRaised (zeroGlobalStats z t) = z"
  "gs_totalProposals (zeroGlobalStats z t) = 0" "gs_activeProposals (zeroGlobalStats z t) = 0"
  "gs_totalVotes (zeroGlobalStats z t) = 0"
  "gs_totalProfiles (zeroGlobalStats z t) = 0" "gs_verifiedProfiles (zeroGlobalStats z t) = 0"
  "gs_totalAchievements (zeroGlobalStats z t) = 0"
  "gs_totalTokenTransfers (zeroGlobalStats z t) = 0"
  "gs_totalTreasuryTransactions (zeroGlobalStats z t) = 0"
  "gs_updatedAt (zeroGlobalStats z t) = t"
  by (simp_all add: zeroGlobalStats_def)

lemma User_draft_address_only:
  "User_save_draft ((User_new i)\<lparr>ud_address := Some a\<rparr>) s =
     Inl (MissingField ''User'' ''totalOrganizations'')"
  by (simp add: User_save_draft_def user_draft_missing_def User_new_def)

lemma Organization_save_cases:
  "Organization_save e s = Inr t \<longleftrightarrow> org_prime e \<noteq> None \<and> t = Organization_put e s"
  by (auto simp: Organization_save_def split: option.splits)

text \<open>The statistics entity stands under its own id.\<close>

definition stats_keyed :: "'d store \<Rightarrow> bool" where
  "stats_keyed s \<longleftrightarrow> (\<forall>g. global_stats s = Some g \<longrightarrow> gs_id g = ''global'')"

lemma stats_keyed_empty [simp]: "stats_keyed empty_store"
  by (simp add: stats_keyed_def)

lemma stats_keyedD: "stats_keyed s \<Longrightarrow> global_stats s = Some g \<Longrightarrow> gs_id g = ''global''"
  by (simp add: stats_keyed_def)

section \<open>A concrete host and a concrete event\<close>

text \<open>
  For evaluating handlers on examples: a host whose decimals are whole numbers, and an event in
  block 7 at time 1000.
\<close>

definition int_host :: "(bytes \<Rightarrow> org_data option) \<Rightarrow> int host" where
  "int_host call =
     \<lparr>bd_fromString = (\<lambda>x. int (read_nat x)), bd_fromBigInt = (\<lambda>i. i),
      bd_plus = (+), bd_minus = (-), bd_times = (*), bd_div = (div), bd_gt = (>),
      bd_truncate_digits = (\<lambda>i. i), try_getOrganization = (\<lambda>_ _ i. call i)\<rparr>"

definition example_event :: eth_event where
  "example_event =
     \<lparr>ev_address = [192], ev_block = \<lparr>b_number = 7, b_timestamp = 1000, b_hash = [11]\<rparr>,
      ev_transaction = \<lparr>t_hash = [171], t_from = [1], t_to = Some [2], t_gasPrice = 3\<rparr>,
      ev_logIndex = 4\<rparr>"

definition example_org_id :: bytes where
  "example_org_id = [65, 66, 67, 68, 49, 50, 51, 52]"

definition example_org_data :: org_data where
  "example_org_data =
     \<lparr>od_name = ''Guild'', od_metadataURI = ''ipfs'', od_prime = [5], od_treasury = [6], od_orgType = 2,
      od_accessModel = 0, od_feeModel = 1, od_memberLimit = 100, od_memberCount = 1,
      od_totalCampaigns = 0, od_totalProposals = 0, od_membershipFee = 10,
      od_gameStakeRequired = 1000, od_state = 1, od_createdAt = 1000, od_updatedAt = 1000\<rparr>"

lemma int_host_simps [simp]:
  "bd_fromBigInt (int_host c) i = i" "bd_plus (int_host c) x y = x + y"
  "bd_minus (int_host c) x y = x - y" "try_getOrganization (int_host c) b a o' = c o'"
  by (simp_all add: int_host_def)

lemma length_example_org_id [simp]: "length example_org_id = 8"
  by (simp add: example_org_id_def)

end
