(* ===== verification/Indexing.thy ===== *)
theory Indexing
  imports Entities
begin

text \<open>
  \<open>packages/subgraph/src/utils/indexing.ts\<close>: the indexing status and the per-block counters that
  most handlers update first.

  \<open>updateIndexingStatus\<close> is the function of that name; \<open>initialIndexingStatus\<close> is the branch
  that creates the status, \<open>advanceIndexingStatus\<close> the assignments between loading and saving it.
  The lemmas show what the status says after any number of calls (the current block is the
  greatest block seen, the assumed distance to the chain head is always ten blocks, so the status
  never claims to be synced) and that a block's category counters partition its event counter.
\<close>

section \<open>Definitions\<close>

definition INDEXING_STATUS_ID :: string where
  "INDEXING_STATUS_ID = ''indexing-status''"

fun str_includes :: "string \<Rightarrow> string \<Rightarrow> bool" where
  "str_includes [] sub = (sub = [])"
| "str_includes (c # cs) sub = (take (length sub) (c # cs) = sub \<or> str_includes cs sub)"

definition initialIndexingStatus :: "'d host \<Rightarrow> 'd indexingStatus" where
  "initialIndexingStatus H =
     \<lparr>st_id = INDEXING_STATUS_ID, st_currentBlock = 0, st_latestBlock = 0,
      st_isFullySynced = False, st_totalBlocks = 0, st_blocksRemaining = 0,
      st_syncPercentage = bd_fromString H ''0'', st_blocksPerSecond = bd_fromString H ''0'',
      st_estimatedTimeToSync = 0, st_lastUpdatedAt = 0, st_lastUpdatedBlock = 0,
      st_hasErrors = False, st_lastError = None, st_errorCount = 0\<rparr>"

definition syncProgress :: "'d host \<Rightarrow> 'd indexingStatus \<Rightarrow> 'd indexingStatus" where
  "syncProgress H status =
     (if st_latestBlock status > 0 then
        (let status = status\<lparr>st_totalBlocks := st_latestBlock status,
                             st_blocksRemaining := st_latestBlock status - st_currentBlock status\<rparr>
         in if st_blocksRemaining status \<le> 5 then
              status\<lparr>st_isFullySynced := True, st_syncPercentage := bd_fromString H ''100'',
                     st_blocksRemaining := 0, st_estimatedTimeToSync := 0\<rparr>
            else
              (let status = status\<lparr>st_isFullySynced := False,
                 st_syncPercentage :=
                   bd_times H (bd_div H (bd_fromBigInt H (st_currentBlock status))
                                        (bd_fromBigInt H (st_latestBlock status)))
                              (bd_fromString H ''100'')\<rparr>
               in if bd_gt H (st_blocksPerSecond status) (bd_fromString H ''0'') then
                    status\<lparr>st_estimatedTimeToSync :=
                      bd_truncate_digits H (bd_div H (bd_fromBigInt H (st_blocksRemaining status))
                                                     (st_blocksPerSecond status))\<rparr>
                  else status))
      else status)"

definition advanceIndexingStatus :: "'d host \<Rightarrow> eth_block \<Rightarrow> 'd indexingStatus \<Rightarrow> 'd indexingStatus" where
  "advanceIndexingStatus H block status =
     (let status = (if b_number block > st_currentBlock status
                    then status\<lparr>st_currentBlock := b_number block\<rparr> else status);
          status = status\<lparr>st_latestBlock := st_currentBlock status + 10\<rparr>;
          status = syncProgress H status
      in status\<lparr>st_lastUpdatedAt := b_timestamp block, st_lastUpdatedBlock := b_number block\<rparr>)"

definition newBlockInfo :: "eth_block \<Rightarrow> blockInfo" where
  "newBlockInfo block =
     \<lparr>bi_id = show_int (b_number block), bi_number = b_number block,
      bi_timestamp = b_timestamp block, bi_hash = b_hash block,
      bi_processedAt = b_timestamp block, bi_transactionCount = 0, bi_eventCount = 0,
      bi_organizationEvents = 0, bi_campaignEvents = 0, bi_proposalEvents = 0,
      bi_profileEvents = 0, bi_stakingEvents = 0\<rparr>"

definition countBlockEvent :: "string \<Rightarrow> blockInfo \<Rightarrow> blockInfo" where
  "countBlockEvent eventType bi =
     (let bi = bi\<lparr>bi_eventCount := bi_eventCount bi + 1\<rparr>
      in if str_includes eventType ''Organization'' \<or> str_includes eventType ''Member'' then
           bi\<lparr>bi_organizationEvents := bi_organizationEvents bi + 1\<rparr>
         else if str_includes eventType ''Campaign'' \<or> str_includes eventType ''Contribution'' then
           bi\<lparr>bi_campaignEvents := bi_campaignEvents bi + 1\<rparr>
         else if str_includes eventType ''Proposal'' \<or> str_includes eventType ''Vote'' then
           bi\<lparr>bi_proposalEvents := bi_proposalEvents bi + 1\<rparr>
         else if str_includes eventType ''Profile'' \<or> str_includes eventType ''Achievement'' then
           bi\<lparr>bi_profileEvents := bi_profileEvents bi + 1\<rparr>
         else if str_includes eventType ''Stake'' \<or> str_includes eventType ''Reward'' then
           bi\<lparr>bi_stakingEvents := bi_stakingEvents bi + 1\<rparr>
         else bi)"

definition updateBlockInfo :: "eth_block \<Rightarrow> string \<Rightarrow> 'd store \<Rightarrow> 'd store" where
  "updateBlockInfo block eventType s =
     (let bi = (case blockInfos s (show_int (b_number block)) of
                  None \<Rightarrow> newBlockInfo block | Some b \<Rightarrow> b)
      in BlockInfo_save (countBlockEvent eventType bi) s)"

definition updateIndexingStatus :: "'d host \<Rightarrow> eth_block \<Rightarrow> string \<Rightarrow> 'd store \<Rightarrow> 'd store" where
  "updateIndexingStatus H block eventType s =
     (let status = (case indexingStatuses s INDEXING_STATUS_ID of
                      None \<Rightarrow> initialIndexingStatus H | Some st \<Rightarrow> st);
          s = SubgraphIndexingStatus_save (advanceIndexingStatus H block status) s
      in updateBlockInfo block eventType s)"

text \<open>
  \<open>recordIndexingError\<close> loads the status again after creating it; the non-null assertion there
  always holds, because the created status is saved under the id that is loaded.
\<close>

definition recordIndexingError :: "'d host \<Rightarrow> string \<Rightarrow> eth_block \<Rightarrow> 'd store \<Rightarrow> 'd store" where
  "recordIndexingError H err block s =
     (let s = (case indexingStatuses s INDEXING_STATUS_ID of
                 None \<Rightarrow> updateIndexingStatus H block ''error'' s | Some _ \<Rightarrow> s)
      in case indexingStatuses s INDEXING_STATUS_ID of
           None \<Rightarrow> s
         | Some status \<Rightarrow>
             SubgraphIndexingStatus_save
               (status\<lparr>st_hasErrors := True, st_lastError := Some err,
                       st_errorCount := st_errorCount status + 1,
                       st_lastUpdatedAt := b_timestamp block,
                       st_lastUpdatedBlock := b_number block\<rparr>) s)"

definition getSyncStatusString :: "'d host \<Rightarrow> 'd indexingStatus \<Rightarrow> string" where
  "getSyncStatusString H status =
     (if st_isFullySynced status then ''Fully Synced''
      else if bd_gt H (st_syncPercentage status) (bd_fromString H ''95'') then ''Nearly Synced''
      else if bd_gt H (st_syncPercentage status) (bd_fromString H ''50'') then ''Syncing''
      else ''Initial Sync'')"

section \<open>What a call leaves alone\<close>

lemma updateIndexingStatus_frame [simp]:
  "globalStatsStore (updateIndexingStatus H b e s) = globalStatsStore s"
  "modules (updateIndexingStatus H b e s) = modules s"
  "moduleRegistrations (updateIndexingStatus H b e s) = moduleRegistrations s"
  "moduleUpgrades (updateIndexingStatus H b e s) = moduleUpgrades s"
  "tokenTransfers (updateIndexingStatus H b e s) = tokenTransfers s"
  "treasuries (updateIndexingStatus H b e s) = treasuries s"
  "treasuryTransactions (updateIndexingStatus H b e s) = treasuryTransactions s"
  "organizationStakes (updateIndexingStatus H b e s) = organizationStakes s"
  "userStakes (updateIndexingStatus H b e s) = userStakes s"
  "unstakeRequests (updateIndexingStatus H b e s) = unstakeRequests s"
  "stakingPools (updateIndexingStatus H b e s) = stakingPools s"
  "organizations (updateIndexingStatus H b e s) = organizations s"
  "members (updateIndexingStatus H b e s) = members s"
  "users (updateIndexingStatus H b e s) = users s"
  "campaigns (updateIndexingStatus H b e s) = campaigns s"
  "contributions (updateIndexingStatus H b e s) = contributions s"
  "proposals (updateIndexingStatus H b e s) = proposals s"
  "votes (updateIndexingStatus H b e s) = votes s"
  "delegations (updateIndexingStatus H b e s) = delegations s"
  "profiles (updateIndexingStatus H b e s) = profiles s"
  "votingDelegations (updateIndexingStatus H b e s) = votingDelegations s"
  "transactions (updateIndexingStatus H b e s) = transactions s"
  "treasuryTemplates (updateIndexingStatus H b e s) = treasuryTemplates s"
  by (simp_all add: updateIndexingStatus_def updateBlockInfo_def entity_defs Let_def)

section \<open>The status\<close>

lemma syncProgress_block [simp]:
  "st_currentBlock (syncProgress H st) = st_currentBlock st"
  "st_latestBlock (syncProgress H st) = st_latestBlock st"
  "st_id (syncProgress H st) = st_id st"
  "st_errorCount (syncProgress H st) = st_errorCount st"
  "st_blocksPerSecond (syncProgress H st) = st_blocksPerSecond st"
  by (simp_all add: syncProgress_def Let_def)

lemma advanceIndexingStatus_block [simp]:
  "st_currentBlock (advanceIndexingStatus H b st) = max (st_currentBlock st) (b_number b)"
  "st_latestBlock (advanceIndexingStatus H b st) = max (st_currentBlock st) (b_number b) + 10"
  "st_id (advanceIndexingStatus H b st) = st_id st"
  "st_errorCount (advanceIndexingStatus H b st) = st_errorCount st"
  by (simp_all add: advanceIndexingStatus_def Let_def)

lemma advanceIndexingStatus_synced:
  assumes "st_currentBlock st \<ge> 0"
  shows "\<not> st_isFullySynced (advanceIndexingStatus H b st)"
    and "st_blocksRemaining (advanceIndexingStatus H b st) = 10"
    and "st_totalBlocks (advanceIndexingStatus H b st) = max (st_currentBlock st) (b_number b) + 10"
  using assms by (simp_all add: advanceIndexingStatus_def syncProgress_def Let_def)

definition status_of :: "'d store \<Rightarrow> 'd indexingStatus option" where
  "status_of s = indexingStatuses s INDEXING_STATUS_ID"

text \<open>The status, where there is one, stands under its own id and has a current block from 0 up.\<close>

definition status_ok :: "'d store \<Rightarrow> bool" where
  "status_ok s = (case status_of s of None \<Rightarrow> True
                  | Some st \<Rightarrow> st_id st = INDEXING_STATUS_ID \<and> st_currentBlock st \<ge> 0
                               \<and> st_latestBlock st = st_currentBlock st + 10
                               \<and> st_blocksRemaining st = 10 \<and> \<not> st_isFullySynced st)"

lemma updateIndexingStatus_status:
  "status_ok s \<Longrightarrow>
     status_of (updateIndexingStatus H b e s) =
       Some (advanceIndexingStatus H b
         (case status_of s of None \<Rightarrow> initialIndexingStatus H | Some st \<Rightarrow> st))"
  by (simp add: updateIndexingStatus_def updateBlockInfo_def entity_defs status_of_def status_ok_def
      initialIndexingStatus_def Let_def split: option.splits)

lemma updateIndexingStatus_ok: "status_ok s \<Longrightarrow> status_ok (updateIndexingStatus H b e s)"
  using updateIndexingStatus_status [of s H b e]
  by (simp add: status_ok_def advanceIndexingStatus_synced initialIndexingStatus_def le_max_iff_disj
      split: option.splits)

lemma recordIndexingError_ok: "status_ok s \<Longrightarrow> status_ok (recordIndexingError H err b s)"
  using updateIndexingStatus_ok [of s H b "''error''"] updateIndexingStatus_status [of s H b "''error''"]
  by (auto simp: recordIndexingError_def Let_def status_ok_def status_of_def entity_defs split: option.splits)

text \<open>Several handlers in a row, as the indexer calls them.\<close>

fun index_blocks :: "'d host \<Rightarrow> (eth_block \<times> string) list \<Rightarrow> 'd store \<Rightarrow> 'd store" where
  "index_blocks H [] s = s"
| "index_blocks H ((b, e) # bes) s = index_blocks H bes (updateIndexingStatus H b e s)"

lemma index_blocks_status:
  assumes "status_of s = Some st" and "status_ok s"
  shows "\<exists>st'. status_of (index_blocks H bes s) = Some st' \<and> status_ok (index_blocks H bes s)
           \<and> st_currentBlock st' = fold (\<lambda>(b, _) m. max m (b_number b)) bes (st_currentBlock st)"
  using assms
proof (induction bes arbitrary: s st)
  case Nil
  then show ?case by simp
next
  case (Cons be bes)
  obtain b e where be: "be = (b, e)" by (cases be)
  let ?s = "updateIndexingStatus H b e s"
  have "status_of ?s = Some (advanceIndexingStatus H b st)"
    using Cons.prems updateIndexingStatus_status [of s H b e] by simp
  moreover have "status_ok ?s" using Cons.prems(2) by (rule updateIndexingStatus_ok)
  ultimately obtain st' where "status_of (index_blocks H bes ?s) = Some st'"
      and "status_ok (index_blocks H bes ?s)"
      and "st_currentBlock st' =
        fold (\<lambda>(b, _) m. max m (b_number b)) bes (st_currentBlock (advanceIndexingStatus H b st))"
    using Cons.IH by blast
  then show ?case by (simp add: be)
qed

text \<open>
  After any non-empty sequence of handler calls on a fresh store there is a status entity;
  its current block is the greatest block number seen (at least 0), it assumes the chain head ten
  blocks further on, and therefore it never reports the subgraph as fully synced: the branch of
  \<open>updateIndexingStatus\<close> for at most five remaining blocks is not reachable.
\<close>

theorem indexing_status_after_calls:
  assumes "bes \<noteq> []"
  shows "\<exists>st. status_of (index_blocks H bes empty_store) = Some st
           \<and> st_currentBlock st = fold (\<lambda>(b, _) m. max m (b_number b)) bes 0
           \<and> st_latestBlock st = st_currentBlock st + 10
           \<and> st_blocksRemaining st = 10 \<and> \<not> st_isFullySynced st"
proof -
  obtain b e bes' where bes: "bes = (b, e) # bes'" using assms by (cases bes) auto
  let ?s = "updateIndexingStatus H b e empty_store"
  have ok0: "status_ok (empty_store :: 'a store)" by (simp add: status_ok_def status_of_def)
  have ok: "status_ok ?s" using ok0 by (rule updateIndexingStatus_ok)
  have first: "status_of ?s = Some (advanceIndexingStatus H b (initialIndexingStatus H))"
    using updateIndexingStatus_status [OF ok0, of H b e] by (simp add: status_of_def)
  obtain st where st: "status_of (index_blocks H bes' ?s) = Some st"
      "status_ok (index_blocks H bes' ?s)"
      "st_currentBlock st = fold (\<lambda>(b, _) m. max m (b_number b)) bes'
         (st_currentBlock (advanceIndexingStatus H b (initialIndexingStatus H)))"
    using index_blocks_status [OF first ok] by blast
  then show ?thesis by (auto simp: bes status_ok_def initialIndexingStatus_def)
qed

theorem indexing_status_after_calls_witness:
  "\<exists>st. status_of (index_blocks (int_host (\<lambda>_. None))
       [(ev_block example_event, ''MemberAdded''), (\<lparr>b_number = 5, b_timestamp = 900, b_hash = [1]\<rparr>, ''VoteCast'')] empty_store) = Some st
     \<and> st_currentBlock st = 7 \<and> \<not> st_isFullySynced st"
proof -
  let ?bes = "[(ev_block example_event, ''MemberAdded''), (\<lparr>b_number = 5, b_timestamp = 900, b_hash = [1]\<rparr>, ''VoteCast'')]"
  have "?bes \<noteq> []" by simp
  from indexing_status_after_calls [OF this, of "int_host (\<lambda>_. None)"] show ?thesis
    by (auto simp: example_event_def)
qed

section \<open>Block counters\<close>

definition category_total :: "blockInfo \<Rightarrow> int" where
  "category_total b = bi_organizationEvents b + bi_campaignEvents b + bi_proposalEvents b
     + bi_profileEvents b + bi_stakingEvents b"

definition counters_ok :: "blockInfo \<Rightarrow> bool" where
  "counters_ok b \<longleftrightarrow> 0 \<le> bi_organizationEvents b \<and> 0 \<le> bi_campaignEvents b \<and> 0 \<le> bi_proposalEvents b
     \<and> 0 \<le> bi_profileEvents b \<and> 0 \<le> bi_stakingEvents b \<and> category_total b \<le> bi_eventCount b"

lemma countBlockEvent_ok: "counters_ok b \<Longrightarrow> counters_ok (countBlockEvent e b)"
  by (auto simp: countBlockEvent_def counters_ok_def category_total_def Let_def)

lemma countBlockEvent_simps [simp]:
  "bi_eventCount (countBlockEvent e b) = bi_eventCount b + 1"
  "bi_id (countBlockEvent e b) = bi_id b"
  "bi_number (countBlockEvent e b) = bi_number b"
  by (simp_all add: countBlockEvent_def Let_def)

definition blocks_keyed :: "'d store \<Rightarrow> bool" where
  "blocks_keyed s \<longleftrightarrow> (\<forall>k b. blockInfos s k = Some b \<longrightarrow>
     bi_id b = k \<and> k = show_int (bi_number b) \<and> counters_ok b)"

definition block_entry :: "eth_block \<Rightarrow> 'd store \<Rightarrow> blockInfo" where
  "block_entry b s = (case blockInfos s (show_int (b_number b)) of None \<Rightarrow> newBlockInfo b | Some x \<Rightarrow> x)"

lemma block_entry_keyed:
  assumes "blocks_keyed s"
  shows "bi_id (block_entry b s) = show_int (b_number b)"
    and "bi_number (block_entry b s) = b_number b" and "counters_ok (block_entry b s)"
proof (atomize (full), cases "blockInfos s (show_int (b_number b))")
  case None
  then show "bi_id (block_entry b s) = show_int (b_number b) \<and>
      bi_number (block_entry b s) = b_number b \<and> counters_ok (block_entry b s)"
    by (simp add: block_entry_def newBlockInfo_def counters_ok_def category_total_def)
next
  case (Some x)
  with assms have "bi_id x = show_int (b_number b) \<and> show_int (b_number b) = show_int (bi_number x) \<and> counters_ok x"
    unfolding blocks_keyed_def by blast
  with Some show "bi_id (block_entry b s) = show_int (b_number b) \<and>
      bi_number (block_entry b s) = b_number b \<and> counters_ok (block_entry b s)"
    by (simp add: block_entry_def)
qed

lemma updateBlockInfo_entry:
  assumes "blocks_keyed s"
  shows "blockInfos (updateBlockInfo b e s) =
           (blockInfos s)(show_int (b_number b) \<mapsto> countBlockEvent e (block_entry b s))"
  using block_entry_keyed(1) [OF assms, of b]
  by (simp add: updateBlockInfo_def BlockInfo_save_def block_entry_def Let_def)

lemma updateBlockInfo_keyed: "blocks_keyed s \<Longrightarrow> blocks_keyed (updateBlockInfo b e s)"
  unfolding blocks_keyed_def [of "updateBlockInfo b e s"]
  by (simp add: updateBlockInfo_entry block_entry_keyed countBlockEvent_ok) (simp add: blocks_keyed_def)

lemma updateIndexingStatus_keyed: "blocks_keyed s \<Longrightarrow> blocks_keyed (updateIndexingStatus H b e s)"
  unfolding updateIndexingStatus_def Let_def
  by (rule updateBlockInfo_keyed) (simp add: blocks_keyed_def SubgraphIndexingStatus_save_def)

definition event_count :: "'d store \<Rightarrow> int \<Rightarrow> int" where
  "event_count s n = (case blockInfos s (show_int n) of None \<Rightarrow> 0 | Some b \<Rightarrow> bi_eventCount b)"

lemma event_count_update:
  assumes "blocks_keyed s"
  shows "event_count (updateIndexingStatus H b e s) n = event_count s n + (if b_number b = n then 1 else 0)"
proof -
  let ?t = "SubgraphIndexingStatus_save (advanceIndexingStatus H b
    (case indexingStatuses s INDEXING_STATUS_ID of None \<Rightarrow> initialIndexingStatus H | Some st \<Rightarrow> st)) s"
  have t: "blockInfos ?t = blockInfos s" by (simp add: SubgraphIndexingStatus_save_def)
  then have "blocks_keyed ?t" using assms by (simp add: blocks_keyed_def)
  then have "blockInfos (updateIndexingStatus H b e s) =
      (blockInfos s)(show_int (b_number b) \<mapsto> countBlockEvent e (block_entry b ?t))"
    by (simp add: updateIndexingStatus_def updateBlockInfo_entry t)
  then show ?thesis
    by (auto simp: event_count_def block_entry_def t newBlockInfo_def split: option.splits)
qed

lemma index_blocks_counts:
  "blocks_keyed s \<Longrightarrow>
     blocks_keyed (index_blocks H bes s) \<and>
     event_count (index_blocks H bes s) n =
       event_count s n + int (length (filter (\<lambda>(b, _). b_number b = n) bes))"
proof (induction bes arbitrary: s)
  case Nil
  then show ?case by simp
next
  case (Cons be bes)
  obtain b e where be: "be = (b, e)" by (cases be)
  show ?case
    using Cons.IH [OF updateIndexingStatus_keyed [OF Cons.prems, of H b e]]
      event_count_update [OF Cons.prems, of H b e n]
    by (simp add: be)
qed

text \<open>
  The block counters: after any sequence of handler calls on a fresh store, the event
  counter of block \<open>n\<close> is the number of calls made for block \<open>n\<close>, every block entity stands
  under its own number, and its five category counters are non-negative and together never exceed
  its event counter.
\<close>

theorem block_counters:
  "blocks_keyed (index_blocks H bes empty_store) \<and>
   event_count (index_blocks H bes empty_store) n =
     int (length (filter (\<lambda>(b, _). b_number b = n) bes))"
proof -
  have "blocks_keyed (empty_store :: 'a store)" by (simp add: blocks_keyed_def)
  from index_blocks_counts [OF this, of H bes n] show ?thesis by (simp add: event_count_def)
qed

end
