(* ===== verification/Ids.thy ===== *)
theory Ids
  imports Indexing
begin

text \<open>
  \<open>packages/subgraph/src/utils/ids.ts\<close>: entity ids of organizations and the get-or-create
  helpers for users and organizations.

  \<^item> \<open>getOrganizationIdString\<close> is the loop over the eight bytes of an id; reading past the end of
    the array traps, so it is a result that may halt.
  \<^item> \<open>user_provider\<close> is the contract that the user helpers of all mapping files share. Nine
    files carry their own copy of such a helper; each copy is an interpretation of the locale in
    the theory of its file. What the handlers get from it: the user exists afterwards under the
    hex form of its address, no counter of any user has changed, and nothing but the users has.
  \<^item> \<open>users_ok\<close> (every user stands under the hex form of its own address) and \<open>users_le\<close>
    (users are never lost, keep address and first-seen time, and their counters do not decrease)
    are the invariant and the step relation that every handler is shown to keep.
\<close>

section \<open>Definitions\<close>

fun idStringLoop :: "nat \<Rightarrow> nat \<Rightarrow> bytes \<Rightarrow> string \<Rightarrow> halt + string" where
  "idStringLoop 0 i b result = Inr result"
| "idStringLoop (Suc n) i b result =
     (if i < length b then idStringLoop n (Suc i) b (result @ [fromCharCode (b ! i)])
      else Inl IndexOutOfRange)"

definition getOrganizationIdString :: "bytes \<Rightarrow> halt + string" where
  "getOrganizationIdString orgIdBytes8 = idStringLoop 8 0 orgIdBytes8 []"

definition fromHexString :: "string \<Rightarrow> bytes option" where
  "fromHexString s = hex_decode (if take 2 s = ''0x'' then drop 2 s else s)"

definition alphanumericStringToBytes8 :: "string \<Rightarrow> bytes option" where
  "alphanumericStringToBytes8 alphanumericId =
     (if length alphanumericId \<noteq> 8 then fromHexString ''0x0000000000000000''
      else fromHexString (''0x'' @
        concat (map (\<lambda>c. padStart 2 CHR ''0'' (show_hex (charCodeAt c))) alphanumericId)))"

definition getOrCreateUser :: "bytes \<Rightarrow> 'd store \<Rightarrow> user \<times> 'd store" where
  "getOrCreateUser address s =
     (case users s (toHex address) of
        Some user \<Rightarrow> (user, s)
      | None \<Rightarrow> (let user = newUser (toHex address) address 0 0 in (user, User_save user s)))"

definition zeroAddress :: bytes where
  "zeroAddress = replicate 20 0"

definition stubOrganization :: "string \<Rightarrow> organization" where
  "stubOrganization orgIdString =
     \<lparr>org_id = orgIdString, org_name = '''', org_metadataURI = '''', org_creator = '''',
      org_prime = Some zeroAddress, org_treasury = None, org_treasuryAddress = zeroAddress,
      org_orgType = ''INDIVIDUAL'', org_accessModel = ''OPEN'', org_feeModel = ''NONE'',
      org_memberLimit = 0, org_memberCount = 0, org_totalCampaigns = 0, org_totalProposals = 0,
      org_membershipFee = 0, org_gameStakeRequired = 0, org_state = ''INACTIVE'',
      org_createdAt = 0, org_updatedAt = 0, org_blockNumber = 0, org_transaction = ''''\<rparr>"

definition getOrCreateOrganization :: "bytes \<Rightarrow> 'd store \<Rightarrow> halt + (organization \<times> 'd store)" where
  "getOrCreateOrganization orgId s =
     bind_halt (getOrganizationIdString orgId) (\<lambda>orgIdString.
       case organizations s orgIdString of
         Some org \<Rightarrow> Inr (org, s)
       | None \<Rightarrow>
           (let org = stubOrganization orgIdString
            in bind_halt (Organization_save org s) (\<lambda>s. Inr (org, s))))"

section \<open>Organization ids\<close>

lemma idStringLoop_eq:
  "idStringLoop n i b r =
     (if i + n \<le> length b \<or> n = 0 then Inr (r @ map fromCharCode (take n (drop i b))) else Inl IndexOutOfRange)"
proof (induction n arbitrary: i r)
  case 0
  then show ?case by simp
next
  case (Suc n)
  show ?case
  proof (cases "i < length b")
    case True
    then have "drop i b = b ! i # drop (Suc i) b" by (simp add: Cons_nth_drop_Suc)
    with True Suc.IH [of "Suc i"] show ?thesis by auto
  next
    case False
    then show ?thesis by simp
  qed
qed

lemma getOrganizationIdString_eq:
  "getOrganizationIdString b =
     (if 8 \<le> length b then Inr (map fromCharCode (take 8 b)) else Inl IndexOutOfRange)"
  by (simp add: getOrganizationIdString_def idStringLoop_eq)

abbreviation org_key :: "bytes \<Rightarrow> string" where
  "org_key b \<equiv> map fromCharCode (take 8 b)"

lemma getOrganizationIdString_bytes8:
  "length b = 8 \<Longrightarrow> getOrganizationIdString b = Inr (map fromCharCode b)"
  by (simp add: getOrganizationIdString_eq)

lemma alphanumericStringToBytes8_map:
  "length b = 8 \<Longrightarrow> alphanumericStringToBytes8 (map fromCharCode b) = Some b"
  by (simp add: alphanumericStringToBytes8_def fromHexString_def comp_def padStart_show_hex)

lemma map_fromCharCode_inject [simp]: "map fromCharCode a = map fromCharCode b \<longleftrightarrow> a = b"
  by (rule inj_map_eq_map) (simp add: inj_def)

text \<open>
  The id string of an organization is a lossless encoding of its bytes8 id: the two
  conversions of \<open>utils/ids.ts\<close> are inverse to each other on ids of eight bytes, so two
  organizations never share an entity id.
\<close>

theorem organization_id_roundtrip:
  assumes "length b = 8"
  shows "\<exists>s. getOrganizationIdString b = Inr s \<and> length s = 8 \<and> alphanumericStringToBytes8 s = Some b"
  using assms by (simp add: getOrganizationIdString_bytes8 alphanumericStringToBytes8_map)

theorem organization_id_roundtrip_witness:
  "length ([90, 53, 49, 51, 57, 71, 69, 90] :: bytes) = 8 \<and>
   (\<exists>s. getOrganizationIdString [90, 53, 49, 51, 57, 71, 69, 90] = Inr s \<and> length s = 8 \<and>
      alphanumericStringToBytes8 s = Some [90, 53, 49, 51, 57, 71, 69, 90])"
proof -
  have "length ([90, 53, 49, 51, 57, 71, 69, 90] :: bytes) = 8" by simp
  from this organization_id_roundtrip [OF this] show ?thesis by blast
qed

lemma getOrCreateOrganization_eq:
  "getOrCreateOrganization b s =
     (if 8 \<le> length b then
        (case organizations s (org_key b) of
           Some org \<Rightarrow> Inr (org, s)
         | None \<Rightarrow> Inr (stubOrganization (org_key b), Organization_put (stubOrganization (org_key b)) s))
      else Inl IndexOutOfRange)"
  by (simp add: getOrCreateOrganization_def getOrganizationIdString_eq Organization_save_def
      stubOrganization_def Let_def split: option.splits)

section \<open>Users\<close>

definition users_ok :: "'d store \<Rightarrow> bool" where
  "users_ok s \<longleftrightarrow> (\<forall>k u. users s k = Some u \<longrightarrow> u_id u = k \<and> k = toHex (u_address u))"

lemma users_ok_empty [simp]: "users_ok empty_store"
  by (simp add: users_ok_def)

definition user_le :: "user \<Rightarrow> user \<Rightarrow> bool" where
  "user_le u v \<longleftrightarrow> u_id v = u_id u \<and> u_address v = u_address u \<and> u_firstSeenAt v = u_firstSeenAt u
     \<and> u_totalOrganizations u \<le> u_totalOrganizations v \<and> u_totalMemberships u \<le> u_totalMemberships v
     \<and> u_totalContributions u \<le> u_totalContributions v \<and> u_totalProposals u \<le> u_totalProposals v
     \<and> u_totalVotes u \<le> u_totalVotes v"

definition users_le :: "'d store \<Rightarrow> 'd store \<Rightarrow> bool" where
  "users_le s t \<longleftrightarrow> (\<forall>k u. users s k = Some u \<longrightarrow> (\<exists>v. users t k = Some v \<and> user_le u v))"

definition users_step :: "'d store \<Rightarrow> 'd store \<Rightarrow> bool" where
  "users_step s t \<longleftrightarrow> (users_ok s \<longrightarrow> users_ok t \<and> users_le s t)"

lemma user_le_refl [simp]: "user_le u u"
  by (simp add: user_le_def)

lemma user_le_trans: "user_le u v \<Longrightarrow> user_le v w \<Longrightarrow> user_le u w"
  by (auto simp: user_le_def)

lemma users_step_same: "users t = users s \<Longrightarrow> users_step s t"
  by (auto simp: users_step_def users_ok_def users_le_def)

lemma users_step_refl [simp]: "users_step s s"
  by (simp add: users_step_same)

lemma users_step_trans [trans]: "users_step s t \<Longrightarrow> users_step t v \<Longrightarrow> users_step s v"
  unfolding users_step_def users_le_def by (metis user_le_trans)

lemma users_step_update:
  assumes upd: "users t = (users s)(toHex a \<mapsto> v)"
    and v: "users_ok s \<Longrightarrow> u_id v = toHex a \<and> u_address v = a \<and> (\<forall>u. users s (toHex a) = Some u \<longrightarrow> user_le u v)"
  shows "users_step s t"
  unfolding users_step_def
proof
  assume ok: "users_ok s"
  have "users_ok t" using ok v [OF ok] by (simp add: users_ok_def upd)
  moreover have "users_le s t" using v [OF ok] by (auto simp: users_le_def upd)
  ultimately show "users_ok t \<and> users_le s t" ..
qed

lemma users_okD: "users_ok s \<Longrightarrow> users s (toHex a) = Some u \<Longrightarrow> u_id u = toHex a \<and> u_address u = a"
  unfolding users_ok_def by (metis toHex_inject)

text \<open>The parts of a user that only the handlers' own increments may change.\<close>

definition same_counts :: "user \<Rightarrow> user \<Rightarrow> bool" where
  "same_counts u v \<longleftrightarrow> u_id v = u_id u \<and> u_address v = u_address u \<and> u_firstSeenAt v = u_firstSeenAt u
     \<and> u_totalOrganizations v = u_totalOrganizations u \<and> u_totalMemberships v = u_totalMemberships u
     \<and> u_totalContributions v = u_totalContributions u \<and> u_totalProposals v = u_totalProposals u
     \<and> u_totalVotes v = u_totalVotes u"

definition fresh_user :: "bytes \<Rightarrow> user \<Rightarrow> bool" where
  "fresh_user a v \<longleftrightarrow> u_id v = toHex a \<and> u_address v = a
     \<and> u_totalOrganizations v = 0 \<and> u_totalMemberships v = 0 \<and> u_totalContributions v = 0
     \<and> u_totalProposals v = 0 \<and> u_totalVotes v = 0"

definition user_obtained :: "bytes \<Rightarrow> user option \<Rightarrow> user \<Rightarrow> bool" where
  "user_obtained a old v \<longleftrightarrow> (case old of None \<Rightarrow> fresh_user a v | Some u \<Rightarrow> same_counts u v)"

lemma same_counts_le: "same_counts u v \<Longrightarrow> user_le u v"
  by (simp add: same_counts_def user_le_def)

lemma user_obtainedD:
  assumes "users_ok s" and "user_obtained a (users s (toHex a)) v"
  shows "u_id v = toHex a" and "u_address v = a"
    and "\<forall>u. users s (toHex a) = Some u \<longrightarrow> user_le u v"
  using assms users_okD [OF assms(1), of a]
  by (auto simp: user_obtained_def fresh_user_def same_counts_def user_le_def split: option.splits)

locale user_provider =
  fixes ensure :: "bytes \<Rightarrow> int \<Rightarrow> 'd store \<Rightarrow> 'd store"
  assumes ensure_users:
      "users_ok s \<Longrightarrow>
         \<exists>v. users (ensure a t s) = (users s)(toHex a \<mapsto> v) \<and> user_obtained a (users s (toHex a)) v"
    and ensure_frame: "(ensure a t s)\<lparr>users := U\<rparr> = s\<lparr>users := U\<rparr>"
    and ensure_keyed: "users_step s (ensure a t s)"
begin

lemma ensure_present:
  assumes "users_ok s"
  shows "\<exists>v. users (ensure a t s) (toHex a) = Some v \<and> u_address v = a"
  using ensure_users [OF assms, of a t] user_obtainedD(2) [OF assms] by auto

lemma ensure_other:
  assumes "users_ok s" and "b \<noteq> a"
  shows "users (ensure a t s) (toHex b) = users s (toHex b)"
  using ensure_users [OF assms(1), of a t] assms(2) by auto

lemma ensure_counts:
  assumes "users_ok s" and "users s (toHex b) = Some u"
  shows "\<exists>v. users (ensure a t s) (toHex b) = Some v \<and> same_counts u v"
proof (cases "b = a")
  case True
  then show ?thesis using ensure_users [OF assms(1), of a t] assms(2)
    by (auto simp: user_obtained_def)
next
  case False
  then show ?thesis using ensure_other [OF assms(1)] assms(2) by (auto simp: same_counts_def)
qed

lemma ensure_twice_dom:
  assumes "users_ok s"
  shows "dom (users (ensure a t' (ensure a t s))) = dom (users (ensure a t s))"
proof -
  have "users_ok (ensure a t s)" using ensure_keyed assms by (simp add: users_step_def)
  from ensure_users [OF this, of a t'] ensure_users [OF assms, of a t] show ?thesis by auto
qed

lemma ensure_fields:
  "globalStatsStore (ensure a t s) = globalStatsStore s"
  "indexingStatuses (ensure a t s) = indexingStatuses s"
  "blockInfos (ensure a t s) = blockInfos s"
  "modules (ensure a t s) = modules s"
  "moduleRegistrations (ensure a t s) = moduleRegistrations s"
  "moduleUpgrades (ensure a t s) = moduleUpgrades s"
  "tokenTransfers (ensure a t s) = tokenTransfers s"
  "treasuries (ensure a t s) = treasuries s"
  "treasuryTransactions (ensure a t s) = treasuryTransactions s"
  "organizationStakes (ensure a t s) = organizationStakes s"
  "userStakes (ensure a t s) = userStakes s"
  "unstakeRequests (ensure a t s) = unstakeRequests s"
  "stakingPools (ensure a t s) = stakingPools s"
  "organizations (ensure a t s) = organizations s"
  "members (ensure a t s) = members s"
  "campaigns (ensure a t s) = campaigns s"
  "contributions (ensure a t s) = contributions s"
  "proposals (ensure a t s) = proposals s"
  "votes (ensure a t s) = votes s"
  "delegations (ensure a t s) = delegations s"
  "profiles (ensure a t s) = profiles s"
  "votingDelegations (ensure a t s) = votingDelegations s"
  "transactions (ensure a t s) = transactions s"
  "treasuryTemplates (ensure a t s) = treasuryTemplates s"
  using ensure_frame [of Map.empty a t s, THEN arg_cong, of globalStatsStore]
    ensure_frame [of Map.empty a t s, THEN arg_cong, of indexingStatuses]
    ensure_frame [of Map.empty a t s, THEN arg_cong, of blockInfos]
    ensure_frame [of Map.empty a t s, THEN arg_cong, of modules]
    ensure_frame [of Map.empty a t s, THEN arg_cong, of moduleRegistrations]
    ensure_frame [of Map.empty a t s, THEN arg_cong, of moduleUpgrades]
    ensure_frame [of Map.empty a t s, THEN arg_cong, of tokenTransfers]
    ensure_frame [of Map.empty a t s, THEN arg_cong, of treasuries]
    ensure_frame [of Map.empty a t s, THEN arg_cong, of treasuryTransactions]
    ensure_frame [of Map.empty a t s, THEN arg_cong, of organizationStakes]
    ensure_frame [of Map.empty a t s, THEN arg_cong, of userStakes]
    ensure_frame [of Map.empty a t s, THEN arg_cong, of unstakeRequests]
    ensure_frame [of Map.empty a t s, THEN arg_cong, of stakingPools]
    ensure_frame [of Map.empty a t s, THEN arg_cong, of organizations]
    ensure_frame [of Map.empty a t s, THEN arg_cong, of members]
    ensure_frame [of Map.empty a t s, THEN arg_cong, of campaigns]
    ensure_frame [of Map.empty a t s, THEN arg_cong, of contributions]
    ensure_frame [of Map.empty a t s, THEN arg_cong, of proposals]
    ensure_frame [of Map.empty a t s, THEN arg_cong, of votes]
    ensure_frame [of Map.empty a t s, THEN arg_cong, of delegations]
    ensure_frame [of Map.empty a t s, THEN arg_cong, of profiles]
    ensure_frame [of Map.empty a t s, THEN arg_cong, of votingDelegations]
    ensure_frame [of Map.empty a t s, THEN arg_cong, of transactions]
    ensure_frame [of Map.empty a t s, THEN arg_cong, of treasuryTemplates]
  by simp_all

end

text \<open>A helper that always saves one user built from the stored one keeps the contract.\<close>

lemma user_providerI:
  fixes ensure :: "bytes \<Rightarrow> int \<Rightarrow> 'd store \<Rightarrow> 'd store"
  assumes saves: "\<And>a t s. ensure a t s = User_save (v a t (users s (toHex a))) s"
    and fresh: "\<And>a t. fresh_user a (v a t None)"
    and kept: "\<And>a t u. same_counts u (v a t (Some u))"
  shows "user_provider ensure"
proof
  fix a t and s :: "'d store" and U
  let ?v = "v a t (users s (toHex a))"
  have obt: "user_obtained a (users s (toHex a)) ?v"
    using fresh kept by (simp add: user_obtained_def split: option.splits)
  have upd: "users (ensure a t s) = (users s)(toHex a \<mapsto> ?v)" if "users_ok s"
    using user_obtainedD(1) [OF that obt] by (simp add: saves User_save_def)
  then show "users_ok s \<Longrightarrow> \<exists>v. users (ensure a t s) = (users s)(toHex a \<mapsto> v) \<and>
      user_obtained a (users s (toHex a)) v"
    using obt by blast
  show "(ensure a t s)\<lparr>users := U\<rparr> = s\<lparr>users := U\<rparr>"
    by (simp add: saves User_save_def)
  show "users_step s (ensure a t s)"
  proof (cases "users_ok s")
    case True
    show ?thesis
      by (rule users_step_update [OF upd [OF True]]) (use user_obtainedD [OF True obt] in auto)
  next
    case False
    then show ?thesis by (simp add: users_step_def)
  qed
qed

text \<open>\<open>getOrCreateUser\<close> keeps the contract; it ignores the time.\<close>

lemma getOrCreateUser_users:
  assumes "users_ok s"
  shows "users (snd (getOrCreateUser a s)) = (users s)(toHex a \<mapsto> fst (getOrCreateUser a s))"
    and "user_obtained a (users s (toHex a)) (fst (getOrCreateUser a s))"
  by (auto simp: getOrCreateUser_def User_save_def user_obtained_def fresh_user_def same_counts_def
      Let_def map_upd_triv split: option.splits)

interpretation ids_users: user_provider "\<lambda>a t s. snd (getOrCreateUser a s)"
proof
  fix a t and s :: "'d store" and U
  show "users_ok s \<Longrightarrow> \<exists>v. users (snd (getOrCreateUser a s)) = (users s)(toHex a \<mapsto> v) \<and>
      user_obtained a (users s (toHex a)) v"
    using getOrCreateUser_users by blast
  show "(snd (getOrCreateUser a s))\<lparr>users := U\<rparr> = s\<lparr>users := U\<rparr>"
    by (simp add: getOrCreateUser_def User_save_def Let_def split: option.splits)
  show "users_step s (snd (getOrCreateUser a s))"
  proof (cases "users s (toHex a)")
    case None
    then show ?thesis
      by (intro users_step_update [where a = a]) (auto simp: getOrCreateUser_def User_save_def Let_def)
  next
    case (Some u)
    then show ?thesis by (simp add: getOrCreateUser_def)
  qed
qed

section \<open>Steps on users, operation by operation\<close>

text \<open>
  Backward rules: to show that a composition of store operations is a step on users, peel off the
  last operation. The collection \<open>users_steps\<close> has one rule per operation.
\<close>

lemma users_step_frame: "users_step s t \<Longrightarrow> users t' = users t \<Longrightarrow> users_step s t'"
  by (auto intro: users_step_trans users_step_same)

lemma users_step_User_save [users_steps]:
  assumes "users_step s t" and "users t k = Some u" and "user_le u v"
  shows "users_step s (User_save v t)"
proof (rule users_step_trans [OF assms(1)])
  show "users_step t (User_save v t)"
  proof (cases "users_ok t")
    case True
    then have k: "u_id u = k" "k = toHex (u_address u)" using assms(2) by (auto simp: users_ok_def)
    have "users (User_save v t) = (users t)(toHex (u_address u) \<mapsto> v)"
      using assms(3) k by (simp add: User_save_def user_le_def)
    then show ?thesis
      by (rule users_step_update) (use assms(2,3) k in \<open>auto simp: user_le_def\<close>)
  next
    case False
    then show ?thesis by (simp add: users_step_def)
  qed
qed

lemma users_step_GlobalStats_save [users_steps]: "users_step s t \<Longrightarrow> users_step s (GlobalStats_save e t)"
  by (rule users_step_frame) (simp_all add: GlobalStats_save_def)

lemma users_step_SubgraphIndexingStatus_save [users_steps]: "users_step s t \<Longrightarrow> users_step s (SubgraphIndexingStatus_save e t)"
  by (rule users_step_frame) (simp_all add: SubgraphIndexingStatus_save_def)

lemma users_step_BlockInfo_save [users_steps]: "users_step s t \<Longrightarrow> users_step s (BlockInfo_save e t)"
  by (rule users_step_frame) (simp_all add: BlockInfo_save_def)

lemma users_step_Module_save [users_steps]: "users_step s t \<Longrightarrow> users_step s (Module_save e t)"
  by (rule users_step_frame) (simp_all add: Module_save_def)

lemma users_step_ModuleRegistration_save [users_steps]: "users_step s t \<Longrightarrow> users_step s (ModuleRegistration_save e t)"
  by (rule users_step_frame) (simp_all add: ModuleRegistration_save_def)

lemma users_step_ModuleUpgrade_save [users_steps]: "users_step s t \<Longrightarrow> users_step s (ModuleUpgrade_save e t)"
  by (rule users_step_frame) (simp_all add: ModuleUpgrade_save_def)

lemma users_step_TokenTransfer_save [users_steps]: "users_step s t \<Longrightarrow> users_step s (TokenTransfer_save e t)"
  by (rule users_step_frame) (simp_all add: TokenTransfer_save_def)

lemma users_step_Treasury_save [users_steps]: "users_step s t \<Longrightarrow> users_step s (Treasury_save e t)"
  by (rule users_step_frame) (simp_all add: Treasury_save_def)

lemma users_step_TreasuryTransaction_save [users_steps]: "users_step s t \<Longrightarrow> users_step s (TreasuryTransaction_save e t)"
  by (rule users_step_frame) (simp_all add: TreasuryTransaction_save_def)

lemma users_step_OrganizationStake_save [users_steps]: "users_step s t \<Longrightarrow> users_step s (OrganizationStake_save e t)"
  by (rule users_step_frame) (simp_all add: OrganizationStake_save_def)

lemma users_step_UserStake_save [users_steps]: "users_step s t \<Longrightarrow> users_step s (UserStake_save e t)"
  by (rule users_step_frame) (simp_all add: UserStake_save_def)

lemma users_step_UnstakeRequest_save [users_steps]: "users_step s t \<Longrightarrow> users_step s (UnstakeRequest_save e t)"
  by (rule users_step_frame) (simp_all add: UnstakeRequest_save_def)

lemma users_step_StakingPool_save [users_steps]: "users_step s t \<Longrightarrow> users_step s (StakingPool_save e t)"
  by (rule users_step_frame) (simp_all add: StakingPool_save_def)

lemma users_step_Member_save [users_steps]: "users_step s t \<Longrightarrow> users_step s (Member_save e t)"
  by (rule users_step_frame) (simp_all add: Member_save_def)

lemma users_step_Campaign_save [users_steps]: "users_step s t \<Longrightarrow> users_step s (Campaign_save e t)"
  by (rule users_step_frame) (simp_all add: Campaign_save_def)

lemma users_step_Contribution_save [users_steps]: "users_step s t \<Longrightarrow> users_step s (Contribution_save e t)"
  by (rule users_step_frame) (simp_all add: Contribution_save_def)

lemma users_step_Proposal_save [users_steps]: "users_step s t \<Longrightarrow> users_step s (Proposal_save e t)"
  by (rule users_step_frame) (simp_all add: Proposal_save_def)

lemma users_step_Vote_save [users_steps]: "users_step s t \<Longrightarrow> users_step s (Vote_save e t)"
  by (rule users_step_frame) (simp_all add: Vote_save_def)

lemma users_step_Delegation_save [users_steps]: "users_step s t \<Longrightarrow> users_step s (Delegation_save e t)"
  by (rule users_step_frame) (simp_all add: Delegation_save_def)

lemma users_step_Profile_save [users_steps]: "users_step s t \<Longrightarrow> users_step s (Profile_save e t)"
  by (rule users_step_frame) (simp_all add: Profile_save_def)

lemma users_step_VotingDelegation_save [users_steps]: "users_step s t \<Longrightarrow> users_step s (VotingDelegation_save e t)"
  by (rule users_step_frame) (simp_all add: VotingDelegation_save_def)

lemma users_step_Transaction_save [users_steps]: "users_step s t \<Longrightarrow> users_step s (Transaction_save e t)"
  by (rule users_step_frame) (simp_all add: Transaction_save_def)

lemma users_step_Organization_put [users_steps]: "users_step s t \<Longrightarrow> users_step s (Organization_put e t)"
  by (rule users_step_frame) (simp_all add: Organization_put_def)

lemma users_step_TreasuryTemplate_create [users_steps]: "users_step s t \<Longrightarrow> users_step s (TreasuryTemplate_create e t)"
  by (rule users_step_frame) (simp_all add: TreasuryTemplate_create_def)

lemma users_step_getOrCreateUser [users_steps]:
  "users_step s t \<Longrightarrow> users_step s (snd (getOrCreateUser a t))"
  using ids_users.ensure_keyed users_step_trans by blast

lemma users_step_updateIndexingStatus [users_steps]:
  "users_step s t \<Longrightarrow> users_step s (updateIndexingStatus H b e t)"
  by (rule users_step_frame) simp_all

text \<open>Counting something for a user: get or create it, then save it with a larger counter.\<close>

lemma users_step_bump [users_steps]:
  assumes "users_step s t" and "\<And>u. user_le u (f u)"
  shows "users_step s (case getOrCreateUser a t of (u, t') \<Rightarrow> User_save (f u) t')"
proof -
  obtain u t' where g: "getOrCreateUser a t = (u, t')" by (cases "getOrCreateUser a t")
  have st: "users_step s t'" using users_step_getOrCreateUser [OF assms(1), of a] g by simp
  have "users t' (toHex a) = Some u \<or> \<not> users_ok t"
    using getOrCreateUser_users(1) [of t a] g by auto
  then show ?thesis
  proof
    assume "users t' (toHex a) = Some u"
    then show ?thesis using users_step_User_save [OF st _ assms(2)] g by simp
  next
    assume "\<not> users_ok t"
    then have "\<not> users_ok s" using assms(1) by (auto simp: users_step_def)
    then show ?thesis by (simp add: users_step_def)
  qed
qed

lemma bump_fields [simp]:
  "globalStatsStore (case getOrCreateUser a t of (u, t') \<Rightarrow> User_save (f u) t') = globalStatsStore t"
  "indexingStatuses (case getOrCreateUser a t of (u, t') \<Rightarrow> User_save (f u) t') = indexingStatuses t"
  "blockInfos (case getOrCreateUser a t of (u, t') \<Rightarrow> User_save (f u) t') = blockInfos t"
  "modules (case getOrCreateUser a t of (u, t') \<Rightarrow> User_save (f u) t') = modules t"
  "moduleRegistrations (case getOrCreateUser a t of (u, t') \<Rightarrow> User_save (f u) t') = moduleRegistrations t"
  "moduleUpgrades (case getOrCreateUser a t of (u, t') \<Rightarrow> User_save (f u) t') = moduleUpgrades t"
  "tokenTransfers (case getOrCreateUser a t of (u, t') \<Rightarrow> User_save (f u) t') = tokenTransfers t"
  "treasuries (case getOrCreateUser a t of (u, t') \<Rightarrow> User_save (f u) t') = treasuries t"
  "treasuryTransactions (case getOrCreateUser a t of (u, t') \<Rightarrow> User_save (f u) t') = treasuryTransactions t"
  "organizationStakes (case getOrCreateUser a t of (u, t') \<Rightarrow> User_save (f u) t') = organizationStakes t"
  "userStakes (case getOrCreateUser a t of (u, t') \<Rightarrow> User_save (f u) t') = userStakes t"
  "unstakeRequests (case getOrCreateUser a t of (u, t') \<Rightarrow> User_save (f u) t') = unstakeRequests t"
  "stakingPools (case getOrCreateUser a t of (u, t') \<Rightarrow> User_save (f u) t') = stakingPools t"
  "organizations (case getOrCreateUser a t of (u, t') \<Rightarrow> User_save (f u) t') = organizations t"
  "members (case getOrCreateUser a t of (u, t') \<Rightarrow> User_save (f u) t') = members t"
  "campaigns (case getOrCreateUser a t of (u, t') \<Rightarrow> User_save (f u) t') = campaigns t"
  "contributions (case getOrCreateUser a t of (u, t') \<Rightarrow> User_save (f u) t') = contributions t"
  "proposals (case getOrCreateUser a t of (u, t') \<Rightarrow> User_save (f u) t') = proposals t"
  "votes (case getOrCreateUser a t of (u, t') \<Rightarrow> User_save (f u) t') = votes t"
  "delegations (case getOrCreateUser a t of (u, t') \<Rightarrow> User_save (f u) t') = delegations t"
  "profiles (case getOrCreateUser a t of (u, t') \<Rightarrow> User_save (f u) t') = profiles t"
  "votingDelegations (case getOrCreateUser a t of (u, t') \<Rightarrow> User_save (f u) t') = votingDelegations t"
  "transactions (case getOrCreateUser a t of (u, t') \<Rightarrow> User_save (f u) t') = transactions t"
  "treasuryTemplates (case getOrCreateUser a t of (u, t') \<Rightarrow> User_save (f u) t') = treasuryTemplates t"
  by (simp_all add: getOrCreateUser_def User_save_def Let_def split: option.splits)

text \<open>What the bump does to the users.\<close>

lemma bump_users:
  assumes "users_ok t" and "\<And>u. u_id (f u) = u_id u"
  shows "users (case getOrCreateUser a t of (u, t') \<Rightarrow> User_save (f u) t') =
     (users t)(toHex a \<mapsto> f (case users t (toHex a) of None \<Rightarrow> newUser (toHex a) a 0 0 | Some u \<Rightarrow> u))"
  using assms users_okD [OF assms(1), of a]
  by (auto simp: getOrCreateUser_def User_save_def Let_def split: option.splits)

end
