(* ===== verification/Control.thy ===== *)
theory Control
  imports Ids
begin

text \<open>
  \<open>packages/subgraph/src/control.ts\<close>: organizations as the Control contract announces them.

  One definition per helper and handler, in the order of the file. A handler takes the host (where
  it is used), the event's context, the event's parameters in the order of its signature, and the
  store. \<open>handleOrganizationCreated\<close> may halt: on a malformed id, and on saving an organization
  whose \<open>prime\<close> the fallback branch has not set.

  The lemmas show the enum helpers stay inside the schema's enums, what is stored on each branch of
  \<open>handleOrganizationCreated\<close>, that \<open>handleOrganizationStateChanged\<close> moves the counter of
  active organizations exactly with the number of active organizations, and that all three
  handlers keep the user invariant.
\<close>

section \<open>Enum helpers\<close>

definition mapOrgType :: "int \<Rightarrow> string" where
  [enum_defs]: "mapOrgType orgType =
     (if orgType = 0 then ''INDIVIDUAL'' else if orgType = 1 then ''COMPANY''
      else if orgType = 2 then ''DAO'' else if orgType = 3 then ''HYBRID'' else ''DAO'')"

definition mapOrgState :: "int \<Rightarrow> string" where
  [enum_defs]: "mapOrgState state =
     (if state = 0 then ''INACTIVE'' else if state = 1 then ''ACTIVE''
      else if state = 2 then ''LOCKED'' else if state = 3 then ''DISSOLVED'' else ''ACTIVE'')"

definition mapAccessModel :: "int \<Rightarrow> string" where
  [enum_defs]: "mapAccessModel accessModel =
     (if accessModel = 0 then ''OPEN'' else if accessModel = 1 then ''VOTING''
      else if accessModel = 2 then ''INVITE'' else ''OPEN'')"

definition mapFeeModel :: "int \<Rightarrow> string" where
  [enum_defs]: "mapFeeModel feeModel =
     (if feeModel = 0 then ''NONE'' else if feeModel = 1 then ''FIXED''
      else if feeModel = 2 then ''PERCENTAGE'' else ''NONE'')"

section \<open>Users\<close>

definition createOrUpdateUser :: "bytes \<Rightarrow> int \<Rightarrow> 'd store \<Rightarrow> 'd store" where
  "createOrUpdateUser address timestamp s =
     (let userId = toLowerCase (toHex address);
          user = (case users s userId of
                    None \<Rightarrow> newUser userId address timestamp timestamp
                  | Some user \<Rightarrow> user\<lparr>u_lastActiveAt := timestamp\<rparr>)
      in User_save user s)"

section \<open>Handlers\<close>

text \<open>The organization built from the contract's answer, and the one built from the event alone.\<close>

definition organizationFromChain :: "string \<Rightarrow> bytes \<Rightarrow> org_data \<Rightarrow> organization" where
  "organizationFromChain organizationId creator org =
     \<lparr>org_id = organizationId, org_name = od_name org, org_metadataURI = od_metadataURI org,
      org_creator = toHex creator, org_prime = Some (od_prime org), org_treasury = None,
      org_treasuryAddress = od_treasury org, org_orgType = mapOrgType (od_orgType org),
      org_accessModel = mapAccessModel (od_accessModel org), org_feeModel = mapFeeModel (od_feeModel org),
      org_memberLimit = od_memberLimit org, org_memberCount = od_memberCount org,
      org_totalCampaigns = od_totalCampaigns org, org_totalProposals = od_totalProposals org,
      org_membershipFee = od_membershipFee org, org_gameStakeRequired = od_gameStakeRequired org,
      org_state = mapOrgState (od_state org), org_createdAt = od_createdAt org,
      org_updatedAt = od_updatedAt org, org_blockNumber = 0, org_transaction = ''''\<rparr>"

definition organizationFromEvent :: "string \<Rightarrow> string \<Rightarrow> bytes \<Rightarrow> bytes \<Rightarrow> int \<Rightarrow> organization" where
  "organizationFromEvent organizationId name creator treasury timestamp =
     \<lparr>org_id = organizationId, org_name = name, org_metadataURI = '''',
      org_creator = toHex creator, org_prime = None, org_treasury = None,
      org_treasuryAddress = treasury, org_orgType = mapOrgType 0,
      org_accessModel = mapAccessModel 0, org_feeModel = mapFeeModel 0,
      org_memberLimit = 0, org_memberCount = 0, org_totalCampaigns = 0, org_totalProposals = 0,
      org_membershipFee = 0, org_gameStakeRequired = 0, org_state = ''ACTIVE'',
      org_createdAt = timestamp, org_updatedAt = timestamp,
      org_blockNumber = 0, org_transaction = ''''\<rparr>"

definition newTreasury :: "'d host \<Rightarrow> string \<Rightarrow> bytes \<Rightarrow> int \<Rightarrow> 'd treasury" where
  "newTreasury H organizationId address timestamp =
     \<lparr>tr_id = toHex address, tr_organization = organizationId, tr_address = address,
      tr_createdAt = timestamp, tr_lastActivityAt = timestamp,
      tr_totalDeposits = bd_fromString H ''0'', tr_totalSpent = bd_fromString H ''0''\<rparr>"

definition countUserOrganization :: "bytes \<Rightarrow> 'd store \<Rightarrow> 'd store" where
  "countUserOrganization creator s =
     (case users s (toLowerCase (toHex creator)) of
        None \<Rightarrow> s
      | Some user \<Rightarrow> User_save (user\<lparr>u_totalOrganizations := u_totalOrganizations user + 1\<rparr>) s)"

definition countOrganization :: "'d \<Rightarrow> int \<Rightarrow> 'd store \<Rightarrow> 'd store" where
  "countOrganization zero now s =
     (let stats = (case global_stats s of None \<Rightarrow> zeroGlobalStats zero now | Some g \<Rightarrow> g)
      in GlobalStats_save
           (stats\<lparr>gs_totalOrganizations := gs_totalOrganizations stats + 1,
                  gs_activeOrganizations := gs_activeOrganizations stats + 1,
                  gs_updatedAt := now\<rparr>) s)"

definition handleOrganizationCreated ::
  "'d host \<Rightarrow> eth_event \<Rightarrow> bytes \<Rightarrow> string \<Rightarrow> bytes \<Rightarrow> bytes \<Rightarrow> int \<Rightarrow> 'd store \<Rightarrow> halt + 'd store" where
  [handler_defs]: "handleOrganizationCreated H ev orgId name creator treasury timestamp s =
     (let s = updateIndexingStatus H (ev_block ev) ''OrganizationCreated'' s
      in bind_halt (getOrganizationIdString orgId) (\<lambda>organizationId.
         let organization =
               (case try_getOrganization H (ev_block ev) (ev_address ev) orgId of
                  Some org \<Rightarrow> organizationFromChain organizationId creator org
                | None \<Rightarrow> organizationFromEvent organizationId name creator treasury timestamp);
             s = Treasury_save (newTreasury H organizationId treasury timestamp) s;
             organization = organization\<lparr>org_treasury := Some (toHex treasury),
               org_blockNumber := ev_number ev, org_transaction := toHex (ev_txHash ev)\<rparr>
         in bind_halt (Organization_save organization s) (\<lambda>s.
            let s = TreasuryTemplate_create treasury s;
                s = createOrUpdateUser creator timestamp s;
                s = countUserOrganization creator s;
                s = Transaction_save (newTransaction ev 0) s
            in Inr (countOrganization (bd_fromString H ''0'') (ev_timestamp ev) s))))"

definition handleOrganizationStateChanged ::
  "'d host \<Rightarrow> eth_event \<Rightarrow> bytes \<Rightarrow> int \<Rightarrow> int \<Rightarrow> int \<Rightarrow> 'd store \<Rightarrow> halt + 'd store" where
  [handler_defs]: "handleOrganizationStateChanged H ev orgId oldStateParam newState timestamp s =
     (let s = updateIndexingStatus H (ev_block ev) ''OrganizationStateChanged'' s
      in bind_halt (getOrganizationIdString orgId) (\<lambda>organizationId.
         case organizations s organizationId of
           None \<Rightarrow> Inr s
         | Some organization \<Rightarrow>
             (let oldState = org_state organization;
                  organization = organization\<lparr>org_state := mapOrgState newState,
                    org_updatedAt := timestamp, org_blockNumber := ev_number ev,
                    org_transaction := toHex (ev_txHash ev)\<rparr>;
                  s = Organization_put organization s
              in Inr (case global_stats s of
                        None \<Rightarrow> s
                      | Some stats \<Rightarrow>
                          (let stats = (if oldState \<noteq> ''ACTIVE'' \<and> org_state organization = ''ACTIVE''
                                        then stats\<lparr>gs_activeOrganizations := gs_activeOrganizations stats + 1\<rparr>
                                        else if oldState = ''ACTIVE'' \<and> org_state organization \<noteq> ''ACTIVE''
                                        then stats\<lparr>gs_activeOrganizations := gs_activeOrganizations stats - 1\<rparr>
                                        else stats)
                           in GlobalStats_save (stats\<lparr>gs_updatedAt := ev_timestamp ev\<rparr>) s)))))"

definition handleStakeWithdrawn ::
  "'d host \<Rightarrow> eth_event \<Rightarrow> bytes \<Rightarrow> bytes \<Rightarrow> int \<Rightarrow> int \<Rightarrow> 'd store \<Rightarrow> halt + 'd store" where
  [handler_defs]: "handleStakeWithdrawn H ev organizationIdParam stakerParam amount timestamp s =
     (let s = updateIndexingStatus H (ev_block ev) ''StakeWithdrawn'' s
      in bind_halt (getOrganizationIdString organizationIdParam) (\<lambda>organizationId.
         let stakerId = toLowerCase (toHex stakerParam);
             s = createOrUpdateUser stakerParam (ev_timestamp ev) s;
             s = (case users s stakerId of
                    None \<Rightarrow> s
                  | Some staker \<Rightarrow> User_save (staker\<lparr>u_lastActiveAt := ev_timestamp ev\<rparr>) s)
         in Inr (case organizationStakes s organizationId of
                   None \<Rightarrow> s
                 | Some st \<Rightarrow>
                     OrganizationStake_save
                       (st\<lparr>os_active := False, os_blockNumber := ev_number ev,
                           os_transaction := toHex (ev_txHash ev)\<rparr>) s)))"

section \<open>The enums of the schema\<close>

definition OrganizationState :: "string set" where
  "OrganizationState = {''INACTIVE'', ''ACTIVE'', ''LOCKED'', ''DISSOLVED''}"

definition AccessModel :: "string set" where
  "AccessModel = {''OPEN'', ''VOTING'', ''INVITE''}"

definition FeeModel :: "string set" where
  "FeeModel = {''NONE'', ''FIXED'', ''PERCENTAGE''}"

definition OrgType :: "string set" where
  "OrgType = {''INDIVIDUAL'', ''COMPANY'', ''DAO'', ''HYBRID''}"

lemma control_enums [simp]:
  "mapOrgState n \<in> OrganizationState" "mapAccessModel n \<in> AccessModel"
  "mapFeeModel n \<in> FeeModel" "mapOrgType n \<in> OrgType"
  by (simp_all add: enum_defs OrganizationState_def AccessModel_def FeeModel_def OrgType_def)

definition organization_typed :: "organization \<Rightarrow> bool" where
  "organization_typed o' \<longleftrightarrow> org_prime o' \<noteq> None \<and> org_state o' \<in> OrganizationState
     \<and> org_accessModel o' \<in> AccessModel \<and> org_feeModel o' \<in> FeeModel \<and> org_orgType o' \<in> OrgType"

definition organizations_ok :: "'d store \<Rightarrow> bool" where
  "organizations_ok s \<longleftrightarrow>
     (\<forall>k o'. organizations s k = Some o' \<longrightarrow> org_id o' = k \<and> organization_typed o')"

lemma organizations_ok_put:
  "organizations_ok s \<Longrightarrow> organizations t = (organizations s)(org_id o' \<mapsto> o') \<Longrightarrow> organization_typed o' \<Longrightarrow>
     organizations_ok t"
  by (simp add: organizations_ok_def)

lemma organizations_ok_same: "organizations_ok s \<Longrightarrow> organizations t = organizations s \<Longrightarrow> organizations_ok t"
  by (simp add: organizations_ok_def)

lemma organizations_okD:
  "organizations_ok s \<Longrightarrow> organizations s k = Some o' \<Longrightarrow> org_id o' = k \<and> organization_typed o'"
  by (simp add: organizations_ok_def)

lemma stubOrganization_typed: "organization_typed (stubOrganization k)"
  by (simp add: organization_typed_def stubOrganization_def OrganizationState_def AccessModel_def
      FeeModel_def OrgType_def)

lemma organizationFromChain_typed: "organization_typed (organizationFromChain k c d)"
  by (simp add: organization_typed_def organizationFromChain_def)

lemma organization_typed_update [simp]:
  "organization_typed (x\<lparr>org_treasury := t\<rparr>) = organization_typed x"
  "organization_typed (x\<lparr>org_blockNumber := n\<rparr>) = organization_typed x"
  "organization_typed (x\<lparr>org_transaction := h\<rparr>) = organization_typed x"
  "organization_typed (x\<lparr>org_updatedAt := n\<rparr>) = organization_typed x"
  "organization_typed (x\<lparr>org_memberCount := n\<rparr>) = organization_typed x"
  "organization_typed (x\<lparr>org_totalCampaigns := n\<rparr>) = organization_typed x"
  "organization_typed (x\<lparr>org_totalProposals := n\<rparr>) = organization_typed x"
  by (simp_all add: organization_typed_def)

section \<open>The user helper keeps the shared contract\<close>

interpretation control_users: user_provider createOrUpdateUser
  by (rule user_providerI [where v = "\<lambda>a t old. case old of
        None \<Rightarrow> newUser (toHex a) a t t | Some u \<Rightarrow> u\<lparr>u_lastActiveAt := t\<rparr>"])
    (simp_all add: createOrUpdateUser_def Let_def fresh_user_def same_counts_def)

declare control_users.ensure_fields [simp]

lemma users_step_createOrUpdateUser [users_steps]:
  "users_step s t \<Longrightarrow> users_step s (createOrUpdateUser a n t)"
  using control_users.ensure_keyed users_step_trans by blast

lemma users_step_countUserOrganization [users_steps]:
  "users_step s t \<Longrightarrow> users_step s (countUserOrganization c t)"
  by (auto simp: countUserOrganization_def user_le_def intro: users_step_User_save split: option.splits)

lemma countUserOrganization_frame [simp]:
  "organizations (countUserOrganization c s) = organizations s"
  "treasuries (countUserOrganization c s) = treasuries s"
  "treasuryTemplates (countUserOrganization c s) = treasuryTemplates s"
  "globalStatsStore (countUserOrganization c s) = globalStatsStore s"
  "transactions (countUserOrganization c s) = transactions s"
  by (simp_all add: countUserOrganization_def User_save_def split: option.splits)

lemma countOrganization_frame [simp]:
  "users (countOrganization z n s) = users s"
  "organizations (countOrganization z n s) = organizations s"
  "treasuries (countOrganization z n s) = treasuries s"
  "treasuryTemplates (countOrganization z n s) = treasuryTemplates s"
  "transactions (countOrganization z n s) = transactions s"
  by (simp_all add: countOrganization_def GlobalStats_save_def Let_def)

lemma users_step_countOrganization [users_steps]:
  "users_step s t \<Longrightarrow> users_step s (countOrganization z n t)"
  by (rule users_step_frame) simp_all

section \<open>Steps on users\<close>

lemma handleOrganizationCreated_users:
  "handleOrganizationCreated H ev i n c tr t s = Inr s' \<Longrightarrow> users_step s s'"
  by (auto simp: handleOrganizationCreated_def Let_def bind_halt_Inr_iff Organization_save_cases
      intro!: users_steps)

lemma handleOrganizationStateChanged_users:
  "handleOrganizationStateChanged H ev i old new t s = Inr s' \<Longrightarrow> users_step s s'"
  by (auto simp: handleOrganizationStateChanged_def Let_def getOrganizationIdString_eq
      split: option.splits if_splits intro!: users_steps)

lemma handleStakeWithdrawn_users:
  "handleStakeWithdrawn H ev i st am t s = Inr s' \<Longrightarrow> users_step s s'"
  by (auto simp: handleStakeWithdrawn_def Let_def getOrganizationIdString_eq user_le_def
      split: option.splits if_splits intro!: users_steps)

section \<open>Creating an organization\<close>

lemma countUserOrganization_created:
  assumes "users_ok s"
  shows "\<exists>v. users (countUserOrganization c (createOrUpdateUser c t s)) (toHex c) = Some v \<and> u_address v = c
     \<and> u_totalOrganizations v =
         contribution_of u_totalOrganizations (users s (toHex c)) + 1"
proof -
  obtain v where v: "users (createOrUpdateUser c t s) = (users s)(toHex c \<mapsto> v)"
      and obt: "user_obtained c (users s (toHex c)) v"
    using control_users.ensure_users [OF assms] by blast
  have "u_id v = toHex c" "u_address v = c" using user_obtainedD [OF assms obt] by auto
  moreover have "u_totalOrganizations v = contribution_of u_totalOrganizations (users s (toHex c))"
    using obt by (auto simp: user_obtained_def fresh_user_def same_counts_def split: option.splits)
  ultimately show ?thesis using v by (simp add: countUserOrganization_def User_save_def)
qed

lemma countOrganization_stats:
  assumes "stats_keyed s"
  shows "\<exists>g. global_stats (countOrganization z n s) = Some g \<and> gs_id g = ''global''
     \<and> gs_totalOrganizations g = contribution_of gs_totalOrganizations (global_stats s) + 1
     \<and> gs_activeOrganizations g = contribution_of gs_activeOrganizations (global_stats s) + 1"
  using assms by (auto simp: countOrganization_def GlobalStats_save_def stats_keyed_def Let_def split: option.splits)

text \<open>
  \<open>handleOrganizationCreated\<close>, when the contract answers the read-back call: it does not
  halt; the organization is stored under its id with the contract's data and linked to the new
  treasury entity, which points back to it; the treasury's data source is instantiated; the
  creator's organization count and the two global counters go up by one.
\<close>

theorem organization_created_from_chain:
  assumes "length orgId = 8" and "try_getOrganization H (ev_block ev) (ev_address ev) orgId = Some org"
    and "users_ok s" and "stats_keyed s"
  shows "\<exists>s' o' tr u g. handleOrganizationCreated H ev orgId name creator treasury timestamp s = Inr s'
     \<and> organizations s' = (organizations s)(map fromCharCode orgId \<mapsto> o')
     \<and> org_name o' = od_name org \<and> org_prime o' = Some (od_prime org) \<and> org_creator o' = toHex creator
     \<and> org_memberCount o' = od_memberCount org \<and> org_state o' = mapOrgState (od_state org)
     \<and> org_treasury o' = Some (toHex treasury) \<and> org_transaction o' = toHex (ev_txHash ev)
     \<and> treasuries s' (toHex treasury) = Some tr \<and> tr_organization tr = map fromCharCode orgId
     \<and> treasuryTemplates s' = treasuryTemplates s @ [treasury]
     \<and> users s' (toHex creator) = Some u
     \<and> u_totalOrganizations u = contribution_of u_totalOrganizations (users s (toHex creator)) + 1
     \<and> global_stats s' = Some g
     \<and> gs_totalOrganizations g = contribution_of gs_totalOrganizations (global_stats s) + 1
     \<and> gs_activeOrganizations g = contribution_of gs_activeOrganizations (global_stats s) + 1"
proof -
  let ?k = "map fromCharCode orgId"
  let ?o = "(organizationFromChain ?k creator org)\<lparr>org_treasury := Some (toHex treasury),
      org_blockNumber := ev_number ev, org_transaction := toHex (ev_txHash ev)\<rparr>"
  let ?s1 = "TreasuryTemplate_create treasury (Organization_put ?o (Treasury_save
      (newTreasury H ?k treasury timestamp) (updateIndexingStatus H (ev_block ev) ''OrganizationCreated'' s)))"
  let ?s2 = "countUserOrganization creator (createOrUpdateUser creator timestamp ?s1)"
  let ?s3 = "Transaction_save (newTransaction ev 0) ?s2"
  let ?s' = "countOrganization (bd_fromString H ''0'') (ev_timestamp ev) ?s3"
  have eq: "handleOrganizationCreated H ev orgId name creator treasury timestamp s = Inr ?s'"
    using assms(1,2)
    by (simp add: handleOrganizationCreated_def getOrganizationIdString_bytes8 Let_def
        Organization_save_def organizationFromChain_def)
  have s1: "users ?s1 = users s" "globalStatsStore ?s1 = globalStatsStore s" by (simp_all add: entity_defs)
  have ok: "users_ok ?s1" using assms(3) s1(1) by (simp add: users_ok_def)
  obtain u where u: "users ?s2 (toHex creator) = Some u"
      "u_totalOrganizations u = contribution_of u_totalOrganizations (users s (toHex creator)) + 1"
    using countUserOrganization_created [OF ok, of creator timestamp] s1(1) by auto
  have g3: "globalStatsStore ?s3 = globalStatsStore s" by (simp add: entity_defs)
  then have "stats_keyed ?s3" using assms(4) by (simp add: stats_keyed_def)
  then obtain g where "global_stats ?s' = Some g"
      "gs_totalOrganizations g = contribution_of gs_totalOrganizations (global_stats s) + 1"
      "gs_activeOrganizations g = contribution_of gs_activeOrganizations (global_stats s) + 1"
    using countOrganization_stats [of ?s3] g3 by auto
  moreover have "users ?s' (toHex creator) = Some u" using u(1) by (simp add: Transaction_save_def)
  ultimately show ?thesis using eq u(2)
    by (intro exI [of _ ?s'] exI [of _ ?o] exI [of _ "newTreasury H ?k treasury timestamp"]
        exI [of _ u] exI [of _ g]) (simp add: entity_defs organizationFromChain_def newTreasury_def)
qed

theorem organization_created_from_chain_witness:
  "\<exists>s' o'. handleOrganizationCreated (int_host (\<lambda>_. Some example_org_data)) example_event example_org_id
       ''Guild'' [1] [6] 1000 empty_store = Inr s'
     \<and> organizations s' (map fromCharCode example_org_id) = Some o'
     \<and> org_name o' = ''Guild'' \<and> org_state o' = ''ACTIVE'' \<and> treasuryTemplates s' = [[6]]"
proof -
  let ?H = "int_host (\<lambda>_. Some example_org_data)"
  have c: "try_getOrganization ?H (ev_block example_event) (ev_address example_event) example_org_id =
      Some example_org_data" by simp
  from organization_created_from_chain [OF length_example_org_id c users_ok_empty stats_keyed_empty,
      of "''Guild''" "[1]" "[6]" 1000]
  obtain s' o' where "handleOrganizationCreated ?H example_event example_org_id ''Guild'' [1] [6] 1000 empty_store = Inr s'"
    and "organizations s' = (organizations (empty_store :: int store))(map fromCharCode example_org_id \<mapsto> o')"
    and "org_name o' = od_name example_org_data" and "org_state o' = mapOrgState (od_state example_org_data)"
    and "treasuryTemplates s' = treasuryTemplates (empty_store :: int store) @ [[6]]"
    by blast
  then show ?thesis by (simp add: example_org_data_def mapOrgState_def)
qed

text \<open>
  \<open>handleOrganizationCreated\<close>, when the read-back call reverts: the handler halts on every
  store. The fallback branch announces safe defaults but leaves the required field \<open>prime\<close>
  unset, so the save is refused and indexing stops at this event.
\<close>

theorem organization_created_fallback_halts:
  assumes "try_getOrganization H (ev_block ev) (ev_address ev) orgId = None"
  shows "handleOrganizationCreated H ev orgId name creator treasury timestamp s =
     (if length orgId \<ge> 8 then Inl (MissingField ''Organization'' ''prime'') else Inl IndexOutOfRange)"
  using assms
  by (simp add: handleOrganizationCreated_def getOrganizationIdString_eq Organization_save_def
      organizationFromEvent_def Let_def)

theorem organization_created_fallback_halts_witness:
  "handleOrganizationCreated (int_host (\<lambda>_. None)) example_event example_org_id ''Guild'' [1] [6] 1000 empty_store
     = Inl (MissingField ''Organization'' ''prime'')"
  using organization_created_fallback_halts [of "int_host (\<lambda>_. None)" example_event example_org_id
      "''Guild''" "[1]" "[6]" 1000 empty_store] by simp

section \<open>Changing the state of an organization\<close>

definition is_active :: "string \<Rightarrow> int" where
  "is_active st = (if st = ''ACTIVE'' then 1 else 0)"

definition active_organizations :: "'d store \<Rightarrow> int" where
  "active_organizations s = msum (\<lambda>o'. is_active (org_state o')) (organizations s)"

lemma handleOrganizationStateChanged_found:
  assumes "organizations s (map fromCharCode orgId) = Some o'" and "length orgId = 8"
    and "global_stats s = Some g"
  shows "handleOrganizationStateChanged H ev orgId old new timestamp s =
     Inr (GlobalStats_save
       (g\<lparr>gs_activeOrganizations := gs_activeOrganizations g + (is_active (mapOrgState new) - is_active (org_state o')),
          gs_updatedAt := ev_timestamp ev\<rparr>)
       (Organization_put (o'\<lparr>org_state := mapOrgState new, org_updatedAt := timestamp,
          org_blockNumber := ev_number ev, org_transaction := toHex (ev_txHash ev)\<rparr>)
         (updateIndexingStatus H (ev_block ev) ''OrganizationStateChanged'' s)))"
proof -
  let ?t = "Organization_put (o'\<lparr>org_state := mapOrgState new, org_updatedAt := timestamp,
          org_blockNumber := ev_number ev, org_transaction := toHex (ev_txHash ev)\<rparr>)
         (updateIndexingStatus H (ev_block ev) ''OrganizationStateChanged'' s)"
  have "global_stats ?t = Some g" using assms(3) by (simp add: Organization_put_def)
  then show ?thesis using assms(1,2)
    by (simp add: handleOrganizationStateChanged_def getOrganizationIdString_bytes8 Let_def is_active_def)
qed

text \<open>
  \<open>handleOrganizationStateChanged\<close> moves the global counter of active organizations by
  exactly the change in the number of stored organizations whose state is ACTIVE, whatever the old
  and the new state are, and it writes the new state of the one organization it is about.
\<close>

theorem state_change_tracks_active:
  assumes "organizations_ok s" and "finite (dom (organizations s))" and "stats_keyed s"
    and "global_stats s = Some g"
    and "organizations s (map fromCharCode orgId) = Some o'" and "length orgId = 8"
  shows "\<exists>s' g' o''. handleOrganizationStateChanged H ev orgId old new timestamp s = Inr s'
     \<and> global_stats s' = Some g'
     \<and> gs_activeOrganizations g' - gs_activeOrganizations g = active_organizations s' - active_organizations s
     \<and> gs_totalOrganizations g' = gs_totalOrganizations g
     \<and> organizations s' = (organizations s)(map fromCharCode orgId \<mapsto> o'')
     \<and> org_state o'' = mapOrgState new \<and> org_memberCount o'' = org_memberCount o'"
proof -
  let ?o = "o'\<lparr>org_state := mapOrgState new, org_updatedAt := timestamp,
      org_blockNumber := ev_number ev, org_transaction := toHex (ev_txHash ev)\<rparr>"
  have o: "org_id o' = map fromCharCode orgId" using organizations_okD [OF assms(1,5)] by simp
  have g: "gs_id g = ''global''" using assms(3,4) by (rule stats_keyedD)
  let ?g = "g\<lparr>gs_activeOrganizations := gs_activeOrganizations g + (is_active (mapOrgState new) - is_active (org_state o')),
      gs_updatedAt := ev_timestamp ev\<rparr>"
  let ?s' = "GlobalStats_save ?g (Organization_put ?o (updateIndexingStatus H (ev_block ev) ''OrganizationStateChanged'' s))"
  have orgs: "organizations ?s' = (organizations s)(map fromCharCode orgId \<mapsto> ?o)"
    using o by (simp add: entity_defs)
  then have "active_organizations ?s' - active_organizations s =
      is_active (mapOrgState new) - is_active (org_state o')"
    using assms(2,5) by (simp add: active_organizations_def msum_update)
  moreover have "global_stats ?s' = Some ?g" using g by (simp add: entity_defs)
  ultimately show ?thesis
    using handleOrganizationStateChanged_found [OF assms(5,6,4)] orgs
    by (intro exI [of _ ?s'] exI [of _ ?g] exI [of _ ?o]) simp
qed

definition example_organization :: organization where
  "example_organization = organizationFromChain (map fromCharCode example_org_id) [1] example_org_data"

definition example_store :: "int store" where
  "example_store = Organization_put example_organization (GlobalStats_save (zeroGlobalStats 0 0) empty_store)"

lemma example_store_simps [simp]:
  "organizations example_store = [map fromCharCode example_org_id \<mapsto> example_organization]"
  "globalStatsStore example_store = [''global'' \<mapsto> zeroGlobalStats 0 0]"
  by (simp_all add: example_store_def example_organization_def organizationFromChain_def entity_defs)

lemma example_store_ok: "organizations_ok example_store" "stats_keyed example_store"
  by (simp_all add: organizations_ok_def stats_keyed_def example_organization_def
      organizationFromChain_typed) (simp add: organizationFromChain_def)

theorem state_change_tracks_active_witness:
  "\<exists>s' g'. handleOrganizationStateChanged (int_host (\<lambda>_. None)) example_event example_org_id 1 2 2000 example_store = Inr s'
     \<and> global_stats s' = Some g' \<and> gs_activeOrganizations g' = -1
     \<and> active_organizations s' - active_organizations example_store = -1"
proof -
  let ?H = "int_host (\<lambda>_. None)"
  have ho: "organizations example_store (map fromCharCode example_org_id) = Some example_organization" by simp
  have hg: "global_stats example_store = Some (zeroGlobalStats 0 0)" by simp
  have hf: "finite (dom (organizations example_store))" by simp
  from state_change_tracks_active [OF example_store_ok(1) hf example_store_ok(2) hg ho length_example_org_id,
      of ?H example_event 1 2 2000]
  obtain s' g' o'' where s': "handleOrganizationStateChanged ?H example_event example_org_id 1 2 2000 example_store = Inr s'"
    and g': "global_stats s' = Some g'"
    and d: "gs_activeOrganizations g' - gs_activeOrganizations (zeroGlobalStats 0 0 :: int globalStats) =
        active_organizations s' - active_organizations example_store"
    and orgs: "organizations s' = (organizations example_store)(map fromCharCode example_org_id \<mapsto> o'')"
    and st: "org_state o'' = mapOrgState 2"
    by blast
  have "active_organizations s' - active_organizations example_store = -1"
    using orgs st by (simp add: active_organizations_def msum_def is_active_def mapOrgState_def
        example_organization_def organizationFromChain_def example_org_data_def)
  with s' g' d show ?thesis by simp
qed

end
