(* ===== verification/Factory.thy ===== *)
theory Factory
  imports Control
begin

text \<open>
  \<open>packages/subgraph/src/factory.ts\<close>: organizations as the Factory contract announces them. This
  is the handler that fires for the contracts as they are: the Factory emits \<open>OrganizationCreated\<close>,
  the Control contract only declares an event of that name.

  \<open>handleFactoryOrganizationCreated\<close> creates the organization with one member, its treasury and
  the data source of the treasury, and counts the organization for the creator and globally. The
  lemmas give its full effect, which does not depend on the read-back call succeeding.
\<close>

definition CONTROL_ADDRESS :: bytes where
  "CONTROL_ADDRESS =
     [0x01, 0x65, 0x87, 0x8A, 0x59, 0x4c, 0xa2, 0x55, 0x33, 0x8a,
      0xdf, 0xa4, 0xd4, 0x84, 0x49, 0xf6, 0x92, 0x42, 0xEb, 0x8F]"

definition factoryOrganization ::
  "eth_event \<Rightarrow> string \<Rightarrow> string \<Rightarrow> string \<Rightarrow> bytes \<Rightarrow> bytes \<Rightarrow> int \<Rightarrow> organization" where
  "factoryOrganization ev organizationId name metadataURI creator treasury timestamp =
     \<lparr>org_id = organizationId, org_name = name, org_metadataURI = metadataURI,
      org_creator = toHex creator, org_prime = Some creator, org_treasury = None,
      org_treasuryAddress = treasury, org_orgType = ''INDIVIDUAL'', org_accessModel = ''OPEN'',
      org_feeModel = ''NONE'', org_memberLimit = 0, org_memberCount = 1,
      org_totalCampaigns = 0, org_totalProposals = 0, org_membershipFee = 0,
      org_gameStakeRequired = 0, org_state = ''ACTIVE'', org_createdAt = timestamp,
      org_updatedAt = timestamp, org_blockNumber = ev_number ev,
      org_transaction = toHex (ev_txHash ev)\<rparr>"

definition syncWithChain :: "org_data option \<Rightarrow> organization \<Rightarrow> organization" where
  "syncWithChain orgResult organization =
     (case orgResult of
        None \<Rightarrow> organization
      | Some org \<Rightarrow>
          (let organization = (if length (od_metadataURI org) > 0
                 then organization\<lparr>org_metadataURI := od_metadataURI org\<rparr> else organization)
           in if length (od_name org) > 0
              then organization\<lparr>org_name := od_name org\<rparr> else organization))"

definition countFactoryUser :: "bytes \<Rightarrow> int \<Rightarrow> 'd store \<Rightarrow> 'd store" where
  "countFactoryUser creator timestamp s =
     (let userId = toLowerCase (toHex creator);
          user = (case users s userId of
                    None \<Rightarrow> newUser userId creator timestamp timestamp
                  | Some user \<Rightarrow> user);
          user = user\<lparr>u_lastActiveAt := timestamp\<rparr>;
          user = user\<lparr>u_totalOrganizations := u_totalOrganizations user + 1\<rparr>
      in User_save user s)"

definition handleFactoryOrganizationCreated ::
  "'d host \<Rightarrow> eth_event \<Rightarrow> bytes \<Rightarrow> string \<Rightarrow> string \<Rightarrow> bytes \<Rightarrow> bytes \<Rightarrow> int \<Rightarrow> 'd store \<Rightarrow> halt + 'd store" where
  [handler_defs]: "handleFactoryOrganizationCreated H ev orgId name metadataURI creator treasury timestamp s =
     (let s = updateIndexingStatus H (ev_block ev) ''Factory.OrganizationCreated'' s
      in bind_halt (getOrganizationIdString orgId) (\<lambda>organizationId.
         let organization = factoryOrganization ev organizationId name metadataURI creator treasury timestamp;
             organization = syncWithChain
               (try_getOrganization H (ev_block ev) CONTROL_ADDRESS orgId) organization
         in bind_halt (Organization_save organization s) (\<lambda>s.
            let s = Treasury_save (newTreasury H organizationId treasury timestamp) s;
                organization = organization\<lparr>org_treasury := Some (toHex treasury)\<rparr>
            in bind_halt (Organization_save organization s) (\<lambda>s.
               let s = TreasuryTemplate_create treasury s;
                   s = countFactoryUser creator timestamp s;
                   s = Transaction_save (newTransaction ev 0) s
               in Inr (countOrganization (bd_fromBigInt H 0) (ev_timestamp ev) s)))))"

section \<open>Effect\<close>

lemma syncWithChain_simps [simp]:
  "org_id (syncWithChain d x) = org_id x" "org_prime (syncWithChain d x) = org_prime x"
  "org_memberCount (syncWithChain d x) = org_memberCount x" "org_state (syncWithChain d x) = org_state x"
  "org_creator (syncWithChain d x) = org_creator x"
  "organization_typed (syncWithChain d x) = organization_typed x"
  by (simp_all add: syncWithChain_def organization_typed_def Let_def split: option.splits)

lemma factoryOrganization_simps [simp]:
  "org_id (factoryOrganization ev k n m c tr t) = k"
  "org_prime (factoryOrganization ev k n m c tr t) = Some c"
  "org_memberCount (factoryOrganization ev k n m c tr t) = 1"
  "org_state (factoryOrganization ev k n m c tr t) = ''ACTIVE''"
  "org_creator (factoryOrganization ev k n m c tr t) = toHex c"
  by (simp_all add: factoryOrganization_def)

lemma factoryOrganization_typed [simp]: "organization_typed (factoryOrganization ev k n m c tr t)"
  by (simp add: organization_typed_def factoryOrganization_def OrganizationState_def AccessModel_def
      FeeModel_def OrgType_def)

lemma countFactoryUser_frame [simp]:
  "organizations (countFactoryUser c t s) = organizations s"
  "treasuries (countFactoryUser c t s) = treasuries s"
  "treasuryTemplates (countFactoryUser c t s) = treasuryTemplates s"
  "globalStatsStore (countFactoryUser c t s) = globalStatsStore s"
  by (simp_all add: countFactoryUser_def User_save_def Let_def)

lemma countFactoryUser_users:
  assumes "users_ok s"
  shows "\<exists>v. users (countFactoryUser c t s) = (users s)(toHex c \<mapsto> v) \<and> u_id v = toHex c \<and> u_address v = c
     \<and> u_totalOrganizations v = contribution_of u_totalOrganizations (users s (toHex c)) + 1
     \<and> (\<forall>u. users s (toHex c) = Some u \<longrightarrow> user_le u v)"
  using users_okD [OF assms, of c]
  by (cases "users s (toHex c)") (simp_all add: countFactoryUser_def User_save_def Let_def user_le_def)

lemma users_step_countFactoryUser [users_steps]:
  assumes "users_step s t"
  shows "users_step s (countFactoryUser c n t)"
proof (rule users_step_trans [OF assms])
  show "users_step t (countFactoryUser c n t)"
  proof (cases "users_ok t")
    case True
    then show ?thesis using countFactoryUser_users [OF True, of c n] by (auto intro: users_step_update)
  qed (simp add: users_step_def)
qed

lemma handleFactoryOrganizationCreated_eq:
  assumes "8 \<le> length orgId"
  shows "handleFactoryOrganizationCreated H ev orgId name metadataURI creator treasury timestamp s =
     (let o' = syncWithChain (try_getOrganization H (ev_block ev) CONTROL_ADDRESS orgId)
                 (factoryOrganization ev (org_key orgId) name metadataURI creator treasury timestamp);
          s = updateIndexingStatus H (ev_block ev) ''Factory.OrganizationCreated'' s;
          s = Organization_put (o'\<lparr>org_treasury := Some (toHex treasury)\<rparr>)
                (Treasury_save (newTreasury H (org_key orgId) treasury timestamp) (Organization_put o' s));
          s = countFactoryUser creator timestamp (TreasuryTemplate_create treasury s)
      in Inr (countOrganization (bd_fromBigInt H 0) (ev_timestamp ev)
                (Transaction_save (newTransaction ev 0) s)))"
  using assms
  by (simp add: handleFactoryOrganizationCreated_def getOrganizationIdString_eq Organization_save_def Let_def)

lemma handleFactoryOrganizationCreated_short:
  "\<not> 8 \<le> length orgId \<Longrightarrow>
     handleFactoryOrganizationCreated H ev orgId name metadataURI creator treasury timestamp s = Inl IndexOutOfRange"
  by (simp add: handleFactoryOrganizationCreated_def getOrganizationIdString_eq)

lemma handleFactoryOrganizationCreated_users:
  assumes "handleFactoryOrganizationCreated H ev i n m c tr t s = Inr s'"
  shows "users_step s s'"
proof (cases "8 \<le> length i")
  case True
  then have "s' = (let o' = syncWithChain (try_getOrganization H (ev_block ev) CONTROL_ADDRESS i)
                 (factoryOrganization ev (org_key i) n m c tr t);
          s = updateIndexingStatus H (ev_block ev) ''Factory.OrganizationCreated'' s;
          s = Organization_put (o'\<lparr>org_treasury := Some (toHex tr)\<rparr>)
                (Treasury_save (newTreasury H (org_key i) tr t) (Organization_put o' s));
          s = countFactoryUser c t (TreasuryTemplate_create tr s)
      in countOrganization (bd_fromBigInt H 0) (ev_timestamp ev) (Transaction_save (newTransaction ev 0) s))"
    using assms by (simp add: handleFactoryOrganizationCreated_eq Let_def)
  then show ?thesis by (simp only: Let_def) (intro users_steps users_step_refl)
next
  case False
  then show ?thesis using assms by (simp add: handleFactoryOrganizationCreated_short)
qed

lemma handleFactoryOrganizationCreated_orgs:
  "handleFactoryOrganizationCreated H ev orgId name metadataURI creator treasury timestamp s = Inr s' \<Longrightarrow>
     organizations s' = (organizations s)(org_key orgId \<mapsto>
       (syncWithChain (try_getOrganization H (ev_block ev) CONTROL_ADDRESS orgId)
         (factoryOrganization ev (org_key orgId) name metadataURI creator treasury timestamp))
       \<lparr>org_treasury := Some (toHex treasury)\<rparr>)"
  by (cases "8 \<le> length orgId")
    (auto simp: handleFactoryOrganizationCreated_eq handleFactoryOrganizationCreated_short Let_def entity_defs)

text \<open>
  \<open>handleFactoryOrganizationCreated\<close> never halts on a bytes8 id, whether or not the
  read-back call succeeds. It stores an active organization with one member, keyed by its id and
  linked to its new treasury, which points back; name and metadata come from the contract where
  it has them and from the event otherwise; creator count and global counters go up by one.
\<close>

theorem factory_organization_created:
  assumes "length orgId = 8" and "users_ok s" and "stats_keyed s"
  shows "\<exists>s' o' tr u g.
       handleFactoryOrganizationCreated H ev orgId name metadataURI creator treasury timestamp s = Inr s'
     \<and> organizations s' = (organizations s)(map fromCharCode orgId \<mapsto> o') \<and> organization_typed o'
     \<and> org_memberCount o' = 1 \<and> org_state o' = ''ACTIVE'' \<and> org_prime o' = Some creator
     \<and> org_name o' = (case try_getOrganization H (ev_block ev) CONTROL_ADDRESS orgId of
           Some d \<Rightarrow> if od_name d = '''' then name else od_name d | None \<Rightarrow> name)
     \<and> org_metadataURI o' = (case try_getOrganization H (ev_block ev) CONTROL_ADDRESS orgId of
           Some d \<Rightarrow> if od_metadataURI d = '''' then metadataURI else od_metadataURI d | None \<Rightarrow> metadataURI)
     \<and> org_treasury o' = Some (toHex treasury)
     \<and> treasuries s' = (treasuries s)(toHex treasury \<mapsto> tr) \<and> tr_organization tr = map fromCharCode orgId
     \<and> treasuryTemplates s' = treasuryTemplates s @ [treasury]
     \<and> users s' (toHex creator) = Some u
     \<and> u_totalOrganizations u = contribution_of u_totalOrganizations (users s (toHex creator)) + 1
     \<and> global_stats s' = Some g
     \<and> gs_totalOrganizations g = contribution_of gs_totalOrganizations (global_stats s) + 1"
proof -
  let ?k = "map fromCharCode orgId"
  let ?o = "syncWithChain (try_getOrganization H (ev_block ev) CONTROL_ADDRESS orgId)
      (factoryOrganization ev ?k name metadataURI creator treasury timestamp)"
  let ?tr = "newTreasury H ?k treasury timestamp"
  let ?s1 = "TreasuryTemplate_create treasury (Organization_put (?o\<lparr>org_treasury := Some (toHex treasury)\<rparr>)
      (Treasury_save ?tr (Organization_put ?o
        (updateIndexingStatus H (ev_block ev) ''Factory.OrganizationCreated'' s))))"
  let ?s3 = "Transaction_save (newTransaction ev 0) (countFactoryUser creator timestamp ?s1)"
  let ?s' = "countOrganization (bd_fromBigInt H 0) (ev_timestamp ev) ?s3"
  have eq: "handleFactoryOrganizationCreated H ev orgId name metadataURI creator treasury timestamp s = Inr ?s'"
    using assms(1) by (simp add: handleFactoryOrganizationCreated_eq Let_def)
  have s1: "users ?s1 = users s" by (simp add: entity_defs)
  then have "users_ok ?s1" using assms(2) by (simp add: users_ok_def)
  from countFactoryUser_users [OF this, of creator timestamp] s1 obtain u where
    u: "users ?s' (toHex creator) = Some u"
       "u_totalOrganizations u = contribution_of u_totalOrganizations (users s (toHex creator)) + 1"
    by (auto simp: Transaction_save_def)
  have g3: "globalStatsStore ?s3 = globalStatsStore s" by (simp add: entity_defs)
  then have "stats_keyed ?s3" using assms(3) by (simp add: stats_keyed_def)
  from countOrganization_stats [OF this] g3 obtain g where g: "global_stats ?s' = Some g"
      "gs_totalOrganizations g = contribution_of gs_totalOrganizations (global_stats s) + 1"
    by auto
  have n: "org_name ?o = (case try_getOrganization H (ev_block ev) CONTROL_ADDRESS orgId of
           Some d \<Rightarrow> if od_name d = '''' then name else od_name d | None \<Rightarrow> name)"
      "org_metadataURI ?o = (case try_getOrganization H (ev_block ev) CONTROL_ADDRESS orgId of
           Some d \<Rightarrow> if od_metadataURI d = '''' then metadataURI else od_metadataURI d | None \<Rightarrow> metadataURI)"
    by (simp_all add: syncWithChain_def factoryOrganization_def Let_def split: option.splits)
  show ?thesis using eq u g n
    by (intro exI [of _ ?s'] exI [of _ "?o\<lparr>org_treasury := Some (toHex treasury)\<rparr>"] exI [of _ ?tr]
        exI [of _ u] exI [of _ g]) (simp add: entity_defs newTreasury_def)
qed

theorem factory_organization_created_witness:
  "\<exists>s' o'. handleFactoryOrganizationCreated (int_host (\<lambda>_. None)) example_event example_org_id
       ''Guild'' ''ipfs'' [1] [6] 1000 empty_store = Inr s'
     \<and> organizations s' = [map fromCharCode example_org_id \<mapsto> o'] \<and> org_memberCount o' = 1"
proof -
  from factory_organization_created [OF length_example_org_id users_ok_empty stats_keyed_empty,
      of "int_host (\<lambda>_. None)" example_event "''Guild''" "''ipfs''" "[1]" "[6]" 1000]
  obtain s' o' where "handleFactoryOrganizationCreated (int_host (\<lambda>_. None)) example_event example_org_id
       ''Guild'' ''ipfs'' [1] [6] 1000 empty_store = Inr s'"
    and "organizations s' = (organizations (empty_store :: int store))(map fromCharCode example_org_id \<mapsto> o')"
    and "org_memberCount o' = 1" by blast
  then show ?thesis by auto
qed

end
