(* ===== verification/Membership.thy ===== *)
theory Membership
  imports Control
begin

text \<open>
  \<open>packages/subgraph/src/membership.ts\<close>: members, their states and voting delegations.

  \<open>membership_step\<close> dispatches the events of the Membership contract to the handlers, as the
  manifest \<open>subgraph.yaml\<close> does. \<open>roster_step\<close> is the abstract specification: the contract
  keeps a set of (organization, member) pairs, adds only pairs it does not hold and removes only
  pairs it holds. The handlers refine it: along every sequence of events of this contract, the
  member count of each organization entity is the number of its members in the set. The relation
  has a parameter for the organizations that the factory created, which \<open>Subgraph\<close> needs for runs
  of all data sources.
\<close>

section \<open>Handlers\<close>

definition getTierName :: "int \<Rightarrow> string" where
  [enum_defs]: "getTierName tier =
     (if tier = 0 then ''BRONZE'' else if tier = 1 then ''SILVER''
      else if tier = 2 then ''GOLD'' else if tier = 3 then ''PLATINUM'' else ''BRONZE'')"

definition memberId :: "bytes \<Rightarrow> bytes \<Rightarrow> string" where
  "memberId organizationId member = toHex organizationId @ ''-'' @ toHex member"

definition memberTier :: "int \<Rightarrow> string" where
  [enum_defs]: "memberTier tier =
     (if tier = 0 then ''BRONZE'' else if tier = 1 then ''SILVER''
      else if tier = 2 then ''GOLD'' else if tier = 3 then ''PLATINUM'' else ''BRONZE'')"

definition handleMemberAdded ::
  "eth_event \<Rightarrow> bytes \<Rightarrow> bytes \<Rightarrow> int \<Rightarrow> int \<Rightarrow> 'd store \<Rightarrow> halt + 'd store" where
  [handler_defs]: "handleMemberAdded ev organizationId memberAddress tier timestamp s =
     (let (user, s) = getOrCreateUser memberAddress s
      in bind_halt (getOrCreateOrganization organizationId s) (\<lambda>(org, s).
         let member = \<lparr>mem_id = memberId organizationId memberAddress, mem_organization = org_id org,
               mem_user = u_id user, mem_state = ''ACTIVE'', mem_tier = memberTier tier,
               mem_joinedAt = timestamp, mem_reputation = 0, mem_stake = 0,
               mem_blockNumber = ev_number ev, mem_transaction = toHex (ev_txHash ev)\<rparr>;
             s = Member_save member s;
             s = Organization_put (org\<lparr>org_memberCount := org_memberCount org + 1\<rparr>) s
         in Inr (Transaction_save (newTransaction ev (t_gasPrice (ev_transaction ev))) s)))"

definition handleMemberRemoved ::
  "eth_event \<Rightarrow> bytes \<Rightarrow> bytes \<Rightarrow> int \<Rightarrow> 'd store \<Rightarrow> halt + 'd store" where
  [handler_defs]: "handleMemberRemoved ev organizationId memberAddress timestamp s =
     bind_halt (getOrCreateOrganization organizationId s) (\<lambda>(org, s).
       case members s (memberId organizationId memberAddress) of
         None \<Rightarrow> Inr s
       | Some member \<Rightarrow>
           (let s = Member_save (member\<lparr>mem_state := ''INACTIVE'', mem_blockNumber := ev_number ev,
                      mem_transaction := toHex (ev_txHash ev)\<rparr>) s
            in Inr (Organization_put (org\<lparr>org_memberCount := org_memberCount org - 1\<rparr>) s)))"

definition memberStateName :: "int \<Rightarrow> string" where
  [enum_defs]: "memberStateName newState =
     (if newState = 0 then ''INACTIVE'' else if newState = 1 then ''ACTIVE''
      else if newState = 2 then ''PAUSED'' else ''BANNED'')"

definition handleMemberStateUpdated ::
  "eth_event \<Rightarrow> bytes \<Rightarrow> bytes \<Rightarrow> int \<Rightarrow> int \<Rightarrow> int \<Rightarrow> 'd store \<Rightarrow> 'd store" where
  [handler_defs]: "handleMemberStateUpdated ev organizationId memberAddress oldState newState timestamp s =
     (case members s (memberId organizationId memberAddress) of
        None \<Rightarrow> s
      | Some member \<Rightarrow>
          Member_save (member\<lparr>mem_state := memberStateName newState, mem_blockNumber := ev_number ev,
            mem_transaction := toHex (ev_txHash ev)\<rparr>) s)"

definition handleMemberTierUpdated ::
  "eth_event \<Rightarrow> bytes \<Rightarrow> bytes \<Rightarrow> int \<Rightarrow> int \<Rightarrow> int \<Rightarrow> 'd store \<Rightarrow> 'd store" where
  [handler_defs]: "handleMemberTierUpdated ev organizationId memberAddress oldTier newTier timestamp s =
     (case members s (memberId organizationId memberAddress) of
        None \<Rightarrow> s
      | Some member \<Rightarrow>
          Member_save (member\<lparr>mem_blockNumber := ev_number ev,
            mem_transaction := toHex (ev_txHash ev)\<rparr>) s)"

definition handleVotingPowerUpdated ::
  "eth_event \<Rightarrow> bytes \<Rightarrow> bytes \<Rightarrow> int \<Rightarrow> int \<Rightarrow> int \<Rightarrow> 'd store \<Rightarrow> 'd store" where
  [handler_defs]: "handleVotingPowerUpdated ev organizationId memberAddress oldPower newPower timestamp s =
     (case members s (memberId organizationId memberAddress) of
        None \<Rightarrow> s
      | Some member \<Rightarrow>
          Member_save (member\<lparr>mem_blockNumber := ev_number ev,
            mem_transaction := toHex (ev_txHash ev)\<rparr>) s)"

definition delegationId :: "bytes \<Rightarrow> bytes \<Rightarrow> bytes \<Rightarrow> int \<Rightarrow> string" where
  "delegationId organizationId delegator delegatee time =
     toHex organizationId @ ''-'' @ toHex delegator @ ''-'' @ toHex delegatee @ ''-'' @ show_int time"

definition handleVotingDelegated ::
  "eth_event \<Rightarrow> bytes \<Rightarrow> bytes \<Rightarrow> bytes \<Rightarrow> int \<Rightarrow> int \<Rightarrow> 'd store \<Rightarrow> halt + 'd store" where
  [handler_defs]: "handleVotingDelegated ev organizationId delegatorAddress delegateeAddress amount timestamp s =
     (let (delegatorUser, s) = getOrCreateUser delegatorAddress s;
          (delegateUser, s) = getOrCreateUser delegateeAddress s
      in bind_halt (getOrCreateOrganization organizationId s) (\<lambda>(org, s).
         case (members s (memberId organizationId delegatorAddress),
               members s (memberId organizationId delegateeAddress)) of
           (Some delegator, Some delegate) \<Rightarrow>
             Inr (VotingDelegation_save
               \<lparr>vd_id = delegationId organizationId delegatorAddress delegateeAddress (ev_timestamp ev),
                vd_organization = org_id org, vd_delegator = mem_id delegator,
                vd_delegatee = mem_id delegate, vd_amount = amount, vd_timestamp = timestamp,
                vd_active = True, vd_blockNumber = ev_number ev,
                vd_transaction = toHex (ev_txHash ev)\<rparr> s)
         | _ \<Rightarrow> Inr s))"

definition handleVotingUndelegated ::
  "eth_event \<Rightarrow> bytes \<Rightarrow> bytes \<Rightarrow> bytes \<Rightarrow> int \<Rightarrow> int \<Rightarrow> 'd store \<Rightarrow> 'd store" where
  [handler_defs]: "handleVotingUndelegated ev organizationId delegatorAddress delegateeAddress amount timestamp s =
     (case votingDelegations s (delegationId organizationId delegatorAddress delegateeAddress timestamp) of
        None \<Rightarrow> s
      | Some delegation \<Rightarrow>
          VotingDelegation_save (delegation\<lparr>vd_active := False, vd_blockNumber := ev_number ev,
            vd_transaction := toHex (ev_txHash ev)\<rparr>) s)"

datatype membership_event =
    MemberAdded eth_event bytes bytes int int
  | MemberRemoved eth_event bytes bytes int
  | MemberStateUpdated eth_event bytes bytes int int int
  | MemberTierUpdated eth_event bytes bytes int int int
  | VotingPowerUpdated eth_event bytes bytes int int int
  | VotingDelegated eth_event bytes bytes bytes int int
  | VotingUndelegated eth_event bytes bytes bytes int int

fun membership_step :: "membership_event \<Rightarrow> 'd store \<Rightarrow> halt + 'd store" where
  "membership_step (MemberAdded ev org m tier t) s = handleMemberAdded ev org m tier t s"
| "membership_step (MemberRemoved ev org m t) s = handleMemberRemoved ev org m t s"
| "membership_step (MemberStateUpdated ev org m a b t) s = Inr (handleMemberStateUpdated ev org m a b t s)"
| "membership_step (MemberTierUpdated ev org m a b t) s = Inr (handleMemberTierUpdated ev org m a b t s)"
| "membership_step (VotingPowerUpdated ev org m a b t) s = Inr (handleVotingPowerUpdated ev org m a b t s)"
| "membership_step (VotingDelegated ev org d e n t) s = handleVotingDelegated ev org d e n t s"
| "membership_step (VotingUndelegated ev org d e n t) s = Inr (handleVotingUndelegated ev org d e n t s)"

section \<open>Keys\<close>

lemma memberId_inject [simp]: "memberId a b = memberId c d \<longleftrightarrow> a = c \<and> b = d"
  by (simp add: memberId_def)

lemma delegationId_inject [simp]:
  "delegationId a b c t = delegationId a' b' c' t' \<longleftrightarrow> a = a' \<and> b = b' \<and> c = c' \<and> t = t'"
  by (simp add: delegationId_def)

definition MemberState :: "string set" where
  "MemberState = {''INACTIVE'', ''ACTIVE'', ''PAUSED'', ''BANNED''}"

definition MembershipTier :: "string set" where
  "MembershipTier = {''BRONZE'', ''SILVER'', ''GOLD'', ''PLATINUM''}"

text \<open>
  Every member entity stands under the id made of its organization and its user, carries enum
  values of the schema, and refers to a stored user and a stored organization.
\<close>

definition members_ok :: "'d store \<Rightarrow> bool" where
  "members_ok s \<longleftrightarrow> (\<forall>k e. members s k = Some e \<longrightarrow> mem_id e = k
     \<and> mem_state e \<in> MemberState \<and> mem_tier e \<in> MembershipTier
     \<and> users s (mem_user e) \<noteq> None \<and> organizations s (mem_organization e) \<noteq> None
     \<and> (\<exists>org m. k = memberId org m \<and> mem_user e = toHex m \<and> mem_organization e = org_key org))"

lemma members_okD: "members_ok s \<Longrightarrow> members s k = Some e \<Longrightarrow> mem_id e = k"
  by (simp add: members_ok_def)

section \<open>Steps on users\<close>

lemma getOrCreateUser_step: "getOrCreateUser a s = (u, t) \<Longrightarrow> users_step s t"
  using ids_users.ensure_keyed [of s a] by simp

lemma getOrCreateOrganization_frame:
  assumes "getOrCreateOrganization b s = Inr (org, t)"
  shows "users t = users s" "members t = members s" "votingDelegations t = votingDelegations s"
    "globalStatsStore t = globalStatsStore s"
  using assms by (auto simp: getOrCreateOrganization_eq Organization_put_def split: if_splits option.splits)

lemma users_step_getOrCreateOrganization:
  "getOrCreateOrganization b s = Inr (org, t) \<Longrightarrow> users_step s t"
  by (simp add: users_step_same getOrCreateOrganization_frame)

lemma handleMemberAdded_users: "handleMemberAdded ev org m tier t s = Inr s' \<Longrightarrow> users_step s s'"
  by (auto simp: handleMemberAdded_def Let_def split: prod.splits elim!: bind_halt_InrE
      intro!: users_steps elim: users_step_trans [OF getOrCreateUser_step users_step_getOrCreateOrganization])

lemma handleMemberRemoved_users: "handleMemberRemoved ev org m t s = Inr s' \<Longrightarrow> users_step s s'"
  by (auto simp: handleMemberRemoved_def Let_def elim!: bind_halt_InrE split: option.splits
      intro!: users_steps elim: users_step_getOrCreateOrganization)

lemma handleVotingDelegated_users: "handleVotingDelegated ev org d e n t s = Inr s' \<Longrightarrow> users_step s s'"
  by (auto simp: handleVotingDelegated_def Let_def elim!: bind_halt_InrE split: prod.splits option.splits
      intro!: users_steps elim: users_step_trans [OF users_step_trans [OF getOrCreateUser_step getOrCreateUser_step]
        users_step_getOrCreateOrganization])

lemma membership_step_users: "membership_step e s = Inr s' \<Longrightarrow> users_step s s'"
  by (cases e) (auto simp: handleMemberStateUpdated_def handleMemberTierUpdated_def
      handleVotingPowerUpdated_def handleVotingUndelegated_def split: option.splits
      intro!: users_steps dest: handleMemberAdded_users handleMemberRemoved_users handleVotingDelegated_users)

section \<open>The member count refines the contract's member set\<close>

fun event_org :: "membership_event \<Rightarrow> bytes" where
  "event_org (MemberAdded _ org _ _ _) = org"
| "event_org (MemberRemoved _ org _ _) = org"
| "event_org (MemberStateUpdated _ org _ _ _ _) = org"
| "event_org (MemberTierUpdated _ org _ _ _ _) = org"
| "event_org (VotingPowerUpdated _ org _ _ _ _) = org"
| "event_org (VotingDelegated _ org _ _ _ _) = org"
| "event_org (VotingUndelegated _ org _ _ _ _) = org"

fun roster_move :: "membership_event \<Rightarrow> (bytes \<times> bytes) set \<Rightarrow> unit + (bytes \<times> bytes) set" where
  "roster_move (MemberAdded _ org m _ _) A = (if (org, m) \<in> A then Inl () else Inr (insert (org, m) A))"
| "roster_move (MemberRemoved _ org m _) A = (if (org, m) \<in> A then Inr (A - {(org, m)}) else Inl ())"
| "roster_move _ A = Inr A"

definition roster_step :: "membership_event \<Rightarrow> (bytes \<times> bytes) set \<Rightarrow> unit + (bytes \<times> bytes) set" where
  "roster_step e A = (if length (event_org e) = 8 then roster_move e A else Inl ())"

definition member_count :: "'d store \<Rightarrow> bytes \<Rightarrow> int" where
  "member_count s org = contribution_of org_memberCount (organizations s (org_key org))"

definition orgs_keyed :: "'d store \<Rightarrow> bool" where
  "orgs_keyed s \<longleftrightarrow> (\<forall>k o'. organizations s k = Some o' \<longrightarrow> org_id o' = k)"

text \<open>
  The organizations in \<open>C\<close> have one count too many: those that the factory created, whose entity starts with one
  member.
\<close>

definition extra :: "bytes set \<Rightarrow> bytes \<Rightarrow> int" where
  "extra C org = (if org \<in> C then 1 else 0)"

definition membership_sim :: "bytes set \<Rightarrow> (bytes \<times> bytes) set \<Rightarrow> 'd store \<Rightarrow> bool" where
  "membership_sim C A s \<longleftrightarrow> finite A \<and> orgs_keyed s \<and> (\<forall>k e. members s k = Some e \<longrightarrow> mem_id e = k)
     \<and> (\<forall>(org, m) \<in> A. length org = 8 \<and> members s (memberId org m) \<noteq> None)
     \<and> (\<forall>org. length org = 8 \<longrightarrow> member_count s org = int (card {m. (org, m) \<in> A}) + extra C org)"

lemma getOrCreateOrganization_found:
  assumes "length b = 8" and "orgs_keyed s"
  shows "\<exists>o' t. getOrCreateOrganization b s = Inr (o', t) \<and> org_id o' = org_key b
     \<and> org_memberCount o' = member_count s b \<and> organizations t = (organizations s)(org_key b \<mapsto> o')"
  using assms
  by (auto simp: getOrCreateOrganization_eq member_count_def orgs_keyed_def Organization_put_def
      stubOrganization_def map_upd_triv split: option.splits)

lemma handleMemberAdded_effect:
  assumes "length org = 8" and "orgs_keyed s"
  shows "\<exists>s' o' e. handleMemberAdded ev org m tier t s = Inr s'
     \<and> organizations s' = (organizations s)(org_key org \<mapsto> o') \<and> org_id o' = org_key org
     \<and> org_memberCount o' = member_count s org + 1
     \<and> members s' = (members s)(memberId org m \<mapsto> e) \<and> mem_id e = memberId org m
     \<and> mem_state e = ''ACTIVE'' \<and> mem_tier e = memberTier tier"
proof -
  obtain u s1 where u: "getOrCreateUser m s = (u, s1)" by (cases "getOrCreateUser m s")
  have f: "organizations s1 = organizations s" "members s1 = members s"
    using ids_users.ensure_fields [of m s] u by simp_all
  have "orgs_keyed s1" using assms(2) f by (simp add: orgs_keyed_def)
  from getOrCreateOrganization_found [OF assms(1) this] obtain o' s2 where
    o': "getOrCreateOrganization org s1 = Inr (o', s2)" "org_id o' = org_key org"
      "org_memberCount o' = member_count s1 org" "organizations s2 = (organizations s1)(org_key org \<mapsto> o')"
    by blast
  have m2: "members s2 = members s1" using getOrCreateOrganization_frame [OF o'(1)] by simp
  show ?thesis using u o' f m2 by (simp add: handleMemberAdded_def entity_defs member_count_def)
qed

lemma handleMemberRemoved_effect:
  assumes "length org = 8" and "orgs_keyed s" and "members s (memberId org m) = Some e" and "mem_id e = memberId org m"
  shows "\<exists>s' o' e'. handleMemberRemoved ev org m t s = Inr s'
     \<and> organizations s' = (organizations s)(org_key org \<mapsto> o') \<and> org_id o' = org_key org
     \<and> org_memberCount o' = member_count s org - 1
     \<and> members s' = (members s)(memberId org m \<mapsto> e') \<and> mem_id e' = memberId org m \<and> mem_state e' = ''INACTIVE''"
proof -
  from getOrCreateOrganization_found [OF assms(1,2)] obtain o' s2 where
    o': "getOrCreateOrganization org s = Inr (o', s2)" "org_id o' = org_key org"
      "org_memberCount o' = member_count s org" "organizations s2 = (organizations s)(org_key org \<mapsto> o')"
    by blast
  have m2: "members s2 = members s" using getOrCreateOrganization_frame [OF o'(1)] by simp
  show ?thesis using o' m2 assms(3,4) by (simp add: handleMemberRemoved_def entity_defs)
qed

lemma membership_other_effect:
  assumes "orgs_keyed s" and "length (event_org e) = 8" and "roster_move e A = Inr A"
    and "\<forall>ev org m tr t. e \<noteq> MemberAdded ev org m tr t" and "\<forall>ev org m t. e \<noteq> MemberRemoved ev org m t"
    and keyed: "\<forall>k x. members s k = Some x \<longrightarrow> mem_id x = k"
  shows "\<exists>s'. membership_step e s = Inr s' \<and> orgs_keyed s'
     \<and> (\<forall>k x. members s' k = Some x \<longrightarrow> mem_id x = k) \<and> dom (members s') = dom (members s)
     \<and> (\<forall>org. member_count s' org = member_count s org)"
proof (cases e)
  case (VotingDelegated ev org d f n t)
  obtain u s1 where u: "getOrCreateUser d s = (u, s1)" by (cases "getOrCreateUser d s")
  obtain v s2 where v: "getOrCreateUser f s1 = (v, s2)" by (cases "getOrCreateUser f s1")
  have fr: "organizations s2 = organizations s" "members s2 = members s"
    using ids_users.ensure_fields [of d s] ids_users.ensure_fields [of f s1] u v by simp_all
  have "orgs_keyed s2" using assms(1) fr by (simp add: orgs_keyed_def)
  then obtain o' s3 where o': "getOrCreateOrganization org s2 = Inr (o', s3)" "org_id o' = org_key org"
      "org_memberCount o' = member_count s2 org" "organizations s3 = (organizations s2)(org_key org \<mapsto> o')"
    using getOrCreateOrganization_found [of org s2] assms(2) VotingDelegated by auto
  have m3: "members s3 = members s" using getOrCreateOrganization_frame [OF o'(1)] fr by simp
  have "\<exists>s'. membership_step e s = Inr s' \<and> organizations s' = organizations s3 \<and> members s' = members s3"
    using u v o'(1)
    by (simp add: VotingDelegated handleVotingDelegated_def VotingDelegation_save_def split: option.splits)
  then obtain s' where s': "membership_step e s = Inr s'" "organizations s' = organizations s3" "members s' = members s3"
    by blast
  have "member_count s' org' = member_count s org'" for org'
    using s'(2) o' fr by (auto simp: member_count_def)
  moreover have "orgs_keyed s'" using s'(2) o' fr assms(1) by (simp add: orgs_keyed_def)
  ultimately show ?thesis using s'(1,3) m3 keyed by auto
qed (use assms in \<open>auto simp: handleMemberStateUpdated_def handleMemberTierUpdated_def
      handleVotingPowerUpdated_def handleVotingUndelegated_def entity_defs orgs_keyed_def member_count_def
      split: option.splits\<close>)

lemma card_insert_member:
  "finite A \<Longrightarrow> (org, m) \<notin> A \<Longrightarrow> card {x. (org, x) \<in> insert (org, m) A} = Suc (card {x. (org, x) \<in> A})"
proof -
  assume "finite A" "(org, m) \<notin> A"
  have "finite {x. (org, x) \<in> A}"
    by (rule finite_subset [of _ "snd ` A"]) (use \<open>finite A\<close> in force)+
  moreover have "{x. (org, x) \<in> insert (org, m) A} = insert m {x. (org, x) \<in> A}" by auto
  ultimately show ?thesis using \<open>(org, m) \<notin> A\<close> by simp
qed

lemma card_remove_member:
  assumes "finite A" "(org, m) \<in> A"
  shows "int (card {x. (org, x) \<in> A - {(org, m)}}) = int (card {x. (org, x) \<in> A}) - 1"
proof -
  have "(org, m) \<notin> A - {(org, m)}" and "insert (org, m) (A - {(org, m)}) = A" using assms by auto
  then have "card {x. (org, x) \<in> A} = Suc (card {x. (org, x) \<in> A - {(org, m)}})"
    using card_insert_member [of "A - {(org, m)}" org m] assms(1) by simp
  then show ?thesis by simp
qed

lemma org_key_inject: "length a = 8 \<Longrightarrow> length b = 8 \<Longrightarrow> org_key a = org_key b \<longleftrightarrow> a = b"
  by simp

lemma membership_sim_set_count:
  assumes sim: "membership_sim C A s" and org: "length org = 8" and fin: "finite A'"
    and o': "organizations s' = (organizations s)(org_key org \<mapsto> o')" "org_id o' = org_key org"
    and count: "org_memberCount o' = int (card {m. (org, m) \<in> A'}) + extra C org"
    and other: "\<And>org' m. org' \<noteq> org \<Longrightarrow> (org', m) \<in> A' \<longleftrightarrow> (org', m) \<in> A"
    and e: "members s' = (members s)(memberId org m \<mapsto> e)" "mem_id e = memberId org m"
    and sub: "A' \<subseteq> insert (org, m) A"
  shows "membership_sim C A' s'"
proof -
  have "member_count s' org' = int (card {m. (org', m) \<in> A'}) + extra C org'" if "length org' = 8" for org'
  proof (cases "org' = org")
    case True
    then show ?thesis using o'(1) count by (simp add: member_count_def)
  next
    case False
    then have "member_count s' org' = member_count s org'"
      using o'(1) org_key_inject [OF that org] by (simp add: member_count_def)
    then show ?thesis using sim that False other by (simp add: membership_sim_def)
  qed
  moreover have "length org' = 8 \<and> members s' (memberId org' m') \<noteq> None" if "(org', m') \<in> A'" for org' m'
    using that sub sim org e(1) by (auto simp: membership_sim_def)
  moreover have "orgs_keyed s'" using sim o' by (simp add: membership_sim_def orgs_keyed_def)
  moreover have "\<forall>k x. members s' k = Some x \<longrightarrow> mem_id x = k" using sim e by (simp add: membership_sim_def)
  ultimately show ?thesis using fin by (auto simp: membership_sim_def)
qed

lemma membership_sim_added:
  assumes sim: "membership_sim C A s" and org: "length org = 8" and new: "(org, m) \<notin> A"
  shows "\<exists>s'. handleMemberAdded ev org m tier t s = Inr s' \<and> membership_sim C (insert (org, m) A) s'"
proof -
  from sim have keyed: "orgs_keyed s" and fin: "finite A"
    and cnt: "member_count s org = int (card {x. (org, x) \<in> A}) + extra C org"
    using org by (auto simp: membership_sim_def)
  from handleMemberAdded_effect [OF org keyed] obtain s' o' e where
    s': "handleMemberAdded ev org m tier t s = Inr s'"
    and o': "organizations s' = (organizations s)(org_key org \<mapsto> o')" "org_id o' = org_key org"
      "org_memberCount o' = member_count s org + 1"
    and e: "members s' = (members s)(memberId org m \<mapsto> e)" "mem_id e = memberId org m"
    by blast
  have "org_memberCount o' = int (card {x. (org, x) \<in> insert (org, m) A}) + extra C org"
    using o'(3) cnt card_insert_member [OF fin new] by simp
  from membership_sim_set_count [OF sim org _ o'(1,2) this _ e] fin s' show ?thesis by auto
qed

lemma membership_sim_removed:
  assumes sim: "membership_sim C A s" and org: "length org = 8" and old: "(org, m) \<in> A"
  shows "\<exists>s'. handleMemberRemoved ev org m t s = Inr s' \<and> membership_sim C (A - {(org, m)}) s'"
proof -
  from sim have keyed: "orgs_keyed s" and fin: "finite A"
    and cnt: "member_count s org = int (card {x. (org, x) \<in> A}) + extra C org"
    using org by (auto simp: membership_sim_def)
  from sim old obtain x where x: "members s (memberId org m) = Some x" "mem_id x = memberId org m"
    by (fastforce simp: membership_sim_def)
  from handleMemberRemoved_effect [OF org keyed x] obtain s' o' e where
    s': "handleMemberRemoved ev org m t s = Inr s'"
    and o': "organizations s' = (organizations s)(org_key org \<mapsto> o')" "org_id o' = org_key org"
      "org_memberCount o' = member_count s org - 1"
    and e: "members s' = (members s)(memberId org m \<mapsto> e)" "mem_id e = memberId org m"
    by blast
  have "org_memberCount o' = int (card {x. (org, x) \<in> A - {(org, m)}}) + extra C org"
    using o'(3) cnt card_remove_member [OF fin old] by simp
  from membership_sim_set_count [OF sim org _ o'(1,2) this _ e] fin s' show ?thesis by auto
qed

lemma membership_sim_other:
  assumes sim: "membership_sim C A s" and org: "length (event_org e) = 8" and "roster_move e A = Inr A"
    and "\<forall>ev org m tr t. e \<noteq> MemberAdded ev org m tr t" and "\<forall>ev org m t. e \<noteq> MemberRemoved ev org m t"
  shows "\<exists>s'. membership_step e s = Inr s' \<and> membership_sim C A s'"
proof -
  from membership_other_effect [OF _ org assms(3-5), of s] sim
  obtain s' where s': "membership_step e s = Inr s'" "orgs_keyed s'"
      "\<forall>k x. members s' k = Some x \<longrightarrow> mem_id x = k" "dom (members s') = dom (members s)"
      "\<forall>org. member_count s' org = member_count s org"
    by (auto simp: membership_sim_def)
  have "members s' k \<noteq> None \<longleftrightarrow> members s k \<noteq> None" for k using s'(4) by (metis domIff)
  with s' sim show ?thesis by (auto simp: membership_sim_def)
qed

interpretation member_registry: indexer_refinement roster_step membership_step "membership_sim C"
  for C
proof
  fix A A' :: "(bytes \<times> bytes) set" and s :: "'d store" and e
  assume sim: "membership_sim C A s" and st: "roster_step e A = Inr A'"
  from st have org: "length (event_org e) = 8" and mv: "roster_move e A = Inr A'"
    by (auto simp: roster_step_def split: if_splits)
  show "\<exists>s'. membership_step e s = Inr s' \<and> membership_sim C A' s'"
  proof (cases e)
    case (MemberAdded ev o' m tier t)
    then show ?thesis using membership_sim_added [OF sim, of o' m] org mv by (auto split: if_splits)
  next
    case (MemberRemoved ev o' m t)
    then show ?thesis using membership_sim_removed [OF sim, of o' m] org mv by (auto split: if_splits)
  qed (use membership_sim_other [OF sim org] mv in auto)
qed

lemma membership_sim_empty: "membership_sim {} {} empty_store"
  by (simp add: membership_sim_def orgs_keyed_def member_count_def extra_def)

text \<open>
  The Membership data source alone. Take any sequence of membership events that the contract can emit (ids of
  eight bytes; only new members are added, only present ones removed). The handlers process it without halting,
  and afterwards the member count of every organization entity is the number of its present members, each of
  which has a member entity. For the whole subgraph see \<open>Subgraph\<close>.
\<close>

theorem membership_events_count:
  assumes "run roster_step es {} = Inr A"
  shows "\<exists>s. run membership_step es empty_store = Inr s
     \<and> (\<forall>org. length org = 8 \<longrightarrow> member_count s org = int (card {m. (org, m) \<in> A}))
     \<and> (\<forall>org m. (org, m) \<in> A \<longrightarrow> members s (memberId org m) \<noteq> None)"
  using member_registry.run_refines [OF membership_sim_empty assms] by (auto simp: membership_sim_def extra_def)

section \<open>Delegations\<close>

text \<open>
  Undelegation misses the delegation unless both happened in the same second.
  \<open>handleVotingDelegated\<close> keys the delegation by the time of its block, and
  \<open>handleVotingUndelegated\<close> looks it up by the time of the undelegation. A delegation recorded at
  any other time stays in the store exactly as it was, marked active.
\<close>

theorem undelegation_misses_delegation:
  assumes "length org = 8"
    and "members s (memberId org d) = Some md" and "members s (memberId org e) = Some me"
    and keyed: "\<forall>k v. votingDelegations s k = Some v \<longrightarrow> vd_id v = k"
    and "t' \<noteq> ev_timestamp ev"
  shows "\<exists>s' v. handleVotingDelegated ev org d e n t s = Inr s'
     \<and> votingDelegations (handleVotingUndelegated ev' org d e n t' s') (delegationId org d e (ev_timestamp ev)) = Some v
     \<and> vd_active v \<and> vd_amount v = n \<and> vd_delegator v = mem_id md \<and> vd_delegatee v = mem_id me"
proof -
  obtain u s1 where u: "getOrCreateUser d s = (u, s1)" by (cases "getOrCreateUser d s")
  obtain v s2 where v: "getOrCreateUser e s1 = (v, s2)" by (cases "getOrCreateUser e s1")
  obtain o' s3 where o': "getOrCreateOrganization org s2 = Inr (o', s3)"
    using assms(1) by (cases "organizations s2 (org_key org)") (auto simp: getOrCreateOrganization_eq)
  have m: "members s3 = members s" and vd: "votingDelegations s3 = votingDelegations s"
    using ids_users.ensure_fields [of d s] ids_users.ensure_fields [of e s1] u v
      getOrCreateOrganization_frame [OF o'] by simp_all
  let ?s' = "VotingDelegation_save
      \<lparr>vd_id = delegationId org d e (ev_timestamp ev), vd_organization = org_id o', vd_delegator = mem_id md,
       vd_delegatee = mem_id me, vd_amount = n, vd_timestamp = t, vd_active = True,
       vd_blockNumber = ev_number ev, vd_transaction = toHex (ev_txHash ev)\<rparr> s3"
  have "handleVotingDelegated ev org d e n t s = Inr ?s'"
    using assms(2,3) u v o' m by (simp add: handleVotingDelegated_def)
  moreover have "vd_id w \<noteq> delegationId org d e (ev_timestamp ev)"
    if "votingDelegations s (delegationId org d e t') = Some w" for w
    using keyed that assms(5) by (metis delegationId_inject)
  ultimately show ?thesis using assms(5)
    by (intro exI [of _ ?s']) (auto simp: handleVotingUndelegated_def entity_defs vd split: option.splits)
qed

definition example_member :: "bytes \<Rightarrow> member" where
  "example_member a =
     \<lparr>mem_id = memberId example_org_id a, mem_organization = map fromCharCode example_org_id,
      mem_user = toHex a, mem_state = ''ACTIVE'', mem_tier = ''BRONZE'', mem_joinedAt = 0,
      mem_reputation = 0, mem_stake = 0, mem_blockNumber = 0, mem_transaction = ''tx''\<rparr>"

theorem undelegation_misses_delegation_witness:
  "\<exists>(s' :: int store) v. handleVotingDelegated example_event example_org_id [1] [2] 50 1000
       (Member_save (example_member [1]) (Member_save (example_member [2]) empty_store)) = Inr s'
     \<and> votingDelegations (handleVotingUndelegated example_event example_org_id [1] [2] 50 2000 s')
          (delegationId example_org_id [1] [2] 1000) = Some v \<and> vd_active v"
proof -
  let ?s = "Member_save (example_member [1]) (Member_save (example_member [2]) empty_store) :: int store"
  have h: "members ?s (memberId example_org_id [1]) = Some (example_member [1])"
    "members ?s (memberId example_org_id [2]) = Some (example_member [2])"
    "\<forall>k v. votingDelegations ?s k = Some v \<longrightarrow> vd_id v = k"
    by (simp_all add: entity_defs example_member_def)
  have t: "ev_timestamp example_event = 1000" by (simp add: example_event_def)
  then have ne: "2000 \<noteq> ev_timestamp example_event" by simp
  show ?thesis
    using undelegation_misses_delegation [OF length_example_org_id h ne, of 50 1000 example_event] t
    by auto
qed

end
