(* ===== verification/Flow.thy ===== *)
theory Flow
  imports Control
begin

text \<open>
  \<open>packages/subgraph/src/flow.ts\<close>: fundraising campaigns and contributions.

  \<open>flow_step\<close> dispatches the events of the Flow contract, and with them \<open>CampaignUpdated\<close>: the file has
  a handler for it that the manifest \<open>subgraph.yaml\<close> does not list, so the runs here include those of
  the deployed data source. The lemmas show the ledger of a campaign (what it has raised, event by
  event, and where finalization breaks the sum), the drift of the global counter of active campaigns, the effect of a contribution on campaign, statistics and
  user, and that the local copy of \<open>getOrCreateUser\<close> is the function of \<open>utils/ids.ts\<close>.
\<close>

section \<open>Helpers\<close>

definition getFlowTypeString :: "int \<Rightarrow> string" where
  [enum_defs]: "getFlowTypeString flowType =
     (if flowType = 0 then ''GRANT'' else if flowType = 1 then ''RAISE'' else if flowType = 2 then ''LEND''
      else if flowType = 3 then ''LOAN'' else if flowType = 4 then ''SHARE'' else if flowType = 5 then ''POOL''
      else ''RAISE'')"

definition getFlowStateString :: "int \<Rightarrow> string" where
  [enum_defs]: "getFlowStateString state =
     (if state = 0 then ''CREATED'' else if state = 1 then ''ACTIVE'' else if state = 2 then ''PAUSED''
      else if state = 3 then ''FINALIZED'' else if state = 4 then ''CANCELLED'' else ''CREATED'')"

definition flow_getOrCreateUser :: "bytes \<Rightarrow> 'd store \<Rightarrow> user \<times> 'd store" where
  "flow_getOrCreateUser address s =
     (let userId = toLowerCase (toHex address)
      in case users s userId of
           Some user \<Rightarrow> (user, s)
         | None \<Rightarrow> (let user = newUser userId address 0 0 in (user, User_save user s)))"

definition saveActiveUser :: "bytes \<Rightarrow> int \<Rightarrow> 'd store \<Rightarrow> 'd store" where
  "saveActiveUser address time s =
     (let (user, s) = flow_getOrCreateUser address s
      in User_save (user\<lparr>u_lastActiveAt := time\<rparr>) s)"

section \<open>Handlers\<close>

definition newCampaign ::
  "eth_event \<Rightarrow> bytes \<Rightarrow> string \<Rightarrow> bytes \<Rightarrow> string \<Rightarrow> int \<Rightarrow> int \<Rightarrow> int \<Rightarrow> int \<Rightarrow> int \<Rightarrow> campaign" where
  "newCampaign ev campaignId organization creator title flowType target startTime endTime timestamp =
     \<lparr>cam_id = toHex campaignId, cam_organization = organization, cam_creator = toHex creator,
      cam_title = title, cam_description = '''', cam_metadataURI = '''',
      cam_flowType = getFlowTypeString flowType, cam_state = ''CREATED'',
      cam_paymentToken = zeroAddress, cam_target = target, cam_min = 0, cam_max = 0,
      cam_raised = 0, cam_contributorCount = 0, cam_startTime = startTime, cam_endTime = endTime,
      cam_createdAt = timestamp, cam_updatedAt = timestamp, cam_blockNumber = ev_number ev,
      cam_transaction = toHex (ev_txHash ev)\<rparr>"

definition countCampaign :: "'d host \<Rightarrow> int \<Rightarrow> 'd store \<Rightarrow> 'd store" where
  "countCampaign H now s =
     (let stats = (case global_stats s of None \<Rightarrow> zeroGlobalStats (bd_fromString H ''0'') now | Some g \<Rightarrow> g)
      in GlobalStats_save (stats\<lparr>gs_totalCampaigns := gs_totalCampaigns stats + 1,
           gs_activeCampaigns := gs_activeCampaigns stats + 1, gs_updatedAt := now\<rparr>) s)"

definition handleCampaignCreated ::
  "'d host \<Rightarrow> eth_event \<Rightarrow> bytes \<Rightarrow> bytes \<Rightarrow> bytes \<Rightarrow> string \<Rightarrow> int \<Rightarrow> int \<Rightarrow> int \<Rightarrow> int \<Rightarrow> int \<Rightarrow>
     'd store \<Rightarrow> halt + 'd store" where
  [handler_defs]: "handleCampaignCreated H ev campaignId organizationId creator title flowType target
       startTime endTime timestamp s =
     (let s = updateIndexingStatus H (ev_block ev) ''CampaignCreated'' s
      in bind_halt (getOrganizationIdString organizationId) (\<lambda>org.
         let campaign = newCampaign ev campaignId org creator title flowType target startTime endTime timestamp;
             s = Campaign_save campaign s;
             s = saveActiveUser creator timestamp s;
             s = Transaction_save (newTransaction ev 0) s;
             s = countCampaign H (ev_timestamp ev) s
         in Inr (case organizations s (cam_organization campaign) of
                   None \<Rightarrow> s
                 | Some organization \<Rightarrow>
                     Organization_put (organization\<lparr>org_totalCampaigns := org_totalCampaigns organization + 1,
                       org_updatedAt := timestamp\<rparr>) s)))"

definition handleCampaignUpdated ::
  "'d host \<Rightarrow> eth_event \<Rightarrow> bytes \<Rightarrow> string \<Rightarrow> string \<Rightarrow> int \<Rightarrow> int \<Rightarrow> int \<Rightarrow> int \<Rightarrow> int \<Rightarrow> 'd store \<Rightarrow> 'd store" where
  [handler_defs]: "handleCampaignUpdated H ev campaignId title description target mn mx endTime timestamp s =
     (let s = updateIndexingStatus H (ev_block ev) ''CampaignUpdated'' s
      in case campaigns s (toHex campaignId) of
           None \<Rightarrow> s
         | Some campaign \<Rightarrow>
             Campaign_save (campaign\<lparr>cam_title := title, cam_description := description, cam_target := target,
               cam_min := mn, cam_max := mx, cam_endTime := endTime, cam_updatedAt := timestamp,
               cam_blockNumber := ev_number ev, cam_transaction := toHex (ev_txHash ev)\<rparr>) s)"

definition recountCampaign :: "string \<Rightarrow> string \<Rightarrow> 'd globalStats \<Rightarrow> 'd globalStats" where
  "recountCampaign oldState newState stats =
     (if oldState \<noteq> ''ACTIVE'' \<and> newState = ''ACTIVE''
      then stats\<lparr>gs_activeCampaigns := gs_activeCampaigns stats + 1\<rparr>
      else if oldState = ''ACTIVE'' \<and> newState \<noteq> ''ACTIVE''
      then stats\<lparr>gs_activeCampaigns := gs_activeCampaigns stats - 1\<rparr>
      else stats)"

definition handleCampaignStateChanged ::
  "'d host \<Rightarrow> eth_event \<Rightarrow> bytes \<Rightarrow> int \<Rightarrow> int \<Rightarrow> int \<Rightarrow> 'd store \<Rightarrow> 'd store" where
  [handler_defs]: "handleCampaignStateChanged H ev campaignId oldStateParam newState timestamp s =
     (let s = updateIndexingStatus H (ev_block ev) ''CampaignStateChanged'' s
      in case campaigns s (toHex campaignId) of
           None \<Rightarrow> s
         | Some campaign \<Rightarrow>
             (let oldState = cam_state campaign;
                  campaign = campaign\<lparr>cam_state := getFlowStateString newState, cam_updatedAt := timestamp,
                    cam_blockNumber := ev_number ev, cam_transaction := toHex (ev_txHash ev)\<rparr>;
                  s = Campaign_save campaign s
              in case global_stats s of
                   None \<Rightarrow> s
                 | Some stats \<Rightarrow>
                     GlobalStats_save ((recountCampaign oldState (cam_state campaign) stats)
                       \<lparr>gs_updatedAt := ev_timestamp ev\<rparr>) s))"

definition contributionId :: "bytes \<Rightarrow> bytes \<Rightarrow> bytes \<Rightarrow> string" where
  "contributionId campaignId contributor txHash =
     toHex campaignId @ ''-'' @ toHex contributor @ ''-'' @ toHex txHash"

definition handleContributionMade ::
  "'d host \<Rightarrow> eth_event \<Rightarrow> bytes \<Rightarrow> bytes \<Rightarrow> int \<Rightarrow> int \<Rightarrow> int \<Rightarrow> 'd store \<Rightarrow> 'd store" where
  [handler_defs]: "handleContributionMade H ev campaignId contributor amount totalRaised timestamp s =
     (let s = updateIndexingStatus H (ev_block ev) ''ContributionMade'' s;
          s = Contribution_save
                \<lparr>con_id = contributionId campaignId contributor (ev_txHash ev), con_campaign = toHex campaignId,
                 con_contributor = toHex contributor, con_amount = amount, con_timestamp = timestamp,
                 con_blockNumber = ev_number ev, con_transaction = toHex (ev_txHash ev)\<rparr> s;
          s = (case campaigns s (toHex campaignId) of
                 None \<Rightarrow> s
               | Some campaign \<Rightarrow>
                   (let s = Campaign_save (campaign\<lparr>cam_raised := cam_raised campaign + amount,
                              cam_contributorCount := cam_contributorCount campaign + 1,
                              cam_updatedAt := timestamp\<rparr>) s
                    in case global_stats s of
                         None \<Rightarrow> s
                       | Some stats \<Rightarrow>
                           GlobalStats_save (stats\<lparr>gs_totalRaised := bd_plus H (gs_totalRaised stats) (bd_fromBigInt H amount),
                             gs_updatedAt := ev_timestamp ev\<rparr>) s));
          (user, s) = flow_getOrCreateUser contributor s
      in User_save (user\<lparr>u_totalContributions := u_totalContributions user + 1, u_lastActiveAt := timestamp\<rparr>) s)"

definition handleCampaignFinalized ::
  "'d host \<Rightarrow> eth_event \<Rightarrow> bytes \<Rightarrow> int \<Rightarrow> int \<Rightarrow> int \<Rightarrow> int \<Rightarrow> 'd store \<Rightarrow> 'd store" where
  [handler_defs]: "handleCampaignFinalized H ev campaignId finalState totalRaised contributorCount timestamp s =
     (let s = updateIndexingStatus H (ev_block ev) ''CampaignFinalized'' s
      in case campaigns s (toHex campaignId) of
           None \<Rightarrow> s
         | Some campaign \<Rightarrow>
             (let s = Campaign_save (campaign\<lparr>cam_state := ''FINALIZED'', cam_raised := totalRaised,
                        cam_updatedAt := timestamp, cam_blockNumber := ev_number ev,
                        cam_transaction := toHex (ev_txHash ev)\<rparr>) s
              in case global_stats s of
                   None \<Rightarrow> s
                 | Some stats \<Rightarrow>
                     GlobalStats_save (stats\<lparr>gs_activeCampaigns := gs_activeCampaigns stats - 1,
                       gs_updatedAt := ev_timestamp ev\<rparr>) s))"

definition handleFlowRewardsDistributed ::
  "'d host \<Rightarrow> eth_event \<Rightarrow> bytes \<Rightarrow> bytes \<Rightarrow> int \<Rightarrow> int \<Rightarrow> int \<Rightarrow> 'd store \<Rightarrow> 'd store" where
  [handler_defs]: "handleFlowRewardsDistributed H ev campaignId token totalAmount contributorCount timestamp s =
     (let s = updateIndexingStatus H (ev_block ev) ''RewardsDistributed'' s
      in case campaigns s (toHex campaignId) of
           None \<Rightarrow> s
         | Some campaign \<Rightarrow>
             Campaign_save (campaign\<lparr>cam_updatedAt := timestamp, cam_blockNumber := ev_number ev,
               cam_transaction := toHex (ev_txHash ev)\<rparr>) s)"

definition refundId :: "bytes \<Rightarrow> bytes \<Rightarrow> bytes \<Rightarrow> string" where
  "refundId campaignId contributor txHash =
     toHex campaignId @ ''-'' @ toHex contributor @ ''-refund-'' @ toHex txHash"

definition handleContributionRefunded ::
  "'d host \<Rightarrow> eth_event \<Rightarrow> bytes \<Rightarrow> bytes \<Rightarrow> int \<Rightarrow> int \<Rightarrow> 'd store \<Rightarrow> 'd store" where
  [handler_defs]: "handleContributionRefunded H ev campaignId contributor amount timestamp s =
     (let s = updateIndexingStatus H (ev_block ev) ''ContributionRefunded'' s;
          s = Contribution_save
                \<lparr>con_id = refundId campaignId contributor (ev_txHash ev), con_campaign = toHex campaignId,
                 con_contributor = toHex contributor, con_amount = - amount, con_timestamp = timestamp,
                 con_blockNumber = ev_number ev, con_transaction = toHex (ev_txHash ev)\<rparr> s;
          s = (case campaigns s (toHex campaignId) of
                 None \<Rightarrow> s
               | Some campaign \<Rightarrow>
                   (let s = Campaign_save (campaign\<lparr>cam_raised := cam_raised campaign - amount,
                              cam_updatedAt := timestamp\<rparr>) s
                    in case global_stats s of
                         None \<Rightarrow> s
                       | Some stats \<Rightarrow>
                           GlobalStats_save (stats\<lparr>gs_totalRaised := bd_minus H (gs_totalRaised stats) (bd_fromBigInt H amount),
                             gs_updatedAt := ev_timestamp ev\<rparr>) s))
      in saveActiveUser contributor timestamp s)"

definition handleProtocolFeeCollected ::
  "'d host \<Rightarrow> eth_event \<Rightarrow> bytes \<Rightarrow> bytes \<Rightarrow> int \<Rightarrow> int \<Rightarrow> 'd store \<Rightarrow> 'd store" where
  [handler_defs]: "handleProtocolFeeCollected H ev campaignId token amount timestamp s =
     (let s = updateIndexingStatus H (ev_block ev) ''ProtocolFeeCollected'' s;
          s = (case campaigns s (toHex campaignId) of
                 None \<Rightarrow> s
               | Some campaign \<Rightarrow>
                   Campaign_save (campaign\<lparr>cam_updatedAt := timestamp, cam_blockNumber := ev_number ev,
                     cam_transaction := toHex (ev_txHash ev)\<rparr>) s)
      in case global_stats s of
           None \<Rightarrow> s
         | Some stats \<Rightarrow>
             GlobalStats_save (stats\<lparr>gs_totalTreasuryTransactions := gs_totalTreasuryTransactions stats + 1,
               gs_updatedAt := ev_timestamp ev\<rparr>) s)"

datatype flow_event =
    CampaignCreated eth_event bytes bytes bytes string int int int int int
  | CampaignUpdated eth_event bytes string string int int int int int
  | CampaignStateChanged eth_event bytes int int int
  | ContributionMade eth_event bytes bytes int int int
  | CampaignFinalized eth_event bytes int int int int
  | FlowRewardsDistributed eth_event bytes bytes int int int
  | ContributionRefunded eth_event bytes bytes int int
  | ProtocolFeeCollected eth_event bytes bytes int int

fun flow_step :: "'d host \<Rightarrow> flow_event \<Rightarrow> 'd store \<Rightarrow> halt + 'd store" where
  "flow_step H (CampaignCreated ev c org cr ti ft ta st en t) s = handleCampaignCreated H ev c org cr ti ft ta st en t s"
| "flow_step H (CampaignUpdated ev c ti d ta mn mx en t) s = Inr (handleCampaignUpdated H ev c ti d ta mn mx en t s)"
| "flow_step H (CampaignStateChanged ev c a b t) s = Inr (handleCampaignStateChanged H ev c a b t s)"
| "flow_step H (ContributionMade ev c u n tot t) s = Inr (handleContributionMade H ev c u n tot t s)"
| "flow_step H (CampaignFinalized ev c fs tot cc t) s = Inr (handleCampaignFinalized H ev c fs tot cc t s)"
| "flow_step H (FlowRewardsDistributed ev c tk n cc t) s = Inr (handleFlowRewardsDistributed H ev c tk n cc t s)"
| "flow_step H (ContributionRefunded ev c u n t) s = Inr (handleContributionRefunded H ev c u n t s)"
| "flow_step H (ProtocolFeeCollected ev c tk n t) s = Inr (handleProtocolFeeCollected H ev c tk n t s)"

section \<open>The user helper\<close>

text \<open>The copy in this file and the one of \<open>utils/ids.ts\<close> are the same function.\<close>

lemma flow_getOrCreateUser_eq: "flow_getOrCreateUser = getOrCreateUser"
  by (simp add: fun_eq_iff flow_getOrCreateUser_def getOrCreateUser_def Let_def)

lemma saveActiveUser_eq:
  "saveActiveUser a t s = User_save (case users s (toHex a) of
     None \<Rightarrow> newUser (toHex a) a 0 t | Some u \<Rightarrow> u\<lparr>u_lastActiveAt := t\<rparr>) s"
  by (simp add: saveActiveUser_def flow_getOrCreateUser_def Let_def User_save_def newUser_def
      split: option.splits)

interpretation flow_users: user_provider saveActiveUser
  by (rule user_providerI [where v = "\<lambda>a t old. case old of
        None \<Rightarrow> newUser (toHex a) a 0 t | Some u \<Rightarrow> u\<lparr>u_lastActiveAt := t\<rparr>"])
    (simp_all add: saveActiveUser_eq fresh_user_def same_counts_def)

declare flow_users.ensure_fields [simp]

lemma users_step_saveActiveUser [users_steps]:
  "users_step s t \<Longrightarrow> users_step s (saveActiveUser a n t)"
  using flow_users.ensure_keyed users_step_trans by blast

lemma users_step_countCampaign [users_steps]: "users_step s t \<Longrightarrow> users_step s (countCampaign H n t)"
  by (rule users_step_frame) (simp_all add: countCampaign_def GlobalStats_save_def Let_def)

lemma flow_step_users: "flow_step H e s = Inr s' \<Longrightarrow> users_step s s'"
  by (cases e)
    (auto simp: handleCampaignCreated_def handleCampaignUpdated_def handleCampaignStateChanged_def
      handleContributionMade_def handleCampaignFinalized_def handleFlowRewardsDistributed_def
      handleContributionRefunded_def handleProtocolFeeCollected_def Let_def getOrganizationIdString_eq
      flow_getOrCreateUser_eq user_le_def
      split: option.splits if_splits intro!: users_steps)

section \<open>The ledger of a campaign\<close>

definition campaigns_keyed :: "'d store \<Rightarrow> bool" where
  "campaigns_keyed s \<longleftrightarrow> (\<forall>k c. campaigns s k = Some c \<longrightarrow> cam_id c = k)"

lemma campaigns_keyedD: "campaigns_keyed s \<Longrightarrow> campaigns s k = Some c \<Longrightarrow> cam_id c = k"
  by (simp add: campaigns_keyed_def)

definition raised_of :: "bytes \<Rightarrow> 'd store \<Rightarrow> int" where
  "raised_of c s = contribution_of cam_raised (campaigns s (toHex c))"

fun posting :: "bytes \<Rightarrow> flow_event \<Rightarrow> int" where
  "posting c (ContributionMade _ c' _ amount _ _) = (if c' = c then amount else 0)"
| "posting c (ContributionRefunded _ c' _ amount _) = (if c' = c then - amount else 0)"
| "posting c _ = 0"

text \<open>
  What an event writes to the raised amount of its campaign: creation sets it to zero, finalization
  to the total the event carries, and every other event is a posting.
\<close>

fun campaign_entry :: "bytes \<Rightarrow> flow_event \<Rightarrow> int \<Rightarrow> int" where
  "campaign_entry c (CampaignCreated _ c' _ _ _ _ _ _ _ _) r = (if c' = c then 0 else r)"
| "campaign_entry c (CampaignFinalized _ c' _ totalRaised _ _) r = (if c' = c then totalRaised else r)"
| "campaign_entry c e r = r + posting c e"

text \<open>
  The campaign is not created again, and when it is finalized the event carries the running total
  \<open>r\<close>. That is what the creator's \<open>finalizeCampaign\<close> emits; a contribution that finalizes the campaign
  automatically emits the finalization first, with a total that already includes it.
\<close>

fun finalized_at_total :: "bytes \<Rightarrow> int \<Rightarrow> flow_event list \<Rightarrow> bool" where
  "finalized_at_total c r [] \<longleftrightarrow> True"
| "finalized_at_total c r (e # es) \<longleftrightarrow>
     (case e of
        CampaignCreated _ c' _ _ _ _ _ _ _ _ \<Rightarrow> c' \<noteq> c
      | CampaignFinalized _ c' _ totalRaised _ _ \<Rightarrow> c' = c \<longrightarrow> totalRaised = r
      | _ \<Rightarrow> True) \<and> finalized_at_total c (r + posting c e) es"

definition ledger_ok :: "bytes \<Rightarrow> 'd store \<Rightarrow> bool" where
  "ledger_ok c s \<longleftrightarrow> campaigns_keyed s \<and> campaigns s (toHex c) \<noteq> None"

lemma flow_step_campaigns:
  assumes "campaigns_keyed s" and "flow_step H e s = Inr s'"
  shows "campaigns_keyed s' \<and> (campaigns s (toHex c) \<noteq> None \<longrightarrow> campaigns s' (toHex c) \<noteq> None) \<and>
     (campaigns s (toHex c) \<noteq> None \<longrightarrow> raised_of c s' = campaign_entry c e (raised_of c s))"
  using assms campaigns_keyedD [OF assms(1)]
  by (cases e)
    (auto simp: handleCampaignCreated_def handleCampaignUpdated_def handleCampaignStateChanged_def
      handleContributionMade_def handleCampaignFinalized_def handleFlowRewardsDistributed_def
      handleContributionRefunded_def handleProtocolFeeCollected_def Let_def getOrganizationIdString_eq
      flow_getOrCreateUser_eq countCampaign_def newCampaign_def raised_of_def campaigns_keyed_def entity_defs
      split: option.splits if_splits)

lemma run_campaign_entries:
  "run (flow_step H) es s = Inr s' \<Longrightarrow> ledger_ok c s \<Longrightarrow>
     ledger_ok c s' \<and> raised_of c s' = fold (campaign_entry c) es (raised_of c s)"
proof (induction es arbitrary: s)
  case Nil
  then show ?case by simp
next
  case (Cons e es)
  from Cons.prems(1) obtain t where t: "flow_step H e s = Inr t" and r: "run (flow_step H) es t = Inr s'" by auto
  have "ledger_ok c t \<and> raised_of c t = campaign_entry c e (raised_of c s)"
    using flow_step_campaigns [OF _ t, of c] Cons.prems(2) by (simp add: ledger_ok_def)
  with Cons.IH [OF r] show ?case by simp
qed

lemma fold_entries_postings:
  "finalized_at_total c r es \<Longrightarrow> fold (campaign_entry c) es r = r + sum_list (map (posting c) es)"
proof (induction es arbitrary: r)
  case Nil
  then show ?case by simp
next
  case (Cons e es)
  have "campaign_entry c e r = r + posting c e" using Cons.prems by (cases e) auto
  then show ?case using Cons.IH [of "r + posting c e"] Cons.prems by simp
qed

text \<open>The parameters are as the contract's ABI types them: an organization id has eight bytes.\<close>

fun flow_wf :: "flow_event \<Rightarrow> bool" where
  "flow_wf (CampaignCreated _ _ org _ _ _ _ _ _ _) = (length org = 8)"
| "flow_wf _ = True"

lemma flow_step_total: "flow_wf e \<Longrightarrow> \<exists>s'. flow_step H e s = Inr s'"
  by (cases e) (simp_all add: handleCampaignCreated_def getOrganizationIdString_bytes8 Let_def)

lemma flow_run_total: "list_all flow_wf es \<Longrightarrow> \<exists>s'. run (flow_step H) es s = Inr s'"
  by (rule run_total) (simp add: flow_step_total list_all_iff)

lemma handleCampaignCreated_campaigns:
  assumes "handleCampaignCreated H ev c org cr ti ft ta st en t s = Inr s'"
  shows "campaigns s' = (campaigns s)(toHex c \<mapsto> newCampaign ev c (org_key org) cr ti ft ta st en t)"
  using assms
  by (auto simp: handleCampaignCreated_def getOrganizationIdString_eq Let_def countCampaign_def newCampaign_def
      entity_defs split: if_splits option.splits)

lemma created_campaign_ledger:
  assumes "campaigns_keyed s" and "length org = 8"
  shows "\<exists>s'. flow_step H (CampaignCreated ev c org cr ti ft ta st en t) s = Inr s' \<and> ledger_ok c s' \<and> raised_of c s' = 0"
proof -
  let ?e = "CampaignCreated ev c org cr ti ft ta st en t"
  obtain s' where s': "flow_step H ?e s = Inr s'" using flow_step_total [of ?e] assms(2) by auto
  have "campaigns_keyed s'" using flow_step_campaigns [OF assms(1) s'] by blast
  moreover have "campaigns s' (toHex c) = Some (newCampaign ev c (org_key org) cr ti ft ta st en t)"
    using s' handleCampaignCreated_campaigns by fastforce
  ultimately show ?thesis using s' by (simp add: ledger_ok_def raised_of_def newCampaign_def)
qed

text \<open>
  C7. The ledger of a campaign. After its creation event and any further well-formed events (of this
  and other campaigns, a second creation and finalizations included) the indexer has not halted and
  the raised amount stored with the campaign is what these events write in turn: zero at a creation,
  the carried total at a finalization, plus every contribution, minus every refund. So long as no
  event creates the campaign again and every finalization carries the sum of the postings up to then,
  this is the sum of all contributions minus all refunds, those after the finalization included. A
  campaign that a contribution finalizes automatically is not of this kind.
\<close>

theorem campaign_raised_is_ledger:
  assumes "campaigns_keyed s" and "length org = 8" and "list_all flow_wf es"
  shows "\<exists>s'. run (flow_step H) (CampaignCreated ev c org cr ti ft ta st en t # es) s = Inr s'
     \<and> campaigns s' (toHex c) \<noteq> None \<and> raised_of c s' = fold (campaign_entry c) es 0
     \<and> (finalized_at_total c 0 es \<longrightarrow> raised_of c s' = sum_list (map (posting c) es))"
proof -
  obtain s1 where s1: "flow_step H (CampaignCreated ev c org cr ti ft ta st en t) s = Inr s1"
    and ok: "ledger_ok c s1" "raised_of c s1 = 0" using created_campaign_ledger [OF assms(1,2)] by blast
  obtain s' where s': "run (flow_step H) es s1 = Inr s'" using flow_run_total [OF assms(3)] by blast
  from run_campaign_entries [OF s' ok(1)] show ?thesis
    using s1 s' ok(2) fold_entries_postings [of c 0 es] by (auto simp: ledger_ok_def)
qed

theorem campaign_raised_is_ledger_witness:
  "\<exists>s' :: int store. run (flow_step (int_host (\<lambda>_. None)))
      [CampaignCreated example_event [9] example_org_id [1] ''Raid'' 1 500 0 10 0,
       ContributionMade example_event [9] [2] 70 70 1, ContributionMade example_event [9] [3] 40 110 2,
       CampaignFinalized example_event [9] 4 110 2 3, ContributionRefunded example_event [9] [2] 70 4] empty_store = Inr s'
     \<and> raised_of [9] s' = 40"
proof -
  let ?es = "[ContributionMade example_event [9] [2] 70 70 1, ContributionMade example_event [9] [3] 40 110 2,
       CampaignFinalized example_event [9] 4 110 2 3, ContributionRefunded example_event [9] [2] 70 4]"
  have h: "campaigns_keyed (empty_store :: int store)" "list_all flow_wf ?es"
    by (simp_all add: campaigns_keyed_def)
  have "finalized_at_total [9] 0 ?es" by simp
  with campaign_raised_is_ledger [OF h(1) length_example_org_id h(2),
      of "int_host (\<lambda>_. None)" example_event "[9]" "[1]" "''Raid''" 1 500 0 10 0]
  show ?thesis by auto
qed

section \<open>Contribution records\<close>

lemma contributionId_inject [simp]: "contributionId a b c = contributionId a' b' c' \<longleftrightarrow> a = a' \<and> b = b' \<and> c = c'"
  by (simp add: contributionId_def)

lemma refundId_inject [simp]: "refundId a b c = refundId a' b' c' \<longleftrightarrow> a = a' \<and> b = b' \<and> c = c'"
  by (simp add: refundId_def)

lemma contributionId_not_refundId [simp]: "contributionId a b c \<noteq> refundId a' b' c'"
proof
  assume "contributionId a b c = refundId a' b' c'"
  then have "toHex c = ''refund-'' @ toHex c'" by (simp add: contributionId_def refundId_def)
  then have "CHR ''-'' \<in> set (toHex c)" by simp
  then show False by simp
qed

text \<open>The record an event leaves, if it leaves one.\<close>

fun posted :: "flow_event \<Rightarrow> contribution list" where
  "posted (ContributionMade ev c u n tot t) =
     [\<lparr>con_id = contributionId c u (ev_txHash ev), con_campaign = toHex c, con_contributor = toHex u,
       con_amount = n, con_timestamp = t, con_blockNumber = ev_number ev, con_transaction = toHex (ev_txHash ev)\<rparr>]"
| "posted (ContributionRefunded ev c u n t) =
     [\<lparr>con_id = refundId c u (ev_txHash ev), con_campaign = toHex c, con_contributor = toHex u,
       con_amount = - n, con_timestamp = t, con_blockNumber = ev_number ev, con_transaction = toHex (ev_txHash ev)\<rparr>]"
| "posted _ = []"

definition records_total :: "bytes \<Rightarrow> 'd store \<Rightarrow> int" where
  "records_total c s = msum (\<lambda>x. if con_campaign x = toHex c then con_amount x else 0) (contributions s)"

lemma flow_step_contributions:
  "flow_step H e s = Inr s' \<Longrightarrow> contributions s' = fold (\<lambda>x m. m(con_id x \<mapsto> x)) (posted e) (contributions s)"
  by (cases e)
    (auto simp: handleCampaignCreated_def handleCampaignUpdated_def handleCampaignStateChanged_def
      handleContributionMade_def handleCampaignFinalized_def handleFlowRewardsDistributed_def
      handleContributionRefunded_def handleProtocolFeeCollected_def Let_def getOrganizationIdString_eq
      flow_getOrCreateUser_eq countCampaign_def entity_defs
      split: option.splits if_splits)

lemma posted_posting:
  "sum_list (map (\<lambda>x. if con_campaign x = toHex c then con_amount x else 0) (posted e)) = posting c e"
  by (cases e) simp_all

lemma records_total_fold:
  assumes "finite (dom m)" and "distinct (map con_id xs)" and "\<forall>x\<in>set xs. m (con_id x) = None"
  shows "msum f (fold (\<lambda>x m. m(con_id x \<mapsto> x)) xs m) = msum f m + sum_list (map f xs)"
  using assms
proof (induction xs arbitrary: m)
  case Nil
  then show ?case by simp
next
  case (Cons x xs)
  have fin: "finite (dom (m(con_id x \<mapsto> x)))" using Cons.prems(1) by simp
  have fresh: "\<forall>y\<in>set xs. (m(con_id x \<mapsto> x)) (con_id y) = None"
    using Cons.prems(2,3) by (auto simp: image_iff)
  have dist: "distinct (map con_id xs)" using Cons.prems(2) by simp
  have "msum f (fold (\<lambda>x m. m(con_id x \<mapsto> x)) xs (m(con_id x \<mapsto> x))) =
      msum f (m(con_id x \<mapsto> x)) + sum_list (map f xs)"
    by (rule Cons.IH [OF fin dist fresh])
  also have "msum f (m(con_id x \<mapsto> x)) = msum f m + f x"
    by (rule msum_fresh) (use Cons.prems in auto)
  finally show ?case by simp
qed

lemma fold_posted_dom:
  "dom (fold (\<lambda>x m. m(con_id x \<mapsto> x)) xs m) = con_id ` set xs \<union> dom m"
  by (induction xs arbitrary: m) auto

lemma run_records_total:
  assumes "run (flow_step H) es s = Inr s'" and "finite (dom (contributions s))"
    and "distinct (map con_id (concat (map posted es)))"
    and "con_id ` set (concat (map posted es)) \<inter> dom (contributions s) = {}"
  shows "records_total c s' = records_total c s + sum_list (map (posting c) es)"
  using assms
proof (induction es arbitrary: s)
  case Nil
  then show ?case by simp
next
  case (Cons e es)
  from Cons.prems(1) obtain t where t: "flow_step H e s = Inr t" and r: "run (flow_step H) es t = Inr s'" by auto
  note step = flow_step_contributions [OF t]
  have "\<forall>x\<in>set (posted e). contributions s (con_id x) = None" using Cons.prems(4) by auto
  then have "records_total c t = records_total c s + posting c e"
    using Cons.prems(2,3) unfolding records_total_def step
    by (subst records_total_fold) (simp_all add: posted_posting)
  moreover have "finite (dom (contributions t))"
    using Cons.prems(2) by (simp add: step fold_posted_dom)
  moreover have "con_id ` set (concat (map posted es)) \<inter> dom (contributions t) = {}"
    using Cons.prems(3,4) unfolding step fold_posted_dom by (simp add: Int_Un_distrib Int_Un_distrib2) blast
  ultimately show ?case using Cons.IH [OF r] Cons.prems(3) by simp
qed

text \<open>
  C8. Campaign totals and contribution records agree. Take a run in which no two contributions (and
  no two refunds) of the same contributor to the same campaign share a transaction, the campaign is
  not created again, and a finalization of it carries its raised amount of that moment. Then the
  change of the campaign's raised amount is the change of the sum of its contribution records,
  refunds after the finalization included. The first condition is needed because a record is keyed by
  campaign, contributor and transaction only, so a second contribution in one transaction overwrites
  the first record while both are added to the total; the last because a finalization overwrites the
  total and leaves the records.
\<close>

theorem contribution_records_match:
  assumes "run (flow_step H) es s = Inr s'" and "finalized_at_total c (raised_of c s) es" and "ledger_ok c s"
    and "finite (dom (contributions s))" and "distinct (map con_id (concat (map posted es)))"
    and "con_id ` set (concat (map posted es)) \<inter> dom (contributions s) = {}"
  shows "raised_of c s' - raised_of c s = records_total c s' - records_total c s"
  using run_campaign_entries [OF assms(1,3)] fold_entries_postings [OF assms(2)]
    run_records_total [OF assms(1,4,5,6), of c] by simp

theorem contribution_records_match_witness:
  "\<exists>s' :: int store. run (flow_step (int_host (\<lambda>_. None)))
      [ContributionMade example_event [9] [2] 70 70 1, ContributionMade example_event [9] [3] 40 110 2,
       CampaignFinalized example_event [9] 4 110 2 3, ContributionRefunded example_event [9] [2] 70 4]
      (empty_store\<lparr>campaigns := [toHex [9] \<mapsto> newCampaign example_event [9] ''G'' [1] ''Raid'' 1 500 0 10 0]\<rparr>) = Inr s'
     \<and> raised_of [9] s' = records_total [9] s'"
proof -
  let ?s = "(empty_store :: int store)\<lparr>campaigns := [toHex [9] \<mapsto> newCampaign example_event [9] ''G'' [1] ''Raid'' 1 500 0 10 0]\<rparr>"
  let ?es = "[ContributionMade example_event [9] [2] 70 70 1, ContributionMade example_event [9] [3] 40 110 2,
       CampaignFinalized example_event [9] 4 110 2 3, ContributionRefunded example_event [9] [2] 70 4]"
  have z: "raised_of [9] ?s = 0" "records_total [9] ?s = 0"
    by (simp_all add: raised_of_def records_total_def newCampaign_def)
  have f: "finalized_at_total [9] (raised_of [9] ?s) ?es" unfolding z by simp
  have h: "ledger_ok [9] ?s" "finite (dom (contributions ?s))"
     "distinct (map con_id (concat (map posted ?es)))" "con_id ` set (concat (map posted ?es)) \<inter> dom (contributions ?s) = {}"
    by (simp_all add: ledger_ok_def campaigns_keyed_def newCampaign_def contributionId_not_refundId [symmetric])
  obtain s' where r: "run (flow_step (int_host (\<lambda>_. None))) ?es ?s = Inr s'"
    using flow_run_total [of ?es "int_host (\<lambda>_. None)" ?s] by auto
  with contribution_records_match [OF r f h] z show ?thesis by auto
qed



section \<open>The global counter of active campaigns\<close>

definition active_weight :: "campaign \<Rightarrow> int" where
  "active_weight c = (if cam_state c = ''ACTIVE'' then 1 else 0)"

definition active_campaigns :: "'d store \<Rightarrow> int" where
  "active_campaigns s = msum active_weight (campaigns s)"

definition active_counter :: "'d store \<Rightarrow> int" where
  "active_counter s = contribution_of gs_activeCampaigns (global_stats s)"

lemma recountCampaign_simps [simp]:
  "gs_id (recountCampaign a b g) = gs_id g"
  "gs_activeCampaigns (recountCampaign a b g) = gs_activeCampaigns g
     - (if a = ''ACTIVE'' then 1 else 0) + (if b = ''ACTIVE'' then 1 else 0)"
  by (simp_all add: recountCampaign_def)

lemma changed_campaign_counts:
  assumes "campaigns_keyed s" and "finite (dom (campaigns s))" and "campaigns s (toHex c) = Some x"
    and "global_stats s = Some g" and "gs_id g = ''global''"
  shows "active_counter (handleCampaignStateChanged H ev c old new t s) =
      active_counter s - active_weight x + (if getFlowStateString new = ''ACTIVE'' then 1 else 0)"
    and "active_campaigns (handleCampaignStateChanged H ev c old new t s) =
      active_campaigns s - active_weight x + (if getFlowStateString new = ''ACTIVE'' then 1 else 0)"
  using assms campaigns_keyedD [OF assms(1,3)]
  by (simp_all add: handleCampaignStateChanged_def Let_def active_counter_def active_campaigns_def active_weight_def
      entity_defs msum_update)

lemma changed_campaign_stats:
  assumes "campaigns s (toHex c) = Some x" and "global_stats s = Some g" and "gs_id g = ''global''"
  shows "map_option gs_id (global_stats (handleCampaignStateChanged H ev c old new t s)) = Some ''global''"
  using assms by (simp add: handleCampaignStateChanged_def Let_def entity_defs)

lemma changed_campaign:
  assumes "campaigns_keyed s" and "campaigns s (toHex c) = Some x"
  shows "\<exists>y. campaigns (handleCampaignStateChanged H ev c old new t s) = (campaigns s)(toHex c \<mapsto> y)
     \<and> cam_state y = getFlowStateString new \<and> cam_id y = toHex c"
  using assms(2) campaigns_keyedD [OF assms]
  by (simp add: handleCampaignStateChanged_def Let_def entity_defs split: option.splits)

lemma finalized_campaign_counts:
  assumes "campaigns_keyed s" and "finite (dom (campaigns s))" and "campaigns s (toHex c) = Some x"
    and "global_stats s = Some g" and "gs_id g = ''global''"
  shows "active_counter (handleCampaignFinalized H ev c fin tot cc t s) = active_counter s - 1"
    and "active_campaigns (handleCampaignFinalized H ev c fin tot cc t s) = active_campaigns s - active_weight x"
  using assms campaigns_keyedD [OF assms(1,3)]
  by (simp_all add: handleCampaignFinalized_def Let_def active_counter_def active_campaigns_def active_weight_def
      entity_defs msum_update)

lemma countCampaign_stats:
  "stats_keyed s \<Longrightarrow> global_stats (countCampaign H n s) = Some ((case global_stats s of
      None \<Rightarrow> zeroGlobalStats (bd_fromString H ''0'') n | Some g \<Rightarrow> g)
    \<lparr>gs_totalCampaigns := contribution_of gs_totalCampaigns (global_stats s) + 1,
     gs_activeCampaigns := active_counter s + 1, gs_updatedAt := n\<rparr>)"
  by (cases "global_stats s")
    (simp_all add: countCampaign_def Let_def GlobalStats_save_def stats_keyed_def active_counter_def)

lemma created_campaign_stats:
  assumes "handleCampaignCreated H ev c org cr ti ft ta st en t s = Inr s'"
  shows "globalStatsStore s' = globalStatsStore (countCampaign H (ev_timestamp ev) s)"
  using assms
  by (auto simp: handleCampaignCreated_def Let_def getOrganizationIdString_eq countCampaign_def entity_defs
      split: option.splits if_splits)

lemma created_campaign_counts:
  assumes "stats_keyed s" and "handleCampaignCreated H ev c org cr ti ft ta st en t s = Inr s'"
  shows "active_counter s' = active_counter s + 1" and "stats_keyed s'" and "global_stats s' \<noteq> None"
  using countCampaign_stats [OF assms(1), of H "ev_timestamp ev"] stats_keyedD [OF assms(1)]
  by (simp_all add: active_counter_def stats_keyed_def created_campaign_stats [OF assms(2)] split: option.splits)

text \<open>
  A state change keeps the global counter of active campaigns in step with the campaigns:
  whatever the two states are, the counter moves by exactly the change in the number of campaigns
  whose state is \<open>ACTIVE\<close>.
\<close>

theorem campaign_state_change_tracks_active:
  assumes "campaigns_keyed s" and "stats_keyed s" and "finite (dom (campaigns s))" and "global_stats s \<noteq> None"
  shows "active_counter (handleCampaignStateChanged H ev c old new t s) - active_counter s =
     active_campaigns (handleCampaignStateChanged H ev c old new t s) - active_campaigns s"
proof -
  obtain g where g: "global_stats s = Some g" "gs_id g = ''global''"
    using assms(2,4) by (auto simp: stats_keyed_def)
  show ?thesis
  proof (cases "campaigns s (toHex c)")
    case None
    then show ?thesis by (simp add: handleCampaignStateChanged_def active_counter_def active_campaigns_def)
  next
    case (Some x)
    show ?thesis by (simp add: changed_campaign_counts [OF assms(1,3) Some g])
  qed
qed

theorem campaign_state_change_tracks_active_witness:
  "active_counter (handleCampaignStateChanged (int_host (\<lambda>_. None)) example_event [9] 0 1 5
      ((empty_store :: int store)\<lparr>campaigns := [toHex [9] \<mapsto> newCampaign example_event [9] ''G'' [1] ''Raid'' 1 500 0 10 0],
         globalStatsStore := [''global'' \<mapsto> zeroGlobalStats 0 0]\<rparr>)) = 1"
proof -
  let ?s = "(empty_store :: int store)\<lparr>campaigns := [toHex [9] \<mapsto> newCampaign example_event [9] ''G'' [1] ''Raid'' 1 500 0 10 0],
         globalStatsStore := [''global'' \<mapsto> zeroGlobalStats 0 0]\<rparr>"
  have h: "campaigns_keyed ?s" "stats_keyed ?s" "finite (dom (campaigns ?s))" "global_stats ?s \<noteq> None"
    by (simp_all add: campaigns_keyed_def newCampaign_def stats_keyed_def)
  from campaign_state_change_tracks_active [OF h, of "int_host (\<lambda>_. None)" example_event "[9]" 0 1 5]
  show ?thesis
    by (simp add: active_counter_def active_campaigns_def msum_def newCampaign_def
        handleCampaignStateChanged_def Let_def entity_defs getFlowStateString_def)
qed

text \<open>
  Creation and finalization do not keep it: a campaign is counted as active when it is created
  (in state \<open>CREATED\<close>) and again when it is activated, and finalizing it takes back one of the two.
  So every campaign that runs through its normal life leaves the counter one too high for good,
  while the number of active campaigns is what it was.
\<close>

theorem campaign_life_leaves_counter_high:
  assumes "campaigns_keyed s" and "stats_keyed s" and "finite (dom (campaigns s))"
    and "campaigns s (toHex c) = None" and "length org = 8"
  shows "\<exists>s'. run (flow_step H) [CampaignCreated ev1 c org cr ti ft ta st en t1, CampaignStateChanged ev2 c 0 1 t2,
         CampaignFinalized ev3 c fin tot cc t3] s = Inr s'
     \<and> active_counter s' = active_counter s + 1 \<and> active_campaigns s' = active_campaigns s"
proof -
  let ?x = "newCampaign ev1 c (org_key org) cr ti ft ta st en t1"
  obtain s1 where s1: "handleCampaignCreated H ev1 c org cr ti ft ta st en t1 s = Inr s1"
    using flow_step_total [of "CampaignCreated ev1 c org cr ti ft ta st en t1" H s] assms(5) by auto
  let ?s2 = "handleCampaignStateChanged H ev2 c 0 1 t2 s1"
  let ?s3 = "handleCampaignFinalized H ev3 c fin tot cc t3 ?s2"
  note c1 = handleCampaignCreated_campaigns [OF s1] and n1 = created_campaign_counts [OF assms(2) s1]
  have x: "campaigns s1 (toHex c) = Some ?x" "active_weight ?x = 0"
    by (simp_all add: c1 active_weight_def newCampaign_def)
  have k1: "campaigns_keyed s1" using assms(1) by (simp add: campaigns_keyed_def c1 newCampaign_def)
  have f1: "finite (dom (campaigns s1))" using assms(3) by (simp add: c1)
  have a1: "active_campaigns s1 = active_campaigns s"
    using assms(3,4) x(2) by (simp add: active_campaigns_def c1 msum_fresh)
  obtain g1 where g1: "global_stats s1 = Some g1" "gs_id g1 = ''global''"
    using n1(2,3) by (auto simp: stats_keyed_def)
  note n2 = changed_campaign_counts [OF k1 f1 x(1) g1, of H ev2 0 1 t2]
  obtain y where y: "campaigns ?s2 = (campaigns s1)(toHex c \<mapsto> y)" "cam_state y = getFlowStateString 1" "cam_id y = toHex c"
    using changed_campaign [OF k1 x(1)] by blast
  obtain g2 where g2: "global_stats ?s2 = Some g2" "gs_id g2 = ''global''"
    using changed_campaign_stats [OF x(1) g1, of H ev2 0 1 t2] by (auto simp: map_option_eq_Some)
  have k2: "campaigns_keyed ?s2" using k1 y by (simp add: campaigns_keyed_def)
  have f2: "finite (dom (campaigns ?s2))" using f1 y by simp
  have y2: "campaigns ?s2 (toHex c) = Some y" "active_weight y = 1"
    using y by (simp_all add: active_weight_def getFlowStateString_def)
  note n3 = finalized_campaign_counts [OF k2 f2 y2(1) g2, of H ev3 fin tot cc t3]
  have "active_counter ?s3 = active_counter s + 1" "active_campaigns ?s3 = active_campaigns s"
    using n1(1) n2 n3 x(2) y2(2) a1 by (simp_all add: getFlowStateString_def)
  then show ?thesis by (simp add: s1)
qed

theorem campaign_life_leaves_counter_high_witness:
  "\<exists>s' :: int store. run (flow_step (int_host (\<lambda>_. None)))
      [CampaignCreated example_event [9] example_org_id [1] ''Raid'' 1 500 0 10 0, CampaignStateChanged example_event [9] 0 1 1,
         CampaignFinalized example_event [9] 3 0 0 2] empty_store = Inr s'
     \<and> active_counter s' = 1 \<and> active_campaigns s' = 0"
proof -
  have h: "campaigns_keyed (empty_store :: int store)" "stats_keyed (empty_store :: int store)"
      "finite (dom (campaigns (empty_store :: int store)))" "campaigns (empty_store :: int store) (toHex [9]) = None"
    by (simp_all add: campaigns_keyed_def)
  have "active_counter (empty_store :: int store) = 0" "active_campaigns (empty_store :: int store) = 0"
    by (simp_all add: active_counter_def active_campaigns_def)
  with campaign_life_leaves_counter_high [OF h length_example_org_id, of "int_host (\<lambda>_. None)" example_event "[1]" "''Raid''" 1 500 0 10 0
    example_event 1 example_event 3 0 0 2]
  show ?thesis by simp
qed

end
