(* ===== verification/Signal.thy ===== *)
theory Signal
  imports Ids
begin

text \<open>
  \<open>packages/subgraph/src/signal.ts\<close>: proposals, votes and delegations.

  \<open>signal_step\<close> dispatches the events of the Signal contract. The lemmas show how a vote reaches
  the tally of a proposal when the proposal is found, that the vote and proposal counters of users
  and of the global statistics count the events, and that under the ids the contract emits no
  proposal is ever found again: proposals stand under transaction hash and log index, the later
  events look them up under their hierarchical id.
\<close>

section \<open>Helpers\<close>

definition mapProposalType :: "int \<Rightarrow> string" where
  [enum_defs]: "mapProposalType proposalType =
     (if proposalType = 0 then ''SIMPLE'' else if proposalType = 1 then ''PARAMETRIC''
      else if proposalType = 2 then ''TREASURY'' else if proposalType = 3 then ''MEMBER''
      else if proposalType = 4 then ''CONSTITUTIONAL'' else ''SIMPLE'')"

definition mapVotingType :: "int \<Rightarrow> string" where
  [enum_defs]: "mapVotingType votingType =
     (if votingType = 0 then ''RELATIVE'' else if votingType = 1 then ''ABSOLUTE''
      else if votingType = 2 then ''SUPERMAJORITY'' else if votingType = 3 then ''UNANIMOUS''
      else ''RELATIVE'')"

definition mapVoteChoice :: "int \<Rightarrow> string" where
  [enum_defs]: "mapVoteChoice choice =
     (if choice = 0 then ''NONE'' else if choice = 1 then ''AGAINST'' else if choice = 2 then ''FOR''
      else if choice = 3 then ''ABSTAIN'' else ''NONE'')"

definition signal_getOrCreateUser :: "bytes \<Rightarrow> 'd store \<Rightarrow> user \<times> 'd store" where
  "signal_getOrCreateUser address s =
     (let userId = toLowerCase (toHex address)
      in case users s userId of
           Some user \<Rightarrow> (user, s)
         | None \<Rightarrow> (let user = newUser userId address 0 0 in (user, User_save user s)))"

section \<open>Handlers\<close>

definition proposalKey :: "eth_event \<Rightarrow> string" where
  "proposalKey ev = toHex (ev_txHash ev) @ ''-'' @ show_int (ev_logIndex ev)"

definition newProposal ::
  "eth_event \<Rightarrow> string \<Rightarrow> string \<Rightarrow> bytes \<Rightarrow> string \<Rightarrow> int \<Rightarrow> int \<Rightarrow> int \<Rightarrow> int \<Rightarrow> proposal" where
  "newProposal ev hierarchicalId organization creator title proposalType votingType startTime endTime =
     \<lparr>pro_id = proposalKey ev, pro_hierarchicalId = hierarchicalId, pro_organization = organization,
      pro_creator = toHex creator, pro_title = title, pro_description = '''', pro_metadataURI = '''',
      pro_proposalType = mapProposalType proposalType, pro_votingType = mapVotingType votingType,
      pro_votingPower = ''DEMOCRATIC'', pro_state = ''PENDING'', pro_startTime = startTime,
      pro_endTime = endTime, pro_executionTime = endTime, pro_forVotes = 0, pro_againstVotes = 0,
      pro_abstainVotes = 0, pro_totalVotes = 0, pro_quorumReached = False,
      pro_createdAt = ev_timestamp ev, pro_executedAt = 0, pro_executor = Some zeroAddress,
      pro_blockNumber = ev_number ev, pro_transaction = toHex (ev_txHash ev)\<rparr>"

definition countProposal :: "'d host \<Rightarrow> int \<Rightarrow> 'd store \<Rightarrow> 'd store" where
  "countProposal H now s =
     (let stats = (case global_stats s of None \<Rightarrow> zeroGlobalStats (bd_fromString H ''0'') now | Some g \<Rightarrow> g)
      in GlobalStats_save (stats\<lparr>gs_totalProposals := gs_totalProposals stats + 1,
           gs_activeProposals := gs_activeProposals stats + 1, gs_updatedAt := now\<rparr>) s)"

definition countUserProposal :: "bytes \<Rightarrow> int \<Rightarrow> 'd store \<Rightarrow> 'd store" where
  "countUserProposal address now s =
     (let (user, s) = signal_getOrCreateUser address s
      in User_save (user\<lparr>u_totalProposals := u_totalProposals user + 1, u_lastActiveAt := now\<rparr>) s)"

definition handleProposalCreated ::
  "'d host \<Rightarrow> eth_event \<Rightarrow> string \<Rightarrow> bytes \<Rightarrow> bytes \<Rightarrow> string \<Rightarrow> int \<Rightarrow> int \<Rightarrow> int \<Rightarrow> int \<Rightarrow>
     'd store \<Rightarrow> halt + 'd store" where
  [handler_defs]: "handleProposalCreated H ev hierarchicalId organizationId creator title proposalType votingType
       startTime endTime s =
     (let s = updateIndexingStatus H (ev_block ev) ''ProposalCreated'' s
      in bind_halt (getOrganizationIdString organizationId) (\<lambda>org.
         let proposal = newProposal ev hierarchicalId org creator title proposalType votingType startTime endTime;
             s = Proposal_save proposal s;
             s = countUserProposal creator (ev_timestamp ev) s;
             s = Transaction_save (newTransaction ev 0) s;
             s = countProposal H (ev_timestamp ev) s
         in Inr (case organizations s (pro_organization proposal) of
                   None \<Rightarrow> s
                 | Some organization \<Rightarrow>
                     Organization_put (organization\<lparr>org_totalProposals := org_totalProposals organization + 1,
                       org_updatedAt := ev_timestamp ev\<rparr>) s)))"

definition tallyVote :: "string \<Rightarrow> int \<Rightarrow> proposal \<Rightarrow> proposal" where
  "tallyVote choice votingPower p =
     (let p = (if choice = ''FOR'' then p\<lparr>pro_forVotes := pro_forVotes p + votingPower\<rparr>
               else if choice = ''AGAINST'' then p\<lparr>pro_againstVotes := pro_againstVotes p + votingPower\<rparr>
               else if choice = ''ABSTAIN'' then p\<lparr>pro_abstainVotes := pro_abstainVotes p + votingPower\<rparr>
               else p)
      in p\<lparr>pro_totalVotes := pro_totalVotes p + 1\<rparr>)"

definition countUserVote :: "bytes \<Rightarrow> int \<Rightarrow> 'd store \<Rightarrow> 'd store" where
  "countUserVote address now s =
     (let (user, s) = signal_getOrCreateUser address s
      in User_save (user\<lparr>u_totalVotes := u_totalVotes user + 1, u_lastActiveAt := now\<rparr>) s)"

definition countVote :: "int \<Rightarrow> 'd store \<Rightarrow> 'd store" where
  "countVote now s =
     (case global_stats s of
        None \<Rightarrow> s
      | Some stats \<Rightarrow>
          GlobalStats_save (stats\<lparr>gs_totalVotes := gs_totalVotes stats + 1, gs_updatedAt := now\<rparr>) s)"

definition handleVoteCast ::
  "'d host \<Rightarrow> eth_event \<Rightarrow> string \<Rightarrow> bytes \<Rightarrow> int \<Rightarrow> int \<Rightarrow> string \<Rightarrow> 'd store \<Rightarrow> 'd store" where
  [handler_defs]: "handleVoteCast H ev hierarchicalId voter choice votingPower reason s =
     (let s = updateIndexingStatus H (ev_block ev) ''VoteCast'' s;
          proposalId = hierarchicalId;
          vote = \<lparr>vo_id = proposalId @ ''-'' @ toHex voter, vo_proposal = proposalId, vo_voter = toHex voter,
             vo_choice = mapVoteChoice choice, vo_votingPower = votingPower, vo_timestamp = ev_timestamp ev,
             vo_reason = reason, vo_convictionTime = 0, vo_convictionMultiplier = 1,
             vo_blockNumber = ev_number ev, vo_transaction = toHex (ev_txHash ev)\<rparr>;
          s = Vote_save vote s;
          s = (case proposals s proposalId of
                 None \<Rightarrow> s
               | Some proposal \<Rightarrow> Proposal_save (tallyVote (vo_choice vote) votingPower proposal) s);
          s = countUserVote voter (ev_timestamp ev) s
      in countVote (ev_timestamp ev) s)"

definition closeProposal :: "int \<Rightarrow> 'd store \<Rightarrow> 'd store" where
  "closeProposal now s =
     (case global_stats s of
        None \<Rightarrow> s
      | Some stats \<Rightarrow>
          GlobalStats_save (stats\<lparr>gs_activeProposals := gs_activeProposals stats - 1, gs_updatedAt := now\<rparr>) s)"

definition handleProposalExecuted :: "'d host \<Rightarrow> eth_event \<Rightarrow> bytes \<Rightarrow> bytes \<Rightarrow> 'd store \<Rightarrow> 'd store" where
  [handler_defs]: "handleProposalExecuted H ev hierarchicalId executor s =
     (let s = updateIndexingStatus H (ev_block ev) ''ProposalExecuted'' s
      in case proposals s (toHex hierarchicalId) of
           None \<Rightarrow> s
         | Some proposal \<Rightarrow>
             closeProposal (ev_timestamp ev)
               (Proposal_save (proposal\<lparr>pro_state := ''EXECUTED'', pro_executedAt := ev_timestamp ev,
                  pro_executor := Some executor, pro_blockNumber := ev_number ev,
                  pro_transaction := toHex (ev_txHash ev)\<rparr>) s))"

definition handleProposalCanceled :: "'d host \<Rightarrow> eth_event \<Rightarrow> bytes \<Rightarrow> 'd store \<Rightarrow> 'd store" where
  [handler_defs]: "handleProposalCanceled H ev hierarchicalId s =
     (let s = updateIndexingStatus H (ev_block ev) ''ProposalCanceled'' s
      in case proposals s (toHex hierarchicalId) of
           None \<Rightarrow> s
         | Some proposal \<Rightarrow>
             closeProposal (ev_timestamp ev)
               (Proposal_save (proposal\<lparr>pro_state := ''CANCELED'', pro_blockNumber := ev_number ev,
                  pro_transaction := toHex (ev_txHash ev)\<rparr>) s))"

definition signalDelegationId :: "bytes \<Rightarrow> bytes \<Rightarrow> int \<Rightarrow> string" where
  "signalDelegationId delegator delegatee time =
     toHex delegator @ ''-'' @ toHex delegatee @ ''-'' @ show_int time"

definition touchUser :: "bytes \<Rightarrow> int \<Rightarrow> 'd store \<Rightarrow> 'd store" where
  "touchUser address now s =
     (let (user, s) = signal_getOrCreateUser address s in User_save (user\<lparr>u_lastActiveAt := now\<rparr>) s)"

definition handleVotingPowerDelegated ::
  "'d host \<Rightarrow> eth_event \<Rightarrow> bytes \<Rightarrow> bytes \<Rightarrow> int \<Rightarrow> 'd store \<Rightarrow> 'd store" where
  [handler_defs]: "handleVotingPowerDelegated H ev delegator delegatee amount s =
     (let s = updateIndexingStatus H (ev_block ev) ''VotingPowerDelegated'' s;
          s = Delegation_save
                \<lparr>del_id = signalDelegationId delegator delegatee (ev_timestamp ev), del_delegator = toHex delegator,
                 del_delegatee = toHex delegatee, del_amount = amount, del_timestamp = ev_timestamp ev,
                 del_blockNumber = ev_number ev, del_transaction = toHex (ev_txHash ev)\<rparr> s;
          s = touchUser delegator (ev_timestamp ev) s
      in touchUser delegatee (ev_timestamp ev) s)"

definition handleVotingPowerUndelegated ::
  "'d host \<Rightarrow> eth_event \<Rightarrow> bytes \<Rightarrow> bytes \<Rightarrow> int \<Rightarrow> 'd store \<Rightarrow> 'd store" where
  [handler_defs]: "handleVotingPowerUndelegated H ev delegator delegatee amount s =
     (let s = updateIndexingStatus H (ev_block ev) ''VotingPowerUndelegated'' s;
          s = (case delegations s (signalDelegationId delegator delegatee (ev_timestamp ev)) of
                 None \<Rightarrow> s
               | Some delegation \<Rightarrow>
                   Delegation_save (delegation\<lparr>del_blockNumber := ev_number ev,
                     del_transaction := toHex (ev_txHash ev)\<rparr>) s);
          s = touchUser delegator (ev_timestamp ev) s
      in touchUser delegatee (ev_timestamp ev) s)"

definition handleConvictionVoteCast ::
  "'d host \<Rightarrow> eth_event \<Rightarrow> bytes \<Rightarrow> bytes \<Rightarrow> int \<Rightarrow> int \<Rightarrow> int \<Rightarrow> int \<Rightarrow> string \<Rightarrow> 'd store \<Rightarrow> 'd store" where
  [handler_defs]: "handleConvictionVoteCast H ev hierarchicalId voter choice votingPower convictionTime
       convictionMultiplier reason s =
     (let s = updateIndexingStatus H (ev_block ev) ''ConvictionVoteCast'' s;
          proposalId = toHex hierarchicalId;
          vote = \<lparr>vo_id = proposalId @ ''-'' @ toHex voter, vo_proposal = proposalId, vo_voter = toHex voter,
             vo_choice = mapVoteChoice choice, vo_votingPower = votingPower, vo_timestamp = ev_timestamp ev,
             vo_reason = reason, vo_convictionTime = convictionTime, vo_convictionMultiplier = convictionMultiplier,
             vo_blockNumber = ev_number ev, vo_transaction = toHex (ev_txHash ev)\<rparr>;
          s = Vote_save vote s;
          s = (case proposals s proposalId of
                 None \<Rightarrow> s
               | Some proposal \<Rightarrow> Proposal_save (tallyVote (vo_choice vote) votingPower proposal) s);
          s = countUserVote voter (ev_timestamp ev) s
      in countVote (ev_timestamp ev) s)"

datatype signal_event =
    ProposalCreated eth_event string bytes bytes string int int int int
  | VoteCast eth_event string bytes int int string
  | ProposalExecuted eth_event bytes bytes
  | ProposalCanceled eth_event bytes
  | VotingPowerDelegated eth_event bytes bytes int
  | VotingPowerUndelegated eth_event bytes bytes int
  | ConvictionVoteCast eth_event bytes bytes int int int int string

fun signal_step :: "'d host \<Rightarrow> signal_event \<Rightarrow> 'd store \<Rightarrow> halt + 'd store" where
  "signal_step H (ProposalCreated ev h org c ti pt vt st en) s = handleProposalCreated H ev h org c ti pt vt st en s"
| "signal_step H (VoteCast ev h v c p r) s = Inr (handleVoteCast H ev h v c p r s)"
| "signal_step H (ProposalExecuted ev h x) s = Inr (handleProposalExecuted H ev h x s)"
| "signal_step H (ProposalCanceled ev h) s = Inr (handleProposalCanceled H ev h s)"
| "signal_step H (VotingPowerDelegated ev d e n) s = Inr (handleVotingPowerDelegated H ev d e n s)"
| "signal_step H (VotingPowerUndelegated ev d e n) s = Inr (handleVotingPowerUndelegated H ev d e n s)"
| "signal_step H (ConvictionVoteCast ev h v c p ct cm r) s = Inr (handleConvictionVoteCast H ev h v c p ct cm r s)"

section \<open>Users\<close>

lemma signal_getOrCreateUser_eq: "signal_getOrCreateUser = getOrCreateUser"
  by (simp add: fun_eq_iff signal_getOrCreateUser_def getOrCreateUser_def Let_def)

lemma touchUser_eq:
  "touchUser a t s = User_save (case users s (toHex a) of
     None \<Rightarrow> newUser (toHex a) a 0 t | Some u \<Rightarrow> u\<lparr>u_lastActiveAt := t\<rparr>) s"
  by (simp add: touchUser_def signal_getOrCreateUser_def Let_def User_save_def newUser_def
      split: option.splits)

interpretation signal_users: user_provider touchUser
  by (rule user_providerI [where v = "\<lambda>a t old. case old of
        None \<Rightarrow> newUser (toHex a) a 0 t | Some u \<Rightarrow> u\<lparr>u_lastActiveAt := t\<rparr>"])
    (simp_all add: touchUser_eq fresh_user_def same_counts_def)

declare signal_users.ensure_fields [simp]

lemma users_step_touchUser [users_steps]: "users_step s t \<Longrightarrow> users_step s (touchUser a n t)"
  using signal_users.ensure_keyed users_step_trans by blast

lemma users_step_countUser [users_steps]:
  "users_step s t \<Longrightarrow> users_step s (countUserVote a n t)"
  "users_step s t \<Longrightarrow> users_step s (countUserProposal a n t)"
  unfolding countUserVote_def countUserProposal_def signal_getOrCreateUser_eq Let_def
  by (rule users_step_bump; simp add: user_le_def)+

lemma countUser_fields [simp]:
  "globalStatsStore (countUserVote a n t) = globalStatsStore t" "globalStatsStore (countUserProposal a n t) = globalStatsStore t"
  "proposals (countUserVote a n t) = proposals t" "proposals (countUserProposal a n t) = proposals t"
  "organizations (countUserVote a n t) = organizations t" "organizations (countUserProposal a n t) = organizations t"
  "votes (countUserVote a n t) = votes t" "votes (countUserProposal a n t) = votes t"
  by (simp_all add: countUserVote_def countUserProposal_def signal_getOrCreateUser_eq)

lemma signal_stats_users [simp]:
  "users (countProposal H n t) = users t" "users (countVote n t) = users t" "users (closeProposal n t) = users t"
  by (simp_all add: countProposal_def countVote_def closeProposal_def GlobalStats_save_def Let_def split: option.splits)

lemma users_step_signal_stats [users_steps]:
  "users_step s t \<Longrightarrow> users_step s (countProposal H n t)"
  "users_step s t \<Longrightarrow> users_step s (countVote n t)"
  "users_step s t \<Longrightarrow> users_step s (closeProposal n t)"
  by (auto intro: users_step_frame)

lemmas signal_handlers = handleProposalCreated_def handleVoteCast_def handleProposalExecuted_def
  handleProposalCanceled_def handleVotingPowerDelegated_def handleVotingPowerUndelegated_def
  handleConvictionVoteCast_def signal_getOrCreateUser_eq getOrganizationIdString_eq Let_def

lemma signal_step_users: "signal_step H e s = Inr s' \<Longrightarrow> users_step s s'"
  by (cases e) (auto simp: signal_handlers user_le_def split: option.splits if_splits intro!: users_steps)

section \<open>The tally of a proposal\<close>

lemma signal_stats_fields [simp]:
  "proposals (countProposal H n t) = proposals t" "proposals (countVote n t) = proposals t" "proposals (closeProposal n t) = proposals t"
  "organizations (countProposal H n t) = organizations t" "votes (countVote n t) = votes t"
  by (simp_all add: countProposal_def countVote_def closeProposal_def GlobalStats_save_def Let_def split: option.splits)

lemma tallyVote_simps [simp]:
  "pro_id (tallyVote c n p) = pro_id p" "pro_state (tallyVote c n p) = pro_state p"
  "pro_totalVotes (tallyVote c n p) = pro_totalVotes p + 1"
  "pro_forVotes (tallyVote c n p) = pro_forVotes p + (if c = ''FOR'' then n else 0)"
  "pro_againstVotes (tallyVote c n p) = pro_againstVotes p + (if c = ''AGAINST'' then n else 0)"
  "pro_abstainVotes (tallyVote c n p) = pro_abstainVotes p + (if c = ''ABSTAIN'' then n else 0)"
  by (simp_all add: tallyVote_def Let_def)

definition power_cast :: "proposal \<Rightarrow> int" where
  "power_cast p = pro_forVotes p + pro_againstVotes p + pro_abstainVotes p"

text \<open>
  C10. What a vote does to a proposal that is found under the id of the event. The vote is stored
  under proposal and voter with the decoded choice; the voting power goes to exactly the bucket of
  that choice (1 against, 2 for, 3 abstain), a choice outside these three goes to none; the number
  of votes grows by one; every other proposal is untouched.
\<close>

theorem vote_reaches_tally:
  assumes "proposals s h = Some p" and "pro_id p = h"
  shows "\<exists>q v. proposals (handleVoteCast H ev h voter choice vpower reason s) = (proposals s)(h \<mapsto> q)
     \<and> votes (handleVoteCast H ev h voter choice vpower reason s) = (votes s)(h @ ''-'' @ toHex voter \<mapsto> v)
     \<and> vo_proposal v = h \<and> vo_voter v = toHex voter \<and> vo_votingPower v = vpower
     \<and> pro_state q = pro_state p \<and> pro_totalVotes q = pro_totalVotes p + 1
     \<and> pro_againstVotes q = pro_againstVotes p + (if choice = 1 then vpower else 0)
     \<and> pro_forVotes q = pro_forVotes p + (if choice = 2 then vpower else 0)
     \<and> pro_abstainVotes q = pro_abstainVotes p + (if choice = 3 then vpower else 0)
     \<and> power_cast q = power_cast p + (if choice \<in> {1, 2, 3} then vpower else 0)"
  by (rule exI [of _ "tallyVote (mapVoteChoice choice) vpower p"],
      rule exI [of _ "\<lparr>vo_id = h @ ''-'' @ toHex voter, vo_proposal = h, vo_voter = toHex voter,
             vo_choice = mapVoteChoice choice, vo_votingPower = vpower, vo_timestamp = ev_timestamp ev,
             vo_reason = reason, vo_convictionTime = 0, vo_convictionMultiplier = 1,
             vo_blockNumber = ev_number ev, vo_transaction = toHex (ev_txHash ev)\<rparr>"])
    (use assms in \<open>simp add: handleVoteCast_def Let_def entity_defs mapVoteChoice_def power_cast_def\<close>)

theorem vote_reaches_tally_witness:
  "\<exists>q. proposals (handleVoteCast (int_host (\<lambda>_. None)) example_event (proposalKey example_event) [5] 2 30 ''yes''
       ((empty_store :: int store)\<lparr>proposals := [proposalKey example_event \<mapsto>
          newProposal example_event ''ABCD1234-P-EFGH5678'' ''ABCD1234'' [1] ''Raid'' 0 0 0 9]\<rparr>)) (proposalKey example_event) = Some q
     \<and> pro_forVotes q = 30 \<and> pro_againstVotes q = 0"
proof -
  let ?p = "newProposal example_event ''ABCD1234-P-EFGH5678'' ''ABCD1234'' [1] ''Raid'' 0 0 0 9"
  let ?s = "(empty_store :: int store)\<lparr>proposals := [proposalKey example_event \<mapsto> ?p]\<rparr>"
  have h: "proposals ?s (proposalKey example_event) = Some ?p" "pro_id ?p = proposalKey example_event"
    by (simp_all add: newProposal_def)
  have z: "pro_forVotes ?p = 0" "pro_againstVotes ?p = 0" by (simp_all add: newProposal_def)
  from vote_reaches_tally [OF h, of "int_host (\<lambda>_. None)" example_event "[5]" 2 30 "''yes''"] z show ?thesis
    by auto
qed

section \<open>Counters of users\<close>

lemma users_ok_saves [simp]:
  "users_ok (Proposal_save p t) = users_ok t" "users_ok (Vote_save v t) = users_ok t"
  "users_ok (Delegation_save d t) = users_ok t" "users_ok (updateIndexingStatus H b e t) = users_ok t"
  by (simp_all add: users_ok_def entity_defs)

lemma countUserVote_users:
  "users_ok t \<Longrightarrow> users (countUserVote a n t) = (users t)(toHex a \<mapsto>
     (\<lambda>u. u\<lparr>u_totalVotes := u_totalVotes u + 1, u_lastActiveAt := n\<rparr>)
       (case users t (toHex a) of None \<Rightarrow> newUser (toHex a) a 0 0 | Some u \<Rightarrow> u))"
  unfolding countUserVote_def signal_getOrCreateUser_eq Let_def by (rule bump_users) simp_all

lemma countUserProposal_users:
  "users_ok t \<Longrightarrow> users (countUserProposal a n t) = (users t)(toHex a \<mapsto>
     (\<lambda>u. u\<lparr>u_totalProposals := u_totalProposals u + 1, u_lastActiveAt := n\<rparr>)
       (case users t (toHex a) of None \<Rightarrow> newUser (toHex a) a 0 0 | Some u \<Rightarrow> u))"
  unfolding countUserProposal_def signal_getOrCreateUser_eq Let_def by (rule bump_users) simp_all

definition voted :: "bytes \<Rightarrow> 'd store \<Rightarrow> int" where
  "voted a s = contribution_of u_totalVotes (users s (toHex a))"

definition proposed :: "bytes \<Rightarrow> 'd store \<Rightarrow> int" where
  "proposed a s = contribution_of u_totalProposals (users s (toHex a))"

lemma user_counts_frame:
  "users t = users s \<Longrightarrow> voted a t = voted a s" "users t = users s \<Longrightarrow> proposed a t = proposed a s"
  by (simp_all add: voted_def proposed_def)

lemma user_counts_saves [simp]:
  "voted a (Proposal_save p t) = voted a t" "voted a (Vote_save v t) = voted a t" "voted a (Delegation_save d t) = voted a t"
  "voted a (updateIndexingStatus H b e t) = voted a t" "voted a (Transaction_save x t) = voted a t"
  "voted a (countProposal H n t) = voted a t" "voted a (countVote n t) = voted a t" "voted a (closeProposal n t) = voted a t"
  "voted a (Organization_put org t) = voted a t"
  "proposed a (Proposal_save p t) = proposed a t" "proposed a (Vote_save v t) = proposed a t" "proposed a (Delegation_save d t) = proposed a t"
  "proposed a (updateIndexingStatus H b e t) = proposed a t" "proposed a (Transaction_save x t) = proposed a t"
  "proposed a (countProposal H n t) = proposed a t" "proposed a (countVote n t) = proposed a t" "proposed a (closeProposal n t) = proposed a t"
  "proposed a (Organization_put org t) = proposed a t"
  by (auto intro: user_counts_frame simp: entity_defs)

lemma user_counts_bumps [simp]:
  assumes "users_ok t"
  shows "voted a (countUserVote b n t) = voted a t + (if b = a then 1 else 0)"
    "proposed a (countUserVote b n t) = proposed a t"
    "voted a (countUserProposal b n t) = voted a t"
    "proposed a (countUserProposal b n t) = proposed a t + (if b = a then 1 else 0)"
    "voted a (touchUser b n t) = voted a t" "proposed a (touchUser b n t) = proposed a t"
    "users_ok (touchUser b n t)"
  using assms signal_users.ensure_keyed [of t b n] users_okD [OF assms]
  by (auto simp: voted_def proposed_def countUserVote_users countUserProposal_users touchUser_eq User_save_def
      users_step_def split: option.splits)

fun votes_by :: "bytes \<Rightarrow> signal_event \<Rightarrow> int" where
  "votes_by a (VoteCast _ _ v _ _ _) = (if v = a then 1 else 0)"
| "votes_by a (ConvictionVoteCast _ _ v _ _ _ _ _) = (if v = a then 1 else 0)"
| "votes_by a _ = 0"

fun proposals_by :: "bytes \<Rightarrow> signal_event \<Rightarrow> int" where
  "proposals_by a (ProposalCreated _ _ _ c _ _ _ _ _) = (if c = a then 1 else 0)"
| "proposals_by a _ = 0"

lemma signal_step_voted: "users_ok s \<Longrightarrow> signal_step H e s = Inr s' \<Longrightarrow> voted a s' = voted a s + votes_by a e"
  by (cases e) (auto simp: signal_handlers split: option.splits if_splits)

lemma signal_step_proposed: "users_ok s \<Longrightarrow> signal_step H e s = Inr s' \<Longrightarrow> proposed a s' = proposed a s + proposals_by a e"
  by (cases e) (auto simp: signal_handlers split: option.splits if_splits)

lemma signal_step_users_ok: "users_ok s \<Longrightarrow> signal_step H e s = Inr s' \<Longrightarrow> users_ok s'"
  using signal_step_users by (auto simp: users_step_def)

interpretation vote_counter: counted_indexer "signal_step H" "\<lambda>_. True" users_ok "voted a" "votes_by a"
  for H a by unfold_locales (auto intro: signal_step_users_ok signal_step_voted)

interpretation proposal_counter: counted_indexer "signal_step H" "\<lambda>_. True" users_ok "proposed a" "proposals_by a"
  for H a by unfold_locales (auto intro: signal_step_users_ok signal_step_proposed)

text \<open>
  A user's counters are exact. Over any sequence of Signal events the vote counter of every
  address grows by the number of votes (plain and conviction) it cast and its proposal counter by
  the number of proposals it created; executions, cancellations and delegations leave both alone.
\<close>

theorem signal_user_counters:
  assumes "run (signal_step H) es s = Inr s'" and "users_ok s"
  shows "voted a s' = voted a s + sum_list (map (votes_by a) es)
     \<and> proposed a s' = proposed a s + sum_list (map (proposals_by a) es)"
  using vote_counter.run_counter [OF assms(1) _ assms(2)] proposal_counter.run_counter [OF assms(1) _ assms(2)]
  by (simp add: list_all_iff)

theorem signal_user_counters_witness:
  "\<exists>s' :: int store. run (signal_step (int_host (\<lambda>_. None)))
      [ProposalCreated example_event ''ABCD1234-P-EFGH5678'' example_org_id [1] ''Raid'' 0 0 0 9,
       VoteCast example_event ''ABCD1234-P-EFGH5678'' [5] 2 30 ''yes'',
       ConvictionVoteCast example_event [7] [5] 1 10 1 1 ''no''] empty_store = Inr s'
     \<and> voted [5] s' = 2 \<and> proposed [1] s' = 1"
proof -
  let ?es = "[ProposalCreated example_event ''ABCD1234-P-EFGH5678'' example_org_id [1] ''Raid'' 0 0 0 9,
       VoteCast example_event ''ABCD1234-P-EFGH5678'' [5] 2 30 ''yes'', ConvictionVoteCast example_event [7] [5] 1 10 1 1 ''no'']"
  obtain s' where r: "run (signal_step (int_host (\<lambda>_. None))) ?es (empty_store :: int store) = Inr s'"
    by (simp add: handleProposalCreated_def getOrganizationIdString_bytes8 Let_def)
  from signal_user_counters [OF r users_ok_empty, of "[5]"] signal_user_counters [OF r users_ok_empty, of "[1]"] r
  show ?thesis by (auto simp: voted_def proposed_def)
qed

section \<open>Proposals after their creation\<close>

text \<open>
  The ids as the contract emits them: a transaction hash has 32 bytes, an organization id eight,
  and a hierarchical id is an organization id followed by a dash (\<open>ABCD1234-P-EFGH5678\<close>).
\<close>

fun signal_wf :: "signal_event \<Rightarrow> bool" where
  "signal_wf (ProposalCreated ev _ org _ _ _ _ _ _) = (length (ev_txHash ev) = 32 \<and> length org = 8)"
| "signal_wf (VoteCast _ h _ _ _ _) = (8 < length h \<and> h ! 8 = CHR ''-'')"
| "signal_wf _ = True"

lemma signal_step_total: "signal_wf e \<Longrightarrow> \<exists>s'. signal_step H e s = Inr s'"
  by (cases e) (simp_all add: handleProposalCreated_def getOrganizationIdString_bytes8 Let_def)

definition untouched :: "string \<Rightarrow> proposal \<Rightarrow> bool" where
  "untouched k p \<longleftrightarrow> pro_id p = k \<and> pro_state p = ''PENDING'' \<and> pro_totalVotes p = 0
     \<and> power_cast p = 0 \<and> pro_executedAt p = 0
     \<and> (\<exists>h i. length h = 32 \<and> k = toHex h @ ''-'' @ show_int i)"

definition proposals_untouched :: "'d store \<Rightarrow> bool" where
  "proposals_untouched s \<longleftrightarrow> (\<forall>k p. proposals s k = Some p \<longrightarrow> untouched k p)"

lemma untouched_not_hex: "proposals_untouched s \<Longrightarrow> proposals s (toHex h) = None"
proof (rule ccontr)
  assume "proposals_untouched s" and "proposals s (toHex h) \<noteq> None"
  then obtain g i where "toHex h = toHex g @ ''-'' @ show_int i"
    unfolding proposals_untouched_def untouched_def by blast
  then have "CHR ''-'' \<in> set (toHex h)" by simp
  then show False by simp
qed

lemma untouched_not_hierarchical:
  assumes "proposals_untouched s" and "8 < length h" and "h ! 8 = CHR ''-''"
  shows "proposals s h = None"
proof (rule ccontr)
  assume "proposals s h \<noteq> None"
  then obtain g i where g: "length g = 32" "h = toHex g @ ''-'' @ show_int i"
    using assms(1) unfolding proposals_untouched_def untouched_def by blast
  then have "h ! 8 = toHex g ! 8" by (simp add: nth_append length_toHex)
  moreover have "toHex g ! 8 \<in> set (toHex g)" using g(1) by (intro nth_mem) (simp add: length_toHex)
  ultimately show False using assms(3) by (metis toHex_no_dash)
qed

lemma signal_step_untouched:
  assumes "proposals_untouched s" and "signal_wf e" and "signal_step H e s = Inr s'"
  shows "proposals_untouched s'"
proof -
  have new: "untouched (proposalKey ev) (newProposal ev h org c ti pt vt st en)" if "length (ev_txHash ev) = 32"
    for ev h org c ti pt vt st en
    using that by (auto simp: untouched_def newProposal_def proposalKey_def power_cast_def)
  have "(\<exists>k p. proposals s' = (proposals s)(k \<mapsto> p) \<and> untouched k p) \<or> proposals s' = proposals s"
  proof (cases e)
    case (ProposalCreated ev h org c ti pt vt st en)
    have "proposals s' = (proposals s)(proposalKey ev \<mapsto> newProposal ev h (org_key org) c ti pt vt st en)"
      using assms(3) ProposalCreated
      by (auto simp: signal_handlers entity_defs newProposal_def split: if_splits option.splits)
    moreover have "length (ev_txHash ev) = 32" using assms(2) ProposalCreated by simp
    ultimately show ?thesis using new by blast
  qed (use assms untouched_not_hex [OF assms(1)] untouched_not_hierarchical [OF assms(1)] in
      \<open>auto simp: signal_handlers entity_defs split: option.splits\<close>)
  then show ?thesis using assms(1) by (auto simp: proposals_untouched_def split: if_splits)
qed

lemma run_untouched:
  assumes "run (signal_step H) es s = Inr s'" and "list_all signal_wf es" and "proposals_untouched s"
  shows "proposals_untouched s'"
  using run_invariant [of es "signal_step H" proposals_untouched, OF _ assms(1,3)] assms(2) signal_step_untouched
  by (metis list_all_iff)

text \<open>
  C9. With the ids the contract emits, no event ever reaches a proposal after its creation. Over
  every well-formed sequence of Signal events, starting from an empty store, indexing does not halt
  and every stored proposal is still \<open>PENDING\<close>, has no votes, no voting power in any bucket and no
  execution time, whatever was voted, executed or cancelled.
\<close>

theorem proposals_never_leave_pending:
  assumes "list_all signal_wf es"
  shows "\<exists>s'. run (signal_step H) es (empty_store :: 'd store) = Inr s' \<and>
     (\<forall>k p. proposals s' k = Some p \<longrightarrow> pro_state p = ''PENDING'' \<and> pro_totalVotes p = 0
        \<and> power_cast p = 0 \<and> pro_executedAt p = 0)"
proof -
  obtain s' where r: "run (signal_step H) es (empty_store :: 'd store) = Inr s'"
    using run_total [of es "signal_step H" empty_store] assms signal_step_total by (metis list_all_iff)
  have "proposals_untouched s'" by (rule run_untouched [OF r assms]) (simp add: proposals_untouched_def)
  then show ?thesis using r by (auto simp: proposals_untouched_def untouched_def)
qed

theorem proposals_never_leave_pending_witness:
  "\<exists>s' :: int store. run (signal_step (int_host (\<lambda>_. None)))
      [ProposalCreated (example_event\<lparr>ev_transaction := \<lparr>t_hash = replicate 32 1, t_from = [1], t_to = None, t_gasPrice = 3\<rparr>\<rparr>)
         ''ABCD1234-P-EFGH5678'' example_org_id [1] ''Raid'' 0 0 0 9,
       VoteCast example_event ''ABCD1234-P-EFGH5678'' [5] 2 30 ''yes'', ProposalExecuted example_event [7] [1]] empty_store = Inr s'
     \<and> (\<forall>k p. proposals s' k = Some p \<longrightarrow> pro_state p = ''PENDING'' \<and> pro_totalVotes p = 0)"
proof -
  let ?es = "[ProposalCreated (example_event\<lparr>ev_transaction := \<lparr>t_hash = replicate 32 1, t_from = [1], t_to = None, t_gasPrice = 3\<rparr>\<rparr>)
         ''ABCD1234-P-EFGH5678'' example_org_id [1] ''Raid'' 0 0 0 9,
       VoteCast example_event ''ABCD1234-P-EFGH5678'' [5] 2 30 ''yes'', ProposalExecuted example_event [7] [1]]"
  have "list_all signal_wf ?es" by simp
  from proposals_never_leave_pending [OF this, of "int_host (\<lambda>_. None)"] show ?thesis by blast
qed

section \<open>The global counter of active proposals\<close>

definition open_proposals :: "'d store \<Rightarrow> int" where
  "open_proposals s = contribution_of gs_activeProposals (global_stats s)"

definition signal_ok :: "'d store \<Rightarrow> bool" where
  "signal_ok s \<longleftrightarrow> proposals_untouched s \<and> stats_keyed s"

fun created :: "signal_event \<Rightarrow> int" where
  "created (ProposalCreated _ _ _ _ _ _ _ _ _) = 1"
| "created _ = 0"

lemma countProposal_open:
  "stats_keyed s \<Longrightarrow> open_proposals (countProposal H n s) = open_proposals s + 1 \<and> stats_keyed (countProposal H n s)"
  by (cases "global_stats s")
    (simp_all add: countProposal_def Let_def GlobalStats_save_def stats_keyed_def open_proposals_def)

lemma countVote_open:
  "stats_keyed s \<Longrightarrow> open_proposals (countVote n s) = open_proposals s \<and> stats_keyed (countVote n s)"
  by (cases "global_stats s")
    (simp_all add: countVote_def Let_def GlobalStats_save_def stats_keyed_def open_proposals_def)

lemma open_frame:
  "globalStatsStore t = globalStatsStore s \<Longrightarrow> open_proposals t = open_proposals s \<and> stats_keyed t = stats_keyed s"
  by (simp add: open_proposals_def stats_keyed_def)

lemma signal_stats_cong:
  "globalStatsStore t = globalStatsStore s \<Longrightarrow> globalStatsStore (countProposal H n t) = globalStatsStore (countProposal H n s)"
  "globalStatsStore t = globalStatsStore s \<Longrightarrow> globalStatsStore (countVote n t) = globalStatsStore (countVote n s)"
  by (simp_all add: countProposal_def countVote_def GlobalStats_save_def Let_def split: option.splits)

lemma signal_step_open:
  assumes ok: "signal_ok s" and wf: "signal_wf e" and st: "signal_step H e s = Inr s'"
  shows "open_proposals s' = open_proposals s + created e \<and> stats_keyed s'"
proof -
  have u: "proposals_untouched s" and k: "stats_keyed s" using ok by (simp_all add: signal_ok_def)
  note lost = untouched_not_hex [OF u] untouched_not_hierarchical [OF u]
  show ?thesis
  proof (cases e)
    case (ProposalCreated ev h org c ti pt vt st' en)
    have "globalStatsStore s' = globalStatsStore (countProposal H (ev_timestamp ev) s)"
      using st ProposalCreated
      by (auto simp: signal_handlers entity_defs split: if_splits option.splits intro!: signal_stats_cong)
    from open_frame [OF this] show ?thesis using countProposal_open [OF k] ProposalCreated by simp
  next
    case (VoteCast ev h v c p r)
    have "globalStatsStore s' = globalStatsStore (countVote (ev_timestamp ev) s)"
      using st wf VoteCast lost by (auto simp: signal_handlers entity_defs intro!: signal_stats_cong split: option.splits)
    from open_frame [OF this] show ?thesis using countVote_open [OF k] VoteCast by simp
  next
    case (ConvictionVoteCast ev h v c p ct cm r)
    have "globalStatsStore s' = globalStatsStore (countVote (ev_timestamp ev) s)"
      using st ConvictionVoteCast lost by (auto simp: signal_handlers entity_defs intro!: signal_stats_cong split: option.splits)
    from open_frame [OF this] show ?thesis using countVote_open [OF k] ConvictionVoteCast by simp
  qed (use st k lost in \<open>auto simp: signal_handlers Delegation_save_def open_proposals_def stats_keyed_def
      split: option.splits\<close>)
qed

interpretation open_counter: counted_indexer "signal_step H" signal_wf signal_ok open_proposals created
  for H by unfold_locales (use signal_step_open signal_step_untouched in \<open>auto simp: signal_ok_def\<close>)

text \<open>
  The global number of active proposals never goes down: with the ids the contract emits, it is
  the number of proposals ever created, however many of them were executed or cancelled since.
\<close>

theorem active_proposals_count_creations:
  assumes "list_all signal_wf es"
  shows "\<exists>s'. run (signal_step H) es (empty_store :: 'd store) = Inr s'
     \<and> open_proposals s' = sum_list (map created es)"
proof -
  obtain s' where r: "run (signal_step H) es (empty_store :: 'd store) = Inr s'"
    using run_total [of es "signal_step H" empty_store] assms signal_step_total by (metis list_all_iff)
  have "signal_ok (empty_store :: 'd store)" by (simp add: signal_ok_def proposals_untouched_def)
  from open_counter.run_counter [OF r assms this] r show ?thesis by (simp add: open_proposals_def)
qed

theorem active_proposals_count_creations_witness:
  "\<exists>s' :: int store. run (signal_step (int_host (\<lambda>_. None)))
      [ProposalCreated (example_event\<lparr>ev_transaction := \<lparr>t_hash = replicate 32 1, t_from = [1], t_to = None, t_gasPrice = 3\<rparr>\<rparr>)
         ''ABCD1234-P-EFGH5678'' example_org_id [1] ''Raid'' 0 0 0 9,
       ProposalExecuted example_event [7] [1]] empty_store = Inr s'
     \<and> open_proposals s' = 1"
proof -
  let ?es = "[ProposalCreated (example_event\<lparr>ev_transaction := \<lparr>t_hash = replicate 32 1, t_from = [1], t_to = None, t_gasPrice = 3\<rparr>\<rparr>)
         ''ABCD1234-P-EFGH5678'' example_org_id [1] ''Raid'' 0 0 0 9, ProposalExecuted example_event [7] [1]]"
  have "list_all signal_wf ?es" by simp
  from active_proposals_count_creations [OF this, of "int_host (\<lambda>_. None)"] show ?thesis by simp
qed

end
