(* ===== verification/Staking.thy ===== *)
theory Staking
  imports Ids
begin

text \<open>
  \<open>packages/subgraph/src/staking.ts\<close>: stakes of users and organizations, unstake requests and
  staking pools.

  \<open>staking_step\<close> dispatches the events of the Staking contract. \<open>contract_step\<close> is the account that
  \<open>Staking.sol\<close> keeps behind these events: the balances per user and purpose, which nobody can
  overdraw, and beside them the penalties paid so far. An \<open>Unstaked\<close> event carries the amount paid
  out and the penalty; the contract takes both from the balance, the handler takes the amount only.
  The refinement goes through \<open>ledger_step\<close>, the bookkeeping of the handlers without the store: along
  every run of the contract the indexed stake is the balance plus the penalties, and every pool
  total is the sum of the indexed stakes in it.
\<close>

section \<open>Helpers\<close>

definition mapStakingPurpose :: "int \<Rightarrow> string" where
  [enum_defs]: "mapStakingPurpose purpose =
     (if purpose = 0 then ''GOVERNANCE'' else if purpose = 1 then ''DAO_CREATION''
      else if purpose = 2 then ''TREASURY_BOND'' else if purpose = 3 then ''LIQUIDITY_MINING''
      else ''GOVERNANCE'')"

definition mapUnstakingStrategy :: "int \<Rightarrow> string" where
  [enum_defs]: "mapUnstakingStrategy strategy =
     (if strategy = 0 then ''RAGE_QUIT'' else if strategy = 1 then ''STANDARD''
      else if strategy = 2 then ''PATIENT'' else ''STANDARD'')"

definition staking_createOrUpdateUser :: "bytes \<Rightarrow> int \<Rightarrow> 'd store \<Rightarrow> 'd store" where
  "staking_createOrUpdateUser address timestamp s =
     (let userId = toLowerCase (toHex address);
          user = (case users s userId of
                    None \<Rightarrow> newUser userId address timestamp 0
                  | Some user \<Rightarrow> user)
      in User_save (user\<lparr>u_lastActiveAt := timestamp\<rparr>) s)"

definition createOrUpdateStakingPool :: "string \<Rightarrow> 'd store \<Rightarrow> 'd store" where
  "createOrUpdateStakingPool purpose s =
     (case stakingPools s purpose of
        None \<Rightarrow> StakingPool_save \<lparr>sp_id = purpose, sp_purpose = purpose, sp_totalStaked = 0, sp_rewardRate = 0,
                  sp_totalRewardsDistributed = 0, sp_active = True\<rparr> s
      | Some _ \<Rightarrow> s)"

section \<open>Handlers\<close>

definition handleOrganizationStaked :: "eth_event \<Rightarrow> bytes \<Rightarrow> bytes \<Rightarrow> int \<Rightarrow> int \<Rightarrow> 'd store \<Rightarrow> 'd store" where
  [handler_defs]: "handleOrganizationStaked ev organizationId staker amount timestamp s =
     (let s = staking_createOrUpdateUser staker timestamp s
      in OrganizationStake_save
           \<lparr>os_id = toHex organizationId, os_organizationId = organizationId,
            os_staker = toLowerCase (toHex staker), os_amount = amount, os_stakedAt = timestamp,
            os_active = True, os_organization = toHex organizationId, os_blockNumber = ev_number ev,
            os_transaction = toHex (ev_txHash ev)\<rparr> s)"

definition handleOrganizationStakeWithdrawn :: "eth_event \<Rightarrow> bytes \<Rightarrow> bytes \<Rightarrow> int \<Rightarrow> int \<Rightarrow> 'd store \<Rightarrow> 'd store" where
  [handler_defs]: "handleOrganizationStakeWithdrawn ev organizationId staker amount timestamp s =
     (let s = staking_createOrUpdateUser staker timestamp s
      in case organizationStakes s (toHex organizationId) of
           None \<Rightarrow> s
         | Some st \<Rightarrow> OrganizationStake_save (st\<lparr>os_active := False\<rparr>) s)"

definition stakeId :: "bytes \<Rightarrow> string \<Rightarrow> string" where
  "stakeId user purpose = toLowerCase (toHex user) @ ''-'' @ purpose"

text \<open>The two read-modify-write blocks that the handlers share: a stake and a pool total.\<close>

definition addToStake :: "string \<Rightarrow> int \<Rightarrow> 'd store \<Rightarrow> 'd store" where
  "addToStake k n s =
     (case userStakes s k of
        None \<Rightarrow> s
      | Some st \<Rightarrow> UserStake_save (st\<lparr>us_amount := us_amount st + n\<rparr>) s)"

definition addToPool :: "string \<Rightarrow> int \<Rightarrow> 'd store \<Rightarrow> 'd store" where
  "addToPool purpose n s =
     (case stakingPools s purpose of
        None \<Rightarrow> s
      | Some pool \<Rightarrow> StakingPool_save (pool\<lparr>sp_totalStaked := sp_totalStaked pool + n\<rparr>) s)"

definition handleStaked :: "eth_event \<Rightarrow> bytes \<Rightarrow> int \<Rightarrow> int \<Rightarrow> int \<Rightarrow> int \<Rightarrow> 'd store \<Rightarrow> 'd store" where
  [handler_defs]: "handleStaked ev user purposeParam amount strategy timestamp s =
     (let userId = toLowerCase (toHex user);
          purpose = mapStakingPurpose purposeParam;
          s = staking_createOrUpdateUser user timestamp s;
          s = createOrUpdateStakingPool purpose s;
          stake = (case userStakes s (stakeId user purpose) of
                     None \<Rightarrow> \<lparr>us_id = stakeId user purpose, us_user = userId, us_purpose = purpose, us_amount = 0,
                        us_stakedAt = timestamp, us_lastClaimTime = timestamp,
                        us_preferredStrategy = mapUnstakingStrategy strategy, us_pendingRewards = 0,
                        us_blockNumber = ev_number ev, us_transaction = toHex (ev_txHash ev)\<rparr>
                   | Some stake \<Rightarrow> stake);
          s = UserStake_save (stake\<lparr>us_amount := us_amount stake + amount\<rparr>) s
      in addToPool purpose amount s)"

definition handleUnstakeRequested ::
  "eth_event \<Rightarrow> bytes \<Rightarrow> int \<Rightarrow> int \<Rightarrow> int \<Rightarrow> int \<Rightarrow> 'd store \<Rightarrow> 'd store" where
  [handler_defs]: "handleUnstakeRequested ev user purpose amount strategy requestId s =
     (let userId = toLowerCase (toHex user);
          s = staking_createOrUpdateUser user (ev_timestamp ev) s
      in UnstakeRequest_save
           \<lparr>ur_id = userId @ ''-'' @ show_int requestId, ur_user = userId,
            ur_purpose = mapStakingPurpose purpose, ur_amount = amount, ur_requestTime = ev_timestamp ev,
            ur_strategy = mapUnstakingStrategy strategy, ur_processed = False,
            ur_blockNumber = ev_number ev, ur_transaction = toHex (ev_txHash ev)\<rparr> s)"

definition handleUnstaked :: "eth_event \<Rightarrow> bytes \<Rightarrow> int \<Rightarrow> int \<Rightarrow> int \<Rightarrow> int \<Rightarrow> 'd store \<Rightarrow> 'd store" where
  [handler_defs]: "handleUnstaked ev user purposeParam amount penalty timestamp s =
     (let purpose = mapStakingPurpose purposeParam;
          s = staking_createOrUpdateUser user timestamp s;
          s = addToStake (stakeId user purpose) (- amount) s
      in addToPool purpose (- amount) s)"

definition handleRewardsClaimed :: "eth_event \<Rightarrow> bytes \<Rightarrow> int \<Rightarrow> int \<Rightarrow> int \<Rightarrow> 'd store \<Rightarrow> 'd store" where
  [handler_defs]: "handleRewardsClaimed ev user purposeParam amount timestamp s =
     (let purpose = mapStakingPurpose purposeParam;
          s = staking_createOrUpdateUser user timestamp s;
          s = (case userStakes s (stakeId user purpose) of
                 None \<Rightarrow> s
               | Some stake \<Rightarrow> UserStake_save (stake\<lparr>us_lastClaimTime := timestamp, us_pendingRewards := 0\<rparr>) s)
      in case stakingPools s purpose of
           None \<Rightarrow> s
         | Some pool \<Rightarrow>
             StakingPool_save (pool\<lparr>sp_totalRewardsDistributed := sp_totalRewardsDistributed pool + amount\<rparr>) s)"

definition handleSlashed :: "eth_event \<Rightarrow> bytes \<Rightarrow> int \<Rightarrow> int \<Rightarrow> int \<Rightarrow> 'd store \<Rightarrow> 'd store" where
  [handler_defs]: "handleSlashed ev user purposeParam amount timestamp s =
     (let purpose = mapStakingPurpose purposeParam;
          s = staking_createOrUpdateUser user timestamp s;
          s = addToStake (stakeId user purpose) (- amount) s
      in addToPool purpose (- amount) s)"

definition handleStakingRewardsDistributed :: "'d host \<Rightarrow> eth_event \<Rightarrow> 'd store \<Rightarrow> 'd store" where
  [handler_defs]: "handleStakingRewardsDistributed H ev s =
     Transaction_save (newTransaction ev 0) (updateIndexingStatus H (ev_block ev) ''RewardsDistributed'' s)"

definition handlePoolUpdated :: "'d host \<Rightarrow> eth_event \<Rightarrow> 'd store \<Rightarrow> 'd store" where
  [handler_defs]: "handlePoolUpdated H ev s =
     Transaction_save (newTransaction ev 0) (updateIndexingStatus H (ev_block ev) ''PoolUpdated'' s)"

datatype staking_event =
    OrganizationStaked eth_event bytes bytes int int
  | OrganizationStakeWithdrawn eth_event bytes bytes int int
  | Staked eth_event bytes int int int int
  | UnstakeRequested eth_event bytes int int int int
  | Unstaked eth_event bytes int int int int
  | RewardsClaimed eth_event bytes int int int
  | Slashed eth_event bytes int int int
  | StakingRewardsDistributed eth_event
  | PoolUpdated eth_event

fun staking_step :: "'d host \<Rightarrow> staking_event \<Rightarrow> 'd store \<Rightarrow> halt + 'd store" where
  "staking_step H (OrganizationStaked ev org st n t) s = Inr (handleOrganizationStaked ev org st n t s)"
| "staking_step H (OrganizationStakeWithdrawn ev org st n t) s = Inr (handleOrganizationStakeWithdrawn ev org st n t s)"
| "staking_step H (Staked ev u p n strat t) s = Inr (handleStaked ev u p n strat t s)"
| "staking_step H (UnstakeRequested ev u p n strat i) s = Inr (handleUnstakeRequested ev u p n strat i s)"
| "staking_step H (Unstaked ev u p n q t) s = Inr (handleUnstaked ev u p n q t s)"
| "staking_step H (RewardsClaimed ev u p n t) s = Inr (handleRewardsClaimed ev u p n t s)"
| "staking_step H (Slashed ev u p n t) s = Inr (handleSlashed ev u p n t s)"
| "staking_step H (StakingRewardsDistributed ev) s = Inr (handleStakingRewardsDistributed H ev s)"
| "staking_step H (PoolUpdated ev) s = Inr (handlePoolUpdated H ev s)"

section \<open>Users\<close>

interpretation staking_users: user_provider staking_createOrUpdateUser
  by (rule user_providerI [where v = "\<lambda>a t old. (case old of
        None \<Rightarrow> newUser (toHex a) a t 0 | Some u \<Rightarrow> u)\<lparr>u_lastActiveAt := t\<rparr>"])
    (simp_all add: staking_createOrUpdateUser_def Let_def fresh_user_def same_counts_def)

declare staking_users.ensure_fields [simp]

lemma users_step_staking_user [users_steps]:
  "users_step s t \<Longrightarrow> users_step s (staking_createOrUpdateUser a n t)"
  using staking_users.ensure_keyed users_step_trans by blast

lemma stake_blocks_users [simp]:
  "users (createOrUpdateStakingPool p s) = users s" "users (addToStake k n s) = users s" "users (addToPool p n s) = users s"
  by (simp_all add: createOrUpdateStakingPool_def addToStake_def addToPool_def entity_defs split: option.splits)

lemma users_step_stake_blocks [users_steps]:
  "users_step s t \<Longrightarrow> users_step s (createOrUpdateStakingPool p t)"
  "users_step s t \<Longrightarrow> users_step s (addToStake k n t)"
  "users_step s t \<Longrightarrow> users_step s (addToPool p n t)"
  by (auto intro: users_step_frame)

lemmas staking_handlers = handleOrganizationStaked_def handleOrganizationStakeWithdrawn_def handleStaked_def
  handleUnstakeRequested_def handleUnstaked_def handleRewardsClaimed_def handleSlashed_def
  handleStakingRewardsDistributed_def handlePoolUpdated_def Let_def

lemma staking_step_users: "staking_step H e s = Inr s' \<Longrightarrow> users_step s s'"
  by (cases e) (auto simp: staking_handlers split: option.splits intro!: users_steps)

section \<open>Stakes refine the ledger\<close>

lemma stakeId_inject [simp]: "stakeId u p = stakeId v q \<longleftrightarrow> u = v \<and> p = q"
  by (simp add: stakeId_def)

type_synonym stake_ledger = "bytes \<Rightarrow> string \<Rightarrow> int"

definition credit :: "bytes \<Rightarrow> string \<Rightarrow> int \<Rightarrow> stake_ledger \<Rightarrow> stake_ledger" where
  "credit u p n A = A(u := (A u)(p := A u p + n))"

lemma credit_apply: "credit u p n A v q = A v q + (if v = u \<and> q = p then n else 0)"
  by (simp add: credit_def)

fun ledger_step :: "staking_event \<Rightarrow> stake_ledger \<Rightarrow> unit + stake_ledger" where
  "ledger_step (Staked _ u p n _ _) A = (if 0 \<le> n then Inr (credit u (mapStakingPurpose p) n A) else Inl ())"
| "ledger_step (Unstaked _ u p n _ _) A =
     (if 0 \<le> n \<and> n \<le> A u (mapStakingPurpose p) then Inr (credit u (mapStakingPurpose p) (- n) A) else Inl ())"
| "ledger_step (Slashed _ u p n _) A =
     (if 0 \<le> n \<and> n \<le> A u (mapStakingPurpose p) then Inr (credit u (mapStakingPurpose p) (- n) A) else Inl ())"
| "ledger_step _ A = Inr A"

definition staked :: "bytes \<Rightarrow> string \<Rightarrow> 'd store \<Rightarrow> int" where
  "staked u p s = contribution_of us_amount (userStakes s (stakeId u p))"

definition pool_total :: "string \<Rightarrow> 'd store \<Rightarrow> int" where
  "pool_total p s = contribution_of sp_totalStaked (stakingPools s p)"

definition stakes_in :: "string \<Rightarrow> 'd store \<Rightarrow> int" where
  "stakes_in p s = msum (\<lambda>st. if us_purpose st = p then us_amount st else 0) (userStakes s)"

text \<open>The shape of the stored stakes and pools.\<close>

definition stakes_ok :: "'d store \<Rightarrow> bool" where
  "stakes_ok s \<longleftrightarrow> finite (dom (userStakes s))
     \<and> (\<forall>k st. userStakes s k = Some st \<longrightarrow> us_id st = k \<and> (\<exists>u. k = stakeId u (us_purpose st))
          \<and> stakingPools s (us_purpose st) \<noteq> None)
     \<and> (\<forall>p pool. stakingPools s p = Some pool \<longrightarrow> sp_id pool = p)"

definition staking_sim :: "stake_ledger \<Rightarrow> 'd store \<Rightarrow> bool" where
  "staking_sim A s \<longleftrightarrow> stakes_ok s \<and> (\<forall>u p. staked u p s = A u p) \<and> (\<forall>u p. 0 \<le> A u p) \<and> (\<forall>p. pool_total p s = stakes_in p s)"

lemma stakes_okD:
  assumes "stakes_ok s"
  shows "userStakes s (stakeId u p) = Some st \<Longrightarrow> us_id st = stakeId u p \<and> us_purpose st = p \<and> stakingPools s p \<noteq> None"
    and "stakingPools s q = Some pool \<Longrightarrow> sp_id pool = q"
  using assms unfolding stakes_ok_def by (metis stakeId_inject)+

lemma stakes_in_update:
  assumes "stakes_ok s" and "userStakes t = (userStakes s)(stakeId u p \<mapsto> st)" and "us_purpose st = p"
    and "us_amount st = staked u p s + n"
  shows "stakes_in q t = stakes_in q s + (if q = p then n else 0)"
proof -
  have "contribution_of (\<lambda>x. if us_purpose x = q then us_amount x else 0) (userStakes s (stakeId u p)) =
      (if q = p then staked u p s else 0)"
    using stakes_okD(1) [OF assms(1), of u p] by (cases "userStakes s (stakeId u p)") (auto simp: staked_def)
  then show ?thesis
    using assms by (simp add: stakes_in_def msum_update stakes_ok_def)
qed

lemma staking_sim_credit:
  assumes sim: "staking_sim A s" and stakes: "userStakes t = (userStakes s)(stakeId u p \<mapsto> st)"
    and st: "us_id st = stakeId u p" "us_purpose st = p" "us_amount st = staked u p s + n"
    and pools: "stakingPools t = (stakingPools s)(p \<mapsto> pool)"
    and pool: "sp_id pool = p" "sp_totalStaked pool = pool_total p s + n" and n: "0 \<le> A u p + n"
  shows "staking_sim (credit u p n A) t"
proof -
  have ok: "stakes_ok s" using sim by (simp add: staking_sim_def)
  have "stakes_ok t"
    using ok st pool by (auto simp: stakes_ok_def stakes pools)
  moreover have "staked v q t = staked v q s + (if v = u \<and> q = p then n else 0)" for v q
    using st by (simp add: staked_def stakes)
  moreover have "pool_total q t = pool_total q s + (if q = p then n else 0)" for q
    using pool by (simp add: pool_total_def pools)
  ultimately show ?thesis
    using sim n stakes_in_update [OF ok stakes st(2,3)] by (auto simp: staking_sim_def credit_apply)
qed

lemma staking_sim_frame:
  assumes "staking_sim A s" and "userStakes t = userStakes s" and "stakingPools t = stakingPools s"
  shows "staking_sim A t"
  using assms by (simp add: staking_sim_def stakes_ok_def staked_def pool_total_def stakes_in_def)

lemma sim_Staked:
  assumes sim: "staking_sim A s" and "0 \<le> n"
  shows "staking_sim (credit u (mapStakingPurpose p) n A) (handleStaked ev u p n strat t s)"
proof -
  let ?p = "mapStakingPurpose p"
  let ?t = "handleStaked ev u p n strat t s"
  have ok: "stakes_ok s" using sim by (simp add: staking_sim_def)
  have "\<exists>st. userStakes ?t = (userStakes s)(stakeId u ?p \<mapsto> st) \<and> us_id st = stakeId u ?p \<and> us_purpose st = ?p
      \<and> us_amount st = staked u ?p s + n"
    using stakes_okD(1) [OF ok, of u ?p]
    by (cases "userStakes s (stakeId u ?p)"; cases "stakingPools s ?p")
      (simp_all add: handleStaked_def Let_def createOrUpdateStakingPool_def addToPool_def entity_defs staked_def)
  moreover have "\<exists>pool. stakingPools ?t = (stakingPools s)(?p \<mapsto> pool) \<and> sp_id pool = ?p
      \<and> sp_totalStaked pool = pool_total ?p s + n"
    using stakes_okD(2) [OF ok, of ?p]
    by (cases "stakingPools s ?p")
      (simp_all add: handleStaked_def Let_def createOrUpdateStakingPool_def addToPool_def entity_defs pool_total_def)
  moreover have "0 \<le> A u ?p + n" using sim assms(2) by (simp add: staking_sim_def)
  ultimately show ?thesis using staking_sim_credit [OF sim] by blast
qed

definition withdrawStake :: "bytes \<Rightarrow> string \<Rightarrow> int \<Rightarrow> 'd store \<Rightarrow> 'd store" where
  "withdrawStake u p n s = addToPool p (- n) (addToStake (stakeId u p) (- n) s)"

lemma staking_sim_withdraw:
  assumes sim: "staking_sim A s" and n: "0 \<le> n" "n \<le> A u p"
  shows "staking_sim (credit u p (- n) A) (withdrawStake u p n s)"
proof -
  have ok: "stakes_ok s" using sim by (simp add: staking_sim_def)
  show ?thesis
  proof (cases "userStakes s (stakeId u p)")
    case (Some st)
    then obtain pool where pool: "stakingPools s p = Some pool" using stakes_okD(1) [OF ok] by blast
    have st: "us_id st = stakeId u p" "us_purpose st = p" using stakes_okD(1) [OF ok Some] by auto
    have "userStakes (withdrawStake u p n s) = (userStakes s)(stakeId u p \<mapsto> st\<lparr>us_amount := us_amount st - n\<rparr>)"
      and "stakingPools (withdrawStake u p n s) =
        (stakingPools s)(p \<mapsto> pool\<lparr>sp_totalStaked := sp_totalStaked pool - n\<rparr>)"
      using Some pool st stakes_okD(2) [OF ok pool]
      by (simp_all add: withdrawStake_def addToStake_def addToPool_def entity_defs)
    from staking_sim_credit [OF sim this(1) _ _ _ this(2)] show ?thesis
      using st Some pool n(2) stakes_okD(2) [OF ok pool] by (simp add: staked_def pool_total_def)
  next
    case None
    then have "A u p = 0" using sim by (metis contribution_of_simps(1) staked_def staking_sim_def)
    then have "n = 0" using n by simp
    moreover have "credit u p 0 A = A" by (simp add: credit_def)
    moreover have "staking_sim A (withdrawStake u p 0 s)"
      by (rule staking_sim_frame [OF sim])
        (use None stakes_okD(2) [OF ok, of p] in \<open>auto simp: withdrawStake_def addToStake_def addToPool_def
          entity_defs map_upd_triv split: option.splits\<close>)
    ultimately show ?thesis by simp
  qed
qed

lemma sim_claimed:
  assumes "staking_sim A s"
  shows "staking_sim A (handleRewardsClaimed ev u p n t s)"
proof -
  let ?p = "mapStakingPurpose p" and ?t = "handleRewardsClaimed ev u p n t s"
  have ok: "stakes_ok s" using assms by (simp add: staking_sim_def)
  have st: "userStakes ?t = (case userStakes s (stakeId u ?p) of None \<Rightarrow> userStakes s
      | Some x \<Rightarrow> (userStakes s)(stakeId u ?p \<mapsto> x\<lparr>us_lastClaimTime := t, us_pendingRewards := 0\<rparr>))"
    using stakes_okD(1) [OF ok, of u ?p]
    by (cases "userStakes s (stakeId u ?p)"; cases "stakingPools s ?p")
      (simp_all add: handleRewardsClaimed_def Let_def entity_defs)
  have po: "stakingPools ?t = (case stakingPools s ?p of None \<Rightarrow> stakingPools s
      | Some x \<Rightarrow> (stakingPools s)(?p \<mapsto> x\<lparr>sp_totalRewardsDistributed := sp_totalRewardsDistributed x + n\<rparr>))"
    using stakes_okD(2) [OF ok, of ?p]
    by (cases "userStakes s (stakeId u ?p)"; cases "stakingPools s ?p")
      (simp_all add: handleRewardsClaimed_def Let_def entity_defs)
  show ?thesis
  proof (cases "userStakes s (stakeId u ?p)")
    case (Some x)
    then obtain pool where pool: "stakingPools s ?p = Some pool" using stakes_okD(1) [OF ok] by blast
    have st': "userStakes ?t = (userStakes s)(stakeId u ?p \<mapsto> x\<lparr>us_lastClaimTime := t, us_pendingRewards := 0\<rparr>)"
      using st Some by simp
    have po': "stakingPools ?t = (stakingPools s)(?p \<mapsto>
        pool\<lparr>sp_totalRewardsDistributed := sp_totalRewardsDistributed pool + n\<rparr>)"
      using po pool by simp
    have "staking_sim (credit u ?p 0 A) ?t"
      by (rule staking_sim_credit [OF assms st' _ _ _ po'])
        (use Some pool stakes_okD(1) [OF ok Some] stakes_okD(2) [OF ok pool] assms in
          \<open>auto simp: staked_def pool_total_def staking_sim_def\<close>)
    then show ?thesis by (simp add: credit_def)
  next
    case None
    then have "userStakes ?t = userStakes s" using st by simp
    moreover have "pool_total q ?t = pool_total q s" for q
      using po by (auto simp: pool_total_def split: option.splits)
    moreover have "stakes_ok ?t"
      using ok po \<open>userStakes ?t = userStakes s\<close> by (auto simp: stakes_ok_def split: option.splits if_splits)
    ultimately show ?thesis using assms by (simp add: staking_sim_def staked_def stakes_in_def)
  qed
qed

lemma sim_quiet:
  assumes "staking_sim A s"
  shows "staking_sim A (handleOrganizationStaked ev org u n t s)"
    "staking_sim A (handleOrganizationStakeWithdrawn ev org u n t s)"
    "staking_sim A (handleUnstakeRequested ev u p n strat i s)"
    "staking_sim A (handleStakingRewardsDistributed H ev s)" "staking_sim A (handlePoolUpdated H ev s)"
  by (auto intro!: staking_sim_frame [OF assms] simp: staking_handlers entity_defs split: option.splits)

lemma staking_sim_step:
  assumes "staking_sim A s" and "ledger_step e A = Inr A'"
  shows "\<exists>s'. staking_step H e s = Inr s' \<and> staking_sim A' s'"
proof -
  have user: "staking_sim A (staking_createOrUpdateUser u t s)" for u t
    by (rule staking_sim_frame [OF assms(1)]) simp_all
  have out: "staking_sim (credit u p (- n) A) (withdrawStake u p n (staking_createOrUpdateUser u t s))"
    if "0 \<le> n" "n \<le> A u p" for u p n t
    by (rule staking_sim_withdraw [OF user that])
  show ?thesis
    using assms out sim_Staked [OF assms(1)] sim_claimed [OF assms(1)] sim_quiet [OF assms(1)]
    by (cases e) (auto simp: handleUnstaked_def handleSlashed_def withdrawStake_def Let_def split: if_splits)
qed

text \<open>
  The account of \<open>Staking.sol\<close> behind the events: the balances \<open>userStakes[user][purpose].amount\<close>
  and the penalties that went to the treasury. \<open>stake\<close> adds to a balance, \<open>slash\<close> takes from it, and
  \<open>processUnstake\<close> takes the requested amount, which it emits split into the part paid out and the
  penalty of a rage quit.
\<close>

fun contract_step :: "staking_event \<Rightarrow> stake_ledger \<times> stake_ledger \<Rightarrow> unit + stake_ledger \<times> stake_ledger" where
  "contract_step (Staked _ u p n _ _) (A, Q) =
     (if 0 \<le> n then Inr (credit u (mapStakingPurpose p) n A, Q) else Inl ())"
| "contract_step (Unstaked _ u p n q _) (A, Q) =
     (if 0 \<le> n \<and> 0 \<le> q \<and> n + q \<le> A u (mapStakingPurpose p)
      then Inr (credit u (mapStakingPurpose p) (- (n + q)) A, credit u (mapStakingPurpose p) q Q) else Inl ())"
| "contract_step (Slashed _ u p n _) (A, Q) =
     (if 0 \<le> n \<and> n \<le> A u (mapStakingPurpose p) then Inr (credit u (mapStakingPurpose p) (- n) A, Q) else Inl ())"
| "contract_step _ c = Inr c"

definition contract_sim :: "stake_ledger \<times> stake_ledger \<Rightarrow> 'd store \<Rightarrow> bool" where
  "contract_sim c s \<longleftrightarrow> staking_sim (\<lambda>u p. fst c u p + snd c u p) s \<and> (\<forall>u p. 0 \<le> fst c u p \<and> 0 \<le> snd c u p)"

lemma contract_step_ledger:
  assumes "contract_step e c = Inr c'" and "\<forall>u p. 0 \<le> fst c u p \<and> 0 \<le> snd c u p"
  shows "ledger_step e (\<lambda>u p. fst c u p + snd c u p) = Inr (\<lambda>u p. fst c' u p + snd c' u p)"
    and "\<forall>u p. 0 \<le> fst c' u p \<and> 0 \<le> snd c' u p"
proof -
  obtain A Q where [simp]: "c = (A, Q)" by (cases c)
  have sums: "(\<lambda>u p. credit v q m A u p + credit v q k Q u p) = credit v q (m + k) (\<lambda>u p. A u p + Q u p)" for v q m k
    by (auto simp: fun_eq_iff credit_apply)
  have sums1: "(\<lambda>u p. credit v q m A u p + Q u p) = credit v q m (\<lambda>u p. A u p + Q u p)" for v q m
    by (auto simp: fun_eq_iff credit_apply)
  have pos: "0 \<le> Q u p" for u p using assms(2) by simp
  show "ledger_step e (\<lambda>u p. fst c u p + snd c u p) = Inr (\<lambda>u p. fst c' u p + snd c' u p)"
    using assms(1) pos by (cases e) (auto simp: sums sums1 add_increasing2 split: if_splits intro: add_increasing2 order_trans)
  show "\<forall>u p. 0 \<le> fst c' u p \<and> 0 \<le> snd c' u p"
    using assms by (cases e) (auto simp: credit_apply split: if_splits)
qed

lemma contract_sim_step:
  assumes "contract_sim c s" and "contract_step e c = Inr c'"
  shows "\<exists>s'. staking_step H e s = Inr s' \<and> contract_sim c' s'"
proof -
  have sim: "staking_sim (\<lambda>u p. fst c u p + snd c u p) s" and pos: "\<forall>u p. 0 \<le> fst c u p \<and> 0 \<le> snd c u p"
    using assms(1) by (simp_all add: contract_sim_def)
  obtain s' where "staking_step H e s = Inr s'" "staking_sim (\<lambda>u p. fst c' u p + snd c' u p) s'"
    using staking_sim_step [OF sim contract_step_ledger(1) [OF assms(2) pos], of H] by blast
  with contract_step_ledger(2) [OF assms(2) pos] show ?thesis by (simp add: contract_sim_def)
qed

interpretation stake_refinement: indexer_refinement contract_step "staking_step H" contract_sim
  for H by unfold_locales (rule contract_sim_step)

text \<open>
  C4. The indexed stakes against the account of the Staking contract. Along every sequence of
  staking events the contract can emit (balances start at zero, nobody is paid out or slashed more
  than the own balance) the indexer does not halt, and afterwards the stored stake of every user and
  purpose is the contract's balance plus all penalties that this user has paid for this purpose,
  because the handler of \<open>Unstaked\<close> takes the amount paid out and leaves the penalty in the stake.
  Balances and penalties are not negative, so the index never shows less than the contract holds and
  agrees with it exactly where no penalty was paid; the total of every pool is the sum of the
  indexed stakes with its purpose.
\<close>

theorem stakes_refine_ledger:
  assumes "run contract_step es (\<lambda>u p. 0, \<lambda>u p. 0) = Inr (A, Q)"
  shows "\<exists>s'. run (staking_step H) es (empty_store :: 'd store) = Inr s'
     \<and> (\<forall>u p. staked u p s' = A u p + Q u p \<and> 0 \<le> A u p \<and> 0 \<le> Q u p) \<and> (\<forall>p. pool_total p s' = stakes_in p s')"
proof -
  have "contract_sim (\<lambda>u p. 0, \<lambda>u p. 0) (empty_store :: 'd store)"
    by (simp add: contract_sim_def staking_sim_def stakes_ok_def staked_def pool_total_def stakes_in_def)
  from stake_refinement.run_refines [OF this assms, of H] show ?thesis
    by (auto simp: contract_sim_def staking_sim_def)
qed

text \<open>A rage quit of 50: 40 are paid out, 10 go to the treasury, and stay in the index.\<close>

theorem stakes_refine_ledger_witness:
  "\<exists>s' :: int store. run (staking_step (int_host (\<lambda>_. None)))
      [Staked example_event [1] 0 100 1 5, Staked example_event [2] 0 50 1 6, Slashed example_event [1] 0 30 7,
       Unstaked example_event [2] 0 40 10 8] empty_store = Inr s'
     \<and> staked [1] ''GOVERNANCE'' s' = 70 \<and> staked [2] ''GOVERNANCE'' s' = 10
     \<and> pool_total ''GOVERNANCE'' s' = stakes_in ''GOVERNANCE'' s'"
proof -
  let ?es = "[Staked example_event [1] 0 100 1 5, Staked example_event [2] 0 50 1 6, Slashed example_event [1] 0 30 7,
       Unstaked example_event [2] 0 40 10 8]"
  obtain A Q where A: "run contract_step ?es (\<lambda>u p. 0, \<lambda>u p. 0) = Inr (A, Q)"
    and v: "A [1] ''GOVERNANCE'' = 70" "Q [1] ''GOVERNANCE'' = 0" "A [2] ''GOVERNANCE'' = 0" "Q [2] ''GOVERNANCE'' = 10"
    by (simp add: credit_apply mapStakingPurpose_def)
  from stakes_refine_ledger [OF A, of "int_host (\<lambda>_. None)"] obtain s' :: "int store"
    where "run (staking_step (int_host (\<lambda>_. None))) ?es empty_store = Inr s'"
      and s: "\<forall>u p. staked u p s' = A u p + Q u p \<and> 0 \<le> A u p \<and> 0 \<le> Q u p" "\<forall>p. pool_total p s' = stakes_in p s'" by metis
  moreover have "staked [1] ''GOVERNANCE'' s' = 70" "staked [2] ''GOVERNANCE'' s' = 10" using s(1) v by simp_all
  ultimately show ?thesis using s(2) by blast
qed

section \<open>Unstake requests\<close>

definition requests_open :: "'d store \<Rightarrow> bool" where
  "requests_open s \<longleftrightarrow> (\<forall>k r. unstakeRequests s k = Some r \<longrightarrow> ur_id r = k \<and> \<not> ur_processed r)"

lemma requests_open_empty [simp]: "requests_open empty_store"
  by (simp add: requests_open_def)

lemma stake_blocks_requests [simp]:
  "unstakeRequests (createOrUpdateStakingPool p s) = unstakeRequests s"
  "unstakeRequests (addToStake k n s) = unstakeRequests s" "unstakeRequests (addToPool p n s) = unstakeRequests s"
  by (simp_all add: createOrUpdateStakingPool_def addToStake_def addToPool_def entity_defs split: option.splits)

lemma staking_step_requests: "staking_step H e s = Inr s' \<Longrightarrow> requests_open s \<Longrightarrow> requests_open s'"
  by (cases e) (auto simp: staking_handlers requests_open_def entity_defs split: option.splits if_splits)

text \<open>
  An unstake request is never marked as processed: no sequence of staking events, the
  \<open>Unstaked\<close> event that pays a request out included, leaves a stored request with
  \<open>processed = true\<close>.
\<close>

theorem unstake_requests_stay_open:
  assumes "run (staking_step H) es (empty_store :: 'd store) = Inr s'" and "unstakeRequests s' k = Some r"
  shows "\<not> ur_processed r"
proof -
  have "requests_open s'"
    by (rule run_invariant [OF _ assms(1), where I = requests_open]) (auto intro: staking_step_requests)
  then show ?thesis using assms(2) by (simp add: requests_open_def)
qed

theorem unstake_requests_stay_open_witness:
  "\<exists>s' r. run (staking_step (int_host (\<lambda>_. None)))
      [Staked example_event [1] 0 100 1 5, UnstakeRequested example_event [1] 0 100 0 3, Unstaked example_event [1] 0 80 20 8]
      (empty_store :: int store) = Inr s'
     \<and> unstakeRequests s' (toHex [1] @ ''-'' @ show_int 3) = Some r \<and> \<not> ur_processed r"
proof -
  let ?es = "[Staked example_event [1] 0 100 1 5, UnstakeRequested example_event [1] 0 100 0 3, Unstaked example_event [1] 0 80 20 8]"
  obtain s' where r: "run (staking_step (int_host (\<lambda>_. None))) ?es (empty_store :: int store) = Inr s'" by simp
  then have "unstakeRequests s' (toHex [1] @ ''-'' @ show_int 3) \<noteq> None"
    by (auto simp: handleUnstaked_def handleUnstakeRequested_def UnstakeRequest_save_def Let_def)
  then obtain q where "unstakeRequests s' (toHex [1] @ ''-'' @ show_int 3) = Some q" by blast
  with unstake_requests_stay_open [OF r this] r show ?thesis by blast
qed

section \<open>Stakes of organizations\<close>

text \<open>
  The stake of an organization is active from the staking event until the withdrawal event of
  the same organization, and stays as recorded otherwise: after both events it is inactive, with
  the staked amount, staker and time of the first.
\<close>

theorem organization_stake_life:
  "\<exists>st. organizationStakes (handleOrganizationStaked ev org u n t s) = (organizationStakes s)(toHex org \<mapsto> st)
     \<and> os_active st \<and> os_amount st = n \<and> os_staker st = toHex u \<and> os_stakedAt st = t
     \<and> organizationStakes (handleOrganizationStakeWithdrawn ev' org u' n' t' (handleOrganizationStaked ev org u n t s))
         = (organizationStakes s)(toHex org \<mapsto> st\<lparr>os_active := False\<rparr>)"
  by (rule exI [of _ "\<lparr>os_id = toHex org, os_organizationId = org, os_staker = toHex u, os_amount = n,
      os_stakedAt = t, os_active = True, os_organization = toHex org, os_blockNumber = ev_number ev,
      os_transaction = toHex (ev_txHash ev)\<rparr>"])
    (simp add: handleOrganizationStaked_def handleOrganizationStakeWithdrawn_def Let_def entity_defs)

end
