(* ===== verification/Treasury.thy ===== *)
theory Treasury
  imports Ids
begin

text \<open>
  \<open>packages/subgraph/src/treasury.ts\<close>: deposits and spendings of the treasuries for which a data
  source was instantiated. \<open>treasury_step\<close> dispatches the events; the treasury is the contract that
  emitted the event. The lemmas show which record each event leaves, that events of a treasury the
  index does not know leave none, and that the totals stored with a treasury never move.
\<close>

section \<open>Handlers\<close>

text \<open>The block that creates or refreshes a user, three times in the file.\<close>

definition treasury_user :: "bytes \<Rightarrow> int \<Rightarrow> 'd store \<Rightarrow> 'd store" where
  "treasury_user address now s =
     (let user = (case users s (toHex address) of
                    None \<Rightarrow> newUser (toHex address) address now now
                  | Some user \<Rightarrow> user)
      in User_save (user\<lparr>u_lastActiveAt := now\<rparr>) s)"

definition recordKey :: "eth_event \<Rightarrow> string" where
  "recordKey ev = toHex (ev_txHash ev) @ ''-'' @ show_int (ev_logIndex ev)"

definition handleFundsDeposited ::
  "'d host \<Rightarrow> eth_event \<Rightarrow> bytes \<Rightarrow> bytes \<Rightarrow> int \<Rightarrow> string \<Rightarrow> int \<Rightarrow> 'd store \<Rightarrow> 'd store" where
  [handler_defs]: "handleFundsDeposited H ev token sender amount purpose timestamp s =
     (let s = updateIndexingStatus H (ev_block ev) ''FundsDeposited'' s;
          treasuryId = toHex (ev_address ev)
      in case treasuries s treasuryId of
           None \<Rightarrow> s
         | Some treasury \<Rightarrow>
             (let s = treasury_user sender (ev_timestamp ev) s;
                  s = TreasuryTransaction_save
                        \<lparr>tx_id = recordKey ev, tx_treasury = treasuryId, tx_token = token,
                         tx_from = toHex sender, tx_to = treasuryId, tx_amount = bd_fromBigInt H amount,
                         tx_purpose = purpose, tx_timestamp = timestamp, tx_transactionType = ''DEPOSIT'',
                         tx_spender = None, tx_blockNumber = ev_number ev,
                         tx_transaction = toHex (ev_txHash ev)\<rparr> s;
                  s = Treasury_save (treasury\<lparr>tr_lastActivityAt := ev_timestamp ev\<rparr>) s
              in Transaction_save (newTransaction ev 0) s))"

definition handleFundsSpent ::
  "'d host \<Rightarrow> eth_event \<Rightarrow> bytes \<Rightarrow> bytes \<Rightarrow> int \<Rightarrow> string \<Rightarrow> bytes \<Rightarrow> int \<Rightarrow> 'd store \<Rightarrow> 'd store" where
  [handler_defs]: "handleFundsSpent H ev token recipient amount purpose spender timestamp s =
     (let s = updateIndexingStatus H (ev_block ev) ''FundsSpent'' s;
          treasuryId = toHex (ev_address ev)
      in case treasuries s treasuryId of
           None \<Rightarrow> s
         | Some treasury \<Rightarrow>
             (let s = treasury_user recipient (ev_timestamp ev) s;
                  s = treasury_user spender (ev_timestamp ev) s;
                  s = TreasuryTransaction_save
                        \<lparr>tx_id = recordKey ev, tx_treasury = treasuryId, tx_token = token,
                         tx_from = treasuryId, tx_to = toHex recipient, tx_amount = bd_fromBigInt H amount,
                         tx_purpose = purpose, tx_timestamp = timestamp, tx_transactionType = ''SPEND'',
                         tx_spender = Some (toHex spender), tx_blockNumber = ev_number ev,
                         tx_transaction = toHex (ev_txHash ev)\<rparr> s
              in Treasury_save (treasury\<lparr>tr_lastActivityAt := ev_timestamp ev\<rparr>) s))"

definition handleTokenAdded :: "'d host \<Rightarrow> eth_event \<Rightarrow> 'd store \<Rightarrow> 'd store" where
  [handler_defs]: "handleTokenAdded H ev s =
     (let s = updateIndexingStatus H (ev_block ev) ''TokenAdded'' s
      in case treasuries s (toHex (ev_address ev)) of
           None \<Rightarrow> s
         | Some treasury \<Rightarrow> Treasury_save (treasury\<lparr>tr_lastActivityAt := ev_timestamp ev\<rparr>) s)"

definition handleTokenRemoved :: "'d host \<Rightarrow> eth_event \<Rightarrow> 'd store \<Rightarrow> 'd store" where
  [handler_defs]: "handleTokenRemoved H ev s =
     (let s = updateIndexingStatus H (ev_block ev) ''TokenRemoved'' s
      in case treasuries s (toHex (ev_address ev)) of
           None \<Rightarrow> s
         | Some treasury \<Rightarrow> Treasury_save (treasury\<lparr>tr_lastActivityAt := ev_timestamp ev\<rparr>) s)"

definition handleSpendingLimitUpdated :: "'d host \<Rightarrow> eth_event \<Rightarrow> 'd store \<Rightarrow> 'd store" where
  [handler_defs]: "handleSpendingLimitUpdated H ev s =
     (let s = updateIndexingStatus H (ev_block ev) ''SpendingLimitUpdated'' s
      in case treasuries s (toHex (ev_address ev)) of
           None \<Rightarrow> s
         | Some treasury \<Rightarrow> Treasury_save (treasury\<lparr>tr_lastActivityAt := ev_timestamp ev\<rparr>) s)"

datatype treasury_event =
    FundsDeposited eth_event bytes bytes int string int
  | FundsSpent eth_event bytes bytes int string bytes int
  | TokenAdded eth_event
  | TokenRemoved eth_event
  | SpendingLimitUpdated eth_event

fun treasury_step :: "'d host \<Rightarrow> treasury_event \<Rightarrow> 'd store \<Rightarrow> halt + 'd store" where
  "treasury_step H (FundsDeposited ev tk f n p t) s = Inr (handleFundsDeposited H ev tk f n p t s)"
| "treasury_step H (FundsSpent ev tk r n p sp t) s = Inr (handleFundsSpent H ev tk r n p sp t s)"
| "treasury_step H (TokenAdded ev) s = Inr (handleTokenAdded H ev s)"
| "treasury_step H (TokenRemoved ev) s = Inr (handleTokenRemoved H ev s)"
| "treasury_step H (SpendingLimitUpdated ev) s = Inr (handleSpendingLimitUpdated H ev s)"

section \<open>Users\<close>

interpretation treasury_users: user_provider treasury_user
  by (rule user_providerI [where v = "\<lambda>a t old. (case old of
        None \<Rightarrow> newUser (toHex a) a t t | Some u \<Rightarrow> u)\<lparr>u_lastActiveAt := t\<rparr>"])
    (simp_all add: treasury_user_def Let_def fresh_user_def same_counts_def)

declare treasury_users.ensure_fields [simp]

lemma users_step_treasury_user [users_steps]: "users_step s t \<Longrightarrow> users_step s (treasury_user a n t)"
  using treasury_users.ensure_keyed users_step_trans by blast

lemmas treasury_handlers = handleFundsDeposited_def handleFundsSpent_def handleTokenAdded_def
  handleTokenRemoved_def handleSpendingLimitUpdated_def Let_def

lemma treasury_step_users: "treasury_step H e s = Inr s' \<Longrightarrow> users_step s s'"
  by (cases e) (auto simp: treasury_handlers split: option.splits intro!: users_steps)

section \<open>Records and totals\<close>

lemma recordKey_inject [simp]:
  "recordKey a = recordKey b \<longleftrightarrow> ev_txHash a = ev_txHash b \<and> ev_logIndex a = ev_logIndex b"
  by (simp add: recordKey_def)

fun treasury_source :: "treasury_event \<Rightarrow> eth_event" where
  "treasury_source (FundsDeposited ev _ _ _ _ _) = ev"
| "treasury_source (FundsSpent ev _ _ _ _ _ _) = ev"
| "treasury_source (TokenAdded ev) = ev"
| "treasury_source (TokenRemoved ev) = ev"
| "treasury_source (SpendingLimitUpdated ev) = ev"

text \<open>What an event of a known treasury adds to the money records.\<close>

fun money_record :: "'d host \<Rightarrow> treasury_event \<Rightarrow> 'd treasuryTransaction option" where
  "money_record H (FundsDeposited ev tk f n p t) = Some
     \<lparr>tx_id = recordKey ev, tx_treasury = toHex (ev_address ev), tx_token = tk, tx_from = toHex f,
      tx_to = toHex (ev_address ev), tx_amount = bd_fromBigInt H n, tx_purpose = p, tx_timestamp = t,
      tx_transactionType = ''DEPOSIT'', tx_spender = None, tx_blockNumber = ev_number ev,
      tx_transaction = toHex (ev_txHash ev)\<rparr>"
| "money_record H (FundsSpent ev tk r n p sp t) = Some
     \<lparr>tx_id = recordKey ev, tx_treasury = toHex (ev_address ev), tx_token = tk, tx_from = toHex (ev_address ev),
      tx_to = toHex r, tx_amount = bd_fromBigInt H n, tx_purpose = p, tx_timestamp = t,
      tx_transactionType = ''SPEND'', tx_spender = Some (toHex sp), tx_blockNumber = ev_number ev,
      tx_transaction = toHex (ev_txHash ev)\<rparr>"
| "money_record H _ = None"

lemma treasury_step_records:
  assumes "treasury_step H e s = Inr s'"
  shows "treasuryTransactions s' =
    (case treasuries s (toHex (ev_address (treasury_source e))) of
       None \<Rightarrow> treasuryTransactions s
     | Some _ \<Rightarrow> (case money_record H e of None \<Rightarrow> treasuryTransactions s
                   | Some x \<Rightarrow> (treasuryTransactions s)(recordKey (treasury_source e) \<mapsto> x)))"
  using assms by (cases e) (auto simp: treasury_handlers entity_defs split: option.splits)

definition treasuries_keyed :: "'d store \<Rightarrow> bool" where
  "treasuries_keyed s \<longleftrightarrow> (\<forall>k x. treasuries s k = Some x \<longrightarrow> tr_id x = k)"

definition fixed_part :: "'d treasury \<Rightarrow> string \<times> bytes \<times> int \<times> 'd \<times> 'd" where
  "fixed_part x = (tr_organization x, tr_address x, tr_createdAt x, tr_totalDeposits x, tr_totalSpent x)"

definition frozen :: "'d store \<Rightarrow> 'd store \<Rightarrow> bool" where
  "frozen s t \<longleftrightarrow> (treasuries_keyed s \<longrightarrow> treasuries_keyed t
     \<and> (\<forall>k. map_option fixed_part (treasuries t k) = map_option fixed_part (treasuries s k)))"

lemma frozen_refl: "frozen s s"
  by (simp add: frozen_def)

lemma frozen_trans: "frozen s t \<Longrightarrow> frozen t u \<Longrightarrow> frozen s u"
  by (simp add: frozen_def)

lemma frozen_known: "frozen s t \<Longrightarrow> treasuries_keyed s \<Longrightarrow> treasuries t k = None \<longleftrightarrow> treasuries s k = None"
  unfolding frozen_def by (metis option.map_disc_iff)

lemma frozen_touch:
  assumes "treasuries s k = Some x"
    and "treasuries t = (treasuries s)(tr_id x \<mapsto> x\<lparr>tr_lastActivityAt := n\<rparr>)"
  shows "frozen s t"
  using assms by (auto simp: frozen_def treasuries_keyed_def fixed_part_def)

lemma frozen_same: "treasuries t = treasuries s \<Longrightarrow> frozen s t"
  by (simp add: frozen_def treasuries_keyed_def)

lemma treasury_step_frozen: "treasury_step H e s = Inr s' \<Longrightarrow> frozen s s'"
  by (cases e) (auto simp: treasury_handlers entity_defs split: option.splits intro: frozen_touch frozen_same)

text \<open>
  Every deposit and every spending of a known treasury is recorded. Over a sequence of treasury
  events with pairwise different transaction hash and log index, each \<open>FundsDeposited\<close> and
  \<open>FundsSpent\<close> event of a treasury that the store holds leaves its record, with sender, receiver,
  spender, token and amount as in the event, and later events of the sequence do not disturb it.
\<close>

theorem money_movements_recorded:
  assumes "run (treasury_step H) es s = Inr s'" and "distinct (map (recordKey \<circ> treasury_source) es)"
    and "treasuries_keyed s" and "e \<in> set es" and "treasuries s (toHex (ev_address (treasury_source e))) \<noteq> None"
    and "money_record H e = Some x"
  shows "treasuryTransactions s' (recordKey (treasury_source e)) = Some x"
  using assms
proof (induction es arbitrary: s)
  case Nil
  then show ?case by simp
next
  case (Cons a es)
  from Cons.prems(1) obtain t where t: "treasury_step H a s = Inr t" and r: "run (treasury_step H) es t = Inr s'" by auto
  have fr: "frozen s t" by (rule treasury_step_frozen [OF t])
  then have k: "treasuries_keyed t" using Cons.prems(3) by (simp add: frozen_def)
  have known: "treasuries t (toHex (ev_address (treasury_source e))) \<noteq> None"
    using frozen_known [OF fr Cons.prems(3)] Cons.prems(5) by simp
  show ?case
  proof (cases "e \<in> set es")
    case True
    then show ?thesis using Cons.IH [OF r] Cons.prems known k by simp
  next
    case False
    then have a: "a = e" using Cons.prems(4) by simp
    have later: "treasuryTransactions s' (recordKey (treasury_source e)) = treasuryTransactions t (recordKey (treasury_source e))"
      by (rule run_invariant [OF _ r, where I = "\<lambda>u. treasuryTransactions u (recordKey (treasury_source e)) =
            treasuryTransactions t (recordKey (treasury_source e))"])
        (use Cons.prems(2) a in \<open>auto dest!: treasury_step_records split: option.splits\<close>)
    then show ?thesis using treasury_step_records [OF t] a Cons.prems(5,6) by auto
  qed
qed

theorem money_movements_recorded_witness:
  "\<exists>s' :: int store. run (treasury_step (int_host (\<lambda>_. None)))
      [FundsDeposited example_event [7] [1] 500 ''fee'' 1000] (empty_store\<lparr>treasuries := [toHex [192] \<mapsto>
        \<lparr>tr_id = toHex [192], tr_organization = ''G'', tr_address = [192], tr_createdAt = 0, tr_lastActivityAt = 0,
         tr_totalDeposits = 0, tr_totalSpent = 0\<rparr>]\<rparr>) = Inr s'
     \<and> map_option tx_amount (treasuryTransactions s' (recordKey example_event)) = Some 500"
proof -
  let ?s = "(empty_store :: int store)\<lparr>treasuries := [toHex [192] \<mapsto>
        \<lparr>tr_id = toHex [192], tr_organization = ''G'', tr_address = [192], tr_createdAt = 0, tr_lastActivityAt = 0,
         tr_totalDeposits = 0, tr_totalSpent = 0\<rparr>]\<rparr>"
  let ?e = "FundsDeposited example_event [7] [1] 500 ''fee'' 1000"
  let ?H = "int_host (\<lambda>_. None)"
  obtain s' where r: "run (treasury_step ?H) [?e] ?s = Inr s'" by simp
  obtain x where x: "money_record ?H ?e = Some x" and "tx_amount x = 500" by simp
  moreover have h: "distinct (map (recordKey \<circ> treasury_source) [?e])" "treasuries_keyed ?s" "?e \<in> set [?e]"
      "treasuries ?s (toHex (ev_address (treasury_source ?e))) \<noteq> None"
    by (simp_all add: treasuries_keyed_def example_event_def)
  ultimately show ?thesis using money_movements_recorded [OF r h x] r by auto
qed

text \<open>
  The totals of a treasury are frozen. No treasury event ever changes the total deposits or
  total spent stored with a treasury, nor its organization, address and creation time: after any run
  they are what they were, whatever was deposited or spent in between.
\<close>

theorem treasury_totals_frozen:
  assumes "run (treasury_step H) es s = Inr s'" and "treasuries_keyed s" and "treasuries s k = Some x"
  shows "\<exists>y. treasuries s' k = Some y \<and> tr_totalDeposits y = tr_totalDeposits x \<and> tr_totalSpent y = tr_totalSpent x
     \<and> tr_organization y = tr_organization x \<and> tr_address y = tr_address x \<and> tr_createdAt y = tr_createdAt x"
proof -
  have "frozen s s'"
    by (rule run_relation [OF treasury_step_frozen frozen_refl frozen_trans assms(1)])
  then have "map_option fixed_part (treasuries s' k) = Some (fixed_part x)" using assms(2,3) by (simp add: frozen_def)
  then show ?thesis by (auto simp: map_option_eq_Some fixed_part_def)
qed

theorem treasury_totals_frozen_witness:
  "\<exists>(s' :: int store) y. run (treasury_step (int_host (\<lambda>_. None)))
      [FundsDeposited example_event [7] [1] 500 ''fee'' 1000] (empty_store\<lparr>treasuries := [toHex [192] \<mapsto>
        \<lparr>tr_id = toHex [192], tr_organization = ''G'', tr_address = [192], tr_createdAt = 0, tr_lastActivityAt = 0,
         tr_totalDeposits = 0, tr_totalSpent = 0\<rparr>]\<rparr>) = Inr s'
     \<and> treasuries s' (toHex [192]) = Some y \<and> tr_totalDeposits y = 0"
proof -
  let ?x = "\<lparr>tr_id = toHex [192], tr_organization = ''G'', tr_address = [192], tr_createdAt = 0, tr_lastActivityAt = 0,
         tr_totalDeposits = 0, tr_totalSpent = 0\<rparr> :: int treasury"
  let ?s = "(empty_store :: int store)\<lparr>treasuries := [toHex [192] \<mapsto> ?x]\<rparr>"
  let ?e = "FundsDeposited example_event [7] [1] 500 ''fee'' 1000"
  obtain s' where r: "run (treasury_step (int_host (\<lambda>_. None))) [?e] ?s = Inr s'" by simp
  have h: "treasuries_keyed ?s" "treasuries ?s (toHex [192]) = Some ?x" by (simp_all add: treasuries_keyed_def)
  from treasury_totals_frozen [OF r h] r show ?thesis by auto
qed

end
