(* ===== verification/Registry.thy ===== *)
theory Registry
  imports Ids
begin

text \<open>
  \<open>packages/subgraph/src/registry.ts\<close>: the modules of the protocol. \<open>registry_step\<close> dispatches the
  events of the Registry contract. \<open>catalog_step\<close> is the abstract catalog of modules (address,
  enabled flag and version per module id); the refinement shows that the index is exactly that
  catalog. The counters of the global statistics are shown to count events, not modules.
\<close>

section \<open>Handlers\<close>

definition registry_updateGlobalStats :: "'d host \<Rightarrow> int \<Rightarrow> 'd store \<Rightarrow> 'd store" where
  "registry_updateGlobalStats H timestamp s =
     (let stats = (case global_stats s of None \<Rightarrow> zeroGlobalStats (bd_fromBigInt H 0) 0 | Some g \<Rightarrow> g)
      in GlobalStats_save (stats\<lparr>gs_totalModules := gs_totalModules stats + 1,
           gs_activeModules := gs_activeModules stats + 1, gs_updatedAt := timestamp\<rparr>) s)"

definition logKey :: "eth_event \<Rightarrow> string" where
  "logKey ev = toHex (ev_txHash ev) @ ''-'' @ show_int (ev_logIndex ev)"

definition handleModuleRegistered :: "'d host \<Rightarrow> eth_event \<Rightarrow> bytes \<Rightarrow> bytes \<Rightarrow> 'd store \<Rightarrow> 'd store" where
  [handler_defs]: "handleModuleRegistered H ev moduleIdParam moduleAddress s =
     (let moduleId = toHex moduleIdParam;
          (version, registeredAt) = (case modules s moduleId of
             None \<Rightarrow> (1, ev_timestamp ev) | Some m \<Rightarrow> (mo_version m, mo_registeredAt m));
          s = Module_save \<lparr>mo_id = moduleId, mo_address = moduleAddress, mo_admin = moduleAddress, mo_enabled = False,
                mo_version = version, mo_registeredAt = registeredAt, mo_updatedAt = ev_timestamp ev\<rparr> s;
          transaction = newTransaction ev 0;
          s = Transaction_save transaction s;
          s = ModuleRegistration_save
                \<lparr>mr_id = logKey ev, mr_module = moduleId, mr_address = moduleAddress, mr_admin = moduleAddress,
                 mr_timestamp = ev_timestamp ev, mr_blockNumber = ev_number ev, mr_transaction = txn_id transaction\<rparr> s
      in registry_updateGlobalStats H (ev_timestamp ev) s)"

definition handleModuleEnabled :: "'d host \<Rightarrow> eth_event \<Rightarrow> bytes \<Rightarrow> 'd store \<Rightarrow> 'd store" where
  [handler_defs]: "handleModuleEnabled H ev moduleId s =
     (let s = (case modules s (toHex moduleId) of
                 None \<Rightarrow> s
               | Some m \<Rightarrow> Module_save (m\<lparr>mo_enabled := True, mo_updatedAt := ev_timestamp ev\<rparr>) s)
      in registry_updateGlobalStats H (ev_timestamp ev) s)"

definition handleModuleDisabled :: "'d host \<Rightarrow> eth_event \<Rightarrow> bytes \<Rightarrow> 'd store \<Rightarrow> 'd store" where
  [handler_defs]: "handleModuleDisabled H ev moduleId s =
     (let s = (case modules s (toHex moduleId) of
                 None \<Rightarrow> s
               | Some m \<Rightarrow> Module_save (m\<lparr>mo_enabled := False, mo_updatedAt := ev_timestamp ev\<rparr>) s)
      in registry_updateGlobalStats H (ev_timestamp ev) s)"

definition handleModuleUpgraded :: "eth_event \<Rightarrow> bytes \<Rightarrow> bytes \<Rightarrow> 'd store \<Rightarrow> 'd store" where
  [handler_defs]: "handleModuleUpgraded ev moduleIdParam newAddress s =
     (let transaction = newTransaction ev 0;
          s = Transaction_save transaction s;
          moduleId = toHex moduleIdParam
      in case modules s moduleId of
           None \<Rightarrow> s
         | Some m \<Rightarrow>
             (let oldAddress = mo_address m;
                  s = Module_save (m\<lparr>mo_address := newAddress, mo_version := mo_version m + 1,
                        mo_updatedAt := ev_timestamp ev\<rparr>) s
              in ModuleUpgrade_save
                   \<lparr>mu_id = logKey ev, mu_module = moduleId, mu_oldAddress = oldAddress, mu_newAddress = newAddress,
                    mu_timestamp = ev_timestamp ev, mu_blockNumber = ev_number ev,
                    mu_transaction = txn_id transaction\<rparr> s))"

datatype registry_event =
    ModuleRegistered eth_event bytes bytes
  | ModuleEnabled eth_event bytes
  | ModuleDisabled eth_event bytes
  | ModuleUpgraded eth_event bytes bytes

fun registry_step :: "'d host \<Rightarrow> registry_event \<Rightarrow> 'd store \<Rightarrow> halt + 'd store" where
  "registry_step H (ModuleRegistered ev i a) s = Inr (handleModuleRegistered H ev i a s)"
| "registry_step H (ModuleEnabled ev i) s = Inr (handleModuleEnabled H ev i s)"
| "registry_step H (ModuleDisabled ev i) s = Inr (handleModuleDisabled H ev i s)"
| "registry_step H (ModuleUpgraded ev i a) s = Inr (handleModuleUpgraded ev i a s)"

lemma registry_stats_frame [simp]:
  "users (registry_updateGlobalStats H n s) = users s" "modules (registry_updateGlobalStats H n s) = modules s"
  "moduleUpgrades (registry_updateGlobalStats H n s) = moduleUpgrades s"
  by (simp_all add: registry_updateGlobalStats_def Let_def GlobalStats_save_def)

lemmas registry_handlers = handleModuleRegistered_def handleModuleEnabled_def handleModuleDisabled_def
  handleModuleUpgraded_def Let_def

lemma registry_step_users: "registry_step H e s = Inr s' \<Longrightarrow> users_step s s'"
  by (cases e) (auto simp: registry_handlers entity_defs split: option.splits intro!: users_step_same)

section \<open>The index refines the catalog\<close>

record catalog_entry =
  ce_address :: bytes
  ce_enabled :: bool
  ce_version :: int

fun catalog_step :: "registry_event \<Rightarrow> (bytes \<rightharpoonup> catalog_entry) \<Rightarrow> unit + (bytes \<rightharpoonup> catalog_entry)" where
  "catalog_step (ModuleRegistered _ i a) C = Inr (C(i \<mapsto> \<lparr>ce_address = a, ce_enabled = False,
     ce_version = (case C i of None \<Rightarrow> 1 | Some x \<Rightarrow> ce_version x)\<rparr>))"
| "catalog_step (ModuleEnabled _ i) C = Inr (C(i := map_option (ce_enabled_update (\<lambda>_. True)) (C i)))"
| "catalog_step (ModuleDisabled _ i) C = Inr (C(i := map_option (ce_enabled_update (\<lambda>_. False)) (C i)))"
| "catalog_step (ModuleUpgraded _ i a) C =
     Inr (C(i := map_option (\<lambda>x. x\<lparr>ce_address := a, ce_version := ce_version x + 1\<rparr>) (C i)))"

definition entry_of :: "module \<Rightarrow> catalog_entry" where
  "entry_of m = \<lparr>ce_address = mo_address m, ce_enabled = mo_enabled m, ce_version = mo_version m\<rparr>"

definition catalog_of :: "'d store \<Rightarrow> bytes \<rightharpoonup> catalog_entry" where
  "catalog_of s i = map_option entry_of (modules s (toHex i))"

definition modules_keyed :: "'d store \<Rightarrow> bool" where
  "modules_keyed s \<longleftrightarrow> (\<forall>k m. modules s k = Some m \<longrightarrow> mo_id m = k)"

lemma modules_keyedD: "modules_keyed s \<Longrightarrow> modules s k = Some m \<Longrightarrow> mo_id m = k"
  by (simp add: modules_keyed_def)

definition registry_sim :: "(bytes \<rightharpoonup> catalog_entry) \<Rightarrow> 'd store \<Rightarrow> bool" where
  "registry_sim C s \<longleftrightarrow> modules_keyed s \<and> catalog_of s = C"

lemma catalog_of_upd: "modules t = (modules s)(toHex i \<mapsto> m) \<Longrightarrow> catalog_of t = (catalog_of s)(i \<mapsto> entry_of m)"
  by (auto simp: catalog_of_def)

lemma catalog_of_same: "modules t = modules s \<Longrightarrow> catalog_of t = catalog_of s"
  by (simp add: catalog_of_def fun_eq_iff)

lemma registry_sim_upd:
  assumes "registry_sim C s" and "modules t = (modules s)(toHex i \<mapsto> m)" and "mo_id m = toHex i"
  shows "registry_sim (C(i \<mapsto> entry_of m)) t"
  using assms catalog_of_upd [OF assms(2)] by (simp add: registry_sim_def modules_keyed_def)

lemma registry_sim_same: "registry_sim C s \<Longrightarrow> modules t = modules s \<Longrightarrow> registry_sim C t"
  using catalog_of_same [of t s] by (simp add: registry_sim_def modules_keyed_def)

lemma registry_sim_lookup: "registry_sim C s \<Longrightarrow> C i = map_option entry_of (modules s (toHex i))"
  by (auto simp: registry_sim_def catalog_of_def)

text \<open>Registering sets the module; the other three change a module that exists and skip one that does not.\<close>

lemma registered_modules:
  "modules (handleModuleRegistered H ev i a s) = (modules s)(toHex i \<mapsto>
     \<lparr>mo_id = toHex i, mo_address = a, mo_admin = a, mo_enabled = False,
      mo_version = (case modules s (toHex i) of None \<Rightarrow> 1 | Some m \<Rightarrow> mo_version m),
      mo_registeredAt = (case modules s (toHex i) of None \<Rightarrow> ev_timestamp ev | Some m \<Rightarrow> mo_registeredAt m),
      mo_updatedAt = ev_timestamp ev\<rparr>)"
  by (simp add: handleModuleRegistered_def Let_def entity_defs split: option.splits)

lemma registry_sim_change:
  assumes sim: "registry_sim C s"
    and none: "modules s (toHex i) = None \<Longrightarrow> modules t = modules s"
    and some: "\<And>m. modules s (toHex i) = Some m \<Longrightarrow> modules t = (modules s)(mo_id m \<mapsto> g m)"
    and g: "\<And>m. mo_id (g m) = mo_id m" "\<And>m. entry_of (g m) = h (entry_of m)"
  shows "registry_sim (C(i := map_option h (C i))) t"
proof (cases "modules s (toHex i)")
  case None
  then have "C i = None" using registry_sim_lookup [OF sim] by simp
  then show ?thesis using registry_sim_same [OF sim none [OF None]] by (simp add: fun_upd_idem)
next
  case (Some m)
  then have "mo_id m = toHex i" using sim by (auto simp: registry_sim_def dest: modules_keyedD)
  moreover have "C i = Some (entry_of m)" using registry_sim_lookup [OF sim] Some by simp
  ultimately show ?thesis using registry_sim_upd [OF sim, of t i "g m"] some [OF Some] g by simp
qed

lemma registry_sim_step:
  assumes sim: "registry_sim C s" and st: "catalog_step e C = Inr C'"
  shows "\<exists>s'. registry_step H e s = Inr s' \<and> registry_sim C' s'"
proof (cases e)
  case (ModuleRegistered ev i a)
  have "(case C i of None \<Rightarrow> 1 | Some x \<Rightarrow> ce_version x) =
      (case modules s (toHex i) of None \<Rightarrow> 1 | Some m \<Rightarrow> mo_version m)"
    using registry_sim_lookup [OF sim, of i] by (auto simp: entry_of_def split: option.splits)
  then show ?thesis
    using registry_sim_upd [OF sim registered_modules [of H ev i a s]] st ModuleRegistered
    by (auto simp: entry_of_def)
next
  case (ModuleEnabled ev i)
  have "registry_sim (C(i := map_option (ce_enabled_update (\<lambda>_. True)) (C i))) (handleModuleEnabled H ev i s)"
    by (rule registry_sim_change [OF sim, where g = "\<lambda>m. m\<lparr>mo_enabled := True, mo_updatedAt := ev_timestamp ev\<rparr>"])
      (simp_all add: handleModuleEnabled_def Let_def entity_defs entry_of_def)
  then show ?thesis using st ModuleEnabled by auto
next
  case (ModuleDisabled ev i)
  have "registry_sim (C(i := map_option (ce_enabled_update (\<lambda>_. False)) (C i))) (handleModuleDisabled H ev i s)"
    by (rule registry_sim_change [OF sim, where g = "\<lambda>m. m\<lparr>mo_enabled := False, mo_updatedAt := ev_timestamp ev\<rparr>"])
      (simp_all add: handleModuleDisabled_def Let_def entity_defs entry_of_def)
  then show ?thesis using st ModuleDisabled by auto
next
  case (ModuleUpgraded ev i a)
  have "registry_sim (C(i := map_option (\<lambda>x. x\<lparr>ce_address := a, ce_version := ce_version x + 1\<rparr>) (C i)))
      (handleModuleUpgraded ev i a s)"
    by (rule registry_sim_change [OF sim, where g = "\<lambda>m. m\<lparr>mo_address := a, mo_version := mo_version m + 1,
          mo_updatedAt := ev_timestamp ev\<rparr>"])
      (simp_all add: handleModuleUpgraded_def Let_def entity_defs entry_of_def)
  then show ?thesis using st ModuleUpgraded by auto
qed

interpretation module_catalog: indexer_refinement catalog_step "registry_step H" registry_sim
  for H by unfold_locales (rule registry_sim_step)

lemma catalog_total: "\<exists>C'. run catalog_step es C = Inr C'"
proof (rule run_total)
  show "\<exists>C'. catalog_step e C = Inr C'" for e C by (cases e) simp_all
qed

text \<open>
  C6. The module index refines the catalog. Over every sequence of Registry events the index holds,
  for each module id, exactly the address, enabled flag and version of the abstract catalog: enabled
  follows the last registration, enabling or disabling, the version is one plus the upgrades since
  the first registration, and events of an unregistered module change nothing. No event halts.
\<close>

theorem modules_refine_catalog:
  "\<exists>C s'. run catalog_step es Map.empty = Inr C \<and> run (registry_step H) es (empty_store :: 'd store) = Inr s'
     \<and> catalog_of s' = C"
proof -
  obtain C where C: "run catalog_step es Map.empty = Inr C" using catalog_total by blast
  have "registry_sim Map.empty (empty_store :: 'd store)"
    by (simp add: registry_sim_def modules_keyed_def catalog_of_def fun_eq_iff)
  from module_catalog.run_refines [OF this C, of H] C show ?thesis by (auto simp: registry_sim_def)
qed

section \<open>The module counters\<close>

definition counted_modules :: "'d store \<Rightarrow> int" where
  "counted_modules s = contribution_of gs_totalModules (global_stats s)"

definition counted_active :: "'d store \<Rightarrow> int" where
  "counted_active s = contribution_of gs_activeModules (global_stats s)"

fun counts_module :: "registry_event \<Rightarrow> int" where
  "counts_module (ModuleUpgraded _ _ _) = 0"
| "counts_module _ = 1"

lemma registry_stats_counted:
  assumes "stats_keyed s"
  shows "stats_keyed (registry_updateGlobalStats H n s)"
    "counted_modules (registry_updateGlobalStats H n s) = counted_modules s + 1"
    "counted_active (registry_updateGlobalStats H n s) = counted_active s + 1"
  using assms by (cases "global_stats s"; simp add: registry_updateGlobalStats_def Let_def GlobalStats_save_def
      stats_keyed_def counted_modules_def counted_active_def)+

lemma registry_stats_cong:
  "globalStatsStore t = globalStatsStore s \<Longrightarrow>
     globalStatsStore (registry_updateGlobalStats H n t) = globalStatsStore (registry_updateGlobalStats H n s)"
  by (simp add: registry_updateGlobalStats_def GlobalStats_save_def Let_def)

lemma registry_step_stats:
  assumes "registry_step H e s = Inr s'"
  shows "if counts_module e = 1 then \<exists>n. globalStatsStore s' = globalStatsStore (registry_updateGlobalStats H n s)
     else globalStatsStore s' = globalStatsStore s \<and> counts_module e = 0"
proof (cases e)
  case (ModuleUpgraded ev i a)
  then show ?thesis using assms by (auto simp: handleModuleUpgraded_def Let_def entity_defs split: option.splits)
qed (use assms in \<open>auto simp: registry_handlers entity_defs split: option.splits intro!: exI registry_stats_cong\<close>)

lemma counters_frame:
  assumes "globalStatsStore t = globalStatsStore s"
  shows "stats_keyed t = stats_keyed s" "counted_modules t = counted_modules s" "counted_active t = counted_active s"
  using assms by (simp_all add: stats_keyed_def counted_modules_def counted_active_def)

lemma registry_step_counted:
  assumes "stats_keyed s" and "registry_step H e s = Inr s'"
  shows "stats_keyed s' \<and> counted_modules s' = counted_modules s + counts_module e
     \<and> counted_active s' = counted_active s + counts_module e"
proof (cases "counts_module e = 1")
  case True
  then obtain n where "globalStatsStore s' = globalStatsStore (registry_updateGlobalStats H n s)"
    using registry_step_stats [OF assms(2)] by auto
  from counters_frame [OF this] show ?thesis using registry_stats_counted [OF assms(1)] True by simp
next
  case False
  then have "globalStatsStore s' = globalStatsStore s" and "counts_module e = 0"
    using registry_step_stats [OF assms(2)] by auto
  from counters_frame [OF this(1)] show ?thesis using assms(1) \<open>counts_module e = 0\<close> by simp
qed

interpretation module_counter: counted_indexer "registry_step H" "\<lambda>_. True" stats_keyed counted_modules counts_module
  for H by unfold_locales (use registry_step_counted in auto)

interpretation active_module_counter: counted_indexer "registry_step H" "\<lambda>_. True" stats_keyed counted_active counts_module
  for H by unfold_locales (use registry_step_counted in auto)

text \<open>
  The module counters count events. After any sequence of Registry events both the total and
  the active module counter of the global statistics are the number of registration, enabling and
  disabling events, so disabling a module raises the number of active modules and registering and
  enabling one module counts it twice.
\<close>

theorem module_counters_count_events:
  "\<exists>s'. run (registry_step H) es (empty_store :: 'd store) = Inr s'
     \<and> counted_modules s' = sum_list (map counts_module es) \<and> counted_active s' = sum_list (map counts_module es)"
proof -
  have "\<exists>s'. run (registry_step H) es (empty_store :: 'd store) = Inr s'"
  proof (rule run_total)
    show "\<exists>s'. registry_step H e s = Inr s'" for e and s :: "'d store" by (cases e) simp_all
  qed
  then obtain s' where r: "run (registry_step H) es (empty_store :: 'd store) = Inr s'" by blast
  show ?thesis
    using r module_counter.run_counter [OF r _ stats_keyed_empty] active_module_counter.run_counter [OF r _ stats_keyed_empty]
    by (simp add: list_all_iff counted_modules_def counted_active_def)
qed

end
