(* ===== verification/Tokens.thy ===== *)
theory Tokens
  imports Ids
begin

text \<open>
  \<open>packages/subgraph/src/gameToken.ts\<close>, \<open>mockGameToken.ts\<close> and \<open>mockUSDC.ts\<close>: token transfers,
  approvals, minting and burning.

  The data sources GameToken and MockGameToken watch the same contract address, so every event of
  that contract reaches one handler of each file. \<open>token_step\<close> dispatches an event to a single
  handler. The lemmas show that the references of transfer records are sound along every run, that
  the second of the two handlers adds nothing, and on which events a handler refuses to go on.
\<close>

section \<open>Helpers\<close>

text \<open>The block \<open>if (user == null) { new User ... save }\<close> with every field assigned.\<close>

definition ensureUser :: "bytes \<Rightarrow> int \<Rightarrow> 'd store \<Rightarrow> 'd store" where
  "ensureUser address now s =
     (case users s (toHex address) of
        None \<Rightarrow> User_save (newUser (toHex address) address now now) s
      | Some _ \<Rightarrow> s)"

text \<open>The same block with the address only.\<close>

definition ensureBareUser :: "bytes \<Rightarrow> 'd store \<Rightarrow> halt + 'd store" where
  "ensureBareUser address s =
     (case users s (toHex address) of
        None \<Rightarrow> User_save_draft ((User_new (toHex address))\<lparr>ud_address := Some address\<rparr>) s
      | Some _ \<Rightarrow> Inr s)"

text \<open>The block of \<open>mockUSDC.ts\<close>, which refreshes the user as well.\<close>

definition usdc_user :: "bytes \<Rightarrow> int \<Rightarrow> 'd store \<Rightarrow> 'd store" where
  "usdc_user address now s =
     (let user = (case users s (toHex address) of
                    None \<Rightarrow> newUser (toHex address) address now now
                  | Some user \<Rightarrow> user)
      in User_save (user\<lparr>u_lastActiveAt := now\<rparr>) s)"

definition transferKey :: "eth_event \<Rightarrow> string" where
  "transferKey ev = toHex (ev_txHash ev) @ ''-'' @ show_int (ev_logIndex ev)"

definition zeroAddressString :: string where
  "zeroAddressString = ''0x0000000000000000000000000000000000000000''"

definition newTransfer :: "'d host \<Rightarrow> eth_event \<Rightarrow> string \<Rightarrow> string \<Rightarrow> int \<Rightarrow> int \<Rightarrow> 'd tokenTransfer" where
  "newTransfer H ev fromId toId amount timestamp =
     \<lparr>tt_id = transferKey ev, tt_from = fromId, tt_to = toId, tt_token = ev_address ev,
      tt_amount = bd_fromBigInt H amount, tt_timestamp = timestamp, tt_blockNumber = ev_number ev,
      tt_transaction = toHex (ev_txHash ev)\<rparr>"

section \<open>gameToken.ts\<close>

definition handleGameTokenTransfer :: "'d host \<Rightarrow> eth_event \<Rightarrow> bytes \<Rightarrow> bytes \<Rightarrow> int \<Rightarrow> 'd store \<Rightarrow> 'd store" where
  [handler_defs]: "handleGameTokenTransfer H ev sender receiver amount s =
     (let s = Transaction_save (newTransaction ev 0) s;
          s = ensureUser sender (ev_timestamp ev) s;
          s = ensureUser receiver (ev_timestamp ev) s
      in TokenTransfer_save (newTransfer H ev (toHex sender) (toHex receiver) amount (ev_timestamp ev)) s)"

definition handleGameTokenApproval :: "eth_event \<Rightarrow> bytes \<Rightarrow> bytes \<Rightarrow> int \<Rightarrow> 'd store \<Rightarrow> 'd store" where
  [handler_defs]: "handleGameTokenApproval ev owner spender amount s =
     (let s = Transaction_save (newTransaction ev 0) s;
          s = ensureUser owner (ev_timestamp ev) s
      in ensureUser spender (ev_timestamp ev) s)"

definition handleTokensMinted :: "'d host \<Rightarrow> eth_event \<Rightarrow> bytes \<Rightarrow> int \<Rightarrow> int \<Rightarrow> 'd store \<Rightarrow> 'd store" where
  [handler_defs]: "handleTokensMinted H ev receiver amount timestamp s =
     (let s = Transaction_save (newTransaction ev 0) s;
          s = ensureUser receiver (ev_timestamp ev) s
      in TokenTransfer_save (newTransfer H ev zeroAddressString (toHex receiver) amount timestamp) s)"

definition handleTokensBurned :: "'d host \<Rightarrow> eth_event \<Rightarrow> bytes \<Rightarrow> int \<Rightarrow> int \<Rightarrow> 'd store \<Rightarrow> halt + 'd store" where
  [handler_defs]: "handleTokensBurned H ev sender amount timestamp s =
     (let s = Transaction_save (newTransaction ev 0) s
      in bind_halt (ensureBareUser sender s) (\<lambda>s.
         Inr (TokenTransfer_save (newTransfer H ev (toHex sender) zeroAddressString amount timestamp) s)))"

section \<open>mockGameToken.ts\<close>

definition handleMockGameTokenTransfer :: "'d host \<Rightarrow> eth_event \<Rightarrow> bytes \<Rightarrow> bytes \<Rightarrow> int \<Rightarrow> 'd store \<Rightarrow> 'd store" where
  [handler_defs]: "handleMockGameTokenTransfer H ev sender receiver amount s =
     (let s = Transaction_save (newTransaction ev 0) s;
          s = ensureUser sender (ev_timestamp ev) s;
          s = ensureUser receiver (ev_timestamp ev) s
      in TokenTransfer_save (newTransfer H ev (toHex sender) (toHex receiver) amount (ev_timestamp ev)) s)"

definition handleMockGameTokenApproval :: "bytes \<Rightarrow> bytes \<Rightarrow> 'd store \<Rightarrow> halt + 'd store" where
  [handler_defs]: "handleMockGameTokenApproval owner spender s =
     bind_halt (ensureBareUser owner s) (ensureBareUser spender)"

definition handleMockTokensMinted :: "bytes \<Rightarrow> 'd store \<Rightarrow> halt + 'd store" where
  [handler_defs]: "handleMockTokensMinted receiver s = ensureBareUser receiver s"

definition handleMockTokensBurned :: "bytes \<Rightarrow> 'd store \<Rightarrow> halt + 'd store" where
  [handler_defs]: "handleMockTokensBurned sender s = ensureBareUser sender s"

section \<open>mockUSDC.ts\<close>

definition handleUSDCTransfer :: "'d host \<Rightarrow> eth_event \<Rightarrow> bytes \<Rightarrow> bytes \<Rightarrow> int \<Rightarrow> 'd store \<Rightarrow> 'd store" where
  [handler_defs]: "handleUSDCTransfer H ev sender receiver amount s =
     (let s = updateIndexingStatus H (ev_block ev) ''USDCTransfer'' s
      in if amount = 0 then s
         else (let s = usdc_user sender (ev_timestamp ev) s;
                   s = usdc_user receiver (ev_timestamp ev) s;
                   s = TokenTransfer_save (newTransfer H ev (toHex sender) (toHex receiver) amount (ev_timestamp ev)) s
               in Transaction_save (newTransaction ev 0) s))"

definition handleUSDCApproval :: "'d host \<Rightarrow> eth_event \<Rightarrow> bytes \<Rightarrow> bytes \<Rightarrow> int \<Rightarrow> 'd store \<Rightarrow> 'd store" where
  [handler_defs]: "handleUSDCApproval H ev owner spender amount s =
     (let s = updateIndexingStatus H (ev_block ev) ''USDCApproval'' s;
          s = usdc_user owner (ev_timestamp ev) s
      in usdc_user spender (ev_timestamp ev) s)"

datatype token_event =
    GameTokenTransfer eth_event bytes bytes int
  | GameTokenApproval eth_event bytes bytes int
  | TokensMinted eth_event bytes int int
  | TokensBurned eth_event bytes int int
  | MockTransfer eth_event bytes bytes int
  | MockApproval eth_event bytes bytes int
  | MockMinted eth_event bytes int int
  | MockBurned eth_event bytes int int
  | USDCTransfer eth_event bytes bytes int
  | USDCApproval eth_event bytes bytes int

fun token_step :: "'d host \<Rightarrow> token_event \<Rightarrow> 'd store \<Rightarrow> halt + 'd store" where
  "token_step H (GameTokenTransfer ev f r n) s = Inr (handleGameTokenTransfer H ev f r n s)"
| "token_step H (GameTokenApproval ev f r n) s = Inr (handleGameTokenApproval ev f r n s)"
| "token_step H (TokensMinted ev r n t) s = Inr (handleTokensMinted H ev r n t s)"
| "token_step H (TokensBurned ev f n t) s = handleTokensBurned H ev f n t s"
| "token_step H (MockTransfer ev f r n) s = Inr (handleMockGameTokenTransfer H ev f r n s)"
| "token_step H (MockApproval ev f r n) s = handleMockGameTokenApproval f r s"
| "token_step H (MockMinted ev r n t) s = handleMockTokensMinted r s"
| "token_step H (MockBurned ev f n t) s = handleMockTokensBurned f s"
| "token_step H (USDCTransfer ev f r n) s = Inr (handleUSDCTransfer H ev f r n s)"
| "token_step H (USDCApproval ev f r n) s = Inr (handleUSDCApproval H ev f r n s)"

section \<open>Users\<close>

interpretation usdc_users: user_provider usdc_user
  by (rule user_providerI [where v = "\<lambda>a t old. (case old of
        None \<Rightarrow> newUser (toHex a) a t t | Some u \<Rightarrow> u)\<lparr>u_lastActiveAt := t\<rparr>"])
    (simp_all add: usdc_user_def Let_def fresh_user_def same_counts_def)

declare usdc_users.ensure_fields [simp]

interpretation token_users: user_provider ensureUser
proof
  fix a t and s :: "'d store" and U
  show "users_ok s \<Longrightarrow> \<exists>v. users (ensureUser a t s) = (users s)(toHex a \<mapsto> v) \<and> user_obtained a (users s (toHex a)) v"
  proof (cases "users s (toHex a)")
    case (Some u)
    then show ?thesis
      by (intro exI [of _ u]) (simp add: ensureUser_def user_obtained_def same_counts_def map_upd_triv)
  qed (simp add: ensureUser_def User_save_def user_obtained_def fresh_user_def)
  show "(ensureUser a t s)\<lparr>users := U\<rparr> = s\<lparr>users := U\<rparr>"
    by (simp add: ensureUser_def User_save_def split: option.splits)
  show "users_step s (ensureUser a t s)"
  proof (cases "users s (toHex a)")
    case None
    then show ?thesis
      by (intro users_step_update [where a = a]) (auto simp: ensureUser_def User_save_def)
  next
    case (Some u)
    then show ?thesis by (simp add: ensureUser_def)
  qed
qed

declare token_users.ensure_fields [simp]

lemma users_step_token_users [users_steps]:
  "users_step s t \<Longrightarrow> users_step s (ensureUser a n t)" "users_step s t \<Longrightarrow> users_step s (usdc_user a n t)"
  using token_users.ensure_keyed usdc_users.ensure_keyed users_step_trans by blast+

lemma ensureBareUser_eq:
  "ensureBareUser a s = (if users s (toHex a) = None then Inl (MissingField ''User'' ''totalOrganizations'') else Inr s)"
  by (simp add: ensureBareUser_def User_draft_address_only split: option.splits)

lemmas token_handlers = handleGameTokenTransfer_def handleGameTokenApproval_def handleTokensMinted_def
  handleTokensBurned_def handleMockGameTokenTransfer_def handleMockGameTokenApproval_def handleMockTokensMinted_def
  handleMockTokensBurned_def handleUSDCTransfer_def handleUSDCApproval_def ensureBareUser_eq Let_def

lemma token_step_users: "token_step H e s = Inr s' \<Longrightarrow> users_step s s'"
  by (cases e) (auto simp: token_handlers split: if_splits intro!: users_steps)

section \<open>References of transfer records\<close>

lemma zeroAddressString_eq: "zeroAddressString = toHex zeroAddress"
  by code_simp

definition known_party :: "'d store \<Rightarrow> string \<Rightarrow> bool" where
  "known_party s k \<longleftrightarrow> k = zeroAddressString \<or> users s k \<noteq> None"

definition transfers_ok :: "'d store \<Rightarrow> bool" where
  "transfers_ok s \<longleftrightarrow> (\<forall>k x. tokenTransfers s k = Some x \<longrightarrow> tt_id x = k \<and> known_party s (tt_from x)
     \<and> known_party s (tt_to x))"

lemma transfers_ok_empty: "transfers_ok empty_store"
  by (simp add: transfers_ok_def)

lemma known_party_step: "users_step s t \<Longrightarrow> users_ok s \<Longrightarrow> known_party s k \<Longrightarrow> known_party t k"
  by (auto simp: users_step_def users_le_def known_party_def)

lemma transfers_ok_keep:
  assumes "transfers_ok s" and "users_ok s" and "users_step s t" and "tokenTransfers t = tokenTransfers s"
  shows "transfers_ok t"
  using assms known_party_step [OF assms(3,2)] by (auto simp: transfers_ok_def)

lemma transfers_ok_add:
  assumes "transfers_ok s" and "users_ok s" and "users_step s t" and "tokenTransfers t = (tokenTransfers s)(tt_id x \<mapsto> x)"
    and "known_party t (tt_from x)" and "known_party t (tt_to x)"
  shows "transfers_ok t"
  using assms known_party_step [OF assms(3,2)] by (auto simp: transfers_ok_def)

text \<open>The record an event leaves.\<close>

fun transfer_of :: "'d host \<Rightarrow> token_event \<Rightarrow> 'd tokenTransfer option" where
  "transfer_of H (GameTokenTransfer ev f r n) = Some (newTransfer H ev (toHex f) (toHex r) n (ev_timestamp ev))"
| "transfer_of H (MockTransfer ev f r n) = Some (newTransfer H ev (toHex f) (toHex r) n (ev_timestamp ev))"
| "transfer_of H (TokensMinted ev r n t) = Some (newTransfer H ev zeroAddressString (toHex r) n t)"
| "transfer_of H (TokensBurned ev f n t) = Some (newTransfer H ev (toHex f) zeroAddressString n t)"
| "transfer_of H (USDCTransfer ev f r n) =
     (if n = 0 then None else Some (newTransfer H ev (toHex f) (toHex r) n (ev_timestamp ev)))"
| "transfer_of H _ = None"

lemma newTransfer_simps [simp]:
  "tt_id (newTransfer H ev f r n t) = transferKey ev" "tt_from (newTransfer H ev f r n t) = f"
  "tt_to (newTransfer H ev f r n t) = r" "tt_amount (newTransfer H ev f r n t) = bd_fromBigInt H n"
  by (simp_all add: newTransfer_def)

lemma token_step_transfers:
  "token_step H e s = Inr s' \<Longrightarrow> tokenTransfers s' = (case transfer_of H e of
      None \<Rightarrow> tokenTransfers s | Some x \<Rightarrow> (tokenTransfers s)(tt_id x \<mapsto> x))"
  by (cases e) (auto simp: token_handlers entity_defs split: if_splits)

lemma ensureUser_None_iff [simp]: "users (ensureUser a n s) k = None \<longleftrightarrow> users s k = None \<and> k \<noteq> toHex a"
  by (auto simp: ensureUser_def User_save_def split: option.splits)

lemma ensureUser_Some_iff [simp]:
  "(\<exists>u. users (ensureUser a n s) k = Some u) \<longleftrightarrow> (\<exists>u. users s k = Some u) \<or> k = toHex a"
  using ensureUser_None_iff [of a n s k] by (auto simp del: ensureUser_None_iff)

lemma usdc_user_known:
  assumes "users_ok s"
  shows "users (usdc_user a n s) (toHex a) \<noteq> None" and "users s k \<noteq> None \<Longrightarrow> users (usdc_user a n s) k \<noteq> None"
    and "users_ok (usdc_user a n s)"
  using usdc_users.ensure_users [OF assms, of a n] usdc_users.ensure_keyed [of s a n] assms
  by (auto simp: users_step_def)

lemma token_step_parties:
  assumes "users_ok s" and "token_step H e s = Inr s'" and "transfer_of H e = Some x"
  shows "known_party s' (tt_from x) \<and> known_party s' (tt_to x)"
proof (cases e)
  case (USDCTransfer ev f r n)
  let ?s = "updateIndexingStatus H (ev_block ev) ''USDCTransfer'' s"
  have ok: "users_ok ?s" using assms(1) by (simp add: users_ok_def)
  have ok1: "users_ok (usdc_user f (ev_timestamp ev) ?s)" by (rule usdc_user_known(3) [OF ok])
  show ?thesis
    using assms(2,3) USDCTransfer usdc_user_known [OF ok, where a = f] usdc_user_known [OF ok1, where a = r]
    by (auto simp: token_handlers entity_defs known_party_def split: if_splits)
qed (use assms in
    \<open>auto simp: token_handlers entity_defs known_party_def split: if_splits\<close>)

lemma token_step_transfers_ok:
  assumes "users_ok s \<and> transfers_ok s" and "token_step H e s = Inr s'"
  shows "users_ok s' \<and> transfers_ok s'"
proof -
  note us = token_step_users [OF assms(2)]
  have "users_ok s'" using us assms(1) by (simp add: users_step_def)
  moreover have "transfers_ok s'"
  proof (cases "transfer_of H e")
    case None
    then show ?thesis
      using transfers_ok_keep [OF _ _ us] assms(1) token_step_transfers [OF assms(2)] by simp
  next
    case (Some x)
    then show ?thesis
      using transfers_ok_add [OF _ _ us, of x] assms(1) token_step_transfers [OF assms(2)]
        token_step_parties [OF _ assms(2) Some] by simp
  qed
  ultimately show ?thesis ..
qed

text \<open>
  Transfer records are referentially sound. Along every run of token events from an empty store
  each transfer record stands under its own id, and its sender and receiver are stored users, except
  for the zero address of a mint or a burn, which may stand for no user.
\<close>

theorem transfer_references_sound:
  assumes "run (token_step H) es (empty_store :: 'd store) = Inr s'" and "tokenTransfers s' k = Some x"
  shows "tt_id x = k \<and> (tt_from x = zeroAddressString \<or> users s' (tt_from x) \<noteq> None)
     \<and> (tt_to x = zeroAddressString \<or> users s' (tt_to x) \<noteq> None)"
proof -
  have "users_ok s' \<and> transfers_ok s'"
    by (rule run_invariant [OF _ assms(1), where I = "\<lambda>s. users_ok s \<and> transfers_ok s"])
      (use token_step_transfers_ok in \<open>auto simp: transfers_ok_empty\<close>)
  then show ?thesis using assms(2) by (auto simp: transfers_ok_def known_party_def)
qed

theorem transfer_references_sound_witness:
  "\<exists>(s' :: int store) x. run (token_step (int_host (\<lambda>_. None))) [GameTokenTransfer example_event [1] [2] 30] empty_store = Inr s'
     \<and> tokenTransfers s' (transferKey example_event) = Some x \<and> tt_id x = transferKey example_event"
proof -
  obtain s' where r: "run (token_step (int_host (\<lambda>_. None))) [GameTokenTransfer example_event [1] [2] 30] (empty_store :: int store) = Inr s'"
    by simp
  then have "tokenTransfers s' (transferKey example_event) \<noteq> None" by (auto simp: token_handlers entity_defs)
  then obtain x where x: "tokenTransfers s' (transferKey example_event) = Some x" by blast
  from transfer_references_sound [OF r x] x r show ?thesis by blast
qed

section \<open>Two handlers for one event\<close>

text \<open>The second handler of a shared event sees the users the first one has saved.\<close>

lemma ensureUser_idem: "users s (toHex a) \<noteq> None \<Longrightarrow> ensureUser a n s = s"
  by (auto simp: ensureUser_def)

text \<open>
  The mock data source adds nothing and stops nothing. Since both game-token data sources watch
  one address, a transfer, an approval and a mint are handled by the game-token handler and then by
  the mock handler; the second leaves the store exactly as the first left it, and the pair never
  halts, although the mock handler alone would halt on a user it does not know.
\<close>

theorem mock_handler_adds_nothing:
  "token_step H (MockTransfer ev f r n) (handleGameTokenTransfer H ev f r n s) = Inr (handleGameTokenTransfer H ev f r n s)
   \<and> token_step H (MockApproval ev f r n) (handleGameTokenApproval ev f r n s) = Inr (handleGameTokenApproval ev f r n s)
   \<and> token_step H (MockMinted ev r n t) (handleTokensMinted H ev r n t s) = Inr (handleTokensMinted H ev r n t s)"
proof -
  let ?t = "handleGameTokenTransfer H ev f r n s"
  have u: "users ?t (toHex f) \<noteq> None" "users ?t (toHex r) \<noteq> None"
    by (auto simp: handleGameTokenTransfer_def Let_def entity_defs)
  have tx: "Transaction_save (newTransaction ev 0) ?t = ?t"
    by (simp add: handleGameTokenTransfer_def Let_def entity_defs fun_upd_idem)
  have tt: "TokenTransfer_save (newTransfer H ev (toHex f) (toHex r) n (ev_timestamp ev)) ?t = ?t"
    by (simp add: handleGameTokenTransfer_def Let_def TokenTransfer_save_def)
  have "token_step H (MockTransfer ev f r n) ?t = Inr ?t"
    using u by (simp add: handleMockGameTokenTransfer_def Let_def tx ensureUser_idem tt)
  then show ?thesis by (auto simp: token_handlers entity_defs)
qed

text \<open>
  Exactly when the token handlers halt. The transfer, approval and mint handlers of the game
  token and both handlers of the stablecoin never halt; the burn handler of the game token and the
  three bare handlers of the mock token halt if and only if an address of the event has no stored
  user, because they save a user that has its address and nothing else.
\<close>

theorem token_halts_iff:
  "(\<exists>x. token_step H e s = Inl x) \<longleftrightarrow>
     (case e of TokensBurned _ f _ _ \<Rightarrow> users s (toHex f) = None
      | MockApproval _ f r _ \<Rightarrow> users s (toHex f) = None \<or> users s (toHex r) = None
      | MockMinted _ r _ _ \<Rightarrow> users s (toHex r) = None
      | MockBurned _ f _ _ \<Rightarrow> users s (toHex f) = None
      | _ \<Rightarrow> False)"
  by (cases e) (auto simp: token_handlers entity_defs)

end
