(* ===== verification/Identity.thy ===== *)
theory Identity
  imports Membership
begin

text \<open>
  \<open>packages/subgraph/src/identity.ts\<close>: profiles. \<open>identity_step\<close> dispatches the events of the
  Identity contract. The lemmas show that the user a profile refers to is always stored (the
  property that the comment in \<open>handleProfileCreated\<close> is about), that a profile id decodes back to
  its bytes, that the id under which the handler looks for the member is never the id of a member,
  and what a verification leaves of the metadata.
\<close>

section \<open>Handlers\<close>

definition getProfileIdString :: "bytes \<Rightarrow> halt + string" where
  "getProfileIdString profileIdBytes8 = idStringLoop 8 0 profileIdBytes8 []"

definition identityMemberId :: "string \<Rightarrow> bytes \<Rightarrow> string" where
  "identityMemberId organizationId owner = organizationId @ ''-'' @ toHex owner"

text \<open>The organization and the member are only looked up for a warning; the user is created.\<close>

definition handleProfileCreated ::
  "eth_event \<Rightarrow> bytes \<Rightarrow> bytes \<Rightarrow> bytes \<Rightarrow> string \<Rightarrow> int \<Rightarrow> 'd store \<Rightarrow> halt + 'd store" where
  [handler_defs]: "handleProfileCreated ev profileIdParam owner organizationIdParam metadata timestamp s =
     bind_halt (getProfileIdString profileIdParam) (\<lambda>profileId.
     bind_halt (getOrganizationIdString organizationIdParam) (\<lambda>organizationId.
       let (user, s) = getOrCreateUser owner s
       in Inr (Profile_save
            \<lparr>prf_id = profileId, prf_user = u_id user, prf_organization = organizationId,
             prf_metadata = metadata, prf_createdAt = timestamp, prf_blockNumber = ev_number ev,
             prf_transaction = toHex (ev_txHash ev)\<rparr> s)))"

definition handleProfileUpdated :: "eth_event \<Rightarrow> bytes \<Rightarrow> string \<Rightarrow> int \<Rightarrow> 'd store \<Rightarrow> halt + 'd store" where
  [handler_defs]: "handleProfileUpdated ev profileIdParam metadata timestamp s =
     bind_halt (getProfileIdString profileIdParam) (\<lambda>profileId.
       Inr (case profiles s profileId of
              None \<Rightarrow> s
            | Some profile \<Rightarrow>
                Profile_save (profile\<lparr>prf_metadata := metadata, prf_blockNumber := ev_number ev,
                  prf_transaction := toHex (ev_txHash ev)\<rparr>) s))"

definition verificationLevel :: "int \<Rightarrow> string" where
  [enum_defs]: "verificationLevel level =
     (if level = 0 then ''NONE'' else if level = 1 then ''BASIC'' else if level = 2 then ''ENHANCED''
      else if level = 3 then ''PREMIUM'' else ''NONE'')"

definition handleProfileVerified :: "eth_event \<Rightarrow> bytes \<Rightarrow> int \<Rightarrow> int \<Rightarrow> 'd store \<Rightarrow> halt + 'd store" where
  [handler_defs]: "handleProfileVerified ev profileIdParam level timestamp s =
     bind_halt (getProfileIdString profileIdParam) (\<lambda>profileId.
       Inr (case profiles s profileId of
              None \<Rightarrow> s
            | Some profile \<Rightarrow>
                Profile_save (profile\<lparr>prf_metadata := verificationLevel level, prf_blockNumber := ev_number ev,
                  prf_transaction := toHex (ev_txHash ev)\<rparr>) s))"

datatype identity_event =
    ProfileCreated eth_event bytes bytes bytes string int
  | ProfileUpdated eth_event bytes string int
  | ProfileVerified eth_event bytes int int

fun identity_step :: "identity_event \<Rightarrow> 'd store \<Rightarrow> halt + 'd store" where
  "identity_step (ProfileCreated ev p ow org md t) s = handleProfileCreated ev p ow org md t s"
| "identity_step (ProfileUpdated ev p md t) s = handleProfileUpdated ev p md t s"
| "identity_step (ProfileVerified ev p l t) s = handleProfileVerified ev p l t s"

section \<open>Ids\<close>

lemma getProfileIdString_eq:
  "getProfileIdString b = (if 8 \<le> length b then Inr (map fromCharCode (take 8 b)) else Inl IndexOutOfRange)"
  by (simp add: getProfileIdString_def idStringLoop_eq)

lemmas identity_handlers = handleProfileCreated_def handleProfileUpdated_def handleProfileVerified_def
  getProfileIdString_eq getOrganizationIdString_eq Let_def

lemma identity_step_users: "identity_step e s = Inr s' \<Longrightarrow> users_step s s'"
  by (cases e) (auto simp: identity_handlers split: option.splits if_splits prod.splits intro!: users_steps
      elim: getOrCreateUser_step)

section \<open>References of profiles\<close>

definition profiles_ok :: "'d store \<Rightarrow> bool" where
  "profiles_ok s \<longleftrightarrow> (\<forall>k p. profiles s k = Some p \<longrightarrow> prf_id p = k \<and> length k = 8 \<and> users s (prf_user p) \<noteq> None)"

lemma profiles_ok_keep:
  assumes "profiles_ok s" and "users_ok s" and "users_step s t" and "profiles t = profiles s"
  shows "profiles_ok t"
proof -
  have "users t k \<noteq> None" if "users s k \<noteq> None" for k
    using assms(2,3) that by (auto simp: users_step_def users_le_def)
  then show ?thesis using assms(1,4) unfolding profiles_ok_def by metis
qed

lemma profiles_ok_set:
  assumes "profiles_ok s" and "users_ok s" and "users_step s t"
    and "profiles t = (profiles s)(k \<mapsto> p)" and "prf_id p = k" and "length k = 8" and "users t (prf_user p) \<noteq> None"
  shows "profiles_ok t"
proof -
  have "users t k \<noteq> None" if "users s k \<noteq> None" for k
    using assms(2,3) that by (auto simp: users_step_def users_le_def)
  then show ?thesis using assms unfolding profiles_ok_def by auto
qed

lemma getOrCreateUser_known:
  assumes "users_ok s" and "getOrCreateUser a s = (u, t)"
  shows "users t (u_id u) = Some u" and "u_id u = toHex a"
  using getOrCreateUser_users [OF assms(1), of a] user_obtainedD(1) [OF assms(1)] assms(2) by auto

lemma profile_edit_ok:
  assumes ok: "users_ok s" "profiles_ok s" and p: "profiles s k = Some p" and t: "t = Profile_save q s"
    and q: "prf_id q = prf_id p" "prf_user q = prf_user p"
  shows "profiles_ok t"
proof -
  have "prf_id p = k" "length k = 8" "users s (prf_user p) \<noteq> None" using ok(2) p by (auto simp: profiles_ok_def)
  then show ?thesis
    using q by (intro profiles_ok_set [OF ok(2,1), where p = q and k = k]) (simp_all add: t Profile_save_def users_step_same)
qed

lemma identity_step_profiles_ok:
  assumes "users_ok s \<and> profiles_ok s" and "identity_step e s = Inr s'"
  shows "users_ok s' \<and> profiles_ok s'"
proof -
  note us = identity_step_users [OF assms(2)]
  have ok: "users_ok s" "profiles_ok s" using assms(1) by auto
  have "profiles_ok s'"
  proof (cases e)
    case (ProfileCreated ev p ow org md t)
    obtain u t' where g: "getOrCreateUser ow s = (u, t')" by (cases "getOrCreateUser ow s")
    let ?p = "\<lparr>prf_id = org_key p, prf_user = u_id u, prf_organization = org_key org,
            prf_metadata = md, prf_createdAt = t, prf_blockNumber = ev_number ev, prf_transaction = toHex (ev_txHash ev)\<rparr>"
    have "profiles t' = profiles s" using ids_users.ensure_fields(21) [of ow s] g by simp
    moreover have "8 \<le> length p" and s': "s' = Profile_save ?p t'"
      using assms(2) ProfileCreated g by (auto simp: identity_handlers split: if_splits)
    moreover from \<open>8 \<le> length p\<close> have "length (org_key p) = 8" by simp
    ultimately show ?thesis
      using getOrCreateUser_known(1) [OF ok(1) g]
      by (intro profiles_ok_set [OF ok(2,1) us, where p = ?p and k = "org_key p"]) (simp_all add: Profile_save_def)
  qed (use assms(2) ok in \<open>auto simp: identity_handlers split: if_splits option.splits intro: profile_edit_ok\<close>)
  then show ?thesis using us ok by (simp add: users_step_def)
qed

text \<open>
  A profile always refers to a stored user. Along every run of Identity events from an empty
  store each profile stands under its own eight-character id and its user field is the id of a
  stored \<open>User\<close>, whose address has that id as its hex form.
\<close>

theorem profile_user_resolves:
  assumes "run identity_step es (empty_store :: 'd store) = Inr s'" and "profiles s' k = Some p"
  shows "prf_id p = k \<and> length k = 8 \<and> (\<exists>u. users s' (prf_user p) = Some u \<and> prf_user p = toHex (u_address u))"
proof -
  have "users_ok s' \<and> profiles_ok s'"
    by (rule run_invariant [OF _ assms(1), where I = "\<lambda>s. users_ok s \<and> profiles_ok s"])
      (use identity_step_profiles_ok in \<open>auto simp: profiles_ok_def [of empty_store]\<close>)
  then obtain u where "prf_id p = k" "length k = 8" "users s' (prf_user p) = Some u" and ok: "users_ok s'"
    using assms(2) by (auto simp: profiles_ok_def)
  moreover have "prf_user p = toHex (u_address u)" using ok \<open>users s' (prf_user p) = Some u\<close> by (simp add: users_ok_def)
  ultimately show ?thesis by blast
qed

theorem profile_user_resolves_witness:
  "\<exists>(s' :: int store) p. run identity_step
      [ProfileCreated example_event example_org_id [1] example_org_id ''hero'' 5, ProfileVerified example_event example_org_id 2 6]
      empty_store = Inr s'
     \<and> profiles s' (org_key example_org_id) = Some p \<and> users s' (prf_user p) \<noteq> None"
proof -
  let ?es = "[ProfileCreated example_event example_org_id [1] example_org_id ''hero'' 5, ProfileVerified example_event example_org_id 2 6]"
  obtain u t where u: "getOrCreateUser [1] (empty_store :: int store) = (u, t)" by fastforce
  obtain s' where r: "run identity_step ?es (empty_store :: int store) = Inr s'"
    by (simp add: identity_handlers u)
  then have "profiles s' (org_key example_org_id) \<noteq> None"
    by (auto simp: identity_handlers u entity_defs)
  then obtain p where p: "profiles s' (org_key example_org_id) = Some p" by blast
  from profile_user_resolves [OF r p] p r show ?thesis by blast
qed

section \<open>The member lookup and the verification\<close>

definition member_keys :: "'d store \<Rightarrow> bool" where
  "member_keys s \<longleftrightarrow> (\<forall>k e. members s k = Some e \<longrightarrow> mem_id e = k \<and> (\<exists>org m. length org = 8 \<and> k = memberId org m))"

lemma member_keys_empty: "member_keys empty_store"
  by (simp add: member_keys_def)

lemma member_keys_same: "member_keys s \<Longrightarrow> members t = members s \<Longrightarrow> member_keys t"
  by (simp add: member_keys_def)

lemma member_keys_add:
  "member_keys s \<Longrightarrow> members t = (members s)(memberId org m \<mapsto> e) \<Longrightarrow> mem_id e = memberId org m \<Longrightarrow> length org = 8 \<Longrightarrow> member_keys t"
  by (auto simp: member_keys_def)

lemma member_keys_change:
  "member_keys s \<Longrightarrow> members s k = Some e \<Longrightarrow> members t = (members s)(mem_id e \<mapsto> e') \<Longrightarrow> mem_id e' = mem_id e \<Longrightarrow> member_keys t"
  by (auto simp: member_keys_def)

lemma handleMemberAdded_members:
  assumes "handleMemberAdded ev org m tier t s = Inr s'"
  shows "\<exists>e. members s' = (members s)(memberId org m \<mapsto> e) \<and> mem_id e = memberId org m"
proof -
  obtain u s1 where u: "getOrCreateUser m s = (u, s1)" by fastforce
  have "members s1 = members s" using ids_users.ensure_fields(15) [of m s] u by simp
  then show ?thesis using assms u
    by (auto simp: handleMemberAdded_def Let_def Organization_put_def Transaction_save_def Member_save_def
        getOrCreateOrganization_frame elim!: bind_halt_InrE)
qed

lemma membership_step_member_keys:
  assumes "member_keys s" and "length (event_org e) = 8" and "membership_step e s = Inr s'"
  shows "member_keys s'"
proof (cases e)
  case (MemberAdded ev org m tier t)
  then obtain x where "members s' = (members s)(memberId org m \<mapsto> x)" "mem_id x = memberId org m"
    using handleMemberAdded_members assms(3) by fastforce
  then show ?thesis using member_keys_add [OF assms(1)] assms(2) MemberAdded by simp
next
  case (MemberRemoved ev org m t)
  then obtain a b where g: "getOrCreateOrganization org s = Inr (a, b)" using assms(3)
    by (auto simp: handleMemberRemoved_def elim!: bind_halt_InrE)
  have b: "members b = members s" using getOrCreateOrganization_frame [OF g] by simp
  show ?thesis
  proof (cases "members s (memberId org m)")
    case None
    then show ?thesis using assms MemberRemoved g b by (auto simp: handleMemberRemoved_def intro: member_keys_same)
  next
    case (Some x)
    then have "members s' = (members s)(mem_id x \<mapsto> x\<lparr>mem_state := ''INACTIVE'', mem_blockNumber := ev_number ev,
        mem_transaction := toHex (ev_txHash ev)\<rparr>)"
      using assms MemberRemoved g b by (auto simp: handleMemberRemoved_def entity_defs)
    then show ?thesis using assms(1,2) Some MemberRemoved by (auto simp: member_keys_def)
  qed
next
  case (VotingDelegated ev org d x n t)
  obtain u s1 where u: "getOrCreateUser d s = (u, s1)" by fastforce
  obtain v s2 where v: "getOrCreateUser x s1 = (v, s2)" by fastforce
  have m2: "members s2 = members s"
    using ids_users.ensure_fields(15) [of d s] ids_users.ensure_fields(15) [of x s1] u v by simp
  obtain a b where g: "getOrCreateOrganization org s2 = Inr (a, b)" using assms(3) VotingDelegated u v
    by (auto simp: handleVotingDelegated_def elim!: bind_halt_InrE)
  have "members s' = members s"
    using assms(3) VotingDelegated u v g m2 getOrCreateOrganization_frame [OF g]
    by (auto simp: handleVotingDelegated_def VotingDelegation_save_def split: option.splits)
  then show ?thesis using member_keys_same [OF assms(1)] by blast
qed (use assms in \<open>auto simp: handleMemberStateUpdated_def handleMemberTierUpdated_def handleVotingPowerUpdated_def
      handleVotingUndelegated_def entity_defs split: option.splits intro: member_keys_same member_keys_change\<close>)

lemma identityMemberId_not_memberId:
  assumes "length org = 8" and "length org' = 8"
  shows "identityMemberId (org_key org) owner \<noteq> memberId org' m"
proof
  assume eq: "identityMemberId (org_key org) owner = memberId org' m"
  have d: "CHR ''-'' \<notin> set (toHex org')" by simp
  have "memberId org' m ! 8 = toHex org' ! 8" using assms(2) by (simp add: memberId_def nth_append length_toHex)
  moreover have "toHex org' ! 8 \<in> set (toHex org')" using assms(2) by (intro nth_mem) (simp add: length_toHex)
  moreover have "identityMemberId (org_key org) owner ! 8 = CHR ''-''"
    using assms(1) by (simp add: identityMemberId_def nth_append)
  ultimately show False using eq d by metis
qed

text \<open>
  The member of a profile is never found. The handler looks for the owner's member entity under
  the ASCII form of the organization id, while \<open>membership.ts\<close> stores members under the hex form:
  after any run of membership events with eight-byte organization ids the lookup fails for every
  organization and owner, members included, so the warning is written for every profile.
\<close>

theorem member_lookup_misses:
  assumes "run membership_step es (empty_store :: 'd store) = Inr s'" and "list_all (\<lambda>e. length (event_org e) = 8) es"
    and "length org = 8"
  shows "members s' (identityMemberId (org_key org) owner) = None"
proof (rule ccontr)
  assume found: "members s' (identityMemberId (org_key org) owner) \<noteq> None"
  have "member_keys s'"
    by (rule run_invariant [OF _ assms(1), where I = member_keys])
      (use assms(2) membership_step_member_keys in \<open>auto simp: list_all_iff member_keys_empty\<close>)
  then obtain org' m where "length org' = 8" "identityMemberId (org_key org) owner = memberId org' m"
    using found unfolding member_keys_def by blast
  then show False using identityMemberId_not_memberId [OF assms(3)] by blast
qed

theorem member_lookup_misses_witness:
  "\<exists>s' :: int store. run membership_step [MemberAdded example_event example_org_id [2] 1 5] empty_store = Inr s'
     \<and> members s' (identityMemberId (org_key example_org_id) [2]) = None"
proof -
  let ?es = "[MemberAdded example_event example_org_id [2] 1 5]"
  have k: "orgs_keyed (empty_store :: int store)" by (simp add: orgs_keyed_def)
  obtain s' where r: "run membership_step ?es (empty_store :: int store) = Inr s'"
    using handleMemberAdded_effect [OF length_example_org_id k, of example_event "[2]" 1 5] by auto
  have "list_all (\<lambda>e. length (event_org e) = 8) ?es" by simp
  from member_lookup_misses [OF r this length_example_org_id] r show ?thesis by blast
qed

text \<open>
  Verifying a profile replaces its metadata by the name of the level. Whatever metadata the
  profile was created or last updated with is gone afterwards; user, organization and creation time
  stay, other profiles are untouched, and an unknown profile is ignored.
\<close>

theorem verification_replaces_metadata:
  assumes "length pid = 8" and "\<And>p. profiles s (org_key pid) = Some p \<Longrightarrow> prf_id p = org_key pid"
  shows "\<exists>s'. handleProfileVerified ev pid level t s = Inr s'
     \<and> (case profiles s (org_key pid) of
          None \<Rightarrow> s' = s
        | Some p \<Rightarrow> \<exists>q. profiles s' = (profiles s)(org_key pid \<mapsto> q) \<and> prf_user q = prf_user p
            \<and> prf_organization q = prf_organization p \<and> prf_createdAt q = prf_createdAt p
            \<and> prf_metadata q = verificationLevel level)"
  using assms by (cases "profiles s (org_key pid)") (auto simp: identity_handlers entity_defs)

theorem verification_replaces_metadata_witness:
  "\<exists>s' :: int store. handleProfileVerified example_event example_org_id 2 6
      (empty_store\<lparr>profiles := [org_key example_org_id \<mapsto> \<lparr>prf_id = org_key example_org_id, prf_user = toHex [1],
         prf_organization = ''ABCD1234'', prf_metadata = ''hero'', prf_createdAt = 5, prf_blockNumber = 1, prf_transaction = ''0x''\<rparr>]\<rparr>) = Inr s'
     \<and> map_option prf_metadata (profiles s' (org_key example_org_id)) = Some ''ENHANCED''"
proof -
  let ?s = "(empty_store :: int store)\<lparr>profiles := [org_key example_org_id \<mapsto> \<lparr>prf_id = org_key example_org_id, prf_user = toHex [1],
         prf_organization = ''ABCD1234'', prf_metadata = ''hero'', prf_createdAt = 5, prf_blockNumber = 1, prf_transaction = ''0x''\<rparr>]\<rparr>"
  have "prf_id p = org_key example_org_id" if "profiles ?s (org_key example_org_id) = Some p" for p using that by auto
  from verification_replaces_metadata [where s = ?s and ev = example_event and level = 2 and t = 6, OF length_example_org_id this]
  show ?thesis by (auto simp: verificationLevel_def)
qed

end
