(* ===== verification/Subgraph.thy ===== *)
theory Subgraph
  imports Control Factory Membership Flow Signal Staking Treasury Registry Tokens Identity
begin

text \<open>
  The whole subgraph: one event type with a constructor per data source of
  \<open>packages/subgraph/subgraph.yaml\<close> and the dispatch of an event to its mapping file. The Sense data
  source is commented out in the manifest and is not dispatched. The lemmas lift the invariants of
  the mapping files to \<open>subgraph_step\<close>: steps on users, well-formed organizations, member counts
  against the sets that the contracts keep (\<open>census_step\<close>), and which events can stop the indexer at all.
\<close>

section \<open>Dispatch\<close>

datatype control_event =
    OrganizationCreated eth_event bytes string bytes bytes int
  | OrganizationStateChanged eth_event bytes int int int
  | StakeWithdrawn eth_event bytes bytes int int

fun control_step :: "'d host \<Rightarrow> control_event \<Rightarrow> 'd store \<Rightarrow> halt + 'd store" where
  "control_step H (OrganizationCreated ev i n c tr t) s = handleOrganizationCreated H ev i n c tr t s"
| "control_step H (OrganizationStateChanged ev i a b t) s = handleOrganizationStateChanged H ev i a b t s"
| "control_step H (StakeWithdrawn ev i st n t) s = handleStakeWithdrawn H ev i st n t s"

datatype subgraph_event =
    ControlEvent control_event
  | FactoryEvent eth_event bytes string string bytes bytes int
  | MembershipEvent membership_event
  | FlowEvent flow_event
  | SignalEvent signal_event
  | StakingEvent staking_event
  | TreasuryEvent treasury_event
  | RegistryEvent registry_event
  | TokenEvent token_event
  | IdentityEvent identity_event

fun subgraph_step :: "'d host \<Rightarrow> subgraph_event \<Rightarrow> 'd store \<Rightarrow> halt + 'd store" where
  "subgraph_step H (ControlEvent e) s = control_step H e s"
| "subgraph_step H (FactoryEvent ev i n m c tr t) s = handleFactoryOrganizationCreated H ev i n m c tr t s"
| "subgraph_step H (MembershipEvent e) s = membership_step e s"
| "subgraph_step H (FlowEvent e) s = flow_step H e s"
| "subgraph_step H (SignalEvent e) s = signal_step H e s"
| "subgraph_step H (StakingEvent e) s = staking_step H e s"
| "subgraph_step H (TreasuryEvent e) s = treasury_step H e s"
| "subgraph_step H (RegistryEvent e) s = registry_step H e s"
| "subgraph_step H (TokenEvent e) s = token_step H e s"
| "subgraph_step H (IdentityEvent e) s = identity_step e s"

section \<open>Users\<close>

lemma control_step_users: "control_step H e s = Inr s' \<Longrightarrow> users_step s s'"
  by (cases e) (auto dest: handleOrganizationCreated_users handleOrganizationStateChanged_users handleStakeWithdrawn_users)

lemma subgraph_step_users: "subgraph_step H e s = Inr s' \<Longrightarrow> users_step s s'"
  by (cases e) (auto dest: control_step_users handleFactoryOrganizationCreated_users membership_step_users
      flow_step_users signal_step_users staking_step_users treasury_step_users registry_step_users
      token_step_users identity_step_users)

lemma subgraph_run_users:
  assumes "run (subgraph_step H) es s = Inr s'"
  shows "users_step s s'"
  by (rule run_relation [OF subgraph_step_users users_step_refl users_step_trans assms])

section \<open>Organizations\<close>

text \<open>Five data sources never write an organization.\<close>

lemma stake_blocks_orgs [simp]:
  "organizations (createOrUpdateStakingPool p s) = organizations s"
  "organizations (addToStake k n s) = organizations s" "organizations (addToPool p n s) = organizations s"
  by (simp_all add: createOrUpdateStakingPool_def addToStake_def addToPool_def entity_defs split: option.splits)

lemma staking_step_orgs: "staking_step H e s = Inr s' \<Longrightarrow> organizations s' = organizations s"
  by (cases e) (auto simp: staking_handlers entity_defs split: option.splits)

lemma treasury_step_orgs: "treasury_step H e s = Inr s' \<Longrightarrow> organizations s' = organizations s"
  by (cases e) (auto simp: treasury_handlers entity_defs split: option.splits)

lemma registry_step_orgs: "registry_step H e s = Inr s' \<Longrightarrow> organizations s' = organizations s"
  by (cases e) (auto simp: registry_handlers registry_updateGlobalStats_def entity_defs split: option.splits)

lemma token_step_orgs: "token_step H e s = Inr s' \<Longrightarrow> organizations s' = organizations s"
  by (cases e) (auto simp: token_handlers entity_defs split: if_splits)

lemma identity_step_orgs: "identity_step e s = Inr s' \<Longrightarrow> organizations s' = organizations s"
proof (cases e)
  case (ProfileCreated ev p ow org md t)
  assume st: "identity_step e s = Inr s'"
  obtain u t' where g: "getOrCreateUser ow s = (u, t')" by fastforce
  have "organizations t' = organizations s" using ids_users.ensure_fields(14) [of ow s] g by simp
  then show ?thesis using st ProfileCreated g by (auto simp: identity_handlers entity_defs split: if_splits)
qed (auto simp: identity_handlers entity_defs split: if_splits option.splits)

lemmas quiet_orgs = staking_step_orgs treasury_step_orgs registry_step_orgs token_step_orgs identity_step_orgs

text \<open>The others store a typed organization under its own id, if they store one.\<close>

definition puts_typed :: "'d store \<Rightarrow> 'd store \<Rightarrow> bool" where
  "puts_typed s t \<longleftrightarrow> (organizations_ok s \<longrightarrow> organizations_ok t)"

lemma puts_typed_same: "organizations t = organizations s \<Longrightarrow> puts_typed s t"
  by (simp add: puts_typed_def organizations_ok_def)

lemma puts_typed_put:
  "organizations t = (organizations s)(k \<mapsto> x) \<Longrightarrow> (organizations_ok s \<Longrightarrow> org_id x = k \<and> organization_typed x) \<Longrightarrow> puts_typed s t"
  by (simp add: puts_typed_def organizations_ok_def)

lemma puts_typed_trans: "puts_typed s t \<Longrightarrow> puts_typed t u \<Longrightarrow> puts_typed s u"
  by (simp add: puts_typed_def)

lemma puts_typed_change:
  assumes "organizations s k = Some x" and "organizations t = (organizations s)(org_id x \<mapsto> y)"
    and "org_id y = org_id x" and "organization_typed x \<Longrightarrow> organization_typed y"
  shows "puts_typed s t"
  using assms by (intro puts_typed_put) (auto simp: organizations_ok_def)

lemma flow_step_orgs: "flow_step H e s = Inr s' \<Longrightarrow> puts_typed s s'"
proof (cases e)
  case (CampaignCreated ev c org cr ti ft ta st en t)
  assume "flow_step H e s = Inr s'"
  then show ?thesis using CampaignCreated
    by (auto simp: handleCampaignCreated_def Let_def getOrganizationIdString_eq countCampaign_def newCampaign_def entity_defs
        split: if_splits option.splits intro: puts_typed_same puts_typed_change)
qed (auto simp: handleCampaignUpdated_def handleCampaignStateChanged_def handleContributionMade_def
    handleCampaignFinalized_def handleFlowRewardsDistributed_def handleContributionRefunded_def
    handleProtocolFeeCollected_def flow_getOrCreateUser_eq Let_def entity_defs
    split: option.splits intro!: puts_typed_same)

lemma signal_step_orgs: "signal_step H e s = Inr s' \<Longrightarrow> puts_typed s s'"
proof (cases e)
  case (ProposalCreated ev h org c ti pt vt st en)
  assume "signal_step H e s = Inr s'"
  then show ?thesis using ProposalCreated
    by (auto simp: signal_handlers newProposal_def entity_defs split: if_splits option.splits
        intro: puts_typed_same puts_typed_change)
qed (auto simp: signal_handlers countVote_def closeProposal_def entity_defs split: option.splits intro!: puts_typed_same)

lemma typed_state_update: "organization_typed x \<Longrightarrow> organization_typed (x\<lparr>org_state := mapOrgState n\<rparr>)"
  "organization_typed x \<Longrightarrow> organization_typed (x\<lparr>org_state := ''ACTIVE''\<rparr>)"
  by (simp_all add: organization_typed_def OrganizationState_def [symmetric]) (simp add: OrganizationState_def)

lemma created_orgs:
  assumes "handleOrganizationCreated H ev i n c tr t s = Inr s'"
  shows "puts_typed s s'"
proof (cases "try_getOrganization H (ev_block ev) (ev_address ev) i")
  case None
  then show ?thesis using assms
    by (auto simp: handleOrganizationCreated_def Let_def getOrganizationIdString_eq Organization_save_def
        organizationFromEvent_def split: if_splits)
next
  case (Some d)
  let ?x = "(organizationFromChain (org_key i) c d)\<lparr>org_treasury := Some (toHex tr), org_blockNumber := ev_number ev,
      org_transaction := toHex (ev_txHash ev)\<rparr>"
  have "organizations s' = (organizations s)(org_key i \<mapsto> ?x)"
    using assms Some
    by (auto simp: handleOrganizationCreated_def Let_def getOrganizationIdString_eq Organization_save_def
        organizationFromChain_def entity_defs split: if_splits)
  then show ?thesis
    by (rule puts_typed_put) (simp add: organizationFromChain_typed, simp add: organizationFromChain_def)
qed

lemma state_changed_orgs:
  assumes "handleOrganizationStateChanged H ev i a b t s = Inr s'"
  shows "puts_typed s s'"
proof (cases "organizations s (org_key i)")
  case None
  then show ?thesis using assms
    by (auto simp: handleOrganizationStateChanged_def Let_def getOrganizationIdString_eq split: if_splits intro: puts_typed_same)
next
  case (Some x)
  show ?thesis
  proof (cases "global_stats s")
    case None
    then show ?thesis using assms Some
      by (auto simp: handleOrganizationStateChanged_def Let_def getOrganizationIdString_eq entity_defs Organization_save_def
          split: if_splits option.splits intro!: puts_typed_change [OF Some] typed_state_update)
  next
    case (Some g)
    then show ?thesis using assms \<open>organizations s (org_key i) = Some x\<close>
      by (auto simp: handleOrganizationStateChanged_def Let_def getOrganizationIdString_eq entity_defs Organization_save_def
          split: if_splits option.splits intro!: puts_typed_change [of s "org_key i" x] typed_state_update)
  qed
qed

lemma control_step_orgs: "control_step H e s = Inr s' \<Longrightarrow> puts_typed s s'"
proof (cases e)
  case (StakeWithdrawn ev i st n t)
  assume "control_step H e s = Inr s'"
  then show ?thesis using StakeWithdrawn
    by (auto simp: handleStakeWithdrawn_def Let_def getOrganizationIdString_eq entity_defs
        split: if_splits option.splits intro!: puts_typed_same)
qed (auto dest: created_orgs state_changed_orgs)

lemma factory_orgs: "handleFactoryOrganizationCreated H ev i n m c tr t s = Inr s' \<Longrightarrow> puts_typed s s'"
  by (drule handleFactoryOrganizationCreated_orgs, erule puts_typed_put) simp

lemma stubOrganization_id: "org_id (stubOrganization k) = k"
  by (simp add: stubOrganization_def)

lemma getOrCreateOrganization_orgs:
  assumes "getOrCreateOrganization b s = Inr (x, t)"
  shows "puts_typed s t" and "organizations t (org_key b) = Some x"
proof -
  have "(t = s \<and> organizations s (org_key b) = Some x) \<or>
      (x = stubOrganization (org_key b) \<and> organizations t = (organizations s)(org_key b \<mapsto> x))"
    using assms by (auto simp: getOrCreateOrganization_eq Organization_put_def stubOrganization_id split: if_splits option.splits)
  then show "puts_typed s t" and "organizations t (org_key b) = Some x"
    by (auto simp: stubOrganization_typed stubOrganization_id intro: puts_typed_put puts_typed_same)
qed

lemma membership_step_orgs: "membership_step e s = Inr s' \<Longrightarrow> puts_typed s s'"
proof (cases e)
  case (MemberAdded ev org m tier t)
  assume st: "membership_step e s = Inr s'"
  obtain u s1 where u: "getOrCreateUser m s = (u, s1)" by fastforce
  have 1: "puts_typed s s1" using ids_users.ensure_fields(14) [of m s] u by (simp add: puts_typed_same)
  obtain x s2 where x: "getOrCreateOrganization org s1 = Inr (x, s2)"
    using st MemberAdded u by (auto simp: handleMemberAdded_def elim!: bind_halt_InrE)
  have "puts_typed s2 s'"
    by (rule puts_typed_change [OF getOrCreateOrganization_orgs(2) [OF x], where y = "x\<lparr>org_memberCount := org_memberCount x + 1\<rparr>"])
      (use st MemberAdded u x in \<open>auto simp: handleMemberAdded_def Let_def entity_defs\<close>)
  then show ?thesis using 1 getOrCreateOrganization_orgs(1) [OF x] puts_typed_trans by blast
next
  case (MemberRemoved ev org m t)
  assume st: "membership_step e s = Inr s'"
  obtain x s2 where x: "getOrCreateOrganization org s = Inr (x, s2)"
    using st MemberRemoved by (auto simp: handleMemberRemoved_def elim!: bind_halt_InrE)
  have "puts_typed s2 s'"
  proof (cases "members s2 (memberId org m)")
    case None
    then show ?thesis using st MemberRemoved x by (auto simp: handleMemberRemoved_def puts_typed_def)
  next
    case (Some e)
    show ?thesis
      by (rule puts_typed_change [OF getOrCreateOrganization_orgs(2) [OF x], where y = "x\<lparr>org_memberCount := org_memberCount x - 1\<rparr>"])
        (use st MemberRemoved x Some in \<open>auto simp: handleMemberRemoved_def Let_def entity_defs\<close>)
  qed
  then show ?thesis using getOrCreateOrganization_orgs(1) [OF x] puts_typed_trans by blast
next
  case (VotingDelegated ev org d x n t)
  assume st: "membership_step e s = Inr s'"
  obtain u s1 where u: "getOrCreateUser d s = (u, s1)" by fastforce
  obtain v s2 where v: "getOrCreateUser x s1 = (v, s2)" by fastforce
  have 1: "puts_typed s s2"
    using ids_users.ensure_fields(14) [of d s] ids_users.ensure_fields(14) [of x s1] u v by (simp add: puts_typed_same)
  obtain y s3 where y: "getOrCreateOrganization org s2 = Inr (y, s3)"
    using st VotingDelegated u v by (auto simp: handleVotingDelegated_def elim!: bind_halt_InrE)
  have "organizations s' = organizations s3"
    using st VotingDelegated u v y by (auto simp: handleVotingDelegated_def VotingDelegation_save_def split: option.splits)
  then show ?thesis using 1 getOrCreateOrganization_orgs(1) [OF y] puts_typed_trans puts_typed_same by blast
qed (auto simp: handleMemberStateUpdated_def handleMemberTierUpdated_def handleVotingPowerUpdated_def
    handleVotingUndelegated_def entity_defs split: option.splits intro!: puts_typed_same)

lemma subgraph_step_orgs: "subgraph_step H e s = Inr s' \<Longrightarrow> puts_typed s s'"
  by (cases e) (auto intro: control_step_orgs factory_orgs membership_step_orgs flow_step_orgs signal_step_orgs
      puts_typed_same [OF quiet_orgs(1)] puts_typed_same [OF quiet_orgs(2)] puts_typed_same [OF quiet_orgs(3)]
      puts_typed_same [OF quiet_orgs(4)] puts_typed_same [OF quiet_orgs(5)])

section \<open>Member counts of the whole subgraph\<close>

text \<open>
  The contracts behind the events, as far as members go: the Membership contract keeps its set of (organization, member)
  pairs, the Factory creates an organization once and before it has members. The creation event of the Control contract is
  declared there and never emitted. All other events leave members alone.
\<close>

fun census_step :: "subgraph_event \<Rightarrow> (bytes \<times> bytes) set \<times> bytes set \<Rightarrow> unit + (bytes \<times> bytes) set \<times> bytes set" where
  "census_step (MembershipEvent e) (A, C) = (case roster_step e A of Inl x \<Rightarrow> Inl x | Inr A' \<Rightarrow> Inr (A', C))"
| "census_step (FactoryEvent _ org _ _ _ _ _) (A, C) =
     (if length org = 8 \<and> org \<notin> C \<and> org \<notin> fst ` A then Inr (A, insert org C) else Inl ())"
| "census_step (ControlEvent (OrganizationCreated _ _ _ _ _ _)) c = Inl ()"
| "census_step _ c = Inr c"

definition keeps_counts :: "'d store \<Rightarrow> 'd store \<Rightarrow> bool" where
  "keeps_counts s t \<longleftrightarrow> members t = members s
     \<and> (orgs_keyed s \<longrightarrow> orgs_keyed t \<and> (\<forall>org. member_count t org = member_count s org))"

lemma keeps_counts_same: "organizations t = organizations s \<Longrightarrow> members t = members s \<Longrightarrow> keeps_counts s t"
  by (simp add: keeps_counts_def orgs_keyed_def member_count_def)

lemma keeps_counts_change:
  assumes "organizations s k = Some x" and "organizations t = (organizations s)(org_id x \<mapsto> y)"
    and "org_id y = org_id x" and "org_memberCount y = org_memberCount x" and "members t = members s"
  shows "keeps_counts s t"
  using assms by (auto simp: keeps_counts_def orgs_keyed_def member_count_def)

lemma stake_blocks_members [simp]:
  "members (createOrUpdateStakingPool p s) = members s"
  "members (addToStake k n s) = members s" "members (addToPool p n s) = members s"
  by (simp_all add: createOrUpdateStakingPool_def addToStake_def addToPool_def entity_defs split: option.splits)

lemma staking_step_members: "staking_step H e s = Inr s' \<Longrightarrow> members s' = members s"
  by (cases e) (auto simp: staking_handlers entity_defs split: option.splits)

lemma treasury_step_members: "treasury_step H e s = Inr s' \<Longrightarrow> members s' = members s"
  by (cases e) (auto simp: treasury_handlers entity_defs split: option.splits)

lemma registry_step_members: "registry_step H e s = Inr s' \<Longrightarrow> members s' = members s"
  by (cases e) (auto simp: registry_handlers registry_updateGlobalStats_def entity_defs split: option.splits)

lemma token_step_members: "token_step H e s = Inr s' \<Longrightarrow> members s' = members s"
  by (cases e) (auto simp: token_handlers entity_defs split: if_splits)

lemma identity_step_members: "identity_step e s = Inr s' \<Longrightarrow> members s' = members s"
proof (cases e)
  case (ProfileCreated ev p ow org md t)
  assume st: "identity_step e s = Inr s'"
  obtain u t' where g: "getOrCreateUser ow s = (u, t')" by fastforce
  have "members t' = members s" using ids_users.ensure_fields [of ow s] g by simp
  then show ?thesis using st ProfileCreated g by (auto simp: identity_handlers entity_defs split: if_splits)
qed (auto simp: identity_handlers entity_defs split: if_splits option.splits)

lemmas quiet_counts = keeps_counts_same [OF staking_step_orgs staking_step_members] keeps_counts_same [OF treasury_step_orgs treasury_step_members]
  keeps_counts_same [OF registry_step_orgs registry_step_members] keeps_counts_same [OF token_step_orgs token_step_members]
  keeps_counts_same [OF identity_step_orgs identity_step_members]

lemma flow_step_counts: "flow_step H e s = Inr s' \<Longrightarrow> keeps_counts s s'"
proof (cases e)
  case (CampaignCreated ev c org cr ti ft ta st en t)
  assume "flow_step H e s = Inr s'"
  then show ?thesis using CampaignCreated
    by (auto simp: handleCampaignCreated_def Let_def getOrganizationIdString_eq countCampaign_def newCampaign_def entity_defs
        split: if_splits option.splits intro: keeps_counts_same keeps_counts_change)
qed (auto simp: handleCampaignUpdated_def handleCampaignStateChanged_def handleContributionMade_def
    handleCampaignFinalized_def handleFlowRewardsDistributed_def handleContributionRefunded_def
    handleProtocolFeeCollected_def flow_getOrCreateUser_eq Let_def entity_defs
    split: option.splits intro!: keeps_counts_same)

lemma signal_blocks_members [simp]:
  "members (countUserVote a n t) = members t" "members (countUserProposal a n t) = members t"
  "members (countProposal H n t) = members t" "members (countVote n t) = members t"
  by (simp_all add: countUserVote_def countUserProposal_def signal_getOrCreateUser_eq countProposal_def countVote_def entity_defs
      split: option.splits)

lemma signal_step_counts: "signal_step H e s = Inr s' \<Longrightarrow> keeps_counts s s'"
proof (cases e)
  case (ProposalCreated ev h org c ti pt vt st en)
  assume "signal_step H e s = Inr s'"
  then show ?thesis using ProposalCreated
    by (auto simp: signal_handlers newProposal_def entity_defs split: if_splits option.splits
        intro: keeps_counts_same keeps_counts_change)
qed (auto simp: signal_handlers countVote_def closeProposal_def entity_defs split: option.splits intro!: keeps_counts_same)

lemma state_changed_counts:
  assumes "handleOrganizationStateChanged H ev i a b t s = Inr s'"
  shows "keeps_counts s s'"
proof (cases "organizations s (org_key i)")
  case None
  then show ?thesis using assms
    by (auto simp: handleOrganizationStateChanged_def Let_def getOrganizationIdString_eq split: if_splits intro: keeps_counts_same)
next
  case (Some x)
  then show ?thesis using assms
    by (cases "global_stats s")
      (auto simp: handleOrganizationStateChanged_def Let_def getOrganizationIdString_eq entity_defs
        split: if_splits option.splits intro!: keeps_counts_change [OF Some])
qed

lemma stake_withdrawn_counts: "handleStakeWithdrawn H ev i st n t s = Inr s' \<Longrightarrow> keeps_counts s s'"
  by (auto simp: handleStakeWithdrawn_def Let_def getOrganizationIdString_eq entity_defs
      split: if_splits option.splits intro!: keeps_counts_same)

lemma keeps_counts_sim: "membership_sim C A s \<Longrightarrow> keeps_counts s t \<Longrightarrow> membership_sim C A t"
  by (simp add: membership_sim_def keeps_counts_def)

text \<open>The creation event of the factory: the entity starts with one member before anybody has joined.\<close>

lemma factory_sim:
  fixes s :: "'d store"
  assumes "membership_sim C A s" and "length i = 8" and "i \<notin> C" and "i \<notin> fst ` A"
    and "handleFactoryOrganizationCreated H ev i n m c tr t s = Inr s'"
  shows "membership_sim (insert i C) A s'"
proof -
  have orgs: "organizations s' = (organizations s)(org_key i \<mapsto>
       (syncWithChain (try_getOrganization H (ev_block ev) CONTROL_ADDRESS i) (factoryOrganization ev (org_key i) n m c tr t))
       \<lparr>org_treasury := Some (toHex tr)\<rparr>)"
    by (rule handleFactoryOrganizationCreated_orgs [OF assms(5)])
  have "members (countFactoryUser c t u) = members u" and "members (countOrganization z now u) = members u" for u :: "'d store" and z now
    by (simp_all add: countFactoryUser_def countOrganization_def User_save_def GlobalStats_save_def Let_def)
  then have mem: "members s' = members s"
    using assms(2,5) by (auto simp: handleFactoryOrganizationCreated_eq Let_def entity_defs)
  have "{m. (i, m) \<in> A} = {}" using assms(4) by force
  then have "member_count s' org = int (card {m. (org, m) \<in> A}) + extra (insert i C) org" if "length org = 8" for org
    using assms(1,2,3) that org_key_inject [OF that assms(2)]
    by (cases "org = i") (auto simp: member_count_def orgs extra_def membership_sim_def)
  moreover have "orgs_keyed s'" using assms(1) by (simp add: membership_sim_def orgs_keyed_def orgs)
  ultimately show ?thesis using assms(1) mem by (simp add: membership_sim_def)
qed

lemma census_sim_step:
  assumes "membership_sim C A s" and "census_step e (A, C) = Inr (A', C')" and "subgraph_step H e s = Inr s'"
  shows "membership_sim C' A' s'"
proof (cases e)
  case (MembershipEvent me)
  then obtain B where B: "roster_step me A = Inr B" "A' = B" "C' = C" using assms(2) by (auto split: sum.splits)
  from member_registry.sim_step [OF assms(1) B(1)] show ?thesis using assms(3) MembershipEvent B by auto
next
  case (FactoryEvent ev i n m c tr t)
  then show ?thesis using assms(2,3) factory_sim [OF assms(1), of i H ev n m c tr t s'] by (auto split: if_splits)
next
  case (ControlEvent ce)
  then show ?thesis using assms
    by (cases ce) (auto dest: keeps_counts_sim [OF assms(1) state_changed_counts] keeps_counts_sim [OF assms(1) stake_withdrawn_counts])
next
  case (FlowEvent fe)
  then show ?thesis using assms keeps_counts_sim [OF assms(1) flow_step_counts] by auto
next
  case (SignalEvent se)
  then show ?thesis using assms keeps_counts_sim [OF assms(1) signal_step_counts] by auto
qed (use assms in \<open>auto intro: keeps_counts_sim quiet_counts\<close>)

lemma census_sim_run:
  "membership_sim C A s \<Longrightarrow> run census_step es (A, C) = Inr (A', C') \<Longrightarrow> run (subgraph_step H) es s = Inr s' \<Longrightarrow>
     membership_sim C' A' s'"
proof (induction es arbitrary: A C s)
  case Nil
  then show ?case by simp
next
  case (Cons e es)
  from Cons.prems(2) obtain B D where c: "census_step e (A, C) = Inr (B, D)" "run census_step es (B, D) = Inr (A', C')"
    by (auto split: sum.splits)
  from Cons.prems(3) obtain t where t: "subgraph_step H e s = Inr t" "run (subgraph_step H) es t = Inr s'" by auto
  show ?case by (rule Cons.IH [OF census_sim_step [OF Cons.prems(1) c(1) t(1)] c(2) t(2)])
qed

section \<open>Which events can stop the indexer\<close>

fun event_ids :: "subgraph_event \<Rightarrow> bytes list" where
  "event_ids (ControlEvent (OrganizationCreated _ i _ _ _ _)) = [i]"
| "event_ids (ControlEvent (OrganizationStateChanged _ i _ _ _)) = [i]"
| "event_ids (ControlEvent (StakeWithdrawn _ i _ _ _)) = [i]"
| "event_ids (FactoryEvent _ i _ _ _ _ _) = [i]"
| "event_ids (MembershipEvent (MemberAdded _ i _ _ _)) = [i]"
| "event_ids (MembershipEvent (MemberRemoved _ i _ _)) = [i]"
| "event_ids (MembershipEvent (VotingDelegated _ i _ _ _ _)) = [i]"
| "event_ids (FlowEvent (CampaignCreated _ _ i _ _ _ _ _ _ _)) = [i]"
| "event_ids (SignalEvent (ProposalCreated _ _ i _ _ _ _ _ _)) = [i]"
| "event_ids (IdentityEvent (ProfileCreated _ p _ i _ _)) = [p, i]"
| "event_ids (IdentityEvent (ProfileUpdated _ p _ _)) = [p]"
| "event_ids (IdentityEvent (ProfileVerified _ p _ _)) = [p]"
| "event_ids _ = []"

text \<open>What an event needs beyond well-formed ids.\<close>

fun accepted :: "'d host \<Rightarrow> subgraph_event \<Rightarrow> 'd store \<Rightarrow> bool" where
  "accepted H (ControlEvent (OrganizationCreated ev i _ _ _ _)) s =
     (try_getOrganization H (ev_block ev) (ev_address ev) i \<noteq> None)"
| "accepted H (TokenEvent (TokensBurned _ f _ _)) s = (users s (toHex f) \<noteq> None)"
| "accepted H (TokenEvent (MockApproval _ f r _)) s = (users s (toHex f) \<noteq> None \<and> users s (toHex r) \<noteq> None)"
| "accepted H (TokenEvent (MockMinted _ r _ _)) s = (users s (toHex r) \<noteq> None)"
| "accepted H (TokenEvent (MockBurned _ f _ _)) s = (users s (toHex f) \<noteq> None)"
| "accepted H _ s = True"

definition steps :: "'d host \<Rightarrow> subgraph_event \<Rightarrow> 'd store \<Rightarrow> bool" where
  "steps H e s \<longleftrightarrow> (\<exists>s'. subgraph_step H e s = Inr s')"

lemma control_steps: "steps H (ControlEvent e) s \<longleftrightarrow>
    (\<forall>b\<in>set (event_ids (ControlEvent e)). 8 \<le> length b) \<and> accepted H (ControlEvent e) s"
proof (cases e)
  case (OrganizationCreated ev i n c tr t)
  then show ?thesis
    by (cases "try_getOrganization H (ev_block ev) (ev_address ev) i")
      (simp_all add: steps_def handleOrganizationCreated_def Let_def getOrganizationIdString_eq Organization_save_def
        organizationFromEvent_def organizationFromChain_def)
next
  case (OrganizationStateChanged ev i a b t)
  then show ?thesis
    by (cases "organizations s (org_key i)")
      (auto simp: steps_def handleOrganizationStateChanged_def Let_def getOrganizationIdString_eq Organization_save_def
        split: option.splits)
next
  case (StakeWithdrawn ev i st n t)
  then show ?thesis by (simp add: steps_def handleStakeWithdrawn_def Let_def getOrganizationIdString_eq)
qed

lemma membership_steps: "steps H (MembershipEvent e) s \<longleftrightarrow> (\<forall>b\<in>set (event_ids (MembershipEvent e)). 8 \<le> length b)"
proof -
  have org: "if 8 \<le> length b then \<exists>x t'. getOrCreateOrganization b t = Inr (x, t')
      else getOrCreateOrganization b t = Inl IndexOutOfRange" for b t
    by (auto simp: getOrCreateOrganization_eq split: option.splits)
  show ?thesis
  proof (cases e)
    case (MemberAdded ev b m tier t)
    obtain u s1 where u: "getOrCreateUser m s = (u, s1)" by fastforce
    show ?thesis using org [of b s1]
      by (auto simp: MemberAdded steps_def handleMemberAdded_def u Let_def split: if_splits)
  next
    case (MemberRemoved ev b m t)
    show ?thesis using org [of b s]
      by (auto simp: MemberRemoved steps_def handleMemberRemoved_def Let_def split: option.splits if_splits)
  next
    case (VotingDelegated ev b d x n t)
    obtain u s1 where u: "getOrCreateUser d s = (u, s1)" by fastforce
    obtain v s2 where v: "getOrCreateUser x s1 = (v, s2)" by fastforce
    show ?thesis using org [of b s2]
      by (auto simp: VotingDelegated steps_def handleVotingDelegated_def u v Let_def split: option.splits if_splits)
  qed (simp_all add: steps_def)
qed

lemma factory_steps: "steps H (FactoryEvent ev i n m c tr t) s \<longleftrightarrow> 8 \<le> length i"
  by (cases "8 \<le> length i")
    (simp_all add: steps_def handleFactoryOrganizationCreated_eq handleFactoryOrganizationCreated_short Let_def)

lemma flow_steps: "steps H (FlowEvent e) s \<longleftrightarrow> (\<forall>b\<in>set (event_ids (FlowEvent e)). 8 \<le> length b)"
  by (cases e) (simp_all add: steps_def handleCampaignCreated_def Let_def getOrganizationIdString_eq)

lemma signal_steps: "steps H (SignalEvent e) s \<longleftrightarrow> (\<forall>b\<in>set (event_ids (SignalEvent e)). 8 \<le> length b)"
  by (cases e) (simp_all add: steps_def handleProposalCreated_def Let_def getOrganizationIdString_eq)

lemma identity_steps: "steps H (IdentityEvent e) s \<longleftrightarrow> (\<forall>b\<in>set (event_ids (IdentityEvent e)). 8 \<le> length b)"
  by (cases e) (auto simp: steps_def identity_handlers split: prod.splits)

lemma token_steps: "steps H (TokenEvent e) s \<longleftrightarrow> accepted H (TokenEvent e) s"
  by (cases e) (auto simp: steps_def token_handlers entity_defs)

lemma total_steps:
  "steps H (StakingEvent a) s" "steps H (TreasuryEvent b) s" "steps H (RegistryEvent c) s"
proof -
  show "steps H (StakingEvent a) s" by (cases a) (simp_all add: steps_def)
  show "steps H (TreasuryEvent b) s" by (cases b) (simp_all add: steps_def)
  show "steps H (RegistryEvent c) s" by (cases c) (simp_all add: steps_def)
qed

lemma subgraph_steps_iff: "steps H e s \<longleftrightarrow> (\<forall>b\<in>set (event_ids e). 8 \<le> length b) \<and> accepted H e s"
proof (cases e)
  case (FactoryEvent ev i n m c tr t)
  then show ?thesis by (simp add: factory_steps)
qed (simp_all add: control_steps membership_steps flow_steps signal_steps identity_steps token_steps total_steps)

end
