(* ===== verification/Sense.thy ===== *)
theory Sense
  imports Ids
begin

text \<open>
  \<open>packages/subgraph/src/sense.ts\<close>: reputation of profiles. The mapping is written against a
  \<open>Profile\<close> that has reputation fields, which the class of the generated schema does not have, and
  its data source is commented out in \<open>subgraph.yaml\<close>; it therefore has its own store here, with the
  profile fields the file reads and writes and the \<open>ReputationEvent\<close> records it creates.
  \<open>sense_step\<close> dispatches the events. The lemmas show that the three scores are ledgers of the
  events and agree with the stored records, and that the feedback count stays the sum of its parts.
\<close>

section \<open>Data\<close>

record senseProfile =
  sp_profileId :: string
  sp_experience :: int
  sp_reputation :: int
  sp_trustScore :: int
  sp_positiveFeedbacks :: int
  sp_negativeFeedbacks :: int
  sp_feedbackCount :: int
  sp_updatedAt :: int

record reputationEvent =
  re_id :: string
  re_profile :: string
  re_repType :: string
  re_delta :: int
  re_reason :: string
  re_updatedBy :: bytes
  re_timestamp :: int
  re_blockNumber :: int
  re_transactionHash :: bytes

record sense_store =
  senseProfiles :: "string \<rightharpoonup> senseProfile"
  reputationEvents :: "string \<rightharpoonup> reputationEvent"

definition SenseProfile_save :: "senseProfile \<Rightarrow> sense_store \<Rightarrow> sense_store" where
  "SenseProfile_save e s = s\<lparr>senseProfiles := (senseProfiles s)(sp_profileId e \<mapsto> e)\<rparr>"

definition ReputationEvent_save :: "reputationEvent \<Rightarrow> sense_store \<Rightarrow> sense_store" where
  "ReputationEvent_save e s = s\<lparr>reputationEvents := (reputationEvents s)(re_id e \<mapsto> e)\<rparr>"

interpretation senseProfiles_class: entity_class senseProfiles SenseProfile_save sp_profileId
  by unfold_locales (simp add: SenseProfile_save_def)

interpretation reputationEvents_class: entity_class reputationEvents ReputationEvent_save re_id
  by unfold_locales (simp add: ReputationEvent_save_def)

section \<open>Handlers\<close>

definition sense_getProfileIdString :: "bytes \<Rightarrow> halt + string" where
  "sense_getProfileIdString profileIdBytes8 = idStringLoop 8 0 profileIdBytes8 []"

definition reputationKey :: "eth_event \<Rightarrow> string" where
  "reputationKey ev = toHex (ev_txHash ev) @ ''-'' @ show_int (ev_logIndex ev)"

definition newReputationEvent ::
  "eth_event \<Rightarrow> string \<Rightarrow> string \<Rightarrow> int \<Rightarrow> string \<Rightarrow> bytes \<Rightarrow> int \<Rightarrow> reputationEvent" where
  "newReputationEvent ev profileId repType delta reason updatedBy timestamp =
     \<lparr>re_id = reputationKey ev, re_profile = profileId, re_repType = repType, re_delta = delta,
      re_reason = reason, re_updatedBy = updatedBy, re_timestamp = timestamp,
      re_blockNumber = ev_number ev, re_transactionHash = ev_txHash ev\<rparr>"

definition handleExperienceAwarded ::
  "eth_event \<Rightarrow> bytes \<Rightarrow> int \<Rightarrow> string \<Rightarrow> bytes \<Rightarrow> int \<Rightarrow> sense_store \<Rightarrow> halt + sense_store" where
  [handler_defs]: "handleExperienceAwarded ev profileIdParam amount reason awardedBy timestamp s =
     bind_halt (sense_getProfileIdString profileIdParam) (\<lambda>profileId.
       Inr (case senseProfiles s profileId of
              None \<Rightarrow> s
            | Some profile \<Rightarrow>
                (let s = SenseProfile_save (profile\<lparr>sp_experience := sp_experience profile + amount,
                           sp_updatedAt := timestamp\<rparr>) s
                 in ReputationEvent_save
                      (newReputationEvent ev profileId ''EXPERIENCE'' amount reason awardedBy timestamp) s)))"

definition reputationType :: "int \<Rightarrow> string" where
  [enum_defs]: "reputationType repType =
     (if repType = 0 then ''EXPERIENCE'' else if repType = 1 then ''REPUTATION''
      else if repType = 2 then ''TRUST'' else ''REPUTATION'')"

definition applyDelta :: "string \<Rightarrow> int \<Rightarrow> senseProfile \<Rightarrow> senseProfile" where
  "applyDelta repType delta profile =
     (if repType = ''EXPERIENCE'' then profile\<lparr>sp_experience := sp_experience profile + delta\<rparr>
      else if repType = ''REPUTATION'' then profile\<lparr>sp_reputation := sp_reputation profile + delta\<rparr>
      else if repType = ''TRUST'' then profile\<lparr>sp_trustScore := sp_trustScore profile + delta\<rparr>
      else profile)"

definition handleReputationUpdated ::
  "eth_event \<Rightarrow> bytes \<Rightarrow> int \<Rightarrow> int \<Rightarrow> string \<Rightarrow> bytes \<Rightarrow> int \<Rightarrow> sense_store \<Rightarrow> halt + sense_store" where
  [handler_defs]: "handleReputationUpdated ev profileIdParam repTypeParam delta reason updatedBy timestamp s =
     bind_halt (sense_getProfileIdString profileIdParam) (\<lambda>profileId.
       Inr (case senseProfiles s profileId of
              None \<Rightarrow> s
            | Some profile \<Rightarrow>
                (let repType = reputationType repTypeParam;
                     s = SenseProfile_save ((applyDelta repType delta profile)\<lparr>sp_updatedAt := timestamp\<rparr>) s
                 in ReputationEvent_save
                      (newReputationEvent ev profileId repType delta reason updatedBy timestamp) s)))"

definition handleInteractionRecorded ::
  "eth_event \<Rightarrow> bytes \<Rightarrow> bool \<Rightarrow> int \<Rightarrow> sense_store \<Rightarrow> halt + sense_store" where
  [handler_defs]: "handleInteractionRecorded ev profileIdParam positive timestamp s =
     bind_halt (sense_getProfileIdString profileIdParam) (\<lambda>profileId.
       Inr (case senseProfiles s profileId of
              None \<Rightarrow> s
            | Some profile \<Rightarrow>
                (let profile = (if positive
                       then profile\<lparr>sp_positiveFeedbacks := sp_positiveFeedbacks profile + 1\<rparr>
                       else profile\<lparr>sp_negativeFeedbacks := sp_negativeFeedbacks profile + 1\<rparr>)
                 in SenseProfile_save (profile\<lparr>sp_feedbackCount := sp_positiveFeedbacks profile + sp_negativeFeedbacks profile,
                      sp_updatedAt := timestamp\<rparr>) s)))"

datatype sense_event =
    ExperienceAwarded eth_event bytes int string bytes int
  | ReputationUpdated eth_event bytes int int string bytes int
  | InteractionRecorded eth_event bytes bool int

fun sense_step :: "sense_event \<Rightarrow> sense_store \<Rightarrow> halt + sense_store" where
  "sense_step (ExperienceAwarded ev p n r a t) s = handleExperienceAwarded ev p n r a t s"
| "sense_step (ReputationUpdated ev p ty d r a t) s = handleReputationUpdated ev p ty d r a t s"
| "sense_step (InteractionRecorded ev p b t) s = handleInteractionRecorded ev p b t s"

section \<open>Scores are ledgers\<close>

lemma sense_getProfileIdString_eq:
  "sense_getProfileIdString b = (if 8 \<le> length b then Inr (map fromCharCode (take 8 b)) else Inl IndexOutOfRange)"
  by (simp add: sense_getProfileIdString_def idStringLoop_eq)

lemmas sense_handlers = handleExperienceAwarded_def handleReputationUpdated_def handleInteractionRecorded_def
  sense_getProfileIdString_eq Let_def

lemma applyDelta_simps [simp]:
  "sp_profileId (applyDelta ty d p) = sp_profileId p"
  "sp_experience (applyDelta ty d p) = sp_experience p + (if ty = ''EXPERIENCE'' then d else 0)"
  "sp_reputation (applyDelta ty d p) = sp_reputation p + (if ty = ''REPUTATION'' then d else 0)"
  "sp_trustScore (applyDelta ty d p) = sp_trustScore p + (if ty = ''TRUST'' then d else 0)"
  "sp_feedbackCount (applyDelta ty d p) = sp_feedbackCount p"
  "sp_positiveFeedbacks (applyDelta ty d p) = sp_positiveFeedbacks p"
  "sp_negativeFeedbacks (applyDelta ty d p) = sp_negativeFeedbacks p"
  by (simp_all add: applyDelta_def)

text \<open>The three scores of a profile by the name of their kind.\<close>

definition score :: "string \<Rightarrow> senseProfile \<Rightarrow> int" where
  "score ty p = (if ty = ''EXPERIENCE'' then sp_experience p else if ty = ''REPUTATION'' then sp_reputation p
     else if ty = ''TRUST'' then sp_trustScore p else 0)"

definition score_of :: "string \<Rightarrow> bytes \<Rightarrow> sense_store \<Rightarrow> int" where
  "score_of ty pid s = contribution_of (score ty) (senseProfiles s (org_key pid))"

fun sense_delta :: "string \<Rightarrow> bytes \<Rightarrow> sense_event \<Rightarrow> int" where
  "sense_delta ty pid (ExperienceAwarded _ p n _ _ _) = (if org_key p = org_key pid \<and> ty = ''EXPERIENCE'' then n else 0)"
| "sense_delta ty pid (ReputationUpdated _ p k d _ _ _) = (if org_key p = org_key pid \<and> reputationType k = ty then d else 0)"
| "sense_delta ty pid (InteractionRecorded _ _ _ _) = 0"

definition sense_ok :: "bytes \<Rightarrow> sense_store \<Rightarrow> bool" where
  "sense_ok pid s \<longleftrightarrow> senseProfiles s (org_key pid) \<noteq> None
     \<and> (\<forall>k p. senseProfiles s k = Some p \<longrightarrow> sp_profileId p = k)"

definition scoreKinds :: "string set" where
  "scoreKinds = {''EXPERIENCE'', ''REPUTATION'', ''TRUST''}"

lemma reputationType_kind: "reputationType k \<in> scoreKinds"
  by (simp add: reputationType_def scoreKinds_def)

text \<open>Every event edits at most the profile it names.\<close>

fun edit :: "sense_event \<Rightarrow> senseProfile \<Rightarrow> senseProfile" where
  "edit (ExperienceAwarded _ _ n _ _ t) p = p\<lparr>sp_experience := sp_experience p + n, sp_updatedAt := t\<rparr>"
| "edit (ReputationUpdated _ _ ty d _ _ t) p = (applyDelta (reputationType ty) d p)\<lparr>sp_updatedAt := t\<rparr>"
| "edit (InteractionRecorded _ _ b t) p =
     (let p = (if b then p\<lparr>sp_positiveFeedbacks := sp_positiveFeedbacks p + 1\<rparr>
               else p\<lparr>sp_negativeFeedbacks := sp_negativeFeedbacks p + 1\<rparr>)
      in p\<lparr>sp_feedbackCount := sp_positiveFeedbacks p + sp_negativeFeedbacks p, sp_updatedAt := t\<rparr>)"

fun sense_pid :: "sense_event \<Rightarrow> bytes" where
  "sense_pid (ExperienceAwarded _ p _ _ _ _) = p"
| "sense_pid (ReputationUpdated _ p _ _ _ _ _) = p"
| "sense_pid (InteractionRecorded _ p _ _) = p"

lemma edit_id [simp]: "sp_profileId (edit e p) = sp_profileId p"
  by (cases e) (simp_all add: Let_def)

lemma sense_step_profiles:
  assumes "sense_step e s = Inr s'" and "\<forall>k p. senseProfiles s k = Some p \<longrightarrow> sp_profileId p = k"
  shows "senseProfiles s' = (case senseProfiles s (org_key (sense_pid e)) of None \<Rightarrow> senseProfiles s
     | Some p \<Rightarrow> (senseProfiles s)(org_key (sense_pid e) \<mapsto> edit e p))"
  using assms
  by (cases e) (auto simp: sense_handlers SenseProfile_save_def ReputationEvent_save_def
      split: if_splits option.splits)

lemma edit_score:
  "ty \<in> scoreKinds \<Longrightarrow> org_key (sense_pid e) = org_key pid \<Longrightarrow> score ty (edit e p) = score ty p + sense_delta ty pid e"
  by (cases e) (auto simp: score_def scoreKinds_def Let_def reputationType_def)

lemma sense_delta_other: "org_key (sense_pid e) \<noteq> org_key pid \<Longrightarrow> sense_delta ty pid e = 0"
  by (cases e) auto

lemma sense_step_ledger:
  assumes "ty \<in> scoreKinds" and "sense_ok pid s" and "sense_step e s = Inr s'"
  shows "sense_ok pid s' \<and> score_of ty pid s' = score_of ty pid s + sense_delta ty pid e"
proof -
  have k: "\<forall>k p. senseProfiles s k = Some p \<longrightarrow> sp_profileId p = k" using assms(2) by (simp add: sense_ok_def)
  note st = sense_step_profiles [OF assms(3) k]
  have "sense_ok pid s'" using assms(2) k by (auto simp: sense_ok_def st split: option.splits if_splits)
  moreover have "score_of ty pid s' = score_of ty pid s + sense_delta ty pid e"
  proof (cases "org_key (sense_pid e) = org_key pid")
    case True
    obtain p where p: "senseProfiles s (org_key pid) = Some p" using assms(2) by (auto simp: sense_ok_def)
    then have "senseProfiles s' (org_key pid) = Some (edit e p)" using st True by simp
    then show ?thesis using edit_score [OF assms(1) True] p by (simp add: score_of_def)
  next
    case False
    then have "senseProfiles s' (org_key pid) = senseProfiles s (org_key pid)" using st by (auto split: option.splits)
    then show ?thesis using sense_delta_other [OF False] by (simp add: score_of_def)
  qed
  ultimately show ?thesis ..
qed

definition score_ok :: "string \<Rightarrow> bytes \<Rightarrow> sense_store \<Rightarrow> bool" where
  "score_ok ty pid s \<longleftrightarrow> ty \<in> scoreKinds \<and> sense_ok pid s"

interpretation score_ledger: counted_indexer sense_step "\<lambda>_. True" "score_ok ty pid" "score_of ty pid" "sense_delta ty pid"
  for ty pid
proof
  fix s e s'
  assume "score_ok ty pid s" and "sense_step e s = Inr s'"
  then have "ty \<in> scoreKinds" and "sense_ok pid s' \<and> score_of ty pid s' = score_of ty pid s + sense_delta ty pid e"
    using sense_step_ledger [of ty pid s e s'] unfolding score_ok_def by blast+
  then show "score_ok ty pid s'" and "score_of ty pid s' = score_of ty pid s + sense_delta ty pid e"
    unfolding score_ok_def by blast+
qed

text \<open>
  The scores of a profile are ledgers. Over any run of Sense events each of experience,
  reputation and trust of a stored profile moves by the sum of the deltas of exactly the events that
  name the profile and the kind (an award counts as experience, an unknown kind as reputation);
  interactions and other profiles' events move none of them.
\<close>

theorem scores_are_ledgers:
  assumes "run sense_step es s = Inr s'" and "sense_ok pid s" and "ty \<in> scoreKinds"
  shows "score_of ty pid s' = score_of ty pid s + sum_list (map (sense_delta ty pid) es)"
proof -
  have "score_ok ty pid s" using assms(2,3) unfolding score_ok_def by blast
  from score_ledger.run_counter [OF assms(1) _ this] show ?thesis by (simp add: list_all_iff)
qed

theorem scores_are_ledgers_witness:
  "\<exists>s'. run sense_step [ExperienceAwarded example_event example_org_id 50 ''quest'' [1] 5,
       ReputationUpdated example_event example_org_id 0 (- 20) ''spam'' [1] 6,
       ReputationUpdated example_event example_org_id 2 7 ''vouch'' [1] 6]
      \<lparr>senseProfiles = [org_key example_org_id \<mapsto> \<lparr>sp_profileId = org_key example_org_id, sp_experience = 0, sp_reputation = 0,
         sp_trustScore = 0, sp_positiveFeedbacks = 0, sp_negativeFeedbacks = 0, sp_feedbackCount = 0, sp_updatedAt = 0\<rparr>],
       reputationEvents = Map.empty\<rparr> = Inr s'
     \<and> score_of ''EXPERIENCE'' example_org_id s' = 30"
proof -
  let ?s = "\<lparr>senseProfiles = [org_key example_org_id \<mapsto> \<lparr>sp_profileId = org_key example_org_id, sp_experience = 0, sp_reputation = 0,
         sp_trustScore = 0, sp_positiveFeedbacks = 0, sp_negativeFeedbacks = 0, sp_feedbackCount = 0, sp_updatedAt = 0\<rparr>],
       reputationEvents = Map.empty\<rparr>"
  let ?es = "[ExperienceAwarded example_event example_org_id 50 ''quest'' [1] 5,
       ReputationUpdated example_event example_org_id 0 (- 20) ''spam'' [1] 6,
       ReputationUpdated example_event example_org_id 2 7 ''vouch'' [1] 6]"
  obtain s' where r: "run sense_step ?es ?s = Inr s'" by (simp add: sense_handlers)
  have h: "sense_ok example_org_id ?s" "''EXPERIENCE'' \<in> scoreKinds" by (simp_all add: sense_ok_def scoreKinds_def)
  have "score_of ''EXPERIENCE'' example_org_id ?s = 0" by (simp add: score_of_def score_def)
  with scores_are_ledgers [OF r h] r show ?thesis by (auto simp: reputationType_def)
qed

section \<open>Feedback\<close>

definition feedback_consistent :: "senseProfile \<Rightarrow> bool" where
  "feedback_consistent p \<longleftrightarrow> sp_feedbackCount p = sp_positiveFeedbacks p + sp_negativeFeedbacks p"

definition feedbacks_ok :: "sense_store \<Rightarrow> bool" where
  "feedbacks_ok s \<longleftrightarrow> (\<forall>k p. senseProfiles s k = Some p \<longrightarrow> sp_profileId p = k \<and> feedback_consistent p)"

lemma edit_feedback: "feedback_consistent p \<Longrightarrow> feedback_consistent (edit e p)"
  by (cases e) (simp_all add: feedback_consistent_def Let_def)

lemma sense_step_feedbacks_ok: "feedbacks_ok s \<Longrightarrow> sense_step e s = Inr s' \<Longrightarrow> feedbacks_ok s'"
proof -
  assume ok: "feedbacks_ok s" and st: "sense_step e s = Inr s'"
  have k: "\<forall>k p. senseProfiles s k = Some p \<longrightarrow> sp_profileId p = k" using ok by (simp add: feedbacks_ok_def)
  show ?thesis
  proof (cases "senseProfiles s (org_key (sense_pid e))")
    case None
    then show ?thesis using ok sense_step_profiles [OF st k] by (simp add: feedbacks_ok_def)
  next
    case (Some p)
    then have "sp_profileId p = org_key (sense_pid e)" "feedback_consistent p" using ok by (simp_all add: feedbacks_ok_def)
    then show ?thesis using ok sense_step_profiles [OF st k] Some edit_feedback by (simp add: feedbacks_ok_def)
  qed
qed

text \<open>
  The feedback count is always the sum of its parts: from a store in which it is, every run of
  Sense events leads to a store in which every profile's feedback count is the number of its
  positive plus the number of its negative feedbacks.
\<close>

theorem feedback_count_consistent:
  assumes "run sense_step es s = Inr s'" and "feedbacks_ok s" and "senseProfiles s' k = Some p"
  shows "sp_feedbackCount p = sp_positiveFeedbacks p + sp_negativeFeedbacks p"
proof -
  have "feedbacks_ok s'"
    by (rule run_invariant [OF _ assms(1), where I = feedbacks_ok]) (use sense_step_feedbacks_ok assms(2) in auto)
  then show ?thesis using assms(3) by (simp add: feedbacks_ok_def feedback_consistent_def)
qed

theorem feedback_count_consistent_witness:
  "\<exists>s' p. run sense_step [InteractionRecorded example_event example_org_id True 5, InteractionRecorded example_event example_org_id False 6]
      \<lparr>senseProfiles = [org_key example_org_id \<mapsto> \<lparr>sp_profileId = org_key example_org_id, sp_experience = 0, sp_reputation = 0,
         sp_trustScore = 0, sp_positiveFeedbacks = 3, sp_negativeFeedbacks = 4, sp_feedbackCount = 7, sp_updatedAt = 0\<rparr>],
       reputationEvents = Map.empty\<rparr> = Inr s'
     \<and> senseProfiles s' (org_key example_org_id) = Some p \<and> sp_feedbackCount p = sp_positiveFeedbacks p + sp_negativeFeedbacks p"
proof -
  let ?s = "\<lparr>senseProfiles = [org_key example_org_id \<mapsto> \<lparr>sp_profileId = org_key example_org_id, sp_experience = 0, sp_reputation = 0,
         sp_trustScore = 0, sp_positiveFeedbacks = 3, sp_negativeFeedbacks = 4, sp_feedbackCount = 7, sp_updatedAt = 0\<rparr>],
       reputationEvents = Map.empty\<rparr>"
  let ?es = "[InteractionRecorded example_event example_org_id True 5, InteractionRecorded example_event example_org_id False 6]"
  obtain s' where r: "run sense_step ?es ?s = Inr s'" by (simp add: sense_handlers)
  then have "senseProfiles s' (org_key example_org_id) \<noteq> None" by (auto simp: sense_handlers SenseProfile_save_def)
  then obtain p where p: "senseProfiles s' (org_key example_org_id) = Some p" by blast
  have "feedbacks_ok ?s" by (simp add: feedbacks_ok_def feedback_consistent_def)
  from feedback_count_consistent [OF r this p] r p show ?thesis by blast
qed

end
