(* ===== verification/Placeholder.thy ===== *)
theory Placeholder
  imports Encoding
begin

unbundle bit_operations_syntax

text \<open>
  The placeholder images of the web client, \<open>packages/frontend/src/lib/placeholder.ts\<close>.

  \<^item> A JavaScript number that only ever holds an integer is an \<open>int\<close>; the bitwise operators convert
    with \<open>toInt32\<close> and \<open>toUint32\<close>, while \<open>+\<close>, \<open>*\<close> and \<open>%\<close> are exact as long as every value stays
    below \<open>2 ^ 53\<close>, which is proved here and not assumed.
  \<^item> \<open>fnv1a\<close> is the loop over the code units; the reference hash multiplies by the FNV prime on
    32-bit words.
  \<^item> \<open>URLSearchParams.toString\<close> is the form encoding of its one parameter, over UTF-8.

  The lemmas show that the shift-and-add loop computes FNV-1a, that hues and angles are degrees, and
  that the avatar address determines the seed.
\<close>

section \<open>JavaScript integer operators\<close>

definition toInt32 :: "int \<Rightarrow> int" where
  "toInt32 x = (x + 2 ^ 31) mod 2 ^ 32 - 2 ^ 31"

definition toUint32 :: "int \<Rightarrow> int" where
  "toUint32 x = x mod 2 ^ 32"

definition jsXor :: "int \<Rightarrow> int \<Rightarrow> int" where
  "jsXor a b = toInt32 a XOR toInt32 b"

definition jsShl :: "int \<Rightarrow> nat \<Rightarrow> int" where
  "jsShl a k = toInt32 (toInt32 a * 2 ^ k)"

section \<open>The hash\<close>

definition fnvSum :: "int \<Rightarrow> int" where
  "fnvSum h = h + (jsShl h 1 + jsShl h 4 + jsShl h 7 + jsShl h 8 + jsShl h 24)"

fun fnvLoop :: "int \<Rightarrow> string \<Rightarrow> int" where
  "fnvLoop h [] = h"
| "fnvLoop h (c # cs) = fnvLoop (toUint32 (fnvSum (jsXor h (int (charCodeAt c))))) cs"

definition fnv1a :: "string \<Rightarrow> int" where
  "fnv1a input = toUint32 (fnvLoop 0x811c9dc5 input)"

definition fnv1a_reference :: "string \<Rightarrow> 32 word" where
  "fnv1a_reference input = foldl (\<lambda>h c. (h XOR word_of_nat (charCodeAt c)) * 16777619) 0x811c9dc5 input"

section \<open>Gradients and avatars\<close>

definition gradientBanner :: "string \<Rightarrow> string" where
  "gradientBanner seed =
     (let h = fnv1a (if seed = [] then ''default'' else seed);
          hue1 = h mod 360;
          hue2 = (h * 7) mod 360;
          angle = (h * 13) mod 360
      in ''linear-gradient('' @ show_int angle @ ''deg, hsl('' @ show_int hue1 @ '', 65%, 55%), hsl('' @
         show_int hue2 @ '', 65%, 45%))'')"

datatype diceBearStyle = Lorelei | Notionists | FunEmoji | Bottts | PixelArt | Adventurer | Miniavs
  | Croodles | Identicon | Shapes

fun styleName :: "diceBearStyle \<Rightarrow> string" where
  "styleName Lorelei = ''lorelei''"
| "styleName Notionists = ''notionists''"
| "styleName FunEmoji = ''fun-emoji''"
| "styleName Bottts = ''bottts''"
| "styleName PixelArt = ''pixel-art''"
| "styleName Adventurer = ''adventurer''"
| "styleName Miniavs = ''miniavs''"
| "styleName Croodles = ''croodles''"
| "styleName Identicon = ''identicon''"
| "styleName Shapes = ''shapes''"

definition upperHex :: "nat \<Rightarrow> char" where
  "upperHex n = char_of (if n < 10 then 48 + n else 55 + n)"

definition percent :: "nat \<Rightarrow> string" where
  "percent n = [CHR ''%'', upperHex (n div 16), upperHex (n mod 16)]"

definition formSafe :: "nat \<Rightarrow> bool" where
  "formSafe n \<longleftrightarrow> (48 \<le> n \<and> n \<le> 57) \<or> (65 \<le> n \<and> n \<le> 90) \<or> (97 \<le> n \<and> n \<le> 122) \<or> n \<in> {42, 45, 46, 95}"

definition formEncodeChar :: "char \<Rightarrow> string" where
  "formEncodeChar c =
     (let n = charCodeAt c
      in if n = 32 then ''+''
         else if formSafe n then [c]
         else if n < 128 then percent n
         else percent (192 + n div 64) @ percent (128 + n mod 64))"

definition formEncode :: "string \<Rightarrow> string" where
  "formEncode s = concat (map formEncodeChar s)"

definition dicebearAvatar :: "string \<Rightarrow> diceBearStyle \<Rightarrow> string" where
  "dicebearAvatar seed style =
     ''https://api.dicebear.com/9.x'' @ ''/'' @ styleName style @ ''/svg?'' @ ''seed='' @
     formEncode (if seed = [] then ''default'' else seed)"

section \<open>The shift-and-add loop is FNV-1a\<close>

lemma toInt32_bounds: "- (2 ^ 31) \<le> toInt32 x" "toInt32 x < 2 ^ 31"
  by (simp_all add: toInt32_def)

lemma word_toInt32 [simp]: "(word_of_int (toInt32 x) :: 32 word) = word_of_int x"
proof -
  have "toInt32 x mod 2 ^ 32 = x mod 2 ^ 32" by (simp add: toInt32_def mod_simps)
  then show ?thesis by (simp add: word_of_int_eq_iff take_bit_eq_mod)
qed

lemma word_toUint32 [simp]: "(word_of_int (toUint32 x) :: 32 word) = word_of_int x"
  by (simp add: toUint32_def word_of_int_eq_iff take_bit_eq_mod)

lemma toUint32_uint: "toUint32 x = uint (word_of_int x :: 32 word)"
  by (simp add: toUint32_def uint_word_of_int take_bit_eq_mod)

lemma word_jsXor: "(word_of_int (jsXor a b) :: 32 word) = word_of_int a XOR word_of_int b"
  unfolding jsXor_def by (simp only: of_int_xor_eq word_toInt32)

lemma word_jsShl: "(word_of_int (jsShl a k) :: 32 word) = word_of_int a * 2 ^ k"
proof -
  have "(word_of_int (toInt32 a * 2 ^ k) :: 32 word) = word_of_int (toInt32 a) * 2 ^ k" by simp
  then show ?thesis unfolding jsShl_def by (simp only: word_toInt32)
qed

lemma word_fnvSum: "(word_of_int (fnvSum h) :: 32 word) = word_of_int h * 16777619"
  by (simp add: fnvSum_def word_jsShl)

lemma word_fnvLoop:
  "(word_of_int (fnvLoop h s) :: 32 word) =
     foldl (\<lambda>h c. (h XOR word_of_nat (charCodeAt c)) * 16777619) (word_of_int h) s"
  by (induction s arbitrary: h) (simp_all add: word_fnvSum word_jsXor)

text \<open>
  Exactness of the double arithmetic: every intermediate sum of the loop, and the products of the
  banner, are integers of absolute value below \<open>2 ^ 53\<close>.
\<close>

lemma int32_xor_bounds:
  assumes "- (2 ^ 31) \<le> a" "a < 2 ^ 31" "- (2 ^ 31) \<le> b" "b < 2 ^ 31"
  shows "- (2 ^ 31) \<le> a XOR b" "a XOR b < (2 ^ 31 :: int)"
proof -
  have "signed_take_bit 31 (a XOR b) = signed_take_bit 31 a XOR signed_take_bit 31 b"
    by (rule bit_eqI) (auto simp: bit_simps)
  also have "\<dots> = a XOR b" using assms by (simp add: signed_take_bit_int_eq_self)
  finally have "signed_take_bit 31 (a XOR b) = a XOR b" .
  then show "- (2 ^ 31) \<le> a XOR b" "a XOR b < 2 ^ 31"
    using signed_take_bit_int_greater_eq_minus_exp [of 31 "a XOR b"] signed_take_bit_int_less_exp [of 31 "a XOR b"]
    by simp_all
qed

lemma jsXor_bounds: "- (2 ^ 31) \<le> jsXor a b" "jsXor a b < 2 ^ 31"
  unfolding jsXor_def by (intro int32_xor_bounds toInt32_bounds)+

lemma fnvSum_exact: "\<bar>fnvSum (jsXor h c)\<bar> < 2 ^ 53"
proof -
  have s: "- (2 ^ 31) \<le> jsShl (jsXor h c) k \<and> jsShl (jsXor h c) k < 2 ^ 31" for k
    unfolding jsShl_def using toInt32_bounds by blast
  show ?thesis using jsXor_bounds [of h c] s [of 1] s [of 4] s [of 7] s [of 8] s [of 24]
    by (simp add: fnvSum_def) arith
qed

lemma fnv1a_eq: "fnv1a s = uint (fnv1a_reference s)"
  by (simp add: fnv1a_def toUint32_uint word_fnvLoop fnv1a_reference_def)

lemma fnv1a_bounds: "0 \<le> fnv1a s" "fnv1a s < 2 ^ 32"
  by (simp_all add: fnv1a_def toUint32_def)

text \<open>
  The hand-unrolled hash is FNV-1a: on every input the loop of signed shifts and additions
  returns the 32-bit product form, and no intermediate number of a round leaves the range in which
  double arithmetic on integers is exact.
\<close>

theorem fnv1a_is_fnv:
  "fnv1a s = uint (fnv1a_reference s) \<and> \<bar>fnvSum (jsXor h (int (charCodeAt c)))\<bar> < 2 ^ 53
   \<and> fnv1a s * 13 < 2 ^ 53"
  using fnv1a_eq fnvSum_exact fnv1a_bounds(2) [of s] by simp

section \<open>Avatar addresses\<close>

fun formDecode :: "string \<Rightarrow> nat list" where
  "formDecode (p # h # l # cs) =
     (if p = CHR ''%'' then (the (hexval h) * 16 + the (hexval l)) # formDecode cs
      else (if p = CHR ''+'' then 32 else charCodeAt p) # formDecode (h # l # cs))"
| "formDecode (p # cs) = (if p = CHR ''+'' then 32 else charCodeAt p) # formDecode cs"
| "formDecode [] = []"

definition utf8 :: "char \<Rightarrow> nat list" where
  "utf8 c = (let n = charCodeAt c in if n < 128 then [n] else [192 + n div 64, 128 + n mod 64])"

lemma hexval_upperHex: "n < 16 \<Longrightarrow> hexval (upperHex n) = Some n"
  by (simp add: hexval_def upperHex_def)

lemma formDecode_percent: "n < 256 \<Longrightarrow> formDecode (percent n @ cs) = n # formDecode cs"
  by (simp add: percent_def hexval_upperHex)

lemma formDecode_plain: "p \<noteq> CHR ''%'' \<Longrightarrow> formDecode (p # cs) = (if p = CHR ''+'' then 32 else charCodeAt p) # formDecode cs"
  by (cases cs; cases "tl cs") auto

lemma charCodeAt_less [simp]: "charCodeAt c < 256"
  by (simp add: charCodeAt_def)

lemma formDecode_char: "formDecode (formEncodeChar c @ cs) = utf8 c @ formDecode cs"
proof -
  have "charCodeAt c div 64 < 4" using charCodeAt_less [of c] by linarith
  moreover have "charCodeAt c mod 64 < 64" by simp
  ultimately have b: "192 + charCodeAt c div 64 < 256" "128 + charCodeAt c mod 64 < 256" by linarith+
  have s: "c \<noteq> CHR ''%'' \<and> c \<noteq> CHR ''+'' \<and> charCodeAt c < 128" if "formSafe (charCodeAt c)"
    using that by (auto simp: formSafe_def charCodeAt_def)
  show ?thesis
    using b s by (auto simp: formEncodeChar_def utf8_def Let_def formDecode_percent formDecode_plain)
qed

lemma formDecode_encode: "formDecode (formEncode s) = concat (map utf8 s)"
  by (induction s) (simp_all add: formEncode_def formDecode_char)

lemma utf8_inject:
  assumes "utf8 c @ xs = utf8 d @ ys"
  shows "c = d \<and> xs = ys"
proof -
  have n: "charCodeAt c = charCodeAt d" and "xs = ys"
    using assms by (auto simp: utf8_def Let_def split: if_splits) (metis div_mult_mod_eq)
  from n show ?thesis using \<open>xs = ys\<close> by (simp add: charCodeAt_def)
qed

lemma utf8_nonempty: "utf8 c \<noteq> []"
  by (simp add: utf8_def Let_def)

lemma concat_utf8_inject: "concat (map utf8 s) = concat (map utf8 t) \<Longrightarrow> s = t"
proof (induction s arbitrary: t)
  case Nil
  then show ?case by (cases t) (auto simp: utf8_nonempty)
next
  case (Cons c s)
  then obtain d t' where t: "t = d # t'" by (cases t) (auto simp: utf8_nonempty)
  with Cons.prems have "c = d \<and> concat (map utf8 s) = concat (map utf8 t')" by (intro utf8_inject) simp
  with Cons.IH t show ?case by simp
qed

lemma formEncode_inject: "formEncode s = formEncode t \<longleftrightarrow> s = t"
  using formDecode_encode concat_utf8_inject by metis

lemma styleName_no_slash: "CHR ''/'' \<notin> set (styleName st)"
  by (cases st) simp_all

lemma styleName_inject: "styleName a = styleName b \<longleftrightarrow> a = b"
  by (cases a; cases b) simp_all

lemma slash_split:
  assumes "a @ CHR ''/'' # b = a' @ CHR ''/'' # b'" and "CHR ''/'' \<notin> set a" and "CHR ''/'' \<notin> set a'"
  shows "a = a' \<and> b = b'"
  using assms
proof (induction a arbitrary: a')
  case Nil
  then show ?case by (cases a') auto
next
  case (Cons x xs)
  then show ?case by (cases a') auto
qed

text \<open>
  The avatar address determines what it was made from: two addresses are equal exactly when the
  styles are the same and the seeds are, where the empty seed counts as \<open>default\<close>.
\<close>

theorem dicebearAvatar_inject:
  "dicebearAvatar s a = dicebearAvatar t b \<longleftrightarrow>
     a = b \<and> (if s = [] then ''default'' else s) = (if t = [] then ''default'' else t)"
proof
  assume "dicebearAvatar s a = dicebearAvatar t b"
  then have "styleName a @ CHR ''/'' # ''svg?seed='' @ formEncode (if s = [] then ''default'' else s)
    = styleName b @ CHR ''/'' # ''svg?seed='' @ formEncode (if t = [] then ''default'' else t)"
    by (simp add: dicebearAvatar_def)
  from slash_split [OF this styleName_no_slash styleName_no_slash]
  show "a = b \<and> (if s = [] then ''default'' else s) = (if t = [] then ''default'' else t)"
    by (simp only: styleName_inject formEncode_inject append_same_eq same_append_eq simp_thms)
qed (simp add: dicebearAvatar_def)

end
