(* ===== verification/Logger.thy ===== *)
theory Logger
  imports Encoding
begin

text \<open>
  The logging library of the web client, \<open>packages/frontend/src/lib/logger.ts\<close>.

  \<^item> The module variables \<open>globalConfig\<close>, \<open>logStorage\<close>, \<open>sessionId\<close> and \<open>userContext\<close> are the fields of
    \<open>loggerState\<close>, together with what the module emits: the console calls and the requests to the
    remote endpoint.
  \<^item> The array of enabled categories is mutated in place and shared with callers, so it is an address
    in the array store \<open>ls_arrays\<close>; every other value is copied by the code and is a plain value here.
  \<^item> A logged value is a \<open>jval\<close>: strings, integers, dates, errors and objects the library builds
    itself, and opaque values \<open>JD d\<close> of its callers. Truthiness and \<open>JSON.stringify\<close> of values are the
    host; \<open>JSON.stringify\<close> may throw (\<open>Inl\<close>) and may return \<open>undefined\<close> (\<open>Inr None\<close>).
  \<^item> What a call reads from its surroundings (clock, window, environment, the stack of a new error) is
    the record \<open>logEnv\<close>. Formatters given by callers neither throw nor call the logger.

  The lemmas show that the storage is exactly the latest entries within its bound, when the bound
  fails, what the level filter lets through, which arrays are shared, and that the CSV export can be
  read back.
\<close>

section \<open>Data\<close>

datatype logLevel = LDebug | LInfo | LWarn | LError | LSilent

datatype logCategory = CApp | CAuth | CIpfs | CBlockchain | CUi | CApi | CPerformance | CUser | CSystem | CDev

record jsError =
  e_name :: string
  e_message :: string
  e_stack :: "string option"

datatype 'd jval =
    JS string
  | JI int
  | JDate int
  | JErr jsError
  | JO "(string \<times> 'd jval option) list"
  | JD 'd

record 'd logHost =
  h_truthy :: "'d \<Rightarrow> bool"
  h_stringify :: "'d jval \<Rightarrow> string + string option"
  h_stringifyLogs :: "'d jval list \<Rightarrow> string + string"

record logEnv =
  env_now :: int
  env_created :: int
  env_window :: "(string \<times> string) option"
  env_nodeEnv :: string
  env_newStack :: string

record 'd logEntry =
  le_timestamp :: int
  le_level :: logLevel
  le_category :: logCategory
  le_message :: string
  le_data :: "'d jval option"
  le_error :: "jsError option"
  le_component :: "string option"
  le_sessionId :: string
  le_url :: "string option"
  le_userAgent :: "string option"
  le_userId :: "string option"

datatype 'd consoleCall =
    ConsoleLog "'d jval list"
  | ConsoleError "'d jval list"
  | ConsoleGroup "'d jval list"
  | ConsoleGroupEnd
  | ConsoleTime string
  | ConsoleTimeEnd string

text \<open>A console formatter reads one setting of the configuration, \<open>includeStackTrace\<close>.\<close>

record 'd formatters =
  fmt_console :: "bool \<Rightarrow> 'd logEntry \<Rightarrow> 'd consoleCall list"
  fmt_storage :: "'d logEntry \<Rightarrow> string + string option"

record 'd loggerConfig =
  lc_level :: logLevel
  lc_enabledCategories :: nat
  lc_enableConsole :: bool
  lc_enableStorage :: bool
  lc_maxStorageEntries :: int
  lc_enableRemoteLogging :: bool
  lc_remoteEndpoint :: "string option"
  lc_includeStackTrace :: bool
  lc_includeUserContext :: bool
  lc_formatters :: "'d formatters"

record logContext =
  ctx_userId :: "string option"
  ctx_address :: "string option"

record 'd loggerState =
  ls_globalConfig :: "'d loggerConfig"
  ls_arrays :: "nat \<Rightarrow> logCategory list"
  ls_nextArray :: nat
  ls_logStorage :: "'d logEntry list"
  ls_sessionId :: string
  ls_userContext :: logContext
  ls_console :: "'d consoleCall list"
  ls_remote :: "(string \<times> string option) list"

fun LOG_LEVELS :: "logLevel \<Rightarrow> nat" where
  "LOG_LEVELS LDebug = 0"
| "LOG_LEVELS LInfo = 1"
| "LOG_LEVELS LWarn = 2"
| "LOG_LEVELS LError = 3"
| "LOG_LEVELS LSilent = 4"

fun levelName :: "logLevel \<Rightarrow> string" where
  "levelName LDebug = ''debug''"
| "levelName LInfo = ''info''"
| "levelName LWarn = ''warn''"
| "levelName LError = ''error''"
| "levelName LSilent = ''silent''"

fun levelNameUpper :: "logLevel \<Rightarrow> string" where
  "levelNameUpper LDebug = ''DEBUG''"
| "levelNameUpper LInfo = ''INFO''"
| "levelNameUpper LWarn = ''WARN''"
| "levelNameUpper LError = ''ERROR''"
| "levelNameUpper LSilent = ''SILENT''"

fun categoryName :: "logCategory \<Rightarrow> string" where
  "categoryName CApp = ''app''"
| "categoryName CAuth = ''auth''"
| "categoryName CIpfs = ''ipfs''"
| "categoryName CBlockchain = ''blockchain''"
| "categoryName CUi = ''ui''"
| "categoryName CApi = ''api''"
| "categoryName CPerformance = ''performance''"
| "categoryName CUser = ''user''"
| "categoryName CSystem = ''system''"
| "categoryName CDev = ''dev''"

section \<open>What the code uses of the language\<close>

fun truthy :: "'d logHost \<Rightarrow> 'd jval \<Rightarrow> bool" where
  "truthy H (JS s) = (s \<noteq> [])"
| "truthy H (JI i) = (i \<noteq> 0)"
| "truthy H (JDate t) = True"
| "truthy H (JErr e) = True"
| "truthy H (JO fs) = True"
| "truthy H (JD d) = h_truthy H d"

definition truthyOpt :: "'d logHost \<Rightarrow> 'd jval option \<Rightarrow> bool" where
  "truthyOpt H v = (case v of None \<Rightarrow> False | Some x \<Rightarrow> truthy H x)"

text \<open>\<open>xs.slice(k)\<close> for an integer \<open>k\<close>; a negative one counts from the end.\<close>

definition js_slice :: "int \<Rightarrow> 'a list \<Rightarrow> 'a list" where
  "js_slice k xs = (if k < 0 then drop (nat (int (length xs) + k)) xs else drop (nat k) xs)"

fun str_includes :: "string \<Rightarrow> string \<Rightarrow> bool" where
  "str_includes [] t = (t = [])"
| "str_includes (c # cs) t = (take (length t) (c # cs) = t \<or> str_includes cs t)"

fun str_join :: "string \<Rightarrow> string list \<Rightarrow> string" where
  "str_join sep [] = []"
| "str_join sep [x] = x"
| "str_join sep (x # y # xs) = x @ sep @ str_join sep (y # xs)"

text \<open>\<open>Date.prototype.toISOString\<close> of a time in milliseconds: the civil date of the day and the time of day.\<close>

definition civil :: "int \<Rightarrow> int \<times> int \<times> int" where
  "civil days =
     (let z = days + 719468;
          era = z div 146097;
          doe = z - era * 146097;
          yoe = (doe - doe div 1460 + doe div 36524 - doe div 146096) div 365;
          doy = doe - (365 * yoe + yoe div 4 - yoe div 100);
          mp = (5 * doy + 2) div 153;
          m = (if mp < 10 then mp + 3 else mp - 9);
          y = yoe + era * 400 + (if m \<le> 2 then 1 else 0)
      in (y, m, doy - (153 * mp + 2) div 5 + 1))"

definition digits :: "nat \<Rightarrow> int \<Rightarrow> string" where
  "digits n i = padStart n CHR ''0'' (show_int i)"

definition toISOString :: "int \<Rightarrow> string" where
  "toISOString t =
     (let (y, m, d) = civil (t div 86400000); ms = t mod 86400000;
          year = (if 0 \<le> y \<and> y \<le> 9999 then digits 4 y
                  else if y < 0 then ''-'' @ digits 6 (- y) else ''+'' @ digits 6 y)
      in year @ ''-'' @ digits 2 m @ ''-'' @ digits 2 d @ ''T'' @ digits 2 (ms div 3600000) @ '':'' @
         digits 2 (ms div 60000 mod 60) @ '':'' @ digits 2 (ms div 1000 mod 60) @ ''.'' @ digits 3 (ms mod 1000) @ ''Z'')"

section \<open>Formatters and defaults\<close>

definition levelStyle :: "logLevel \<Rightarrow> string" where
  "levelStyle l =
     (case l of
        LDebug \<Rightarrow> ''color: #6B7280; font-weight: normal;''
      | LInfo \<Rightarrow> ''color: #3B82F6; font-weight: normal;''
      | LWarn \<Rightarrow> ''color: #F59E0B; font-weight: bold;''
      | LError \<Rightarrow> ''color: #EF4444; font-weight: bold;''
      | LSilent \<Rightarrow> ''color: #3B82F6; font-weight: normal;'')"

definition defaultConsoleFormatter :: "'d logHost \<Rightarrow> bool \<Rightarrow> 'd logEntry \<Rightarrow> 'd consoleCall list" where
  "defaultConsoleFormatter H includeStackTrace entry =
     (let style = levelStyle (le_level entry);
          time = take 12 (drop 11 (toISOString (le_timestamp entry)));
          prefix = ''%c['' @ time @ ''] '' @ levelNameUpper (le_level entry) @ '' ['' @
            categoryName (le_category entry) @ '']'' @
            (if nonempty (le_component entry) then '' <'' @ the (le_component entry) @ ''>'' else [])
      in case le_error entry of
           Some err \<Rightarrow>
             [ConsoleGroup [JS prefix, JS style], ConsoleLog [JS (le_message entry)]] @
             (if truthyOpt H (le_data entry) then [ConsoleLog [JS ''Data:'', the (le_data entry)]] else []) @
             [ConsoleError [JS ''Error:'', JErr err]] @
             (if includeStackTrace \<and> nonempty (e_stack err)
              then [ConsoleLog [JS ''Stack:'', JS (the (e_stack err))]] else []) @
             [ConsoleGroupEnd]
         | None \<Rightarrow>
             [ConsoleLog [JS prefix, JS style, JS (le_message entry),
                if truthyOpt H (le_data entry) then the (le_data entry) else JS []]])"

definition defaultStorageFormatter :: "'d logHost \<Rightarrow> 'd logEntry \<Rightarrow> string + string option" where
  "defaultStorageFormatter H entry =
     h_stringify H (JO
       [(''timestamp'', Some (JS (toISOString (le_timestamp entry)))),
        (''level'', Some (JS (levelName (le_level entry)))),
        (''category'', Some (JS (categoryName (le_category entry)))),
        (''message'', Some (JS (le_message entry))),
        (''data'', le_data entry),
        (''error'', map_option (\<lambda>e. JO [(''name'', Some (JS (e_name e))), (''message'', Some (JS (e_message e))),
            (''stack'', map_option JS (e_stack e))]) (le_error entry)),
        (''component'', map_option JS (le_component entry)),
        (''userId'', map_option JS (le_userId entry)),
        (''sessionId'', Some (JS (le_sessionId entry))),
        (''url'', map_option JS (le_url entry)),
        (''userAgent'', map_option JS (le_userAgent entry))])"

text \<open>The module-level initialisation: address 0 holds the array of \<open>DEFAULT_CONFIG\<close>.\<close>

definition defaultCategories :: "string \<Rightarrow> logCategory list" where
  "defaultCategories nodeEnv =
     (if nodeEnv = ''production'' then [CApp, CAuth, CSystem] else [CApp, CAuth, CBlockchain, CUser, CSystem])"

definition DEFAULT_CONFIG :: "'d logHost \<Rightarrow> string \<Rightarrow> 'd loggerConfig" where
  "DEFAULT_CONFIG H nodeEnv =
     \<lparr>lc_level = (if nodeEnv = ''production'' then LWarn else LInfo), lc_enabledCategories = 0,
      lc_enableConsole = True, lc_enableStorage = True, lc_maxStorageEntries = 1000,
      lc_enableRemoteLogging = False, lc_remoteEndpoint = None,
      lc_includeStackTrace = (nodeEnv = ''development''), lc_includeUserContext = True,
      lc_formatters = \<lparr>fmt_console = defaultConsoleFormatter H, fmt_storage = defaultStorageFormatter H\<rparr>\<rparr>"

definition initialLogger :: "'d logHost \<Rightarrow> string \<Rightarrow> string \<Rightarrow> 'd loggerState" where
  "initialLogger H nodeEnv session =
     \<lparr>ls_globalConfig = DEFAULT_CONFIG H nodeEnv, ls_arrays = (\<lambda>_. [])(0 := defaultCategories nodeEnv),
      ls_nextArray = 1, ls_logStorage = [], ls_sessionId = session,
      ls_userContext = \<lparr>ctx_userId = None, ctx_address = None\<rparr>, ls_console = [], ls_remote = []\<rparr>"

definition generateSessionId :: "int \<Rightarrow> string \<Rightarrow> string" where
  "generateSessionId now random36 = ''session_'' @ show_int now @ ''_'' @ take 9 (drop 2 random36)"

section \<open>User context\<close>

text \<open>The argument of \<open>setUserContext\<close>: an absent key is \<open>None\<close>, a key with an undefined value \<open>Some None\<close>.\<close>

record contextUpdate =
  up_userId :: "string option option"
  up_address :: "string option option"

definition setUserContext :: "contextUpdate \<Rightarrow> 'd loggerState \<Rightarrow> 'd loggerState" where
  "setUserContext context s =
     s\<lparr>ls_userContext :=
        \<lparr>ctx_userId = (case up_userId context of Some v \<Rightarrow> v | None \<Rightarrow> ctx_userId (ls_userContext s)),
         ctx_address = (case up_address context of Some v \<Rightarrow> v | None \<Rightarrow> ctx_address (ls_userContext s))\<rparr>\<rparr>"

definition clearUserContext :: "'d loggerState \<Rightarrow> 'd loggerState" where
  "clearUserContext s = s\<lparr>ls_userContext := \<lparr>ctx_userId = None, ctx_address = None\<rparr>\<rparr>"

section \<open>Writing entries\<close>

definition shouldLog :: "'d loggerState \<Rightarrow> logLevel \<Rightarrow> logCategory \<Rightarrow> bool" where
  "shouldLog s level category \<longleftrightarrow>
     LOG_LEVELS (lc_level (ls_globalConfig s)) \<le> LOG_LEVELS level \<and>
     category \<in> set (ls_arrays s (lc_enabledCategories (ls_globalConfig s)))"

definition createLogEntry ::
  "logEnv \<Rightarrow> 'd loggerState \<Rightarrow> logLevel \<Rightarrow> logCategory \<Rightarrow> string \<Rightarrow> 'd jval option \<Rightarrow> jsError option \<Rightarrow>
   string option \<Rightarrow> 'd logEntry" where
  "createLogEntry env s level category message data error component =
     \<lparr>le_timestamp = env_created env, le_level = level, le_category = category, le_message = message,
      le_data = data, le_error = error, le_component = component, le_sessionId = ls_sessionId s,
      le_url = map_option fst (env_window env), le_userAgent = map_option snd (env_window env),
      le_userId = (if lc_includeUserContext (ls_globalConfig s)
                   then js_or (ctx_userId (ls_userContext s)) (ctx_address (ls_userContext s)) else None)\<rparr>"

definition storeEntry :: "'d logEntry \<Rightarrow> 'd loggerState \<Rightarrow> 'd loggerState" where
  "storeEntry entry s =
     (let st = ls_logStorage s @ [entry]; m = lc_maxStorageEntries (ls_globalConfig s)
      in s\<lparr>ls_logStorage := if m < int (length st) then js_slice (- m) st else st\<rparr>)"

text \<open>The request leaves synchronously; its outcome is ignored, and so is a formatter that throws.\<close>

definition sendToRemote :: "'d logEntry \<Rightarrow> 'd loggerState \<Rightarrow> 'd loggerState" where
  "sendToRemote entry s =
     (if \<not> nonempty (lc_remoteEndpoint (ls_globalConfig s)) then s
      else case fmt_storage (lc_formatters (ls_globalConfig s)) entry of
             Inl _ \<Rightarrow> s
           | Inr body \<Rightarrow> s\<lparr>ls_remote := ls_remote s @ [(the (lc_remoteEndpoint (ls_globalConfig s)), body)]\<rparr>)"

definition processLogEntry :: "'d logEntry \<Rightarrow> 'd loggerState \<Rightarrow> 'd loggerState" where
  "processLogEntry entry s =
     (let c = ls_globalConfig s;
          s1 = (if lc_enableConsole c
                then s\<lparr>ls_console := ls_console s @ fmt_console (lc_formatters c) (lc_includeStackTrace c) entry\<rparr>
                else s);
          s2 = (if lc_enableStorage c then storeEntry entry s1 else s1)
      in if lc_enableRemoteLogging c \<and> nonempty (lc_remoteEndpoint c) then sendToRemote entry s2 else s2)"

definition log ::
  "logEnv \<Rightarrow> logLevel \<Rightarrow> logCategory \<Rightarrow> string \<Rightarrow> 'd jval option \<Rightarrow> jsError option \<Rightarrow> string option \<Rightarrow>
   'd loggerState \<Rightarrow> 'd loggerState" where
  "log env level category message data error component s =
     (if \<not> shouldLog s level category then s
      else processLogEntry (createLogEntry env s level category message data error component) s)"

section \<open>The class \<open>Logger\<close>\<close>

record loggerObject =
  lo_component :: string
  lo_category :: logCategory

definition newLogger :: "string \<Rightarrow> logCategory \<Rightarrow> loggerObject" where
  "newLogger component category = \<lparr>lo_component = component, lo_category = category\<rparr>"

definition globalLogger :: loggerObject where
  "globalLogger = newLogger ''Global'' CApp"

definition createLogger :: "string \<Rightarrow> logCategory option \<Rightarrow> loggerObject" where
  "createLogger component category = newLogger component (case category of None \<Rightarrow> CApp | Some c \<Rightarrow> c)"

definition Logger_debug :: "loggerObject \<Rightarrow> logEnv \<Rightarrow> string \<Rightarrow> 'd jval option \<Rightarrow> 'd loggerState \<Rightarrow> 'd loggerState" where
  "Logger_debug this env message data =
     log env LDebug (lo_category this) message data None (Some (lo_component this))"

definition Logger_info :: "loggerObject \<Rightarrow> logEnv \<Rightarrow> string \<Rightarrow> 'd jval option \<Rightarrow> 'd loggerState \<Rightarrow> 'd loggerState" where
  "Logger_info this env message data =
     log env LInfo (lo_category this) message data None (Some (lo_component this))"

definition Logger_warn :: "loggerObject \<Rightarrow> logEnv \<Rightarrow> string \<Rightarrow> 'd jval option \<Rightarrow> 'd loggerState \<Rightarrow> 'd loggerState" where
  "Logger_warn this env message data =
     log env LWarn (lo_category this) message data None (Some (lo_component this))"

text \<open>An error argument that is no \<open>Error\<close> is wrapped; \<open>JSON.stringify\<close> may throw here.\<close>

definition Logger_error ::
  "'d logHost \<Rightarrow> loggerObject \<Rightarrow> logEnv \<Rightarrow> string \<Rightarrow> 'd jval option \<Rightarrow> 'd jval option \<Rightarrow> 'd loggerState \<Rightarrow>
   string + 'd loggerState" where
  "Logger_error H this env message error data s =
     bind_halt
       (case error of
          Some (JErr e) \<Rightarrow> Inr (Some e)
        | _ \<Rightarrow>
            if truthyOpt H error then
              bind_halt (h_stringify H (the error)) (\<lambda>m.
                Inr (Some \<lparr>e_name = ''Error'', e_message = or_empty m, e_stack = Some (env_newStack env)\<rparr>))
            else Inr None)
       (\<lambda>errorObj. Inr (log env LError (lo_category this) message data errorObj (Some (lo_component this)) s))"

text \<open>\<open>auth\<close>, \<open>ipfs\<close>, \<open>blockchain\<close>, \<open>ui\<close>, \<open>api\<close>, \<open>performance\<close> and \<open>user\<close> differ in the category only.\<close>

definition Logger_category ::
  "logCategory \<Rightarrow> loggerObject \<Rightarrow> logEnv \<Rightarrow> logLevel \<Rightarrow> string \<Rightarrow> 'd jval option \<Rightarrow> 'd loggerState \<Rightarrow> 'd loggerState" where
  "Logger_category category this env level message data =
     log env level category message data None (Some (lo_component this))"

definition windowCall :: "logEnv \<Rightarrow> 'd consoleCall \<Rightarrow> 'd loggerState \<Rightarrow> 'd loggerState" where
  "windowCall env c s = (if env_window env \<noteq> None then s\<lparr>ls_console := ls_console s @ [c]\<rparr> else s)"

definition Logger_time :: "loggerObject \<Rightarrow> logEnv \<Rightarrow> string \<Rightarrow> 'd loggerState \<Rightarrow> 'd loggerState" where
  "Logger_time this env label s =
     windowCall env (ConsoleTime (lo_component this @ '': '' @ label))
       (Logger_debug this env (''Timer started: '' @ label) None s)"

definition Logger_timeEnd :: "loggerObject \<Rightarrow> logEnv \<Rightarrow> string \<Rightarrow> 'd loggerState \<Rightarrow> 'd loggerState" where
  "Logger_timeEnd this env label s =
     windowCall env (ConsoleTimeEnd (lo_component this @ '': '' @ label))
       (Logger_debug this env (''Timer ended: '' @ label) None s)"

definition Logger_group :: "loggerObject \<Rightarrow> logEnv \<Rightarrow> string \<Rightarrow> 'd loggerState \<Rightarrow> 'd loggerState" where
  "Logger_group this env label s =
     windowCall env (ConsoleGroup [JS (lo_component this @ '': '' @ label)])
       (Logger_debug this env (''Group started: '' @ label) None s)"

definition Logger_groupEnd :: "logEnv \<Rightarrow> 'd loggerState \<Rightarrow> 'd loggerState" where
  "Logger_groupEnd env s = windowCall env ConsoleGroupEnd s"

section \<open>Configuration\<close>

text \<open>The argument of \<open>configureLogger\<close>; the category array is passed by reference.\<close>

record 'd configUpdate =
  up_level :: "logLevel option"
  up_enabledCategories :: "nat option"
  up_enableConsole :: "bool option"
  up_enableStorage :: "bool option"
  up_maxStorageEntries :: "int option"
  up_enableRemoteLogging :: "bool option"
  up_remoteEndpoint :: "string option option"
  up_includeStackTrace :: "bool option"
  up_includeUserContext :: "bool option"
  up_formatters :: "'d formatters option"

definition override :: "'a option \<Rightarrow> 'a \<Rightarrow> 'a" where
  "override u v = (case u of None \<Rightarrow> v | Some x \<Rightarrow> x)"

definition configureLogger :: "'d configUpdate \<Rightarrow> 'd loggerState \<Rightarrow> 'd loggerState" where
  "configureLogger u s =
     (let c = ls_globalConfig s
      in s\<lparr>ls_globalConfig :=
        \<lparr>lc_level = override (up_level u) (lc_level c),
         lc_enabledCategories = override (up_enabledCategories u) (lc_enabledCategories c),
         lc_enableConsole = override (up_enableConsole u) (lc_enableConsole c),
         lc_enableStorage = override (up_enableStorage u) (lc_enableStorage c),
         lc_maxStorageEntries = override (up_maxStorageEntries u) (lc_maxStorageEntries c),
         lc_enableRemoteLogging = override (up_enableRemoteLogging u) (lc_enableRemoteLogging c),
         lc_remoteEndpoint = override (up_remoteEndpoint u) (lc_remoteEndpoint c),
         lc_includeStackTrace = override (up_includeStackTrace u) (lc_includeStackTrace c),
         lc_includeUserContext = override (up_includeUserContext u) (lc_includeUserContext c),
         lc_formatters = override (up_formatters u) (lc_formatters c)\<rparr>\<rparr>)"

definition getLoggerConfig :: "'d loggerState \<Rightarrow> 'd loggerConfig" where
  "getLoggerConfig s = ls_globalConfig s"

definition setLogLevel :: "logLevel \<Rightarrow> 'd loggerState \<Rightarrow> 'd loggerState" where
  "setLogLevel level s = s\<lparr>ls_globalConfig := (ls_globalConfig s)\<lparr>lc_level := level\<rparr>\<rparr>"

text \<open>A new array, which becomes the one of the configuration.\<close>

definition useNewArray :: "logCategory list \<Rightarrow> 'd loggerState \<Rightarrow> 'd loggerState" where
  "useNewArray cs s =
     s\<lparr>ls_arrays := (ls_arrays s)(ls_nextArray s := cs), ls_nextArray := ls_nextArray s + 1,
       ls_globalConfig := (ls_globalConfig s)\<lparr>lc_enabledCategories := ls_nextArray s\<rparr>\<rparr>"

definition enabledCategories :: "'d loggerState \<Rightarrow> logCategory list" where
  "enabledCategories s = ls_arrays s (lc_enabledCategories (ls_globalConfig s))"

definition setEnabledCategories :: "nat \<Rightarrow> 'd loggerState \<Rightarrow> 'd loggerState" where
  "setEnabledCategories categories s = useNewArray (ls_arrays s categories) s"

definition enableCategory :: "logCategory \<Rightarrow> 'd loggerState \<Rightarrow> 'd loggerState" where
  "enableCategory category s =
     (if category \<notin> set (enabledCategories s)
      then s\<lparr>ls_arrays := (ls_arrays s)(lc_enabledCategories (ls_globalConfig s) := enabledCategories s @ [category])\<rparr>
      else s)"

definition disableCategory :: "logCategory \<Rightarrow> 'd loggerState \<Rightarrow> 'd loggerState" where
  "disableCategory category s = useNewArray (filter (\<lambda>c. c \<noteq> category) (enabledCategories s)) s"

section \<open>Reading the storage\<close>

definition getLogEntries :: "'d loggerState \<Rightarrow> 'd logEntry list" where
  "getLogEntries s = ls_logStorage s"

record logFilters =
  f_level :: "logLevel option"
  f_category :: "logCategory option"
  f_component :: "string option"
  f_since :: "int option"
  f_search :: "string option"

text \<open>\<open>JSON.stringify(entry.data).toLowerCase()\<close> throws when there is no string.\<close>

definition needString :: "string + string option \<Rightarrow> string + string" where
  "needString r = bind_halt r (\<lambda>m. case m of None \<Rightarrow> Inl ''TypeError'' | Some t \<Rightarrow> Inr t)"

definition matchesSearch :: "'d logHost \<Rightarrow> string \<Rightarrow> 'd logEntry \<Rightarrow> string + bool" where
  "matchesSearch H search entry =
     (let searchTerm = toLowerCase search
      in if str_includes (toLowerCase (le_message entry)) searchTerm then Inr True
         else if nonempty (le_component entry) \<and> str_includes (toLowerCase (the (le_component entry))) searchTerm
         then Inr True
         else if truthyOpt H (le_data entry) then
           bind_halt (needString (h_stringify H (the (le_data entry)))) (\<lambda>t. Inr (str_includes (toLowerCase t) searchTerm))
         else Inr False)"

definition matchesFilters :: "'d logHost \<Rightarrow> logFilters \<Rightarrow> 'd logEntry \<Rightarrow> string + bool" where
  "matchesFilters H filters entry =
     (if (case f_level filters of None \<Rightarrow> False | Some l \<Rightarrow> LOG_LEVELS (le_level entry) < LOG_LEVELS l) then Inr False
      else if (case f_category filters of None \<Rightarrow> False | Some c \<Rightarrow> le_category entry \<noteq> c) then Inr False
      else if nonempty (f_component filters) \<and> le_component entry \<noteq> f_component filters then Inr False
      else if (case f_since filters of None \<Rightarrow> False | Some t \<Rightarrow> le_timestamp entry < t) then Inr False
      else if nonempty (f_search filters) then matchesSearch H (the (f_search filters)) entry
      else Inr True)"

fun filterThrow :: "('a \<Rightarrow> 'x + bool) \<Rightarrow> 'a list \<Rightarrow> 'x + 'a list" where
  "filterThrow p [] = Inr []"
| "filterThrow p (x # xs) =
     bind_halt (p x) (\<lambda>b. bind_halt (filterThrow p xs) (\<lambda>ys. Inr (if b then x # ys else ys)))"

definition getFilteredLogEntries :: "'d logHost \<Rightarrow> logFilters \<Rightarrow> 'd loggerState \<Rightarrow> string + 'd logEntry list" where
  "getFilteredLogEntries H filters s = filterThrow (matchesFilters H filters) (ls_logStorage s)"

definition clearLogEntries :: "'d loggerState \<Rightarrow> 'd loggerState" where
  "clearLogEntries s = s\<lparr>ls_logStorage := []\<rparr>"

definition entryObject :: "'d logEntry \<Rightarrow> 'd jval" where
  "entryObject entry = JO
     [(''timestamp'', Some (JDate (le_timestamp entry))), (''level'', Some (JS (levelName (le_level entry)))),
      (''category'', Some (JS (categoryName (le_category entry)))), (''message'', Some (JS (le_message entry))),
      (''data'', le_data entry), (''error'', map_option JErr (le_error entry)),
      (''component'', map_option JS (le_component entry)), (''sessionId'', Some (JS (le_sessionId entry))),
      (''url'', map_option JS (le_url entry)), (''userAgent'', map_option JS (le_userAgent entry)),
      (''userId'', map_option JS (le_userId entry))]"

definition exportLogs :: "'d logHost \<Rightarrow> 'd loggerState \<Rightarrow> string + string" where
  "exportLogs H s = h_stringifyLogs H (map entryObject (ls_logStorage s))"

definition csvHeaders :: "string list" where
  "csvHeaders = [''timestamp'', ''level'', ''category'', ''component'', ''message'', ''data'', ''error'']"

text \<open>A cell is a string, or \<open>undefined\<close> when \<open>JSON.stringify\<close> returned that.\<close>

definition csvRow :: "'d logHost \<Rightarrow> 'd logEntry \<Rightarrow> string + string option list" where
  "csvRow H entry =
     bind_halt (if truthyOpt H (le_data entry) then h_stringify H (the (le_data entry)) else Inr (Some []))
       (\<lambda>d. Inr [Some (toISOString (le_timestamp entry)), Some (levelName (le_level entry)),
          Some (categoryName (le_category entry)), Some (or_empty (le_component entry)),
          Some (le_message entry), d, Some (case le_error entry of None \<Rightarrow> [] | Some e \<Rightarrow> e_message e)])"

fun mapThrow :: "('a \<Rightarrow> 'x + 'b) \<Rightarrow> 'a list \<Rightarrow> 'x + 'b list" where
  "mapThrow f [] = Inr []"
| "mapThrow f (x # xs) = bind_halt (f x) (\<lambda>y. bind_halt (mapThrow f xs) (\<lambda>ys. Inr (y # ys)))"

definition csvQuote :: "string \<Rightarrow> string" where
  "csvQuote cell = CHR 0x22 # concat (map (\<lambda>c. if c = CHR 0x22 then [c, c] else [c]) cell) @ [CHR 0x22]"

definition csvCell :: "string option \<Rightarrow> string + string" where
  "csvCell cell = bind_halt (needString (Inr cell)) (\<lambda>t. Inr (csvQuote t))"

definition csvLine :: "string option list \<Rightarrow> string + string" where
  "csvLine row = bind_halt (mapThrow csvCell row) (\<lambda>cells. Inr (str_join '','' cells))"

definition exportLogsAsCSV :: "'d logHost \<Rightarrow> 'd loggerState \<Rightarrow> string + string" where
  "exportLogsAsCSV H s =
     bind_halt (mapThrow (csvRow H) (ls_logStorage s)) (\<lambda>rows.
     bind_halt (mapThrow csvLine (map Some csvHeaders # rows)) (\<lambda>lines. Inr (str_join [CHR 0x0A] lines)))"

section \<open>Performance and development helpers\<close>

definition performanceLogger :: loggerObject where
  "performanceLogger = createLogger ''Performance'' (Some CPerformance)"

text \<open>
  \<open>window.performance\<close> belongs to the browser: \<open>hasPerformance\<close> says whether it is there, \<open>measured\<close>
  is the outcome of \<open>measure\<close> and \<open>getEntriesByName\<close>, an error or duration and start time.
\<close>

definition markStart :: "logEnv \<Rightarrow> string \<Rightarrow> 'd loggerState \<Rightarrow> 'd loggerState" where
  "markStart env name = Logger_debug performanceLogger env (''Performance mark start: '' @ name) None"

definition markEnd ::
  "'d logHost \<Rightarrow> bool \<Rightarrow> ('d jval + 'd jval \<times> 'd jval) \<Rightarrow> logEnv \<Rightarrow> string \<Rightarrow> 'd loggerState \<Rightarrow> string + 'd loggerState" where
  "markEnd H hasPerformance measured env name s =
     (if env_window env \<noteq> None \<and> hasPerformance then
        (case measured of
           Inr (duration, startTime) \<Rightarrow>
             Inr (Logger_info performanceLogger env (''Performance measure: '' @ name)
               (Some (JO [(''duration'', Some duration), (''startTime'', Some startTime)])) s)
         | Inl error \<Rightarrow>
             Logger_error H performanceLogger env (''Failed to measure performance: '' @ name) (Some error) None s)
      else Inr s)"

definition logRenderTime :: "logEnv \<Rightarrow> string \<Rightarrow> 'd jval \<Rightarrow> 'd loggerState \<Rightarrow> 'd loggerState" where
  "logRenderTime env componentName renderTime =
     Logger_info performanceLogger env (''Render time: '' @ componentName)
       (Some (JO [(''duration'', Some renderTime), (''timestamp'', Some (JI (env_now env)))]))"

definition logAPICall ::
  "logEnv \<Rightarrow> string \<Rightarrow> string \<Rightarrow> 'd jval \<Rightarrow> 'd jval option \<Rightarrow> 'd loggerState \<Rightarrow> 'd loggerState" where
  "logAPICall env endpoint method duration status =
     Logger_info performanceLogger env (''API call: '' @ method @ '' '' @ endpoint)
       (Some (JO [(''duration'', Some duration), (''status'', status), (''timestamp'', Some (JI (env_now env)))]))"

definition dev_lifecycle :: "logEnv \<Rightarrow> string \<Rightarrow> string \<Rightarrow> 'd jval option \<Rightarrow> 'd loggerState \<Rightarrow> 'd loggerState" where
  "dev_lifecycle env component event data s =
     (if env_nodeEnv env = ''development''
      then log env LDebug CDev (component @ '' '' @ event) data None (Some component) s else s)"

definition changeData :: "logEnv \<Rightarrow> string \<Rightarrow> 'd jval option \<Rightarrow> 'd jval option \<Rightarrow> 'd jval" where
  "changeData env component oldValue newValue =
     JO [(''component'', Some (JS component)), (''oldValue'', oldValue), (''newValue'', newValue),
         (''timestamp'', Some (JI (env_now env)))]"

definition dev_stateChange ::
  "logEnv \<Rightarrow> string \<Rightarrow> string \<Rightarrow> 'd jval option \<Rightarrow> 'd jval option \<Rightarrow> 'd loggerState \<Rightarrow> 'd loggerState" where
  "dev_stateChange env component stateName oldValue newValue s =
     (if env_nodeEnv env = ''development''
      then log env LDebug CDev (''State change: '' @ stateName) (Some (changeData env component oldValue newValue))
             None (Some component) s
      else s)"

definition dev_propChange ::
  "logEnv \<Rightarrow> string \<Rightarrow> string \<Rightarrow> 'd jval option \<Rightarrow> 'd jval option \<Rightarrow> 'd loggerState \<Rightarrow> 'd loggerState" where
  "dev_propChange env component propName oldValue newValue s =
     (if env_nodeEnv env = ''development''
      then log env LDebug CDev (''Prop change: '' @ propName) (Some (changeData env component oldValue newValue))
             None (Some component) s
      else s)"

definition onWindowError ::
  "'d logHost \<Rightarrow> logEnv \<Rightarrow> 'd jval option \<Rightarrow> string \<Rightarrow> int \<Rightarrow> int \<Rightarrow> 'd loggerState \<Rightarrow> string + 'd loggerState" where
  "onWindowError H env error filename lineno colno =
     Logger_error H globalLogger env ''Global error caught'' error
       (Some (JO [(''filename'', Some (JS filename)), (''lineno'', Some (JI lineno)), (''colno'', Some (JI colno))]))"

definition onUnhandledRejection :: "'d logHost \<Rightarrow> logEnv \<Rightarrow> 'd jval option \<Rightarrow> 'd loggerState \<Rightarrow> string + 'd loggerState" where
  "onUnhandledRejection H env reason = Logger_error H globalLogger env ''Unhandled promise rejection'' reason None"

section \<open>The storage holds the latest entries\<close>

definition last_n :: "nat \<Rightarrow> 'a list \<Rightarrow> 'a list" where
  "last_n m xs = drop (length xs - m) xs"

lemma last_n_short [simp]: "length xs \<le> m \<Longrightarrow> last_n m xs = xs"
  by (simp add: last_n_def)

lemma length_last_n [simp]: "length (last_n m xs) = min m (length xs)"
  by (simp add: last_n_def)

lemma last_n_last_n: "last_n m (last_n m xs @ ys) = last_n m (xs @ ys)"
  by (cases "length xs \<le> m") (auto simp: last_n_def add.commute)

lemma js_slice_last: "0 < m \<Longrightarrow> js_slice (- int m) xs = last_n m xs"
proof -
  assume "0 < m"
  moreover have "nat (int (length xs) - int m) = length xs - m" by linarith
  ultimately show ?thesis by (simp add: js_slice_def last_n_def)
qed

lemma storeEntry_last:
  assumes "lc_maxStorageEntries (ls_globalConfig s) = int m" and "0 < m"
  shows "ls_logStorage (storeEntry e s) = last_n m (ls_logStorage s @ [e])"
  using assms by (simp add: storeEntry_def Let_def js_slice_last)

lemma sendToRemote_keeps [simp]:
  "ls_globalConfig (sendToRemote e s) = ls_globalConfig s" "ls_arrays (sendToRemote e s) = ls_arrays s"
  "ls_sessionId (sendToRemote e s) = ls_sessionId s" "ls_userContext (sendToRemote e s) = ls_userContext s"
  "ls_logStorage (sendToRemote e s) = ls_logStorage s"
  by (simp_all add: sendToRemote_def split: sum.splits)

lemma log_keeps [simp]:
  "ls_globalConfig (log env l c m d e k s) = ls_globalConfig s" "ls_arrays (log env l c m d e k s) = ls_arrays s"
  "ls_sessionId (log env l c m d e k s) = ls_sessionId s" "ls_userContext (log env l c m d e k s) = ls_userContext s"
  by (simp_all add: log_def processLogEntry_def storeEntry_def Let_def)

lemma log_storage:
  "ls_logStorage (log env l c m d e k s) =
     (if shouldLog s l c \<and> lc_enableStorage (ls_globalConfig s)
      then ls_logStorage (storeEntry (createLogEntry env s l c m d e k) s) else ls_logStorage s)"
  by (simp add: log_def processLogEntry_def storeEntry_def Let_def)

type_synonym 'd logCall =
  "logEnv \<times> logLevel \<times> logCategory \<times> string \<times> 'd jval option \<times> jsError option \<times> string option"

fun logCall :: "'d logCall \<Rightarrow> 'd loggerState \<Rightarrow> 'd loggerState" where
  "logCall (env, l, c, m, d, e, k) s = log env l c m d e k s"

fun callEntries :: "'d loggerState \<Rightarrow> 'd logCall list \<Rightarrow> 'd logEntry list" where
  "callEntries s [] = []"
| "callEntries s ((env, l, c, m, d, e, k) # calls) =
     (if shouldLog s l c then [createLogEntry env s l c m d e k] else []) @ callEntries s calls"

lemma callEntries_cong:
  assumes "ls_globalConfig s' = ls_globalConfig s" "ls_arrays s' = ls_arrays s"
    "ls_sessionId s' = ls_sessionId s" "ls_userContext s' = ls_userContext s"
  shows "callEntries s' calls = callEntries s calls"
  using assms by (induction s calls rule: callEntries.induct) (auto simp: shouldLog_def createLogEntry_def)

lemma callEntries_log [simp]: "callEntries (log env l c m d e k s) calls = callEntries s calls"
  by (rule callEntries_cong) simp_all

text \<open>
  C37. The log storage is a bounded window on the log: with storage enabled and a positive limit, after
  any sequence of log calls it holds exactly the most recent entries among those stored before and
  those the calls were allowed to write, in order, and never more than the limit.
\<close>

theorem storage_is_latest_entries:
  assumes "lc_enableStorage (ls_globalConfig s)" and "lc_maxStorageEntries (ls_globalConfig s) = int m"
    and "0 < m" and "length (ls_logStorage s) \<le> m"
  shows "ls_logStorage (fold logCall calls s) = last_n m (ls_logStorage s @ callEntries s calls)
     \<and> length (ls_logStorage (fold logCall calls s)) \<le> m"
proof -
  have "ls_logStorage (fold logCall calls s) = last_n m (ls_logStorage s @ callEntries s calls)"
    using assms
  proof (induction calls arbitrary: s)
    case (Cons call calls)
    obtain env l c k d e p where call: "call = (env, l, c, k, d, e, p)" by (cases call) auto
    let ?s = "logCall call s" and ?new = "callEntries s [call]"
    have st: "ls_logStorage ?s = last_n m (ls_logStorage s @ ?new)"
      using Cons.prems by (simp add: call log_storage storeEntry_last)
    have "ls_logStorage (fold logCall calls ?s) = last_n m (ls_logStorage ?s @ callEntries ?s calls)"
      using Cons.prems st by (intro Cons.IH) (simp_all add: call)
    then show ?case using st by (simp add: call last_n_last_n)
  qed simp
  then show ?thesis by simp
qed

text \<open>
  A limit of zero removes the bound: \<open>slice(-0)\<close> is the whole array, so nothing is ever dropped.
\<close>

theorem storage_limit_zero_unbounded:
  assumes "lc_enableStorage (ls_globalConfig s)" and "lc_maxStorageEntries (ls_globalConfig s) = 0"
  shows "ls_logStorage (fold logCall calls s) = ls_logStorage s @ callEntries s calls"
  using assms
proof (induction calls arbitrary: s)
  case (Cons call calls)
  obtain env l c k d e p where call: "call = (env, l, c, k, d, e, p)" by (cases call) auto
  have "ls_logStorage (logCall call s) = ls_logStorage s @ callEntries s [call]"
    using Cons.prems by (simp add: call log_storage storeEntry_def js_slice_def)
  with Cons.IH [of "logCall call s"] Cons.prems show ?case by (simp add: call)
qed simp

section \<open>The CSV export can be read back\<close>

fun readCell :: "string \<Rightarrow> string \<times> string" where
  "readCell [] = ([], [])"
| "readCell [c] = (if c = CHR 0x22 then ([], []) else ([c], []))"
| "readCell (c # d # cs) =
     (if c \<noteq> CHR 0x22 then (let (x, r) = readCell (d # cs) in (c # x, r))
      else if d = CHR 0x22 then (let (x, r) = readCell cs in (c # x, r))
      else ([], d # cs))"

lemma readCell_shorter: "length (snd (readCell cs)) \<le> length cs"
  by (induction cs rule: readCell.induct) (auto simp: Let_def split: prod.splits)

lemma readCell_rest: "readCell cs = (x, d # r) \<Longrightarrow> length r < Suc (length cs)"
  using readCell_shorter [of cs] by simp

function csvRead :: "string \<Rightarrow> string list list" where
  "csvRead [] = []"
| "csvRead (c # cs) =
     (let (x, r) = readCell cs
      in case r of
           [] \<Rightarrow> [[x]]
         | d # r' \<Rightarrow>
             if d = CHR '','' then (case csvRead r' of [] \<Rightarrow> [[x]] | row # rows \<Rightarrow> (x # row) # rows)
             else [x] # csvRead r')"
  by pat_completeness auto
termination
  by (relation "measure length") (auto dest!: readCell_rest [OF sym])

definition csvBody :: "string \<Rightarrow> string" where
  "csvBody cell = concat (map (\<lambda>c. if c = CHR 0x22 then [c, c] else [c]) cell)"

lemma csvQuote_body: "csvQuote cell = CHR 0x22 # csvBody cell @ [CHR 0x22]"
  by (simp add: csvQuote_def csvBody_def)

lemma csvBody_Cons: "csvBody (c # cell) = (if c = CHR 0x22 then [c, c] else [c]) @ csvBody cell"
  by (simp add: csvBody_def)

lemma readCell_plain: "c \<noteq> CHR 0x22 \<Longrightarrow> readCell (c # cs) = (c # fst (readCell cs), snd (readCell cs))"
  by (cases cs) (simp_all add: split_beta Let_def)

lemma readCell_body:
  assumes "rest = [] \<or> hd rest \<noteq> CHR 0x22"
  shows "readCell (csvBody cell @ CHR 0x22 # rest) = (cell, rest)"
proof (induction cell)
  case Nil
  show ?case using assms by (cases rest) (simp_all add: csvBody_def)
next
  case (Cons c cell)
  then show ?case by (cases "c = CHR 0x22") (simp_all add: csvBody_Cons readCell_plain)
qed

lemma csvRead_cell:
  assumes "rest = [] \<or> hd rest \<noteq> CHR 0x22"
  shows "csvRead (csvQuote cell @ rest) =
     (case rest of
        [] \<Rightarrow> [[cell]]
      | d # r \<Rightarrow> if d = CHR '','' then (case csvRead r of [] \<Rightarrow> [[cell]] | row # rows \<Rightarrow> (cell # row) # rows)
                else [cell] # csvRead r)"
  using readCell_body [OF assms, of cell] by (simp add: csvQuote_body split: list.split)

lemma csvRead_row:
  assumes "row \<noteq> []" and "rest = [] \<or> hd rest = CHR 0x0A"
  shows "csvRead (str_join '','' (map csvQuote row) @ rest) = row # csvRead (tl rest)"
  using assms(1)
proof (induction row rule: induct_list012)
  case (2 cell)
  then show ?case using assms(2) csvRead_cell [of rest cell] by (cases rest) simp_all
next
  case (3 cell cell' row)
  then show ?case by (simp add: csvRead_cell)
qed simp

lemma csvRead_rows:
  assumes "[] \<notin> set rows"
  shows "csvRead (str_join [CHR 0x0A] (map (\<lambda>row. str_join '','' (map csvQuote row)) rows)) = rows"
  using assms
proof (induction rows rule: induct_list012)
  case (2 row)
  then show ?case using csvRead_row [of row "[]"] by simp
next
  case (3 row row' rows)
  then show ?case using csvRead_row [of row "CHR 0x0A # str_join [CHR 0x0A] (map (\<lambda>row. str_join '','' (map csvQuote row)) (row' # rows))"]
    by auto
qed simp

lemma mapThrow_Inr_iff: "mapThrow f xs = Inr ys \<longleftrightarrow> list_all2 (\<lambda>x y. f x = Inr y) xs ys"
  by (induction xs arbitrary: ys) (auto simp: bind_halt_Inr_iff list_all2_Cons1)

lemma csvCell_Inr: "csvCell x = Inr t \<longleftrightarrow> (\<exists>c. x = Some c \<and> t = csvQuote c)"
  by (cases x) (auto simp: csvCell_def needString_def)

lemma csvLine_Inr:
  "csvLine row = Inr t \<longleftrightarrow> (\<exists>cells. row = map Some cells \<and> t = str_join '','' (map csvQuote cells))"
proof -
  have "mapThrow csvCell row = Inr ts \<longleftrightarrow> (\<exists>cells. row = map Some cells \<and> ts = map csvQuote cells)" for ts
  proof (induction row arbitrary: ts)
    case (Cons x row)
    then show ?case by (auto simp: bind_halt_Inr_iff csvCell_Inr Cons_eq_map_conv)
  qed auto
  then show ?thesis by (auto simp: csvLine_def bind_halt_Inr_iff)
qed

lemma csvLines_Inr:
  "mapThrow csvLine rows = Inr ts \<longleftrightarrow>
     (\<exists>cs. rows = map (map Some) cs \<and> ts = map (\<lambda>row. str_join '','' (map csvQuote row)) cs)"
proof (induction rows arbitrary: ts)
  case (Cons row rows)
  then show ?case by (auto simp: bind_halt_Inr_iff csvLine_Inr Cons_eq_map_conv)
qed auto

lemma csvRow_nonempty: "csvRow H e = Inr row \<Longrightarrow> row \<noteq> []"
  by (auto simp: csvRow_def)

lemma csvRows_nonempty: "mapThrow (csvRow H) es = Inr rows \<Longrightarrow> [] \<notin> set rows"
  by (auto simp: mapThrow_Inr_iff list_all2_conv_all_nth in_set_conv_nth dest: csvRow_nonempty)

text \<open>
  C36. The CSV export loses nothing: whenever it returns a text, reading that text as CSV gives the
  header and then, in order, one row per stored entry with exactly the cells the entry has, whatever
  quotes, commas or line breaks its strings contain.
\<close>

theorem csv_export_roundtrip:
  assumes "exportLogsAsCSV H s = Inr text"
  shows "\<exists>rows. csvRead text = csvHeaders # rows
     \<and> list_all2 (\<lambda>entry row. csvRow H entry = Inr (map Some row)) (ls_logStorage s) rows"
proof -
  obtain rows lines where r: "mapThrow (csvRow H) (ls_logStorage s) = Inr rows"
    and l: "mapThrow csvLine (map Some csvHeaders # rows) = Inr lines" and t: "text = str_join [CHR 0x0A] lines"
    using assms by (auto simp: exportLogsAsCSV_def bind_halt_Inr_iff simp del: mapThrow.simps)
  obtain cs where cs: "map Some csvHeaders # rows = map (map Some) cs"
    and lines: "lines = map (\<lambda>row. str_join '','' (map csvQuote row)) cs"
    using iffD1 [OF csvLines_Inr l] by (elim exE conjE) (rule that)
  obtain c cells where c: "cs = c # cells" and hd: "map Some csvHeaders = map Some c" and tl: "rows = map (map Some) cells"
    using cs by (cases cs) auto
  have "c = csvHeaders" using hd by (simp add: inj_map_eq_map [OF inj_Some] eq_commute)
  moreover have "[] \<notin> set cs"
    using csvRows_nonempty [OF r] c tl \<open>c = csvHeaders\<close> by (auto simp: csvHeaders_def)
  ultimately have "csvRead text = csvHeaders # cells" using t lines c csvRead_rows [of cs] by simp
  moreover have "list_all2 (\<lambda>entry row. csvRow H entry = Inr (map Some row)) (ls_logStorage s) cells"
    using r tl by (simp add: mapThrow_Inr_iff list.rel_map)
  ultimately show ?thesis by blast
qed

definition exampleHost :: "string logHost" where
  "exampleHost = \<lparr>h_truthy = (\<lambda>d. d \<noteq> []), h_stringify = (\<lambda>v. case v of JD d \<Rightarrow> Inr (Some d) | _ \<Rightarrow> Inl ''cyclic''),
     h_stringifyLogs = (\<lambda>_. Inr [])\<rparr>"

definition exampleEnv :: logEnv where
  "exampleEnv = \<lparr>env_now = 0, env_created = 0, env_window = None, env_nodeEnv = ''production'', env_newStack = []\<rparr>"

definition exampleLogger :: "string loggerState" where
  "exampleLogger = log exampleEnv LError CApp [CHR 0x22, CHR '','', CHR 0x0A] (Some (JD ''x'')) None None
     (initialLogger exampleHost ''production'' ''s'')"

lemma exampleLogger_storage:
  "ls_logStorage exampleLogger =
     [createLogEntry exampleEnv (initialLogger exampleHost ''production'' ''s'') LError CApp
        [CHR 0x22, CHR '','', CHR 0x0A] (Some (JD ''x'')) None None]"
  by (simp add: exampleLogger_def log_storage storeEntry_def shouldLog_def initialLogger_def DEFAULT_CONFIG_def
      defaultCategories_def Let_def)

lemma exampleLogger_exports: "\<exists>text. exportLogsAsCSV exampleHost exampleLogger = Inr text"
  by (simp add: exportLogsAsCSV_def exampleLogger_storage csvRow_def createLogEntry_def truthyOpt_def exampleHost_def
      csvLine_def csvCell_def needString_def csvHeaders_def)

theorem csv_export_roundtrip_witness:
  "\<exists>out rows. exportLogsAsCSV exampleHost exampleLogger = Inr out \<and> csvRead out = csvHeaders # rows
     \<and> length rows = 1"
proof -
  obtain out where t: "exportLogsAsCSV exampleHost exampleLogger = Inr out" using exampleLogger_exports by blast
  from csv_export_roundtrip [OF t] obtain rows where "csvRead out = csvHeaders # rows"
    and "list_all2 (\<lambda>entry row. csvRow exampleHost entry = Inr (map Some row)) (ls_logStorage exampleLogger) rows" by blast
  moreover from this(2) have "length rows = 1" by (auto simp: exampleLogger_storage dest: list_all2_lengthD)
  ultimately show ?thesis using t by blast
qed

theorem storage_is_latest_entries_witness:
  "ls_logStorage (fold logCall [(exampleEnv, LError, CApp, ''a'', None, None, None), (exampleEnv, LInfo, CApp, ''b'', None, None, None)]
       (initialLogger exampleHost ''production'' ''s''))
     = last_n 1000 ([] @ callEntries (initialLogger exampleHost ''production'' ''s'')
         [(exampleEnv, LError, CApp, ''a'', None, None, None), (exampleEnv, LInfo, CApp, ''b'', None, None, None)])
   \<and> length (callEntries (initialLogger exampleHost ''production'' ''s'')
         [(exampleEnv, LError, CApp, ''a'', None, None, None), (exampleEnv, LInfo, CApp, ''b'', None, None, None)]) = 1"
proof -
  let ?s = "initialLogger exampleHost ''production'' ''s''"
    and ?calls = "[(exampleEnv, LError, CApp, ''a'', None, None, None), (exampleEnv, LInfo, CApp, ''b'', None, None, None)] :: string logCall list"
  have i: "lc_enableStorage (ls_globalConfig ?s)" "lc_maxStorageEntries (ls_globalConfig ?s) = int 1000" "0 < (1000 :: nat)"
    "length (ls_logStorage ?s) \<le> 1000" and nil: "ls_logStorage ?s = []"
    by (simp_all add: initialLogger_def DEFAULT_CONFIG_def)
  have "length (callEntries ?s ?calls) = 1"
    by (simp add: shouldLog_def initialLogger_def DEFAULT_CONFIG_def defaultCategories_def)
  then show ?thesis using storage_is_latest_entries [OF i, of ?calls] nil by (simp only: simp_thms)
qed

section \<open>Who shares the array of enabled categories\<close>

text \<open>
  Which callers see a change of the enabled categories. An array handed to \<open>setEnabledCategories\<close> is
  copied, so enabling a category later leaves it alone; an array handed to \<open>configureLogger\<close> becomes the
  logger's own, so enabling a category appends to the caller's array. A configuration obtained before
  from \<open>getLoggerConfig\<close> sees a category being enabled and does not see it being disabled.
\<close>

theorem category_array_sharing:
  assumes "a < ls_nextArray s" and "lc_enabledCategories (ls_globalConfig s) < ls_nextArray s"
    and "up_enabledCategories u = Some a" and "c \<notin> set (ls_arrays s a)" and "c \<notin> set (enabledCategories s)"
  shows "ls_arrays (enableCategory c (setEnabledCategories a s)) a = ls_arrays s a
     \<and> ls_arrays (enableCategory c (configureLogger u s)) a = ls_arrays s a @ [c]
     \<and> ls_arrays (enableCategory c s) (lc_enabledCategories (getLoggerConfig s)) = enabledCategories s @ [c]
     \<and> ls_arrays (disableCategory d s) (lc_enabledCategories (getLoggerConfig s)) = enabledCategories s
     \<and> enabledCategories (disableCategory d s) = filter (\<lambda>x. x \<noteq> d) (enabledCategories s)"
proof -
  have "ls_arrays (enableCategory c (setEnabledCategories a s)) a = ls_arrays s a"
    using assms(1) by (simp add: enableCategory_def setEnabledCategories_def useNewArray_def)
  moreover have "ls_arrays (enableCategory c (configureLogger u s)) a = ls_arrays s a @ [c]"
    using assms(3, 4) by (simp add: enableCategory_def configureLogger_def enabledCategories_def override_def Let_def)
  ultimately show ?thesis
    using assms(2, 5) by (simp add: enableCategory_def disableCategory_def useNewArray_def getLoggerConfig_def enabledCategories_def)
qed

definition exampleUpdate :: "nat \<Rightarrow> string configUpdate" where
  "exampleUpdate a = \<lparr>up_level = None, up_enabledCategories = Some a, up_enableConsole = None, up_enableStorage = None,
     up_maxStorageEntries = None, up_enableRemoteLogging = None, up_remoteEndpoint = None,
     up_includeStackTrace = None, up_includeUserContext = None, up_formatters = None\<rparr>"

theorem category_array_sharing_witness:
  "ls_arrays (enableCategory CDev (configureLogger (exampleUpdate 0) (initialLogger exampleHost ''production'' ''s''))) 0
     = [CApp, CAuth, CSystem, CDev]"
proof -
  let ?s = "initialLogger exampleHost ''production'' ''s''"
  have "0 < ls_nextArray ?s" "lc_enabledCategories (ls_globalConfig ?s) < ls_nextArray ?s"
    "up_enabledCategories (exampleUpdate 0) = Some 0" "CDev \<notin> set (ls_arrays ?s 0)" "CDev \<notin> set (enabledCategories ?s)"
    and a: "ls_arrays ?s 0 = [CApp, CAuth, CSystem]"
    by (simp_all add: initialLogger_def DEFAULT_CONFIG_def exampleUpdate_def enabledCategories_def defaultCategories_def)
  note h = category_array_sharing [OF this(1-5)]
  show ?thesis using h by (simp only: a append.simps simp_thms)
qed

section \<open>What the filters let through\<close>

lemma shouldLog_silent: "shouldLog (setLogLevel LSilent s) l c \<Longrightarrow> l = LSilent"
  by (cases l) (simp_all add: shouldLog_def setLogLevel_def)

lemma shouldLog_disabled: "\<not> shouldLog (disableCategory c s) l c"
  by (simp add: shouldLog_def disableCategory_def useNewArray_def)

text \<open>
  Switching logging off works: at level \<open>silent\<close> no debug, info, warn or error call changes anything,
  stored or emitted, and neither does any call in a category that was disabled.
\<close>

theorem suppressed_calls_do_nothing:
  assumes "l \<noteq> LSilent"
  shows "log env l c m d e k (setLogLevel LSilent s) = setLogLevel LSilent s
     \<and> log env l' c' m d e k (disableCategory c' s) = disableCategory c' s"
  using assms by (auto simp: log_def shouldLog_disabled dest: shouldLog_silent)

theorem suppressed_calls_do_nothing_witness:
  "log exampleEnv LError CApp ''a'' None None None (setLogLevel LSilent exampleLogger) = setLogLevel LSilent exampleLogger"
  using suppressed_calls_do_nothing [where l = LError and s = exampleLogger] by simp

text \<open>
  A filtered read returns, in storage order, exactly the stored entries that pass every given
  criterion: a level not below the requested one, the same category and component, a time not before
  the given one. Without a search text it always returns, and without any criterion it returns the
  whole storage.
\<close>

theorem filtered_entries:
  assumes "\<not> nonempty (f_search F)"
  shows "getFilteredLogEntries H F s = Inr (filter (\<lambda>e.
       (case f_level F of None \<Rightarrow> True | Some l \<Rightarrow> LOG_LEVELS l \<le> LOG_LEVELS (le_level e))
     \<and> (case f_category F of None \<Rightarrow> True | Some c \<Rightarrow> le_category e = c)
     \<and> (if nonempty (f_component F) then le_component e = f_component F else True)
     \<and> (case f_since F of None \<Rightarrow> True | Some t \<Rightarrow> t \<le> le_timestamp e)) (ls_logStorage s))"
proof -
  have m: "matchesFilters H F e = Inr ((case f_level F of None \<Rightarrow> True | Some l \<Rightarrow> LOG_LEVELS l \<le> LOG_LEVELS (le_level e))
     \<and> (case f_category F of None \<Rightarrow> True | Some c \<Rightarrow> le_category e = c)
     \<and> (if nonempty (f_component F) then le_component e = f_component F else True)
     \<and> (case f_since F of None \<Rightarrow> True | Some t \<Rightarrow> t \<le> le_timestamp e))" for e
    using assms by (auto simp: matchesFilters_def split: option.splits)
  have "filterThrow (\<lambda>x. Inr (q x)) xs = Inr (filter q xs)" for q and xs :: "'a logEntry list"
    by (induction xs) simp_all
  note this [of _ "ls_logStorage s"]
  with ext [of "matchesFilters H F", OF m] show ?thesis by (simp only: getFilteredLogEntries_def)
qed

theorem filtered_entries_witness:
  "getFilteredLogEntries exampleHost \<lparr>f_level = Some LWarn, f_category = Some CAuth, f_component = None, f_since = Some 0, f_search = Some []\<rparr>
     exampleLogger = Inr []"
  using filtered_entries [where H = exampleHost and s = exampleLogger
      and F = "\<lparr>f_level = Some LWarn, f_category = Some CAuth, f_component = None, f_since = Some 0, f_search = Some []\<rparr>"]
  by (simp add: exampleLogger_storage createLogEntry_def nonempty_def)

end
