(* ===== verification/Notifications.thy ===== *)
theory Notifications
  imports Encoding "HOL-Library.Multiset"
begin

text \<open>
  The notification hook of the web client, \<open>packages/frontend/src/hooks/useNotifications.ts\<close>.

  \<^item> The React state (\<open>notifications\<close>, \<open>settings\<close>), what the hook reads from the wallet (\<open>address\<close>,
    \<open>isConnected\<close>) and the local storage of the browser are the fields of \<open>notifState\<close>. Storing a value
    as JSON and reading it back gives the value, so the storage holds the values themselves, or \<open>Broken\<close> for a
    text that \<open>JSON.parse\<close> rejects. Stored settings may have only some of the fields. An empty text counts as
    nothing stored; a stored text that parses to something other than a list of notifications, which the next
    render would trip over, is not represented.
  \<^item> Each \<open>useEffect\<close> is a function of the rendered state (its closure) and of the state being built: a
    write to the storage happens at once, a state update takes effect with the next render, and of
    several updates of one render the last one wins.
  \<^item> \<open>commit\<close> runs the effects whose dependencies changed, in the order of the source, and says what changed
    for the next render; \<open>settle\<close> repeats it until nothing changes, at most \<open>n\<close> times. Three rounds are
    always enough and two are not, which is proved.
  \<^item> The clock is read once per effect and per action; whether \<open>setItem\<close> throws is an argument.

  The lemmas show where the hook settles, that what is shown is what is stored, how the counts follow the
  actions, and that stored notifications do not survive connecting a wallet.
\<close>

section \<open>Data\<close>

datatype notificationType = NOrganization | NCampaign | NProposal | NStaking | NSystem

record notification =
  n_id :: string
  n_type :: notificationType
  n_title :: string
  n_message :: string
  n_timestamp :: int
  n_read :: bool
  n_urgent :: "bool option"
  n_entityId :: "string option"
  n_actionUrl :: "string option"

record notificationSettings =
  ns_organizationUpdates :: bool
  ns_campaignUpdates :: bool
  ns_proposalUpdates :: bool
  ns_stakingRewards :: bool
  ns_systemAnnouncements :: bool
  ns_emailNotifications :: bool
  ns_pushNotifications :: bool

definition DEFAULT_SETTINGS :: notificationSettings where
  "DEFAULT_SETTINGS =
     \<lparr>ns_organizationUpdates = True, ns_campaignUpdates = True, ns_proposalUpdates = True,
      ns_stakingRewards = True, ns_systemAnnouncements = True, ns_emailNotifications = False,
      ns_pushNotifications = False\<rparr>"

text \<open>An object with some of the settings: the argument of \<open>updateSettings\<close>, and what the storage holds.\<close>

record settingsUpdate =
  us_organizationUpdates :: "bool option"
  us_campaignUpdates :: "bool option"
  us_proposalUpdates :: "bool option"
  us_stakingRewards :: "bool option"
  us_systemAnnouncements :: "bool option"
  us_emailNotifications :: "bool option"
  us_pushNotifications :: "bool option"

definition updateSettings :: "settingsUpdate \<Rightarrow> notificationSettings \<Rightarrow> notificationSettings" where
  "updateSettings u prev =
     (let pick = (\<lambda>x v. case x of None \<Rightarrow> v | Some y \<Rightarrow> y)
      in \<lparr>ns_organizationUpdates = pick (us_organizationUpdates u) (ns_organizationUpdates prev),
          ns_campaignUpdates = pick (us_campaignUpdates u) (ns_campaignUpdates prev),
          ns_proposalUpdates = pick (us_proposalUpdates u) (ns_proposalUpdates prev),
          ns_stakingRewards = pick (us_stakingRewards u) (ns_stakingRewards prev),
          ns_systemAnnouncements = pick (us_systemAnnouncements u) (ns_systemAnnouncements prev),
          ns_emailNotifications = pick (us_emailNotifications u) (ns_emailNotifications prev),
          ns_pushNotifications = pick (us_pushNotifications u) (ns_pushNotifications prev)\<rparr>)"

text \<open>All settings, as the save effect writes them.\<close>

definition allSettings :: "notificationSettings \<Rightarrow> settingsUpdate" where
  "allSettings st =
     \<lparr>us_organizationUpdates = Some (ns_organizationUpdates st), us_campaignUpdates = Some (ns_campaignUpdates st),
      us_proposalUpdates = Some (ns_proposalUpdates st), us_stakingRewards = Some (ns_stakingRewards st),
      us_systemAnnouncements = Some (ns_systemAnnouncements st), us_emailNotifications = Some (ns_emailNotifications st),
      us_pushNotifications = Some (ns_pushNotifications st)\<rparr>"

datatype 'a stored = Parses 'a | Broken

record notifState =
  nt_notifications :: "notification list"
  nt_settings :: notificationSettings
  nt_address :: "string option"
  nt_isConnected :: bool
  nt_storedNotifications :: "string \<rightharpoonup> notification list stored"
  nt_storedSettings :: "string \<rightharpoonup> settingsUpdate stored"

definition notificationsKey :: "string \<Rightarrow> string" where
  "notificationsKey address = ''notifications_'' @ address"

definition settingsKey :: "string \<Rightarrow> string" where
  "settingsKey address = ''notification_settings_'' @ address"

definition mockNotifications :: "int \<Rightarrow> notification list" where
  "mockNotifications now =
     [\<lparr>n_id = ''1'', n_type = NOrganization, n_title = ''New Member Joined'',
       n_message = ''Alice joined your organization '' @ [CHR 0x22] @ ''Gaming Studio DAO'' @ [CHR 0x22],
       n_timestamp = now - 3600000, n_read = False, n_urgent = None, n_entityId = Some ''org123'',
       n_actionUrl = Some ''/collectives/org123''\<rparr>,
      \<lparr>n_id = ''2'', n_type = NCampaign, n_title = ''Campaign Milestone Reached'',
       n_message = ''Your campaign '' @ [CHR 0x22] @ ''Epic RPG Game'' @ [CHR 0x22] @ '' reached 50% funding goal'',
       n_timestamp = now - 7200000, n_read = False, n_urgent = Some True, n_entityId = Some ''camp456'',
       n_actionUrl = Some ''/campaigns/camp456''\<rparr>,
      \<lparr>n_id = ''3'', n_type = NProposal, n_title = ''Voting Reminder'',
       n_message = ''Proposal '' @ [CHR 0x22] @ ''Upgrade Treasury Rules'' @ [CHR 0x22] @ '' voting ends in 24 hours'',
       n_timestamp = now - 14400000, n_read = True, n_urgent = None, n_entityId = Some ''prop789'',
       n_actionUrl = Some ''/governance/prop789''\<rparr>,
      \<lparr>n_id = ''4'', n_type = NStaking, n_title = ''Rewards Available'',
       n_message = ''You have 150 GAME tokens ready to claim from staking rewards'',
       n_timestamp = now - 86400000, n_read = False, n_urgent = None, n_entityId = None,
       n_actionUrl = Some ''/staking/rewards''\<rparr>,
      \<lparr>n_id = ''5'', n_type = NSystem, n_title = ''Platform Update'',
       n_message = ''New features available: Enhanced governance tools and improved UI'',
       n_timestamp = now - 172800000, n_read = True, n_urgent = None, n_entityId = None,
       n_actionUrl = Some ''/dashboard''\<rparr>]"

section \<open>Effects\<close>

text \<open>
  The state under construction during a commit: the next state, and whether \<open>setNotifications\<close> and
  \<open>setSettings\<close> were called.
\<close>

record commitState =
  cs_state :: notifState
  cs_setNotifications :: bool
  cs_setSettings :: bool

definition setNotifications :: "notification list \<Rightarrow> commitState \<Rightarrow> commitState" where
  "setNotifications ns c =
     c\<lparr>cs_state := (cs_state c)\<lparr>nt_notifications := ns\<rparr>, cs_setNotifications := True\<rparr>"

definition setSettings :: "notificationSettings \<Rightarrow> commitState \<Rightarrow> commitState" where
  "setSettings st c = c\<lparr>cs_state := (cs_state c)\<lparr>nt_settings := st\<rparr>, cs_setSettings := True\<rparr>"

text \<open>Stored settings are spread over the defaults. An error of the first \<open>JSON.parse\<close> also skips the settings.\<close>

definition loadEffect :: "notifState \<Rightarrow> commitState \<Rightarrow> commitState" where
  "loadEffect r c =
     (if \<not> nonempty (nt_address r) then c
      else
        (let address = the (nt_address r);
             stored = nt_storedNotifications (cs_state c) (notificationsKey address)
         in if stored = Some Broken then c
            else
              (let c = (case stored of Some (Parses parsed) \<Rightarrow> setNotifications parsed c | _ \<Rightarrow> c)
               in case nt_storedSettings (cs_state c) (settingsKey address) of
                    Some (Parses parsedSettings) \<Rightarrow> setSettings (updateSettings parsedSettings DEFAULT_SETTINGS) c
                  | _ \<Rightarrow> c)))"

definition saveNotificationsEffect :: "bool \<Rightarrow> notifState \<Rightarrow> commitState \<Rightarrow> commitState" where
  "saveNotificationsEffect setItemOk r c =
     (if \<not> nonempty (nt_address r) \<or> length (nt_notifications r) = 0 then c
      else if \<not> setItemOk then c
      else c\<lparr>cs_state := (cs_state c)\<lparr>nt_storedNotifications :=
             (nt_storedNotifications (cs_state c))(notificationsKey (the (nt_address r)) \<mapsto> Parses (nt_notifications r))\<rparr>\<rparr>)"

definition saveSettingsEffect :: "bool \<Rightarrow> notifState \<Rightarrow> commitState \<Rightarrow> commitState" where
  "saveSettingsEffect setItemOk r c =
     (if \<not> nonempty (nt_address r) then c
      else if \<not> setItemOk then c
      else c\<lparr>cs_state := (cs_state c)\<lparr>nt_storedSettings :=
             (nt_storedSettings (cs_state c))(settingsKey (the (nt_address r)) \<mapsto> Parses (allSettings (nt_settings r)))\<rparr>\<rparr>)"

definition mockEffect :: "int \<Rightarrow> notifState \<Rightarrow> commitState \<Rightarrow> commitState" where
  "mockEffect now r c =
     (if \<not> nt_isConnected r \<or> \<not> nonempty (nt_address r) then c
      else if length (nt_notifications r) = 0 then setNotifications (mockNotifications now) c
      else c)"

record changedDeps =
  ch_address :: bool
  ch_isConnected :: bool
  ch_notifications :: bool
  ch_length :: bool
  ch_settings :: bool

definition noChange :: "changedDeps \<Rightarrow> bool" where
  "noChange d \<longleftrightarrow> \<not> ch_address d \<and> \<not> ch_isConnected d \<and> \<not> ch_notifications d \<and> \<not> ch_length d \<and> \<not> ch_settings d"

definition commit :: "bool \<Rightarrow> int \<Rightarrow> changedDeps \<Rightarrow> notifState \<Rightarrow> changedDeps \<times> notifState" where
  "commit ok now d r =
     (let c = \<lparr>cs_state = r, cs_setNotifications = False, cs_setSettings = False\<rparr>;
          c = (if ch_address d then loadEffect r c else c);
          c = (if ch_notifications d \<or> ch_address d then saveNotificationsEffect ok r c else c);
          c = (if ch_settings d \<or> ch_address d then saveSettingsEffect ok r c else c);
          c = (if ch_isConnected d \<or> ch_address d \<or> ch_length d then mockEffect now r c else c);
          s = cs_state c
      in (\<lparr>ch_address = False, ch_isConnected = False, ch_notifications = cs_setNotifications c,
           ch_length = (length (nt_notifications s) \<noteq> length (nt_notifications r)),
           ch_settings = cs_setSettings c\<rparr>, s))"

fun settle :: "nat \<Rightarrow> bool \<Rightarrow> int \<Rightarrow> changedDeps \<Rightarrow> notifState \<Rightarrow> changedDeps \<times> notifState" where
  "settle 0 ok now d r = (d, r)"
| "settle (Suc n) ok now d r = (if noChange d then (d, r) else (case commit ok now d r of (d', r') \<Rightarrow> settle n ok now d' r'))"

section \<open>Actions and computed values\<close>

definition unreadCount :: "notification list \<Rightarrow> nat" where
  "unreadCount ns = length (filter (\<lambda>n. \<not> n_read n) ns)"

definition urgentCount :: "notification list \<Rightarrow> nat" where
  "urgentCount ns = length (filter (\<lambda>n. \<not> n_read n \<and> n_urgent n = Some True) ns)"

definition recentNotifications :: "int \<Rightarrow> notification list \<Rightarrow> notification list" where
  "recentNotifications now ns =
     (let sevenDaysAgo = now - 7 * 24 * 60 * 60 * 1000
      in sort_key (\<lambda>n. - n_timestamp n) (filter (\<lambda>n. sevenDaysAgo < n_timestamp n) ns))"

definition markAsRead :: "string \<Rightarrow> notification list \<Rightarrow> notification list" where
  "markAsRead notificationId prev = map (\<lambda>n. if n_id n = notificationId then n\<lparr>n_read := True\<rparr> else n) prev"

definition markAllAsRead :: "notification list \<Rightarrow> notification list" where
  "markAllAsRead prev = map (\<lambda>n. n\<lparr>n_read := True\<rparr>) prev"

definition deleteNotification :: "string \<Rightarrow> notification list \<Rightarrow> notification list" where
  "deleteNotification notificationId prev = filter (\<lambda>n. n_id n \<noteq> notificationId) prev"

definition clearAllNotifications :: "notification list \<Rightarrow> notification list" where
  "clearAllNotifications prev = []"

text \<open>The argument has no id and no time; both fields of \<open>n\<close> are replaced.\<close>

definition addNotification :: "int \<Rightarrow> string \<Rightarrow> notification \<Rightarrow> notification list \<Rightarrow> notification list" where
  "addNotification now random36 n prev =
     n\<lparr>n_id := show_int now @ ''_'' @ take 9 (drop 2 random36), n_timestamp := now\<rparr> # prev"

definition getNotificationsByType :: "notificationType \<Rightarrow> notification list \<Rightarrow> notification list" where
  "getNotificationsByType type ns = filter (\<lambda>n. n_type n = type) ns"

text \<open>An action: its update of the notifications, then the renders it causes.\<close>

definition act :: "bool \<Rightarrow> int \<Rightarrow> (notification list \<Rightarrow> notification list) \<Rightarrow> notifState \<Rightarrow> notifState" where
  "act ok now f r =
     (let ns = f (nt_notifications r)
      in snd (settle 3 ok now
           \<lparr>ch_address = False, ch_isConnected = False, ch_notifications = True,
            ch_length = (length ns \<noteq> length (nt_notifications r)), ch_settings = False\<rparr>
           (r\<lparr>nt_notifications := ns\<rparr>)))"

text \<open>Connecting a wallet: address and connection status change in one render.\<close>

definition connect :: "bool \<Rightarrow> int \<Rightarrow> string \<Rightarrow> notifState \<Rightarrow> notifState" where
  "connect ok now address r =
     snd (settle 3 ok now
       \<lparr>ch_address = True, ch_isConnected = True, ch_notifications = False, ch_length = False, ch_settings = False\<rparr>
       (r\<lparr>nt_address := Some address, nt_isConnected := True\<rparr>))"

section \<open>The hook settles\<close>

lemma length_mock [simp]: "length (mockNotifications now) = 5"
  by (simp add: mockNotifications_def)

lemma mock_nonempty [simp]: "mockNotifications now \<noteq> []"
  by (simp add: mockNotifications_def)

lemmas effect_defs = loadEffect_def saveNotificationsEffect_def saveSettingsEffect_def mockEffect_def
  setNotifications_def setSettings_def

definition remocks :: "changedDeps \<Rightarrow> notifState \<Rightarrow> bool" where
  "remocks d r \<longleftrightarrow> ch_length d \<and> nt_isConnected r \<and> nonempty (nt_address r) \<and> nt_notifications r = []"

text \<open>A render in which the wallet did not change: stores what changed, and may set the mock data.\<close>

lemma commit_quiet:
  assumes "\<not> ch_address d" and "\<not> ch_isConnected d"
  shows "commit ok now d r =
     (\<lparr>ch_address = False, ch_isConnected = False, ch_notifications = remocks d r, ch_length = remocks d r,
       ch_settings = False\<rparr>,
      r\<lparr>nt_notifications := if remocks d r then mockNotifications now else nt_notifications r,
        nt_storedNotifications := if ok \<and> ch_notifications d \<and> nonempty (nt_address r) \<and> nt_notifications r \<noteq> []
          then (nt_storedNotifications r)(notificationsKey (the (nt_address r)) \<mapsto> Parses (nt_notifications r))
          else nt_storedNotifications r,
        nt_storedSettings := if ok \<and> ch_settings d \<and> nonempty (nt_address r)
          then (nt_storedSettings r)(settingsKey (the (nt_address r)) \<mapsto> Parses (allSettings (nt_settings r)))
          else nt_storedSettings r\<rparr>)"
  using assms by (simp add: commit_def effect_defs remocks_def Let_def)

definition atRest :: changedDeps where
  "atRest = \<lparr>ch_address = False, ch_isConnected = False, ch_notifications = False, ch_length = False, ch_settings = False\<rparr>"

lemma atRest_flags [simp]:
  "\<not> ch_address atRest" "\<not> ch_isConnected atRest" "\<not> ch_notifications atRest" "\<not> ch_length atRest" "\<not> ch_settings atRest"
  by (simp_all add: atRest_def)

lemma noChange_atRest: "noChange d \<longleftrightarrow> d = atRest"
  by (cases d) (auto simp: noChange_def atRest_def)

lemma settle_atRest [simp]: "settle n ok now atRest r = (atRest, r)"
  by (cases n) (simp_all add: noChange_def)

lemma commit_mocked:
  assumes "nt_notifications r \<noteq> []" and "nonempty (nt_address r)"
  shows "commit ok now \<lparr>ch_address = False, ch_isConnected = False, ch_notifications = True, ch_length = True, ch_settings = False\<rparr> r =
     (atRest, r\<lparr>nt_storedNotifications := if ok
        then (nt_storedNotifications r)(notificationsKey (the (nt_address r)) \<mapsto> Parses (nt_notifications r)) else nt_storedNotifications r\<rparr>)"
  by (subst commit_quiet) (use assms in \<open>simp_all add: remocks_def atRest_def\<close>)

text \<open>Two renders are enough when the wallet did not change.\<close>

lemma settle_quiet:
  assumes "\<not> ch_address d" and "\<not> ch_isConnected d"
  shows "settle (Suc (Suc n)) ok now d r =
     (atRest,
      (let ns = (if remocks d r then mockNotifications now else nt_notifications r)
       in r\<lparr>nt_notifications := ns,
            nt_storedNotifications := if ok \<and> nonempty (nt_address r) \<and> (ch_notifications d \<or> remocks d r) \<and> ns \<noteq> []
              then (nt_storedNotifications r)(notificationsKey (the (nt_address r)) \<mapsto> Parses ns) else nt_storedNotifications r,
            nt_storedSettings := if ok \<and> ch_settings d \<and> nonempty (nt_address r)
              then (nt_storedSettings r)(settingsKey (the (nt_address r)) \<mapsto> Parses (allSettings (nt_settings r)))
              else nt_storedSettings r\<rparr>))"
proof (cases "remocks d r")
  case True
  let ?d = "\<lparr>ch_address = False, ch_isConnected = False, ch_notifications = True, ch_length = True, ch_settings = False\<rparr>"
  obtain t where d: "commit ok now d r = (?d, t)" using True by (simp add: commit_quiet [OF assms])
  then have t: "t = snd (commit ok now d r)" by simp
  have ne: "nt_notifications t \<noteq> []" "nonempty (nt_address t)"
    unfolding t using True by (simp_all add: commit_quiet [OF assms] remocks_def)
  have "settle (Suc (Suc n)) ok now d r = settle n ok now atRest (snd (commit ok now ?d t))"
    using True by (simp add: d commit_mocked [OF ne] noChange_def remocks_def)
  then show ?thesis
    using True by (simp add: commit_mocked [OF ne]) (simp add: t commit_quiet [OF assms] remocks_def Let_def)
next
  case False
  then obtain t where "commit ok now d r = (atRest, t)" by (simp add: commit_quiet [OF assms] atRest_def)
  then have "settle (Suc (Suc n)) ok now d r = (atRest, if noChange d then r else snd (commit ok now d r))"
    by (auto simp: noChange_atRest)
  then show ?thesis using False by (auto simp: commit_quiet [OF assms] noChange_def Let_def)
qed

text \<open>
  Where the hook comes to rest: the list that is shown, the settings, and the storage. A list is loaded and settings are
  loaded only when the address changed.
\<close>

definition restingList :: "int \<Rightarrow> changedDeps \<Rightarrow> notifState \<Rightarrow> notification list" where
  "restingList now d r =
     (let known = nonempty (nt_address r);
          kept = (if known \<and> ch_address d then
                    (case nt_storedNotifications r (notificationsKey (the (nt_address r))) of
                       Some (Parses parsed) \<Rightarrow> parsed | _ \<Rightarrow> nt_notifications r)
                  else nt_notifications r)
      in if known \<and> nt_isConnected r
            \<and> (if nt_notifications r = [] then ch_address d \<or> ch_isConnected d \<or> ch_length d else kept = [])
         then mockNotifications now else kept)"

definition restingSettings :: "changedDeps \<Rightarrow> notifState \<Rightarrow> notificationSettings" where
  "restingSettings d r =
     (if nonempty (nt_address r) \<and> ch_address d
         \<and> nt_storedNotifications r (notificationsKey (the (nt_address r))) \<noteq> Some Broken then
        (case nt_storedSettings r (settingsKey (the (nt_address r))) of
           Some (Parses u) \<Rightarrow> updateSettings u DEFAULT_SETTINGS | _ \<Rightarrow> nt_settings r)
      else nt_settings r)"

definition restingState :: "bool \<Rightarrow> int \<Rightarrow> changedDeps \<Rightarrow> notifState \<Rightarrow> notifState" where
  "restingState ok now d r =
     (let ns = restingList now d r; st = restingSettings d r; stores = (ok \<and> nonempty (nt_address r)); a = the (nt_address r)
      in r\<lparr>nt_notifications := ns, nt_settings := st,
           nt_storedNotifications :=
             (if stores \<and> ns \<noteq> [] \<and> (ch_address d \<or> ch_notifications d \<or> ns \<noteq> nt_notifications r)
              then (nt_storedNotifications r)(notificationsKey a \<mapsto> Parses ns)
              else if stores \<and> nt_notifications r \<noteq> [] \<and> (ch_address d \<or> ch_notifications d)
              then (nt_storedNotifications r)(notificationsKey a \<mapsto> Parses (nt_notifications r))
              else nt_storedNotifications r),
           nt_storedSettings :=
             (if stores \<and> (ch_address d \<or> ch_settings d)
              then (nt_storedSettings r)(settingsKey a \<mapsto> Parses (allSettings st)) else nt_storedSettings r)\<rparr>)"

lemma settle_first: "\<not> noChange d \<Longrightarrow> settle (Suc n) ok now d r = settle n ok now (fst (commit ok now d r)) (snd (commit ok now d r))"
  by (cases "commit ok now d r") simp

lemma commit_wallet_flags:
  "\<not> ch_address (fst (commit ok now d r))" "\<not> ch_isConnected (fst (commit ok now d r))"
  by (simp_all add: commit_def Let_def)

lemma stored_cases [case_names None Broken Parses]:
  assumes "x = None \<Longrightarrow> P" and "x = Some Broken \<Longrightarrow> P" and "\<And>v. x = Some (Parses v) \<Longrightarrow> P"
  shows P
  using assms by (metis option.exhaust stored.exhaust)

lemmas resting_defs = restingState_def restingList_def restingSettings_def Let_def

lemma settle_resting:
  "settle (Suc (Suc (Suc n))) ok now d r = (atRest, restingState ok now d r)"
proof (cases "noChange d")
  case True
  then show ?thesis by (simp add: resting_defs noChange_atRest)
next
  case False
  note step = settle_first [OF False] settle_quiet [OF commit_wallet_flags]
  show ?thesis
  proof (cases "nonempty (nt_address r) \<and> ch_address d")
    case False
    then show ?thesis unfolding step
      by (cases "nonempty (nt_address r)"; cases "nt_notifications r = []"; cases ok)
        (simp_all add: commit_def effect_defs remocks_def resting_defs)
  next
    case True
    let ?N = "nt_storedNotifications r (notificationsKey (the (nt_address r)))"
      and ?S = "nt_storedSettings r (settingsKey (the (nt_address r)))"
    show ?thesis
    proof (cases ?N rule: stored_cases)
      case Broken
      then show ?thesis using True unfolding step
        by (cases "nt_notifications r = []"; cases ok) (simp_all add: commit_def effect_defs remocks_def resting_defs)
    next
      case None
      then show ?thesis using True unfolding step
        by (cases ?S rule: stored_cases; cases "nt_notifications r = []"; cases ok)
          (simp_all add: commit_def effect_defs remocks_def resting_defs)
    next
      case (Parses l)
      then show ?thesis using True unfolding step
        by (cases ?S rule: stored_cases; cases "nt_notifications r = []"; cases "l = []"; cases "nt_isConnected r"; cases ok)
          (simp_all add: commit_def effect_defs remocks_def resting_defs)
    qed
  qed
qed

text \<open>A stored empty list that is loaded over a shown one brings the mock data back in the second render.\<close>

lemma load_empty_remocks:
  assumes "nonempty (nt_address r)" "nt_isConnected r" "nt_notifications r \<noteq> []" "ch_address d"
    "nt_storedNotifications r (notificationsKey (the (nt_address r))) = Some (Parses [])"
    "nt_storedSettings r (settingsKey (the (nt_address r))) = None"
  shows "remocks (fst (commit ok now d r)) (snd (commit ok now d r))"
  using assms by (cases ok) (simp_all add: commit_def effect_defs remocks_def Let_def)

text \<open>
  C40. Where the effects of the hook come to rest. From any state and any change of its dependencies, after three or more renders no effect
  has anything left to do, and the state is \<open>restingState\<close>: a list that has entries stays shown, unless the address changed and another one is
  stored for it; an empty list of a connected user is replaced by the mock notifications if it is due to the change; the stored
  settings are spread over the defaults when the address changed; and with a known address and a storage that works the
  shown list is stored if it has entries and is new, and so are the settings. Three renders are needed: two do not
  suffice for every change.
\<close>

theorem hook_settles:
  "settle (3 + n) ok now d r = (atRest, restingState ok now d r)
   \<and> (\<exists>d r. fst (settle 2 ok now d r) \<noteq> atRest)"
proof
  show "settle (3 + n) ok now d r = (atRest, restingState ok now d r)"
    using settle_resting [of n] by (simp add: numeral_3_eq_3 del: settle.simps)
next
  let ?d = "atRest\<lparr>ch_address := True\<rparr>"
  let ?r = "\<lparr>nt_notifications = mockNotifications 0, nt_settings = DEFAULT_SETTINGS, nt_address = Some ''0xaa'',
      nt_isConnected = True, nt_storedNotifications = [notificationsKey ''0xaa'' \<mapsto> Parses []], nt_storedSettings = Map.empty\<rparr>"
  let ?c = "commit ok now ?d ?r"
  have "remocks (fst ?c) (snd ?c)" by (rule load_empty_remocks) (simp_all add: nonempty_def)
  moreover have "settle 2 ok now ?d ?r = settle 1 ok now (fst ?c) (snd ?c)"
    using settle_first [of ?d 1 ok now ?r] by (simp add: noChange_def numeral_2_eq_2 del: settle.simps)
  ultimately have "ch_notifications (fst (settle 2 ok now ?d ?r))"
    by (simp add: commit_quiet [OF commit_wallet_flags] noChange_def remocks_def)
  then have "fst (settle 2 ok now ?d ?r) \<noteq> atRest" by (auto simp: atRest_def)
  then show "\<exists>d r. fst (settle 2 ok now d r) \<noteq> atRest" by blast
qed

section \<open>What is shown and what is stored\<close>

text \<open>
  After an action of a user whose wallet address is known, and when storing works, what is shown is
  what is stored: the updated list if it has entries. If the update leaves no entry, a connected user
  gets the mock notifications back, shown and stored, so clearing never lasts; without a connection
  the list stays empty but the stored list is the old one.
\<close>

theorem action_outcome:
  assumes "nt_address r = Some a" and "a \<noteq> []"
  shows "act True now f r =
     (let ns = f (nt_notifications r);
          shown = (if ns \<noteq> [] then ns
                   else if nt_isConnected r \<and> nt_notifications r \<noteq> [] then mockNotifications now else [])
      in r\<lparr>nt_notifications := shown,
           nt_storedNotifications := if shown \<noteq> [] then (nt_storedNotifications r)(notificationsKey a \<mapsto> Parses shown)
             else nt_storedNotifications r\<rparr>)"
  using assms
  by (auto simp: act_def numeral_3_eq_3 settle_resting resting_defs nonempty_def simp del: settle.simps)

definition exampleNotifState :: "bool \<Rightarrow> notifState" where
  "exampleNotifState connected =
     \<lparr>nt_notifications = mockNotifications 0, nt_settings = DEFAULT_SETTINGS, nt_address = Some ''0xaa'',
      nt_isConnected = connected, nt_storedNotifications = Map.empty, nt_storedSettings = Map.empty\<rparr>"

theorem action_outcome_witness:
  "nt_notifications (act True 7 clearAllNotifications (exampleNotifState True)) = mockNotifications 7"
  using action_outcome [of "exampleNotifState True" "''0xaa''" 7 clearAllNotifications]
  by (simp add: exampleNotifState_def clearAllNotifications_def Let_def)

text \<open>
  Stored notifications do not survive connecting: for a fresh hook, whatever list is stored for the
  address, connecting the wallet shows the mock notifications, because the effect that sets them runs
  after the one that loads the stored list and sees the same empty render; when storing works they
  replace the stored list.
\<close>

theorem connect_discards_stored:
  assumes "nt_notifications r = []" and "a \<noteq> []"
  shows "nt_notifications (connect ok now a r) = mockNotifications now
     \<and> nt_storedNotifications (connect ok now a r) (notificationsKey a) =
         (if ok then Some (Parses (mockNotifications now)) else nt_storedNotifications r (notificationsKey a))"
  using assms by (simp add: connect_def numeral_3_eq_3 settle_resting resting_defs nonempty_def del: settle.simps)

theorem connect_discards_stored_witness:
  "nt_notifications (connect True 7 ''0xaa'' ((exampleNotifState False)\<lparr>nt_notifications := [],
      nt_storedNotifications := [notificationsKey ''0xaa'' \<mapsto> Parses (take 1 (mockNotifications 0))]\<rparr>)) = mockNotifications 7"
  using connect_discards_stored [where a = "''0xaa''" and ok = True and now = 7 and r = "(exampleNotifState False)\<lparr>nt_notifications := [],
      nt_storedNotifications := [notificationsKey ''0xaa'' \<mapsto> Parses (take 1 (mockNotifications 0))]\<rparr>"] by simp

section \<open>Counts\<close>

lemma unread_after_read:
  "unreadCount (markAsRead i ns) + length (filter (\<lambda>n. n_id n = i \<and> \<not> n_read n) ns) = unreadCount ns"
  by (induction ns) (auto simp: unreadCount_def markAsRead_def)

lemma unread_after_delete:
  "unreadCount (deleteNotification i ns) = unreadCount (markAsRead i ns)"
  by (induction ns) (auto simp: unreadCount_def markAsRead_def deleteNotification_def)

text \<open>
  The badge counts follow the actions: reading a notification lowers the unread count by exactly the
  unread entries with that id, deleting it has the same effect on the count, reading all makes it zero,
  and the urgent ones never outnumber the unread ones. The recent list is the last seven days, latest
  first.
\<close>

theorem notification_counts:
  "unreadCount (markAsRead i ns) + length (filter (\<lambda>n. n_id n = i \<and> \<not> n_read n) ns) = unreadCount ns
   \<and> unreadCount (deleteNotification i ns) = unreadCount (markAsRead i ns)
   \<and> unreadCount (markAllAsRead ns) = 0 \<and> urgentCount ns \<le> unreadCount ns
   \<and> sorted (map (\<lambda>n. - n_timestamp n) (recentNotifications now ns))
   \<and> mset (recentNotifications now ns) = filter_mset (\<lambda>n. now - 604800000 < n_timestamp n) (mset ns)"
proof -
  have "urgentCount ns \<le> unreadCount ns"
    by (induction ns) (auto simp: urgentCount_def unreadCount_def)
  moreover have "unreadCount (markAllAsRead ns) = 0"
    by (simp add: unreadCount_def markAllAsRead_def)
  ultimately show ?thesis
    by (simp add: unread_after_read unread_after_delete recentNotifications_def Let_def)
qed

section \<open>Switching accounts\<close>

text \<open>
  Switching to an account without stored notifications copies those of the previous account: the
  list stays shown, and the save effect stores it under the new address.
\<close>

theorem switching_accounts_copies:
  assumes "nt_notifications r \<noteq> []" and "a \<noteq> []" and "nt_storedNotifications r (notificationsKey a) = None"
  shows "nt_notifications (connect True now a r) = nt_notifications r
     \<and> nt_storedNotifications (connect True now a r) (notificationsKey a) = Some (Parses (nt_notifications r))"
  using assms by (simp add: connect_def numeral_3_eq_3 settle_resting resting_defs nonempty_def del: settle.simps)

theorem switching_accounts_copies_witness:
  "nt_storedNotifications (connect True 7 ''0xbb'' (exampleNotifState True)) (notificationsKey ''0xbb'')
     = Some (Parses (mockNotifications 0))"
  using switching_accounts_copies [where a = "''0xbb''" and now = 7 and r = "exampleNotifState True"]
  by (simp add: exampleNotifState_def)

end
