(* ===== verification/Ipfs_Queue.thy ===== *)
theory Ipfs_Queue
  imports Encoding "HOL-Library.Multiset"
begin

text \<open>
  The request queue of the web client, the class \<open>IPFSRequestQueue\<close> of
  \<open>packages/frontend/src/hooks/useIPFS.ts\<close>.

  \<^item> The private fields of the class are the fields \<open>q_queue\<close> to \<open>q_rateLimitCount\<close> of \<open>queueState\<close>. The
    rest of the record is the surroundings: where the one suspended call of \<open>processQueue\<close> stands (\<open>pc\<close>),
    the requests that run, those whose \<open>finally\<close> is still to come, the scheduled timers, the clock, and
    three logs, the ids handed out, the promises settled and the requests started.
  \<^item> \<open>processQueue\<close> is cut at its loop head and at its two \<open>await\<close>s. \<open>loopIteration\<close> is one pass of the
    loop body; its two readings of the clock are arguments. While the loop runs nothing else does.
  \<^item> \<open>queue_step\<close> is the interleaving: calls of \<open>enqueue\<close> and \<open>clearQueue\<close>, passes of the loop, timers,
    settling of requests with any outcome. A timer fires at its time or later. Between the \<open>then\<close> or
    \<open>catch\<close> of a request and its \<open>finally\<close> only promise jobs run: no timer fires and no time passes.

  The lemmas show the limit on concurrent requests, that requests are neither lost nor answered twice,
  the minimal interval between requests and that the queue never gets stuck; and three runs in which
  the class does not do what it means to.
\<close>

section \<open>State\<close>

record request =
  r_id :: string
  r_priority :: int

datatype outcome = Resolved | Rejected

datatype reply = ReplyOk | ReplyRateLimited | ReplyFailed

datatype pc = Idle | Head | SleepReset | SleepInterval

record queueState =
  q_queue :: "request list"
  q_activeRequests :: "string set"
  q_lastRequestTime :: int
  q_requestId :: nat
  q_isProcessing :: bool
  q_rateLimitResetTime :: int
  q_rateLimitCount :: int
  q_pc :: pc
  q_wake :: int
  q_inflight :: "request list"
  q_finishing :: "request list"
  q_timers :: nat
  q_now :: int
  q_settled :: "(string \<times> outcome) list"
  q_started :: "(string \<times> int) list"
  q_issued :: "string list"

definition maxConcurrentRequests :: nat where "maxConcurrentRequests = 3"

definition minRequestInterval :: int where "minRequestInterval = 100"

definition maxRequestsPerMinute :: int where "maxRequestsPerMinute = 30"

definition newQueue :: queueState where
  "newQueue =
     \<lparr>q_queue = [], q_activeRequests = {}, q_lastRequestTime = 0, q_requestId = 0, q_isProcessing = False,
      q_rateLimitResetTime = 0, q_rateLimitCount = 0, q_pc = Idle, q_wake = 0, q_inflight = [], q_finishing = [],
      q_timers = 0, q_now = 0, q_settled = [], q_started = [], q_issued = []\<rparr>"

section \<open>The methods\<close>

definition requestIdString :: "nat \<Rightarrow> int \<Rightarrow> string" where
  "requestIdString n now = ''ipfs-request-'' @ show_nat n @ ''-'' @ show_int now"

definition processQueue :: "queueState \<Rightarrow> queueState" where
  "processQueue s =
     (if q_isProcessing s \<or> length (q_queue s) = 0 then s else s\<lparr>q_isProcessing := True, q_pc := Head\<rparr>)"

definition enqueue :: "int \<Rightarrow> int \<Rightarrow> queueState \<Rightarrow> queueState" where
  "enqueue priority now s =
     (let n = q_requestId s + 1
      in processQueue (s\<lparr>q_requestId := n, q_now := now,
           q_queue := q_queue s @ [\<lparr>r_id = requestIdString n now, r_priority = priority\<rparr>],
           q_issued := q_issued s @ [requestIdString n now]\<rparr>))"

text \<open>From the sort of the queue to the start of the request.\<close>

definition dispatch :: "int \<Rightarrow> queueState \<Rightarrow> queueState" where
  "dispatch now s =
     (case sort_key (\<lambda>r. - r_priority r) (q_queue s) of
        [] \<Rightarrow> s\<lparr>q_queue := [], q_now := now, q_pc := Head\<rparr>
      | item # rest \<Rightarrow>
          s\<lparr>q_queue := rest, q_activeRequests := insert (r_id item) (q_activeRequests s), q_lastRequestTime := now,
            q_rateLimitCount := q_rateLimitCount s + 1, q_inflight := q_inflight s @ [item], q_now := now,
            q_started := q_started s @ [(r_id item, now)], q_pc := Head\<rparr>)"

definition loopIteration :: "int \<Rightarrow> int \<Rightarrow> queueState \<Rightarrow> queueState" where
  "loopIteration now now' s =
     (if 0 < length (q_queue s) \<and> card (q_activeRequests s) < maxConcurrentRequests then
        if now < q_rateLimitResetTime s then
          s\<lparr>q_now := now, q_pc := SleepReset, q_wake := now + (q_rateLimitResetTime s - now)\<rparr>
        else
          (let s = (if 60000 < now - q_lastRequestTime s then s\<lparr>q_rateLimitCount := 0\<rparr> else s)
           in if maxRequestsPerMinute \<le> q_rateLimitCount s then s\<lparr>q_rateLimitResetTime := now + 60000, q_now := now\<rparr>
              else
                (let timeSinceLastRequest = now - q_lastRequestTime s
                 in if timeSinceLastRequest < minRequestInterval then
                      s\<lparr>q_now := now, q_pc := SleepInterval, q_wake := now + (minRequestInterval - timeSinceLastRequest)\<rparr>
                    else dispatch now' s))
      else s\<lparr>q_isProcessing := False, q_pc := Idle\<rparr>)"

text \<open>The \<open>then\<close> and \<open>catch\<close> of a request.\<close>

definition settleRequest :: "request \<Rightarrow> reply \<Rightarrow> int \<Rightarrow> queueState \<Rightarrow> queueState" where
  "settleRequest item reply now s =
     (let s = s\<lparr>q_inflight := remove1 item (q_inflight s), q_finishing := item # q_finishing s, q_now := now\<rparr>
      in case reply of
           ReplyOk \<Rightarrow> s\<lparr>q_settled := q_settled s @ [(r_id item, Resolved)]\<rparr>
         | ReplyRateLimited \<Rightarrow>
             s\<lparr>q_rateLimitResetTime := now + 60000,
               q_queue := item\<lparr>r_priority := r_priority item + 1\<rparr> # q_queue s\<rparr>
         | ReplyFailed \<Rightarrow> s\<lparr>q_settled := q_settled s @ [(r_id item, Rejected)]\<rparr>)"

text \<open>Its \<open>finally\<close>.\<close>

definition finishRequest :: "request \<Rightarrow> queueState \<Rightarrow> queueState" where
  "finishRequest item s =
     s\<lparr>q_activeRequests := q_activeRequests s - {r_id item}, q_finishing := remove1 item (q_finishing s),
       q_timers := q_timers s + 1\<rparr>"

definition clearQueue :: "queueState \<Rightarrow> queueState" where
  "clearQueue s = s\<lparr>q_queue := [], q_activeRequests := {}\<rparr>"

record queueStats =
  st_queueLength :: nat
  st_activeRequests :: nat
  st_rateLimitCount :: int
  st_rateLimitResetTime :: int
  st_isRateLimited :: bool

definition getStats :: "int \<Rightarrow> queueState \<Rightarrow> queueStats" where
  "getStats now s =
     \<lparr>st_queueLength = length (q_queue s), st_activeRequests = card (q_activeRequests s),
      st_rateLimitCount = q_rateLimitCount s, st_rateLimitResetTime = q_rateLimitResetTime s,
      st_isRateLimited = (now < q_rateLimitResetTime s)\<rparr>"

section \<open>Interleaving\<close>

definition clock :: "queueState \<Rightarrow> int \<Rightarrow> bool" where
  "clock s t \<longleftrightarrow> q_now s \<le> t \<and> (q_finishing s = [] \<or> t = q_now s)"

datatype action = Enqueue int | Iterate | Timer | Wake | Settle request reply | Finish request | Clear

inductive queue_step :: "queueState \<Rightarrow> action \<Rightarrow> queueState \<Rightarrow> bool" where
  enqueue: "q_pc s \<noteq> Head \<Longrightarrow> clock s t \<Longrightarrow> queue_step s (Enqueue p) (enqueue p t s)"
| iterate: "q_pc s = Head \<Longrightarrow> clock s t \<Longrightarrow> clock s t' \<Longrightarrow> t \<le> t' \<Longrightarrow> queue_step s Iterate (loopIteration t t' s)"
| timer: "q_pc s \<noteq> Head \<Longrightarrow> q_finishing s = [] \<Longrightarrow> 0 < q_timers s \<Longrightarrow> q_now s \<le> t \<Longrightarrow>
     queue_step s Timer (processQueue (s\<lparr>q_timers := q_timers s - 1, q_now := t\<rparr>))"
| wake_reset: "q_pc s = SleepReset \<Longrightarrow> q_finishing s = [] \<Longrightarrow> q_now s \<le> t \<Longrightarrow> q_wake s \<le> t \<Longrightarrow>
     queue_step s Wake (s\<lparr>q_now := t, q_pc := Head\<rparr>)"
| wake_interval: "q_pc s = SleepInterval \<Longrightarrow> q_finishing s = [] \<Longrightarrow> q_now s \<le> t \<Longrightarrow> q_wake s \<le> t \<Longrightarrow>
     queue_step s Wake (dispatch t s)"
| settle: "q_pc s \<noteq> Head \<Longrightarrow> clock s t \<Longrightarrow> item \<in> set (q_inflight s) \<Longrightarrow>
     queue_step s (Settle item r) (settleRequest item r t s)"
| finish: "q_pc s \<noteq> Head \<Longrightarrow> item \<in> set (q_finishing s) \<Longrightarrow> queue_step s (Finish item) (finishRequest item s)"
| clear: "q_pc s \<noteq> Head \<Longrightarrow> queue_step s Clear (clearQueue s)"

inductive_cases queue_stepE: "queue_step s a s'"

inductive reached :: "(action \<Rightarrow> bool) \<Rightarrow> queueState \<Rightarrow> bool" for allowed where
  start: "reached allowed newQueue"
| step: "reached allowed s \<Longrightarrow> allowed a \<Longrightarrow> queue_step s a s' \<Longrightarrow> reached allowed s'"

lemma reached_invariant:
  assumes "reached allowed s" and "I newQueue"
    and "\<And>s a s'. reached allowed s \<Longrightarrow> I s \<Longrightarrow> allowed a \<Longrightarrow> queue_step s a s' \<Longrightarrow> I s'"
  shows "I s"
  using assms(1)
proof (induction rule: reached.induct)
  case start
  show ?case by (rule assms(2))
next
  case (step s a s')
  show ?case using step.hyps(1) step.IH step.hyps(2, 3) by (rule assms(3))
qed

section \<open>Effects of the methods\<close>

lemma processQueue_keeps [simp]:
  "q_queue (processQueue s) = q_queue s" "q_activeRequests (processQueue s) = q_activeRequests s"
  "q_lastRequestTime (processQueue s) = q_lastRequestTime s" "q_requestId (processQueue s) = q_requestId s"
  "q_rateLimitResetTime (processQueue s) = q_rateLimitResetTime s" "q_wake (processQueue s) = q_wake s"
  "q_inflight (processQueue s) = q_inflight s" "q_finishing (processQueue s) = q_finishing s"
  "q_timers (processQueue s) = q_timers s" "q_now (processQueue s) = q_now s" "q_settled (processQueue s) = q_settled s"
  "q_started (processQueue s) = q_started s" "q_issued (processQueue s) = q_issued s"
  "q_pc (processQueue s) = SleepInterval \<longleftrightarrow> q_pc s = SleepInterval \<and> (q_isProcessing s \<or> q_queue s = [])"
  "q_isProcessing (processQueue s) \<longleftrightarrow> q_isProcessing s \<or> q_queue s \<noteq> []"
  by (simp_all add: processQueue_def)

text \<open>A pass of the loop ends it, falls asleep, records the limit, or starts the first request by priority.\<close>

lemma dispatch_cases:
  obtains (nothing) "q_queue s = []" and "dispatch t s = s\<lparr>q_queue := [], q_now := t, q_pc := Head\<rparr>"
  | (start) item rest where "sort_key (\<lambda>r. - r_priority r) (q_queue s) = item # rest"
      and "mset (q_queue s) = add_mset item (mset rest)"
      and "dispatch t s = s\<lparr>q_queue := rest, q_activeRequests := insert (r_id item) (q_activeRequests s), q_lastRequestTime := t,
            q_rateLimitCount := q_rateLimitCount s + 1, q_inflight := q_inflight s @ [item], q_now := t,
            q_started := q_started s @ [(r_id item, t)], q_pc := Head\<rparr>"
proof (cases "sort_key (\<lambda>r. - r_priority r) (q_queue s)")
  case Nil
  then have "mset (q_queue s) = mset []" by (metis mset_sort)
  then have "q_queue s = []" by simp
  then show ?thesis by (rule nothing) (simp add: dispatch_def Nil)
next
  case (Cons item rest)
  then have "mset (q_queue s) = add_mset item (mset rest)" by (metis mset.simps(2) mset_sort)
  from start [OF Cons this] show ?thesis by (simp add: dispatch_def Cons)
qed

lemma iterate_cases:
  obtains (leave) "\<not> (q_queue s \<noteq> [] \<and> card (q_activeRequests s) < maxConcurrentRequests)"
      and "loopIteration t t' s = s\<lparr>q_isProcessing := False, q_pc := Idle\<rparr>"
  | (reset) "t < q_rateLimitResetTime s"
      and "loopIteration t t' s = s\<lparr>q_now := t, q_pc := SleepReset, q_wake := q_rateLimitResetTime s\<rparr>"
  | (limit) c where "q_rateLimitResetTime s \<le> t" and "c = q_rateLimitCount s"
      and "loopIteration t t' s = s\<lparr>q_rateLimitCount := c, q_rateLimitResetTime := t + 60000, q_now := t\<rparr>"
  | (interval) c where "q_rateLimitResetTime s \<le> t" and "card (q_activeRequests s) < maxConcurrentRequests"
      and "c = q_rateLimitCount s" and "c < maxRequestsPerMinute"
      and "loopIteration t t' s = s\<lparr>q_rateLimitCount := c, q_now := t, q_pc := SleepInterval,
             q_wake := q_lastRequestTime s + minRequestInterval\<rparr>"
  | (go) c where "q_rateLimitResetTime s \<le> t" and "q_queue s \<noteq> []" and "card (q_activeRequests s) < maxConcurrentRequests"
      and "q_lastRequestTime s + minRequestInterval \<le> t"
      and "c = (if 60000 < t - q_lastRequestTime s then 0 else q_rateLimitCount s)" and "c < maxRequestsPerMinute"
      and "loopIteration t t' s = dispatch t' (s\<lparr>q_rateLimitCount := c\<rparr>)"
proof (cases "q_queue s \<noteq> [] \<and> card (q_activeRequests s) < maxConcurrentRequests")
  case False
  then show ?thesis by (intro leave) (auto simp: loopIteration_def)
next
  case True
  let ?c = "if 60000 < t - q_lastRequestTime s then 0 else q_rateLimitCount s"
  show ?thesis
  proof (cases "t < q_rateLimitResetTime s")
    case True
    with \<open>q_queue s \<noteq> [] \<and> _\<close> show ?thesis by (intro reset) (simp_all add: loopIteration_def)
  next
    case ge: False
    have same: "s\<lparr>q_rateLimitCount := q_rateLimitCount s\<rparr> = s" by simp
    consider "maxRequestsPerMinute \<le> ?c" | "\<not> maxRequestsPerMinute \<le> ?c" "t - q_lastRequestTime s < minRequestInterval"
      | "\<not> maxRequestsPerMinute \<le> ?c" "\<not> t - q_lastRequestTime s < minRequestInterval" by linarith
    then show ?thesis
    proof cases
      case 1
      then show ?thesis using True ge
        by (intro limit [of ?c]) (auto simp: loopIteration_def Let_def maxRequestsPerMinute_def split: if_splits)
    next
      case 2
      then show ?thesis using True ge
        by (intro interval [of ?c])
          (auto simp: loopIteration_def Let_def minRequestInterval_def maxRequestsPerMinute_def split: if_splits)
    next
      case 3
      then show ?thesis using True ge
        by (intro go [of ?c]) (auto simp: loopIteration_def Let_def split: if_splits)
    qed
  qed
qed

lemma settle_fields [simp]:
  "q_activeRequests (settleRequest i r t s) = q_activeRequests s" "q_lastRequestTime (settleRequest i r t s) = q_lastRequestTime s"
  "q_isProcessing (settleRequest i r t s) = q_isProcessing s" "q_pc (settleRequest i r t s) = q_pc s"
  "q_wake (settleRequest i r t s) = q_wake s" "q_inflight (settleRequest i r t s) = remove1 i (q_inflight s)"
  "q_finishing (settleRequest i r t s) = i # q_finishing s" "q_timers (settleRequest i r t s) = q_timers s"
  "q_now (settleRequest i r t s) = t" "q_started (settleRequest i r t s) = q_started s"
  "q_issued (settleRequest i r t s) = q_issued s" "q_requestId (settleRequest i r t s) = q_requestId s"
  by (simp_all add: settleRequest_def Let_def split: reply.split)

section \<open>The minimal interval between requests\<close>

definition spaced :: "queueState \<Rightarrow> bool" where
  "spaced s \<longleftrightarrow> successively (\<lambda>a b. a + minRequestInterval \<le> b) (map snd (q_started s))
     \<and> (q_started s \<noteq> [] \<longrightarrow> snd (last (q_started s)) = q_lastRequestTime s)
     \<and> (q_pc s = SleepInterval \<longrightarrow> q_wake s = q_lastRequestTime s + minRequestInterval)"

lemma spaced_dispatch:
  assumes "spaced s" and "q_lastRequestTime s + minRequestInterval \<le> t"
  shows "spaced (dispatch t s)"
proof (cases rule: dispatch_cases [of s t])
  case nothing
  then show ?thesis using assms by (simp add: spaced_def)
next
  case (start item rest)
  then show ?thesis using assms
    by (cases "q_started s = []") (auto simp: spaced_def successively_append_iff last_map)
qed

lemma spaced_step: "spaced s \<Longrightarrow> queue_step s a s' \<Longrightarrow> spaced s'"
proof (erule queue_stepE, goal_cases)
  case (2 t t')
  then show ?case
  proof (cases rule: iterate_cases [of s t t'])
    case (go c)
    have "spaced (s\<lparr>q_rateLimitCount := c\<rparr>)" using 2 by (simp add: spaced_def)
    then show ?thesis using go 2 by (simp add: spaced_dispatch)
  qed (use 2 in \<open>auto simp: spaced_def\<close>)
next
  case (5 t)
  then have "q_lastRequestTime s + minRequestInterval \<le> t" by (simp add: spaced_def)
  then show ?case using 5 by (simp add: spaced_dispatch)
qed (auto simp: spaced_def enqueue_def finishRequest_def clearQueue_def Let_def)

lemma reached_spaced:
  assumes "reached allowed s"
  shows "spaced s"
proof -
  have "spaced newQueue" by (simp add: spaced_def newQueue_def)
  then show ?thesis using spaced_step by (rule reached_invariant [OF assms])
qed

text \<open>
  Requests keep their distance: whatever is enqueued, cleared or answered in whatever order, any two
  consecutive requests start at least the minimal interval apart.
\<close>

theorem requests_spaced:
  assumes "reached allowed s"
  shows "successively (\<lambda>a b. a + minRequestInterval \<le> b) (map snd (q_started s))"
  using reached_spaced [OF assms] by (simp add: spaced_def)

section \<open>The limit per minute\<close>

text \<open>
  The start times, latest first: how many requests there are without a pause of more than a minute. The
  counter of the class is never below it, though it may be above: a pause that ends between the reading
  of the clock and the start of the request is not noticed.
\<close>

fun burst :: "int list \<Rightarrow> nat" where
  "burst [] = 0"
| "burst [t] = 1"
| "burst (t # u # ts) = (if 60000 < t - u then 1 else Suc (burst (u # ts)))"

lemma burst_Cons: "burst (t # ts) \<le> Suc (burst ts)"
  by (cases ts) auto

lemma burst_pause: "ts \<noteq> [] \<Longrightarrow> 60000 < t - hd ts \<Longrightarrow> burst (t # ts) = 1"
  by (cases ts) auto

lemma burst_window: "burst ts \<le> k \<Longrightarrow> k < length ts \<Longrightarrow> sorted_wrt (\<ge>) ts \<Longrightarrow> ts ! k + 60000 < hd ts"
proof (induction ts arbitrary: k rule: burst.induct)
  case (3 t u ts)
  show ?case
  proof (cases "60000 < t - u")
    case True
    then have "(t # u # ts) ! k \<le> u" using 3 by (cases k; cases "k - 1") auto
    then show ?thesis using True by simp
  next
    case False
    then obtain k' where "k = Suc k'" using 3 by (cases k) auto
    then show ?thesis using "3.IH" [of k'] "3.prems" False by fastforce
  qed
qed auto

definition rated :: "queueState \<Rightarrow> bool" where
  "rated s \<longleftrightarrow> (\<forall>n. int (burst (drop n (rev (map snd (q_started s))))) \<le> maxRequestsPerMinute)
     \<and> int (burst (rev (map snd (q_started s)))) \<le> q_rateLimitCount s
     \<and> (q_pc s = SleepInterval \<longrightarrow> q_rateLimitCount s < maxRequestsPerMinute)"

lemma rated_dispatch:
  assumes "rated s" "c < maxRequestsPerMinute" and "int (burst (t # rev (map snd (q_started s)))) \<le> c + 1"
    and "c = q_rateLimitCount s \<or> q_queue s \<noteq> []"
  shows "rated (dispatch t (s\<lparr>q_rateLimitCount := c\<rparr>))"
proof (cases rule: dispatch_cases [of "s\<lparr>q_rateLimitCount := c\<rparr>" t])
  case nothing
  then show ?thesis using assms by (simp add: rated_def)
next
  case (start item rest)
  have "int (burst (drop n (t # rev (map snd (q_started s))))) \<le> maxRequestsPerMinute" for n
    using assms by (cases n) (auto simp: rated_def)
  then show ?thesis using start assms(3) by (simp add: rated_def)
qed

lemma rated_iterate:
  assumes "rated s" "spaced s" "t \<le> t'" "q_pc s = Head"
  shows "rated (loopIteration t t' s)"
proof (cases rule: iterate_cases [of s t t'])
  case (go c)
  let ?ts = "rev (map snd (q_started s))"
  have "int (burst (t' # ?ts)) \<le> c + 1"
  proof (cases "60000 < t - q_lastRequestTime s")
    case True
    moreover have "hd ?ts = q_lastRequestTime s" if "?ts \<noteq> []"
      using that assms(2) by (simp add: spaced_def hd_rev last_map)
    ultimately have "burst (t' # ?ts) = 1" using assms(3) by (cases "?ts = []") (simp_all add: burst_pause)
    then show ?thesis using go(5) True by simp
  next
    case False
    then show ?thesis using go(5) assms(1) burst_Cons [of t' ?ts] by (simp add: rated_def)
  qed
  then show ?thesis using go assms(1) rated_dispatch [of s c t'] by simp
qed (use assms in \<open>auto simp: rated_def\<close>)

lemma rated_step: "rated s \<Longrightarrow> spaced s \<Longrightarrow> queue_step s a s' \<Longrightarrow> rated s'"
proof (erule queue_stepE, goal_cases)
  case (2 t t')
  then show ?case by (simp add: rated_iterate)
next
  case (5 t)
  then have "int (burst (t # rev (map snd (q_started s)))) \<le> q_rateLimitCount s + 1"
    using burst_Cons [of t "rev (map snd (q_started s))"] by (simp add: rated_def)
  then show ?case using 5 rated_dispatch [of s "q_rateLimitCount s" t] by (simp add: rated_def)
next
  case (6 t item r)
  then show ?case by (cases r) (simp_all add: rated_def settleRequest_def Let_def)
qed (auto simp: rated_def enqueue_def processQueue_def finishRequest_def clearQueue_def Let_def)

lemma reached_rated:
  assumes "reached allowed s"
  shows "rated s"
proof -
  have "rated newQueue" by (simp add: rated_def newQueue_def maxRequestsPerMinute_def)
  then show ?thesis by (rule reached_invariant [OF assms]) (rule rated_step [OF _ reached_spaced])
qed

lemma interval_le: "a + minRequestInterval \<le> b \<Longrightarrow> a \<le> b"
  by (simp add: minRequestInterval_def)

lemma spaced_sorted: "spaced s \<Longrightarrow> sorted_wrt (\<ge>) (rev (map snd (q_started s)))"
proof -
  assume "spaced s"
  then have "successively (\<lambda>a b. a + minRequestInterval \<le> b) (map snd (q_started s))" by (simp only: spaced_def)
  then have "successively (\<le>) (map snd (q_started s))" by (rule successively_mono) (rule interval_le)
  then have "sorted_wrt (\<le>) (map snd (q_started s))" by (simp add: successively_conv_sorted_wrt)
  then show ?thesis by (simp add: sorted_wrt_rev)
qed

text \<open>
  C20. The limit per minute holds: whatever is enqueued, cleared or answered, any two requests with
  thirty starts from the one to the other are more than a minute apart, so no minute sees more than
  thirty.
\<close>

theorem requests_per_minute:
  assumes "reached allowed s" and "n + 30 < length (q_started s)"
  shows "snd (q_started s ! n) + 60000 < snd (q_started s ! (n + 30))"
proof -
  let ?m = "length (q_started s) - (n + 31)"
  let ?ts = "drop ?m (rev (map snd (q_started s)))"
  have "burst ?ts \<le> 30" using reached_rated [OF assms(1)] by (simp add: rated_def maxRequestsPerMinute_def)
  moreover have "30 < length ?ts" using assms(2) by simp
  moreover have "sorted_wrt (\<ge>) ?ts" using spaced_sorted [OF reached_spaced [OF assms(1)]] by (rule sorted_wrt_drop)
  ultimately have "?ts ! 30 + 60000 < hd ?ts" by (rule burst_window)
  then show ?thesis using assms(2) by (simp add: hd_drop_conv_nth rev_nth add.commute)
qed

section \<open>The queue never gets stuck\<close>

definition ids :: "request list \<Rightarrow> string set" where
  "ids rs = r_id ` set rs"

lemma ids_simps [simp]: "ids [] = {}" "ids (r # rs) = insert (r_id r) (ids rs)" "ids (rs @ rs') = ids rs \<union> ids rs'"
  by (auto simp: ids_def)

lemma ids_remove1: "item \<in> set rs \<Longrightarrow> ids rs = insert (r_id item) (ids (remove1 item rs))"
  by (induction rs) auto

definition awake :: "queueState \<Rightarrow> bool" where
  "awake s \<longleftrightarrow> (q_isProcessing s \<longleftrightarrow> q_pc s \<noteq> Idle) \<and> q_activeRequests s \<subseteq> ids (q_inflight s) \<union> ids (q_finishing s)
     \<and> (q_isProcessing s \<or> q_queue s = [] \<or> 0 < q_timers s \<or> q_inflight s \<noteq> [] \<or> q_finishing s \<noteq> [])"

lemma awake_dispatch: "awake s \<Longrightarrow> q_pc s \<noteq> Idle \<Longrightarrow> awake (dispatch t s)"
  by (cases rule: dispatch_cases [of s t]) (auto simp: awake_def)

lemma awake_iterate:
  assumes "awake s" and "q_pc s = Head"
  shows "awake (loopIteration t t' s)"
proof (cases rule: iterate_cases [of s t t'])
  case leave
  then have "q_queue s = [] \<or> q_activeRequests s \<noteq> {}" by (auto simp: maxConcurrentRequests_def)
  then show ?thesis using leave assms by (auto simp: awake_def)
next
  case (go c)
  have "awake (s\<lparr>q_rateLimitCount := c\<rparr>)" using assms by (simp add: awake_def)
  then show ?thesis using go assms by (simp add: awake_dispatch)
qed (use assms in \<open>auto simp: awake_def\<close>)

lemma awake_step: "awake s \<Longrightarrow> queue_step s a s' \<Longrightarrow> awake s'"
proof (erule queue_stepE, goal_cases)
  case (1 t p)
  then show ?case by (auto simp: awake_def enqueue_def processQueue_def Let_def)
next
  case (2 t t')
  then show ?case by (simp add: awake_iterate)
next
  case (3 t)
  then show ?case by (auto simp: awake_def processQueue_def)
next
  case (4 t)
  then show ?case by (auto simp: awake_def)
next
  case (5 t)
  then show ?case by (simp add: awake_dispatch)
next
  case (6 t item r)
  then show ?case using ids_remove1 [of item "q_inflight s"] by (auto simp: awake_def)
next
  case (7 item)
  then show ?case using ids_remove1 [of item "q_finishing s"] by (auto simp: awake_def finishRequest_def)
next
  case 8
  then show ?case by (auto simp: awake_def clearQueue_def)
qed

lemma reached_awake:
  assumes "reached allowed s"
  shows "awake s"
proof -
  have "awake newQueue" by (simp add: awake_def newQueue_def)
  then show ?thesis using awake_step by (rule reached_invariant [OF assms])
qed

text \<open>
  C21. The queue never gets stuck: in every reachable state with a waiting request the class itself, one
  of its timers or the answer to a running request can make the next step.
\<close>

theorem queue_not_stuck:
  assumes "reached allowed s" and "q_queue s \<noteq> []"
  shows "\<exists>a s'. queue_step s a s' \<and> (case a of Enqueue _ \<Rightarrow> False | Clear \<Rightarrow> False | _ \<Rightarrow> True)"
proof (cases "q_pc s = Head")
  case True
  have "clock s (q_now s)" by (simp add: clock_def)
  with True have "queue_step s Iterate (loopIteration (q_now s) (q_now s) s)" by (intro iterate) simp_all
  then show ?thesis by force
next
  case False
  have aw: "awake s" using assms(1) by (rule reached_awake)
  show ?thesis
  proof (cases "q_finishing s")
    case (Cons item rest)
    with False have "queue_step s (Finish item) (finishRequest item s)" by (intro finish) simp_all
    then show ?thesis by force
  next
    case Nil
    note fin = Nil
    show ?thesis
    proof (cases "q_inflight s")
      case (Cons item rest)
      with False have "queue_step s (Settle item ReplyOk) (settleRequest item ReplyOk (q_now s) s)"
        by (intro settle) (simp_all add: clock_def)
      then show ?thesis by force
    next
      case Nil
      let ?t = "max (q_now s) (q_wake s)"
      consider "q_pc s = SleepReset" | "q_pc s = SleepInterval" | "0 < q_timers s"
        using aw assms(2) fin Nil False by (cases "q_pc s") (auto simp: awake_def)
      then show ?thesis
      proof cases
        case 1
        then have "queue_step s Wake (s\<lparr>q_now := ?t, q_pc := Head\<rparr>)" using fin by (intro wake_reset) simp_all
        then show ?thesis by force
      next
        case 2
        then have "queue_step s Wake (dispatch ?t s)" using fin by (intro wake_interval) simp_all
        then show ?thesis by force
      next
        case 3
        then have "queue_step s Timer (processQueue (s\<lparr>q_timers := q_timers s - 1, q_now := q_now s\<rparr>))"
          using fin False by (intro timer) simp_all
        then show ?thesis by force
      qed
    qed
  qed
qed

section \<open>No request is lost or answered twice\<close>

definition idmset :: "request list \<Rightarrow> string multiset" where
  "idmset rs = image_mset r_id (mset rs)"

lemma idmset_simps [simp]:
  "idmset [] = {#}" "idmset (r # rs) = add_mset (r_id r) (idmset rs)" "idmset (rs @ rs') = idmset rs + idmset rs'"
  by (simp_all add: idmset_def)

lemma idmset_remove1: "item \<in> set rs \<Longrightarrow> idmset rs = add_mset (r_id item) (idmset (remove1 item rs))"
  by (induction rs) (auto simp: add_mset_commute)

lemma set_idmset [simp]: "set_mset (idmset rs) = ids rs"
  by (simp add: idmset_def ids_def)

lemma requestIdString_iff [simp]: "requestIdString m t = requestIdString n u \<longleftrightarrow> m = n \<and> t = u"
  using dash_split [of "show_nat m" "show_int t" "show_nat n" "show_int u"] by (auto simp: requestIdString_def)

text \<open>Every id handed out waits, runs, or was answered, exactly once.\<close>

definition conserved :: "queueState \<Rightarrow> bool" where
  "conserved s \<longleftrightarrow> distinct (q_issued s)
     \<and> (\<forall>i \<in> set (q_issued s). \<exists>n t. i = requestIdString n t \<and> n \<le> q_requestId s)
     \<and> mset (q_issued s) = idmset (q_queue s) + idmset (q_inflight s) + mset (map fst (q_settled s))"

lemma conserved_dispatch: "conserved s \<Longrightarrow> conserved (dispatch t s)"
  by (cases rule: dispatch_cases [of s t]) (auto simp: conserved_def idmset_def)

lemma conserved_step: "conserved s \<Longrightarrow> a \<noteq> Clear \<Longrightarrow> queue_step s a s' \<Longrightarrow> conserved s'"
proof (erule queue_stepE, goal_cases)
  case (1 t p)
  have "requestIdString (Suc (q_requestId s)) t \<notin> set (q_issued s)"
    using 1 by (auto simp: conserved_def)
  then show ?case using 1 by (fastforce simp: conserved_def enqueue_def Let_def)
next
  case (2 t t')
  then show ?case
  proof (cases rule: iterate_cases [of s t t'])
    case (go c)
    have "conserved (s\<lparr>q_rateLimitCount := c\<rparr>)" using 2 by (simp add: conserved_def)
    then show ?thesis using go 2 by (simp add: conserved_dispatch)
  qed (use 2 in \<open>auto simp: conserved_def\<close>)
next
  case (5 t)
  then show ?case by (simp add: conserved_dispatch)
next
  case (6 t item r)
  then show ?case using idmset_remove1 [of item "q_inflight s"]
    by (cases r) (simp_all add: conserved_def settleRequest_def Let_def)
qed (simp_all add: conserved_def finishRequest_def)

lemma reached_conserved:
  assumes "reached (\<lambda>a. a \<noteq> Clear) s"
  shows "conserved s"
proof -
  have "conserved newQueue" by (simp add: conserved_def newQueue_def)
  then show ?thesis using conserved_step by (rule reached_invariant [OF assms])
qed

text \<open>
  C19. No request is lost and none is answered twice: as long as the queue is not cleared, the ids handed
  out are pairwise different, and each of them is waiting, running or answered, in exactly one of these
  ways and exactly once, including requests that were put back because of a rate limit.
\<close>

theorem requests_conserved:
  assumes "reached (\<lambda>a. a \<noteq> Clear) s"
  shows "distinct (q_issued s)
     \<and> mset (q_issued s) = mset (map r_id (q_queue s)) + mset (map r_id (q_inflight s)) + mset (map fst (q_settled s))"
  using reached_conserved [OF assms] by (simp add: conserved_def idmset_def)

section \<open>The limit on concurrent requests\<close>

text \<open>Until the queue is cleared, \<open>activeRequests\<close> is the set of the running requests.\<close>

definition tracked :: "queueState \<Rightarrow> bool" where
  "tracked s \<longleftrightarrow> q_activeRequests s = ids (q_inflight s) \<union> ids (q_finishing s)
     \<and> distinct (map r_id (q_inflight s @ q_finishing s))
     \<and> ids (q_finishing s) \<subseteq> set (q_issued s)
     \<and> (ids (q_finishing s) \<inter> ids (q_queue s) \<noteq> {} \<longrightarrow> q_now s < q_rateLimitResetTime s)
     \<and> card (ids (q_inflight s) \<union> ids (q_finishing s)) \<le> maxConcurrentRequests
     \<and> (q_pc s = SleepInterval \<longrightarrow> card (ids (q_inflight s) \<union> ids (q_finishing s)) < maxConcurrentRequests)"

lemma conserved_disjoint:
  assumes "conserved s"
  shows "ids (q_queue s) \<inter> ids (q_inflight s) = {}" "distinct (map r_id (q_queue s))"
    "ids (q_queue s) \<subseteq> set (q_issued s)" "ids (q_inflight s) \<subseteq> set (q_issued s)"
proof -
  have c: "distinct (q_issued s)" "mset (q_issued s) = idmset (q_queue s) + idmset (q_inflight s) + mset (map fst (q_settled s))"
    using assms by (simp_all add: conserved_def)
  then have m: "mset (q_issued s) = mset (map r_id (q_queue s) @ map r_id (q_inflight s) @ map fst (q_settled s))"
    by (simp add: idmset_def)
  then have "distinct (map r_id (q_queue s) @ map r_id (q_inflight s) @ map fst (q_settled s))"
    using c(1) mset_eq_imp_distinct_iff by blast
  then show "ids (q_queue s) \<inter> ids (q_inflight s) = {}" "distinct (map r_id (q_queue s))"
    by (auto simp: ids_def)
  show "ids (q_queue s) \<subseteq> set (q_issued s)" "ids (q_inflight s) \<subseteq> set (q_issued s)"
    using mset_eq_setD [OF m] by (auto simp: ids_def)
qed

lemma tracked_dispatch:
  assumes "tracked s" "conserved s" and "card (q_activeRequests s) < maxConcurrentRequests"
    and "ids (q_finishing s) \<inter> ids (q_queue s) = {}"
  shows "tracked (dispatch t s)"
proof (cases rule: dispatch_cases [of s t])
  case nothing
  then show ?thesis using assms by (simp add: tracked_def)
next
  case (start item rest)
  have q: "ids (q_queue s) = insert (r_id item) (ids rest)"
    using start(2) by (metis ids_def image_insert set_mset_add_mset_insert set_mset_mset)
  have "r_id item \<notin> ids (q_inflight s)" "r_id item \<notin> ids (q_finishing s)"
    using conserved_disjoint(1) [OF assms(2)] assms(4) q by auto
  moreover have "card (insert (r_id item) (q_activeRequests s)) \<le> maxConcurrentRequests"
    using assms(3) card_insert_le_m1 [of maxConcurrentRequests "q_activeRequests s" "r_id item"]
    by (simp add: maxConcurrentRequests_def)
  ultimately show ?thesis using assms start q by (auto simp: tracked_def ids_def)
qed

lemma rateLimitCount_irrelevant:
  "tracked (s\<lparr>q_rateLimitCount := c\<rparr>) \<longleftrightarrow> tracked s" "conserved (s\<lparr>q_rateLimitCount := c\<rparr>) \<longleftrightarrow> conserved s"
  unfolding tracked_def conserved_def by simp_all

lemma tracked_iterate:
  assumes "tracked s" "conserved s" "q_pc s = Head" "clock s t"
  shows "tracked (loopIteration t t' s)"
proof (cases rule: iterate_cases [of s t t'])
  case (go c)
  have "ids (q_finishing s) \<inter> ids (q_queue s) = {}"
    using assms go(1) by (cases "q_finishing s") (auto simp: tracked_def clock_def)
  moreover have "tracked (s\<lparr>q_rateLimitCount := c\<rparr>)" "conserved (s\<lparr>q_rateLimitCount := c\<rparr>)"
    using assms(1, 2) by (simp_all only: rateLimitCount_irrelevant)
  ultimately show ?thesis using go by (simp add: tracked_dispatch)
qed (use assms in \<open>auto simp: tracked_def clock_def\<close>)

lemma distinct_move:
  assumes "item \<in> set xs" and "distinct (map r_id (xs @ ys))"
  shows "distinct (map r_id (remove1 item xs @ item # ys))" and "ids (remove1 item xs) \<union> ids (item # ys) = ids xs \<union> ids ys"
proof -
  have "mset (remove1 item xs @ item # ys) = mset (xs @ ys)" using assms(1) by simp
  then have m: "mset (map r_id (remove1 item xs @ item # ys)) = mset (map r_id (xs @ ys))" by (metis mset_map)
  then show "distinct (map r_id (remove1 item xs @ item # ys))" using assms(2) mset_eq_imp_distinct_iff by blast
  show "ids (remove1 item xs) \<union> ids (item # ys) = ids xs \<union> ids ys"
    using mset_eq_setD [OF m] by (simp add: ids_def image_Un)
qed

lemma distinct_drop:
  assumes "item \<in> set ys" and "distinct (map r_id (xs @ ys))"
  shows "distinct (map r_id (xs @ remove1 item ys))" and "ids xs \<union> ids (remove1 item ys) = (ids xs \<union> ids ys) - {r_id item}"
proof -
  have m: "mset (map r_id (xs @ ys)) = mset (r_id item # map r_id (xs @ remove1 item ys))"
    using idmset_remove1 [OF assms(1)] by (simp add: idmset_def)
  then have d: "distinct (r_id item # map r_id (xs @ remove1 item ys))" using assms(2) mset_eq_imp_distinct_iff by blast
  then show "distinct (map r_id (xs @ remove1 item ys))" by simp
  show "ids xs \<union> ids (remove1 item ys) = (ids xs \<union> ids ys) - {r_id item}"
    using mset_eq_setD [OF m] d by (auto simp: ids_def)
qed

lemma tracked_settle:
  assumes "tracked s" "conserved s" "clock s t" "item \<in> set (q_inflight s)"
  shows "tracked (settleRequest item r t s)"
proof -
  note mv = distinct_move [OF assms(4), of "q_finishing s"]
  have d: "distinct (map r_id (q_inflight s @ q_finishing s))" using assms(1) by (simp only: tracked_def)
  have i: "r_id item \<in> ids (q_inflight s)" using assms(4) by (simp add: ids_def)
  then have ii: "r_id item \<in> set (q_issued s)" "r_id item \<notin> ids (q_queue s)"
    using conserved_disjoint [OF assms(2)] by auto
  have late: "t < q_rateLimitResetTime s" if "ids (q_finishing s) \<inter> ids (q_queue s) \<noteq> {}"
    using that assms(1, 3) by (cases "q_finishing s") (auto simp: tracked_def clock_def)
  show ?thesis
  proof (cases r)
    case ReplyRateLimited
    then show ?thesis using assms(1) mv [OF d] ii
      by (simp add: tracked_def settleRequest_def Let_def)
  qed (use assms(1) mv [OF d] ii late in \<open>auto simp: tracked_def settleRequest_def Let_def\<close>)
qed

lemma tracked_finish:
  assumes "tracked s" "item \<in> set (q_finishing s)"
  shows "tracked (finishRequest item s)"
proof -
  have d: "distinct (map r_id (q_inflight s @ q_finishing s))" using assms(1) by (simp only: tracked_def)
  note dr = distinct_drop [OF assms(2) d]
  have sub: "ids (remove1 item (q_finishing s)) \<subseteq> ids (q_finishing s)" 
    using set_remove1_subset [of item "q_finishing s"] by (auto simp: ids_def)
  have "card (q_activeRequests s - {r_id item}) \<le> card (q_activeRequests s)" by (rule card_Diff1_le)
  then show ?thesis using assms(1) dr sub by (auto simp: tracked_def finishRequest_def simp del: map_append)
qed

lemma tracked_step:
  assumes "tracked s" "conserved s" "a \<noteq> Clear" "queue_step s a s'"
  shows "tracked s'"
  using assms(4)
proof (cases rule: queue_step.cases)
  case (enqueue t p)
  have "requestIdString (Suc (q_requestId s)) t \<notin> set (q_issued s)"
    using assms(2) by (auto simp: conserved_def)
  moreover have "t = q_now s \<or> q_finishing s = []" using enqueue by (auto simp: clock_def)
  moreover have "ids (q_queue s') = insert (requestIdString (Suc (q_requestId s)) t) (ids (q_queue s))" "q_now s' = t"
    "set (q_issued s') = insert (requestIdString (Suc (q_requestId s)) t) (set (q_issued s))"
    using enqueue by (auto simp: enqueue_def ids_def Let_def)
  moreover have "q_inflight s' = q_inflight s" "q_finishing s' = q_finishing s" "q_activeRequests s' = q_activeRequests s"
    "q_rateLimitResetTime s' = q_rateLimitResetTime s" "q_pc s' = SleepInterval \<Longrightarrow> q_pc s = SleepInterval"
    using enqueue by (simp_all add: enqueue_def Let_def)
  ultimately show ?thesis using assms(1) unfolding tracked_def by auto
next
  case (iterate t t')
  then show ?thesis using assms by (simp add: tracked_iterate)
next
  case (wake_interval t)
  have "card (q_activeRequests s) < maxConcurrentRequests" using assms(1) wake_interval by (simp add: tracked_def)
  moreover have "ids (q_finishing s) \<inter> ids (q_queue s) = {}" using wake_interval by (simp add: ids_def)
  ultimately show ?thesis using assms wake_interval tracked_dispatch by blast
next
  case (settle t item r)
  then show ?thesis using assms by (simp add: tracked_settle)
next
  case (finish item)
  then show ?thesis using assms by (simp add: tracked_finish)
qed (use assms in \<open>auto simp: tracked_def\<close>)

lemma reached_tracked:
  assumes "reached (\<lambda>a. a \<noteq> Clear) s"
  shows "tracked s"
proof -
  have "tracked newQueue" by (simp add: tracked_def newQueue_def)
  then show ?thesis by (rule reached_invariant [OF assms]) (simp add: tracked_step reached_conserved)
qed

text \<open>
  C18. Never more than three requests at once: as long as the queue is not cleared, in every reachable
  state the requests that run or are being finished are at most \<open>maxConcurrentRequests\<close>, and they are
  exactly the members of \<open>activeRequests\<close>.
\<close>

theorem at_most_three_requests:
  assumes "reached (\<lambda>a. a \<noteq> Clear) s"
  shows "length (q_inflight s) + length (q_finishing s) \<le> maxConcurrentRequests
     \<and> q_activeRequests s = set (map r_id (q_inflight s @ q_finishing s))"
proof -
  have t: "tracked s" using assms by (rule reached_tracked)
  then have "card (set (map r_id (q_inflight s @ q_finishing s))) = length (q_inflight s) + length (q_finishing s)"
    using distinct_card [of "map r_id (q_inflight s @ q_finishing s)"] by (simp add: tracked_def)
  then show ?thesis using t by (simp add: tracked_def ids_def image_Un)
qed

section \<open>Concrete runs\<close>

text \<open>A step with its readings of the clock, executable.\<close>

definition perform :: "action \<times> int \<times> int \<Rightarrow> queueState \<Rightarrow> queueState option" where
  "perform e s =
     (case e of (a, t, t') \<Rightarrow>
        (let ok = q_pc s \<noteq> Head; tick = clock s t; quiet = (q_finishing s = [] \<and> q_now s \<le> t) in
         case a of
           Enqueue p \<Rightarrow> if ok \<and> tick then Some (enqueue p t s) else None
         | Iterate \<Rightarrow> if \<not> ok \<and> tick \<and> clock s t' \<and> t \<le> t' then Some (loopIteration t t' s) else None
         | Timer \<Rightarrow> if ok \<and> quiet \<and> 0 < q_timers s then Some (processQueue (s\<lparr>q_timers := q_timers s - 1, q_now := t\<rparr>)) else None
         | Wake \<Rightarrow>
             if \<not> (quiet \<and> q_wake s \<le> t) then None
             else if q_pc s = SleepReset then Some (s\<lparr>q_now := t, q_pc := Head\<rparr>)
             else if q_pc s = SleepInterval then Some (dispatch t s) else None
         | Settle item r \<Rightarrow> if ok \<and> tick \<and> item \<in> set (q_inflight s) then Some (settleRequest item r t s) else None
         | Finish item \<Rightarrow> if ok \<and> item \<in> set (q_finishing s) then Some (finishRequest item s) else None
         | Clear \<Rightarrow> if ok then Some (clearQueue s) else None))"

primrec queueRun :: "(action \<times> int \<times> int) list \<Rightarrow> queueState \<Rightarrow> queueState option" where
  "queueRun [] s = Some s"
| "queueRun (e # es) s = (case perform e s of None \<Rightarrow> None | Some s' \<Rightarrow> queueRun es s')"

lemma perform_step: "perform (a, t, t') s = Some s' \<Longrightarrow> queue_step s a s'"
  unfolding perform_def Let_def
  by (auto split: action.splits if_splits
        intro: queue_step.enqueue queue_step.iterate queue_step.timer [simplified] queue_step.wake_reset
          queue_step.wake_interval queue_step.settle queue_step.finish queue_step.clear)

lemma run_reached: "queueRun es s = Some s' \<Longrightarrow> reached allowed s \<Longrightarrow> \<forall>e \<in> set es. allowed (fst e) \<Longrightarrow> reached allowed s'"
proof (induction es arbitrary: s)
  case (Cons e es)
  obtain s1 where s1: "perform e s = Some s1" "queueRun es s1 = Some s'" using Cons.prems(1) by (auto split: option.splits)
  then have "queue_step s (fst e) s1" by (intro perform_step [of "fst e" "fst (snd e)" "snd (snd e)"]) simp
  moreover have "allowed (fst e)" using Cons.prems(3) by simp
  ultimately have "reached allowed s1" using Cons.prems(2) by (blast intro: reached.step)
  then show ?case using s1(2) Cons.prems(3) by (intro Cons.IH) simp_all
qed simp

text \<open>
  Two requests of different priority, the first answered by a rate limit: it goes back to the queue and
  the second starts one interval after it.
\<close>

lemmas queue_eval = newQueue_def perform_def clock_def enqueue_def processQueue_def loopIteration_def dispatch_def
  settleRequest_def finishRequest_def clearQueue_def maxConcurrentRequests_def minRequestInterval_def
  maxRequestsPerMinute_def Let_def

definition twoRequests :: "(action \<times> int \<times> int) list" where
  "twoRequests =
     (let first = \<lparr>r_id = requestIdString 1 1000, r_priority = 0\<rparr> in
     [(Enqueue 0, 1000, 0), (Iterate, 1000, 1000), (Iterate, 1000, 1000), (Enqueue 5, 1010, 0), (Iterate, 1010, 1010),
      (Settle first ReplyRateLimited, 1020, 0), (Finish first, 1020, 0), (Wake, 1100, 0), (Iterate, 1100, 1100)])"

definition afterTwo :: queueState where "afterTwo = the (queueRun twoRequests newQueue)"

lemma run_two:
  "queueRun twoRequests newQueue = Some afterTwo"
  "q_started afterTwo = [(requestIdString 1 1000, 1000), (requestIdString 2 1010, 1100)]"
  "q_queue afterTwo = [\<lparr>r_id = requestIdString 1 1000, r_priority = 1\<rparr>]" "q_rateLimitResetTime afterTwo = 61020"
  "q_inflight afterTwo = [\<lparr>r_id = requestIdString 2 1010, r_priority = 5\<rparr>]" "q_finishing afterTwo = []"
  "q_issued afterTwo = [requestIdString 1 1000, requestIdString 2 1010]" "q_pc afterTwo = SleepReset"
  by (simp_all add: afterTwo_def twoRequests_def queue_eval)

lemma reached_two: "reached (\<lambda>a. a \<noteq> Clear) afterTwo"
  by (rule run_reached [OF run_two(1) reached.start]) (simp add: twoRequests_def Let_def)

theorem requests_spaced_witness:
  "reached (\<lambda>a. a \<noteq> Clear) afterTwo \<and> map snd (q_started afterTwo) = [1000, 1100]
     \<and> successively (\<lambda>a b. a + minRequestInterval \<le> b) (map snd (q_started afterTwo))"
  using requests_spaced [OF reached_two] by (simp add: reached_two run_two)

text \<open>Thirty-one requests, each answered at once, the last one after the back-off.\<close>

definition answered :: "nat \<Rightarrow> int \<Rightarrow> (action \<times> int \<times> int) list" where
  "answered n t =
     (let item = \<lparr>r_id = requestIdString n t, r_priority = 0\<rparr> in
      [(Enqueue 0, t, 0), (Iterate, t, t), (Iterate, t, t), (Settle item ReplyOk, t, 0), (Finish item, t, 0)])"

primrec burstRun :: "nat \<Rightarrow> (action \<times> int \<times> int) list" where
  "burstRun 0 = []"
| "burstRun (Suc n) = burstRun n @ answered (Suc n) (100 * int (Suc n))"

definition burstState :: "nat \<Rightarrow> queueState" where
  "burstState n =
     newQueue\<lparr>q_requestId := n, q_lastRequestTime := 100 * int n, q_rateLimitCount := int n, q_now := 100 * int n, q_timers := n,
       q_settled := map (\<lambda>k. (requestIdString k (100 * int k), Resolved)) [1..<Suc n],
       q_started := map (\<lambda>k. (requestIdString k (100 * int k), 100 * int k)) [1..<Suc n],
       q_issued := map (\<lambda>k. requestIdString k (100 * int k)) [1..<Suc n]\<rparr>"

lemma queueRun_append: "queueRun (xs @ ys) s = (case queueRun xs s of None \<Rightarrow> None | Some s' \<Rightarrow> queueRun ys s')"
  by (induction xs arbitrary: s) (auto split: option.splits)

lemma run_answered: "n < 30 \<Longrightarrow> queueRun (answered (Suc n) (100 * int (Suc n))) (burstState n) = Some (burstState (Suc n))"
  by (simp add: answered_def burstState_def queue_eval)

lemma run_burst: "n \<le> 30 \<Longrightarrow> queueRun (burstRun n) newQueue = Some (burstState n)"
proof (induction n)
  case 0
  show ?case by (simp add: burstState_def newQueue_def)
next
  case (Suc n)
  then show ?case using run_answered [of n] by (simp add: queueRun_append)
qed

definition minuteRun :: "(action \<times> int \<times> int) list" where
  "minuteRun = burstRun 30 @ [(Enqueue 0, 3100, 0), (Iterate, 3100, 3100), (Iterate, 3100, 3100), (Wake, 63100, 0),
     (Iterate, 63100, 63100)]"

definition afterMinute :: queueState where "afterMinute = the (queueRun minuteRun newQueue)"

lemma run_minute:
  "queueRun minuteRun newQueue = Some afterMinute" "length (q_started afterMinute) = 31"
  "snd (q_started afterMinute ! 0) = 100" "snd (q_started afterMinute ! 30) = 63100"
proof -
  have r: "queueRun minuteRun newQueue = queueRun (drop (length (burstRun 30)) minuteRun) (burstState 30)"
    by (simp add: minuteRun_def queueRun_append run_burst)
  show "queueRun minuteRun newQueue = Some afterMinute" "length (q_started afterMinute) = 31"
    "snd (q_started afterMinute ! 0) = 100" "snd (q_started afterMinute ! 30) = 63100"
    unfolding afterMinute_def r
    by (simp_all add: minuteRun_def burstState_def queue_eval nth_append del: burstRun.simps upt_Suc)
qed

lemma burstRun_no_clear: "e \<in> set (burstRun n) \<Longrightarrow> fst e \<noteq> Clear"
  by (induction n) (auto simp: answered_def Let_def)

theorem requests_per_minute_witness:
  "reached (\<lambda>a. a \<noteq> Clear) afterMinute \<and> 0 + 30 < length (q_started afterMinute)
     \<and> snd (q_started afterMinute ! 0) + 60000 < snd (q_started afterMinute ! (0 + 30))"
proof -
  have "reached (\<lambda>a. a \<noteq> Clear) afterMinute"
    by (rule run_reached [OF run_minute(1) reached.start]) (auto simp: minuteRun_def dest: burstRun_no_clear)
  then show ?thesis using requests_per_minute [of "\<lambda>a. a \<noteq> Clear" afterMinute 0] by (simp add: run_minute)
qed

theorem queue_not_stuck_witness:
  "reached (\<lambda>a. a \<noteq> Clear) afterTwo \<and> q_queue afterTwo \<noteq> []
     \<and> (\<exists>a s'. queue_step afterTwo a s' \<and> (case a of Enqueue _ \<Rightarrow> False | Clear \<Rightarrow> False | _ \<Rightarrow> True))"
  using queue_not_stuck [OF reached_two] by (simp add: reached_two run_two)

theorem requests_conserved_witness:
  "reached (\<lambda>a. a \<noteq> Clear) afterTwo \<and> q_issued afterTwo = [requestIdString 1 1000, requestIdString 2 1010]
     \<and> distinct (q_issued afterTwo)
     \<and> mset (q_issued afterTwo) = mset (map r_id (q_queue afterTwo)) + mset (map r_id (q_inflight afterTwo))
         + mset (map fst (q_settled afterTwo))"
  using requests_conserved [OF reached_two] by (simp add: reached_two run_two)

theorem at_most_three_requests_witness:
  "reached (\<lambda>a. a \<noteq> Clear) afterTwo \<and> length (q_inflight afterTwo) + length (q_finishing afterTwo) = 1
     \<and> length (q_inflight afterTwo) + length (q_finishing afterTwo) \<le> maxConcurrentRequests
     \<and> q_activeRequests afterTwo = set (map r_id (q_inflight afterTwo @ q_finishing afterTwo))"
  using at_most_three_requests [OF reached_two] by (simp add: reached_two run_two)

section \<open>Where the queue does not do what it means to\<close>

text \<open>
  A request starts in the middle of the back-off: the loop was asleep for the minimal interval when the
  rate limit was detected, and it does not look at \<open>rateLimitResetTime\<close> again before it starts the next
  request. Here the limit is detected at 1020, the back-off ends at 61020 and a request starts at 1100.
\<close>

theorem backoff_not_respected:
  "\<exists>s. reached (\<lambda>a. a \<noteq> Clear) s \<and> (\<exists>i t. last (q_started s) = (i, t) \<and> 1020 < t \<and> t < q_rateLimitResetTime s)
     \<and> q_rateLimitResetTime s = 1020 + 60000"
  by (rule exI [of _ afterTwo]) (simp add: reached_two run_two)

text \<open>
  After \<open>clearQueue\<close> a fourth request runs beside the first three: the calls that run are not ended, and
  the set that counts them is emptied.
\<close>

definition clearedRun :: "(action \<times> int \<times> int) list" where
  "clearedRun =
     [(Enqueue 0, 1000, 0), (Iterate, 1000, 1000), (Iterate, 1000, 1000),
      (Enqueue 0, 1100, 0), (Iterate, 1100, 1100), (Iterate, 1100, 1100),
      (Enqueue 0, 1200, 0), (Iterate, 1200, 1200), (Iterate, 1200, 1200), (Clear, 0, 0),
      (Enqueue 0, 1300, 0), (Iterate, 1300, 1300)]"

theorem cleared_queue_exceeds_limit:
  "\<exists>s. queueRun clearedRun newQueue = Some s \<and> reached (\<lambda>a. True) s \<and> maxConcurrentRequests < length (q_inflight s)"
proof -
  let ?s = "the (queueRun clearedRun newQueue)"
  have "queueRun clearedRun newQueue = Some ?s" "maxConcurrentRequests < length (q_inflight ?s)"
    by (simp_all add: clearedRun_def queue_eval)
  then show ?thesis using run_reached [OF _ reached.start, of clearedRun] by fastforce
qed

text \<open>
  A cleared request is never answered: its id was handed out and it neither waits nor runs nor was its
  promise settled.
\<close>

definition droppedRun :: "(action \<times> int \<times> int) list" where
  "droppedRun =
     [(Enqueue 0, 1000, 0), (Iterate, 1000, 1000), (Iterate, 1000, 1000), (Enqueue 0, 1010, 0), (Iterate, 1010, 1010),
      (Clear, 0, 0)]"

theorem cleared_request_unanswered:
  "\<exists>s i. queueRun droppedRun newQueue = Some s \<and> i \<in> set (q_issued s) \<and> i \<notin> set (map r_id (q_queue s))
     \<and> i \<notin> set (map r_id (q_inflight s)) \<and> i \<notin> set (map fst (q_settled s))"
proof (intro exI conjI)
  let ?i = "requestIdString 2 1010"
  let ?s = "the (queueRun droppedRun newQueue)"
  show "queueRun droppedRun newQueue = Some ?s" "?i \<in> set (q_issued ?s)" "?i \<notin> set (map r_id (q_queue ?s))"
    "?i \<notin> set (map r_id (q_inflight ?s))" "?i \<notin> set (map fst (q_settled ?s))"
    by (simp_all add: droppedRun_def queue_eval)
qed

end
