(* ===== verification/Ipfs.thy ===== *)
theory Ipfs
  imports Ipfs_Queue "HOL-Library.Word"
begin

unbundle bit_operations_syntax

text \<open>
  The IPFS library of the web client, \<open>packages/frontend/src/lib/ipfs.ts\<close>, and how its errors reach the
  request queue of \<open>useIPFS.ts\<close>.

  \<^item> The environment variables the module reads are the record \<open>ipfsEnv\<close>; its constants are functions of
    it.
  \<^item> A JSON value is a \<open>json\<close>; a number is kept as the text \<open>String(n)\<close> gives. \<open>JSON.parse\<close> and the network
    are arguments: \<open>parse\<close> returns a value or the message of the syntax error, \<open>get\<close> and \<open>post\<close> a response
    or the message the call is rejected with (an abort after ten seconds included).
  \<^item> A thrown error is \<open>Inl\<close>. \<open>getFromIPFS\<close> also returns the urls it fetched.

  The lemmas show that urls and hashes translate back and forth, that no malformed id reaches the gateway,
  which line of a Kubo answer counts, where an upload goes, that the mock hash is a polynomial hash, and
  that a rate limit met by a download never reaches the queue as one.
\<close>

section \<open>Configuration\<close>

record ipfsEnv =
  e_NODE_ENV :: "string option"
  e_IPFS_MODE :: "string option"
  e_IPFS_PUBLIC_GATEWAY :: "string option"
  e_IPFS_GATEWAY :: "string option"
  e_IPFS_PRIVATE_GATEWAY :: "string option"
  e_IPFS_LOCAL_GATEWAY :: "string option"
  e_IPFS_API :: "string option"
  e_PINATA_API_KEY :: "string option"
  e_PINATA_SECRET_KEY :: "string option"

definition DEV :: "ipfsEnv \<Rightarrow> bool" where
  "DEV e \<longleftrightarrow> e_NODE_ENV e \<noteq> Some ''production''"

definition IPFS_MODE :: "ipfsEnv \<Rightarrow> string" where
  "IPFS_MODE e = or_empty (js_or (e_IPFS_MODE e) (Some (if DEV e then ''local'' else ''pinata'')))"

definition USE_LOCAL :: "ipfsEnv \<Rightarrow> bool" where
  "USE_LOCAL e \<longleftrightarrow> IPFS_MODE e = ''local''"

definition IPFS_PUBLIC_GATEWAY :: "ipfsEnv \<Rightarrow> string" where
  "IPFS_PUBLIC_GATEWAY e =
     or_empty (js_or (js_or (e_IPFS_PUBLIC_GATEWAY e) (e_IPFS_GATEWAY e)) (Some ''https://gateway.pinata.cloud/ipfs/''))"

definition IPFS_PRIVATE_GATEWAY :: "ipfsEnv \<Rightarrow> string" where
  "IPFS_PRIVATE_GATEWAY e =
     or_empty (js_or (js_or (e_IPFS_PRIVATE_GATEWAY e) (e_IPFS_LOCAL_GATEWAY e)) (Some ''http://localhost:8080/ipfs/''))"

text \<open>\<open>replace(/\/?$/, '/')\<close> and \<open>replace(/\/$/, '')\<close>.\<close>

definition withSlash :: "string \<Rightarrow> string" where
  "withSlash s = (if s \<noteq> [] \<and> last s = CHR ''/'' then s else s @ ''/'')"

definition withoutSlash :: "string \<Rightarrow> string" where
  "withoutSlash s = (if s \<noteq> [] \<and> last s = CHR ''/'' then butlast s else s)"

definition GATEWAY :: "ipfsEnv \<Rightarrow> string" where
  "GATEWAY e = withSlash (if USE_LOCAL e then IPFS_PRIVATE_GATEWAY e else IPFS_PUBLIC_GATEWAY e)"

definition LOCAL_IPFS_API :: "ipfsEnv \<Rightarrow> string" where
  "LOCAL_IPFS_API e = withoutSlash (or_empty (js_or (e_IPFS_API e) (Some ''http://localhost:5001/api/v0'')))"

definition IPFS_API_ENDPOINT :: string where
  "IPFS_API_ENDPOINT = ''https://api.pinata.cloud/pinning/pinJSONToIPFS''"

definition IPFS_FILE_ENDPOINT :: string where
  "IPFS_FILE_ENDPOINT = ''https://api.pinata.cloud/pinning/pinFileToIPFS''"

definition isPinataConfigured :: "ipfsEnv \<Rightarrow> bool" where
  "isPinataConfigured e \<longleftrightarrow> nonempty (e_PINATA_API_KEY e) \<and> nonempty (e_PINATA_SECRET_KEY e)"

section \<open>Hashes and urls\<close>

definition startsWith :: "string \<Rightarrow> string \<Rightarrow> bool" where
  "startsWith s p \<longleftrightarrow> take (length p) s = p"

definition extractIPFSHash :: "ipfsEnv \<Rightarrow> string \<Rightarrow> string" where
  "extractIPFSHash e hashOrUrl =
     (if hashOrUrl = [] then []
      else if startsWith hashOrUrl ''ipfs://'' then drop 7 hashOrUrl
      else if startsWith hashOrUrl (GATEWAY e) then drop (length (GATEWAY e)) hashOrUrl
      else hashOrUrl)"

definition getIPFSUrl :: "ipfsEnv \<Rightarrow> string \<Rightarrow> string" where
  "getIPFSUrl e hashOrUrl = GATEWAY e @ extractIPFSHash e hashOrUrl"

definition getIPFSGatewayCandidates :: "ipfsEnv \<Rightarrow> string \<Rightarrow> string list" where
  "getIPFSGatewayCandidates e hashOrUrl = [GATEWAY e @ extractIPFSHash e hashOrUrl]"

definition alnum :: "char \<Rightarrow> bool" where
  "alnum c \<longleftrightarrow> (let n = (of_char c :: nat) in (48 \<le> n \<and> n \<le> 57) \<or> (65 \<le> n \<and> n \<le> 90) \<or> (97 \<le> n \<and> n \<le> 122))"

text \<open>The class \<open>[1-9A-HJ-NP-Za-km-z]\<close>: no 0, I, O and l.\<close>

definition base58 :: "char \<Rightarrow> bool" where
  "base58 c \<longleftrightarrow> (let n = (of_char c :: nat) in
     (49 \<le> n \<and> n \<le> 57) \<or> (65 \<le> n \<and> n \<le> 72) \<or> (74 \<le> n \<and> n \<le> 78) \<or> (80 \<le> n \<and> n \<le> 90)
     \<or> (97 \<le> n \<and> n \<le> 107) \<or> (109 \<le> n \<and> n \<le> 122))"

definition isPlausibleCID :: "string \<Rightarrow> bool" where
  "isPlausibleCID hash \<longleftrightarrow> list_all alnum hash \<and> 46 \<le> length hash"

definition isValidIPFSHash :: "ipfsEnv \<Rightarrow> string \<Rightarrow> bool" where
  "isValidIPFSHash e hashOrUrl \<longleftrightarrow>
     (let cleanHash = extractIPFSHash e hashOrUrl
      in startsWith cleanHash ''Qm'' \<and> list_all base58 (drop 2 cleanHash) \<and> length (drop 2 cleanHash) = 44)"

section \<open>The mock hash\<close>

text \<open>
  A 32-bit integer, shifted, reduced to 32 bits by \<open>hash & hash\<close>; the sums in between are exact. The
  absolute value is taken of the signed number and written in base 36.
\<close>

definition mockHashStep :: "32 word \<Rightarrow> char \<Rightarrow> 32 word" where
  "mockHashStep hash c = (let h = (push_bit 5 hash - hash) + of_nat (of_char c) in h AND h)"

definition digit36 :: "nat \<Rightarrow> char" where
  "digit36 d = char_of (if d < 10 then 48 + d else 87 + d)"

fun show_base36 :: "nat \<Rightarrow> string" where
  "show_base36 n = (if n < 36 then [digit36 n] else show_base36 (n div 36) @ [digit36 (n mod 36)])"

declare show_base36.simps [simp del]

definition generateMockHash :: "string \<Rightarrow> string" where
  "generateMockHash input =
     (let hash = foldl mockHashStep 0 input; baseHash = show_base36 (nat \<bar>sint hash\<bar>)
      in ''Qm'' @ baseHash @ replicate (44 - length baseHash) CHR ''x'')"

section \<open>JSON and the network\<close>

datatype json = JNull | JBool bool | JNum string | JStr string | JArr "json list" | JObj "(string \<times> json) list"

text \<open>Reading a property; \<open>None\<close> is \<open>undefined\<close>. Truthiness. The text of a value in a template.\<close>

fun field :: "json \<Rightarrow> string \<Rightarrow> json option" where
  "field (JObj fs) k = map_of fs k"
| "field _ k = None"

fun jsonTruthy :: "json option \<Rightarrow> bool" where
  "jsonTruthy None \<longleftrightarrow> False"
| "jsonTruthy (Some JNull) \<longleftrightarrow> False"
| "jsonTruthy (Some (JBool b)) \<longleftrightarrow> b"
| "jsonTruthy (Some (JNum s)) \<longleftrightarrow> s \<noteq> ''0''"
| "jsonTruthy (Some (JStr s)) \<longleftrightarrow> s \<noteq> []"
| "jsonTruthy (Some _) \<longleftrightarrow> True"

definition or_else :: "json option \<Rightarrow> json option \<Rightarrow> json option" where
  "or_else a b = (if jsonTruthy a then a else b)"

fun joined :: "string list \<Rightarrow> string" where
  "joined [] = []"
| "joined [s] = s"
| "joined (s # ss) = s @ '','' @ joined ss"

fun jsText :: "json \<Rightarrow> string" where
  "jsText JNull = ''null''"
| "jsText (JBool b) = (if b then ''true'' else ''false'')"
| "jsText (JNum s) = s"
| "jsText (JStr s) = s"
| "jsText (JArr js) = joined (map (\<lambda>j. if j = JNull then [] else jsText j) js)"
| "jsText (JObj fs) = ''[object Object]''"

definition templateText :: "json option \<Rightarrow> string" where
  "templateText j = (case j of None \<Rightarrow> ''undefined'' | Some v \<Rightarrow> jsText v)"

record response =
  resp_status :: nat
  resp_statusText :: string
  resp_body :: string

definition resp_ok :: "response \<Rightarrow> bool" where
  "resp_ok r \<longleftrightarrow> 200 \<le> resp_status r \<and> resp_status r \<le> 299"

text \<open>What the code reads of a caught error: its message and its \<open>status\<close>, if any.\<close>

record caughtError =
  err_message :: string
  err_status :: "nat option"

definition newError :: "string \<Rightarrow> caughtError" where
  "newError m = \<lparr>err_message = m, err_status = None\<rparr>"

definition nullRead :: "string \<Rightarrow> caughtError" where
  "nullRead k = newError (''Cannot read properties of null (reading '' @ [CHR 0x27] @ k @ [CHR 0x27] @ '')'')"

section \<open>Uploads\<close>

datatype upload =
    KuboFile string string string
  | PinataJson string json json json
  | PinataFile string string json json string

text \<open>
  A request of \<open>post\<close>: for Kubo the endpoint, the name and the content of the file; for Pinata the
  endpoint, the name of the file, the name and the key values of the metadata and the content. The headers carry the
  two keys, which do not matter here.
\<close>

type_synonym metadata = "(string \<times> json) list"

definition metadataName :: "metadata option \<Rightarrow> string \<Rightarrow> json" where
  "metadataName metadata dflt = the (or_else (Option.bind metadata (\<lambda>m. map_of m ''name'')) (Some (JStr dflt)))"

definition keyvalues :: "metadata option \<Rightarrow> json" where
  "keyvalues metadata = (case metadata of None \<Rightarrow> JObj [] | Some m \<Rightarrow> JObj m)"

record uploadResult =
  u_hash :: "json option"
  u_url :: string

fun splitLines :: "string \<Rightarrow> string \<Rightarrow> string list" where
  "splitLines acc [] = [acc]"
| "splitLines acc (c # cs) = (if c = CHR 0x0A then acc # splitLines [] cs else splitLines (acc @ [c]) cs)"

fun lastJson :: "(string \<Rightarrow> string + json) \<Rightarrow> json option \<Rightarrow> string list \<Rightarrow> json option" where
  "lastJson parse acc [] = acc"
| "lastJson parse acc (line # lines) =
     (let trimmed = trim line
      in if trimmed = [] then lastJson parse acc lines
         else case parse trimmed of
                Inl _ \<Rightarrow> lastJson parse acc lines
              | Inr j \<Rightarrow> lastJson parse (Some j) lines)"

definition kuboHash :: "json option \<Rightarrow> json option" where
  "kuboHash j =
     (case j of
        None \<Rightarrow> None
      | Some v \<Rightarrow> or_else (or_else (or_else (field v ''Hash'') (field v ''hash'')) (field v ''Cid'')) (field v ''cid''))"

definition kuboAdd ::
  "ipfsEnv \<Rightarrow> (string \<Rightarrow> string + json) \<Rightarrow> (upload \<Rightarrow> string + response) \<Rightarrow> string \<Rightarrow> string
     \<Rightarrow> caughtError + uploadResult" where
  "kuboAdd e parse post name content =
     (case post (KuboFile (LOCAL_IPFS_API e @ ''/add?pin=true&wrap-with-directory=false'') name content) of
        Inl m \<Rightarrow> Inl (newError m)
      | Inr r \<Rightarrow>
          if \<not> resp_ok r then
            Inl (newError (''Local IPFS add failed: '' @ show_nat (resp_status r) @ '' '' @ resp_statusText r))
          else
            (let hash = kuboHash (lastJson parse None (splitLines [] (resp_body r)))
             in if \<not> jsonTruthy hash then Inl (newError ''Local IPFS add returned unexpected response'')
                else Inr \<lparr>u_hash = hash, u_url = ''ipfs://'' @ templateText hash\<rparr>))"

definition pinataAnswer :: "(string \<Rightarrow> string + json) \<Rightarrow> string + response \<Rightarrow> caughtError + uploadResult" where
  "pinataAnswer parse answer =
     (case answer of
        Inl m \<Rightarrow> Inl (newError m)
      | Inr r \<Rightarrow>
          if \<not> resp_ok r then Inl (newError (''Pinata API error: '' @ resp_statusText r @ '' - '' @ resp_body r))
          else
            (case parse (resp_body r) of
               Inl m \<Rightarrow> Inl (newError m)
             | Inr JNull \<Rightarrow> Inl (nullRead ''IpfsHash'')
             | Inr result \<Rightarrow>
                 Inr \<lparr>u_hash = field result ''IpfsHash'', u_url = ''ipfs://'' @ templateText (field result ''IpfsHash'')\<rparr>))"

text \<open>The \<open>catch\<close> of the two uploads. Reading the keys of \<open>null\<close> for the log throws before the \<open>try\<close>.\<close>

definition uploadJSONToIPFS ::
  "ipfsEnv \<Rightarrow> (string \<Rightarrow> string + json) \<Rightarrow> (json \<Rightarrow> string) \<Rightarrow> (upload \<Rightarrow> string + response) \<Rightarrow> json \<Rightarrow> metadata option
     \<Rightarrow> caughtError + uploadResult" where
  "uploadJSONToIPFS e parse stringify post data metadata =
     (if data = JNull then Inl (newError ''Cannot convert undefined or null to object'')
      else
        (let result =
               (if \<not> USE_LOCAL e \<and> isPinataConfigured e then
                  pinataAnswer parse (post (PinataJson IPFS_API_ENDPOINT (metadataName metadata ''GameDAO Content'') (keyvalues metadata) data))
                else kuboAdd e parse post (jsText (metadataName metadata ''data.json'')) (stringify data))
         in case result of
              Inl err \<Rightarrow> Inl (newError (''IPFS JSON upload failed: '' @ err_message err))
            | Inr r \<Rightarrow> Inr r))"

definition uploadFileToIPFS ::
  "ipfsEnv \<Rightarrow> (string \<Rightarrow> string + json) \<Rightarrow> (upload \<Rightarrow> string + response) \<Rightarrow> string \<Rightarrow> string \<Rightarrow> metadata option
     \<Rightarrow> caughtError + uploadResult" where
  "uploadFileToIPFS e parse post fileName content metadata =
     (let result =
            (if \<not> USE_LOCAL e \<and> isPinataConfigured e then
               pinataAnswer parse 
                 (post (PinataFile IPFS_FILE_ENDPOINT fileName (metadataName metadata fileName) (keyvalues metadata) content))
             else kuboAdd e parse post fileName content)
      in case result of
           Inl err \<Rightarrow> Inl (newError (''IPFS file upload failed: '' @ err_message err))
         | Inr r \<Rightarrow> Inr r)"

section \<open>Downloads\<close>

definition fetchFromGateway :: "ipfsEnv \<Rightarrow> (string \<Rightarrow> string + response) \<Rightarrow> string \<Rightarrow> (string + response) \<times> string list" where
  "fetchFromGateway e get hash = (let url = GATEWAY e @ hash in (get url, [url]))"

definition getFromIPFS ::
  "ipfsEnv \<Rightarrow> (string \<Rightarrow> string + json) \<Rightarrow> (string \<rightharpoonup> string) \<Rightarrow> (string \<Rightarrow> string + response) \<Rightarrow> string
     \<Rightarrow> (caughtError + json option) \<times> string list" where
  "getFromIPFS e parse localStorage get hashOrUrl =
     (let hash = extractIPFSHash e hashOrUrl; failed = Inl (newError ''IPFS retrieval failed'') in
      if \<not> isPlausibleCID hash then (failed, [])
      else if nonempty (localStorage (''ipfs_'' @ hash)) then
        (case parse (the (localStorage (''ipfs_'' @ hash))) of
           Inl _ \<Rightarrow> (failed, [])
         | Inr JNull \<Rightarrow> (failed, [])
         | Inr parsed \<Rightarrow> (Inr (field parsed ''data''), []))
      else
        (case fetchFromGateway e get hash of
           (Inl _, urls) \<Rightarrow> (failed, urls)
         | (Inr r, urls) \<Rightarrow>
             (case parse (resp_body r) of
                Inl _ \<Rightarrow> (failed, urls)
              | Inr j \<Rightarrow> (Inr (Some j), urls))))"

section \<open>How the queue reads a result\<close>

fun containsText :: "string \<Rightarrow> string \<Rightarrow> bool" where
  "containsText p [] \<longleftrightarrow> p = []"
| "containsText p (c # cs) \<longleftrightarrow> startsWith (c # cs) p \<or> containsText p cs"

definition replyOf :: "caughtError + 'a \<Rightarrow> reply" where
  "replyOf result =
     (case result of
        Inr _ \<Rightarrow> ReplyOk
      | Inl err \<Rightarrow> if err_status err = Some 429 \<or> containsText ''rate limit'' (err_message err) then ReplyRateLimited
                  else ReplyFailed)"

section \<open>Hashes and urls translate back and forth\<close>

lemma startsWith_append [simp]: "startsWith (p @ s) p"
  by (simp add: startsWith_def)

lemma withSlash_nonempty [simp]: "withSlash s \<noteq> []"
  by (simp add: withSlash_def)

lemma GATEWAY_nonempty [simp]: "GATEWAY e \<noteq> []"
  by (simp add: GATEWAY_def)

lemma startsWith_http: "startsWith g ''http'' \<Longrightarrow> \<not> startsWith (g @ s) ''ipfs://''"
  by (cases g) (auto simp: startsWith_def)

lemma extract_ipfs_url [simp]: "extractIPFSHash e (CHR ''i'' # CHR ''p'' # CHR ''f'' # CHR ''s'' # CHR '':'' # CHR ''/'' # CHR ''/'' # h) = h"
  by (simp add: extractIPFSHash_def startsWith_def)

lemma extract_gateway_url: "startsWith (GATEWAY e) ''http'' \<Longrightarrow> extractIPFSHash e (GATEWAY e @ h) = h"
  by (simp add: extractIPFSHash_def startsWith_http)

text \<open>
  The url of a hash names that hash: with a gateway whose url is an http url, taking the hash out of the
  url built for a hash, for an ipfs url or for a gateway url gives the hash back, and building the url
  twice is building it once.
\<close>

theorem url_hash_roundtrip:
  assumes "startsWith (GATEWAY e) ''http''"
  shows "extractIPFSHash e (getIPFSUrl e hashOrUrl) = extractIPFSHash e hashOrUrl
     \<and> getIPFSUrl e (getIPFSUrl e hashOrUrl) = getIPFSUrl e hashOrUrl
     \<and> getIPFSUrl e (''ipfs://'' @ h) = getIPFSUrl e (GATEWAY e @ h)"
  using assms by (simp add: getIPFSUrl_def extract_gateway_url)

definition devEnv :: ipfsEnv where
  "devEnv = \<lparr>e_NODE_ENV = None, e_IPFS_MODE = None, e_IPFS_PUBLIC_GATEWAY = None, e_IPFS_GATEWAY = None,
     e_IPFS_PRIVATE_GATEWAY = None, e_IPFS_LOCAL_GATEWAY = Some ''http://10.0.0.1:8080/ipfs'', e_IPFS_API = None,
     e_PINATA_API_KEY = None, e_PINATA_SECRET_KEY = None\<rparr>"

lemma GATEWAY_dev: "GATEWAY devEnv = ''http://10.0.0.1:8080/ipfs/''"
  by code_simp

theorem url_hash_roundtrip_witness:
  "startsWith (GATEWAY devEnv) ''http'' \<and> getIPFSUrl devEnv ''ipfs://Qm1'' = ''http://10.0.0.1:8080/ipfs/Qm1''
     \<and> extractIPFSHash devEnv (getIPFSUrl devEnv ''ipfs://Qm1'') = ''Qm1''"
proof -
  have "startsWith (GATEWAY devEnv) ''http''" by (simp add: GATEWAY_dev startsWith_def)
  then show ?thesis using url_hash_roundtrip [of devEnv "''ipfs://Qm1''"] by (simp add: getIPFSUrl_def GATEWAY_dev)
qed

lemma base58_alnum: "base58 c \<Longrightarrow> alnum c"
  by (auto simp: base58_def alnum_def Let_def)

text \<open>
  The two checks of a hash agree in one direction: whatever the strict check accepts is plausible, so a
  valid hash is never kept from the gateway.
\<close>

theorem valid_hash_plausible:
  assumes "isValidIPFSHash e hashOrUrl"
  shows "isPlausibleCID (extractIPFSHash e hashOrUrl)"
proof -
  let ?h = "extractIPFSHash e hashOrUrl"
  have h: "take 2 ?h = ''Qm''" "list_all base58 (drop 2 ?h)" "length (drop 2 ?h) = 44"
    using assms by (simp_all add: isValidIPFSHash_def startsWith_def Let_def numeral_2_eq_2)
  then have "list_all alnum (drop 2 ?h)" by (auto simp: list_all_iff base58_alnum)
  moreover have "list_all alnum (take 2 ?h)" using h(1) by (simp add: alnum_def)
  moreover have "46 \<le> length ?h" using h(3) by simp
  ultimately show ?thesis by (metis append_take_drop_id isPlausibleCID_def list_all_append)
qed

theorem valid_hash_plausible_witness:
  "isValidIPFSHash devEnv (''ipfs://Qm'' @ replicate 44 CHR ''a'') \<and> isPlausibleCID (''Qm'' @ replicate 44 CHR ''a'')"
proof -
  have "isValidIPFSHash devEnv (''ipfs://Qm'' @ replicate 44 CHR ''a'')"
    by (simp add: isValidIPFSHash_def startsWith_def base58_def list_all_length)
  then show ?thesis using valid_hash_plausible by fastforce
qed

section \<open>The mock hash is a polynomial hash\<close>

lemma mockHashStep_31: "mockHashStep h c = 31 * h + of_nat (of_char c)"
proof -
  have "push_bit 5 h = 32 * h" by (simp add: push_bit_eq_mult)
  then show ?thesis by (simp add: mockHashStep_def Let_def)
qed

lemma mock_hash_acc:
  "foldl mockHashStep a s = a * 31 ^ length s + (\<Sum>i<length s. of_nat (of_char (s ! i)) * 31 ^ (length s - 1 - i))"
proof (induction s arbitrary: a)
  case (Cons c cs)
  have "(\<Sum>i<length (c # cs). of_nat (of_char ((c # cs) ! i)) * 31 ^ (length (c # cs) - 1 - i) :: 32 word)
    = of_nat (of_char c) * 31 ^ length cs + (\<Sum>i<length cs. of_nat (of_char (cs ! i)) * 31 ^ (length cs - 1 - i))"
    by (simp add: sum.lessThan_Suc_shift del: sum.lessThan_Suc)
  moreover have "foldl mockHashStep a (c # cs) = foldl mockHashStep (31 * a + of_nat (of_char c)) cs"
    by (simp add: mockHashStep_31)
  ultimately show ?case by (simp only: Cons.IH) (simp add: algebra_simps)
qed simp

lemma show_base36_length: "n < 36 ^ Suc k \<Longrightarrow> length (show_base36 n) \<le> Suc k"
proof (induction k arbitrary: n)
  case 0
  then show ?case by (simp add: show_base36.simps [of n])
next
  case (Suc k)
  then have "n div 36 < 36 ^ Suc k" by (simp add: less_mult_imp_div_less mult.commute)
  then show ?case using Suc.IH by (simp add: show_base36.simps [of n])
qed

lemma digit36_alnum: "d < 36 \<Longrightarrow> alnum (digit36 d)"
  by (simp add: digit36_def alnum_def Let_def)

lemma show_base36_alnum: "list_all alnum (show_base36 n)"
proof (induction n rule: show_base36.induct)
  case (1 n)
  then show ?case by (simp add: show_base36.simps [of n] digit36_alnum)
qed

text \<open>
  The mock hash is the polynomial hash of the input to base 31, modulo \<open>2 ^ 32\<close>, and what is made of it
  looks like a hash: \<open>Qm\<close> and 44 letters and digits, for every input.
\<close>

theorem mock_hash_polynomial:
  "foldl mockHashStep 0 input
     = (\<Sum>i<length input. of_nat (of_char (input ! i)) * 31 ^ (length input - 1 - i))
   \<and> length (generateMockHash input) = 46 \<and> isPlausibleCID (generateMockHash input)"
proof -
  let ?h = "foldl mockHashStep 0 input"
  have "- (2 ^ 31) \<le> sint ?h" "sint ?h < 2 ^ 31" using sint_greater_eq [of ?h] sint_less [of ?h] by simp_all
  then have "nat \<bar>sint ?h\<bar> < 36 ^ Suc 5" by (simp add: nat_less_iff)
  then have l: "length (show_base36 (nat \<bar>sint ?h\<bar>)) \<le> 6" using show_base36_length [of _ 5] by simp
  then have "length (generateMockHash input) = 46" by (simp add: generateMockHash_def Let_def)
  moreover have "list_all alnum (generateMockHash input)"
    using show_base36_alnum [of "nat \<bar>sint ?h\<bar>"]
    by (auto simp: generateMockHash_def Let_def alnum_def [of "CHR ''x''"] alnum_def [of "CHR ''Q''"] alnum_def [of "CHR ''m''"]
        list_all_iff)
  ultimately show ?thesis by (simp add: mock_hash_acc isPlausibleCID_def)
qed

text \<open>The mock hash is not always a valid hash: base 36 has the digit 0.\<close>

theorem mock_hash_not_valid: "\<not> isValidIPFSHash devEnv (generateMockHash [])"
  by code_simp

section \<open>Which line of a Kubo answer counts\<close>

text \<open>The values of the lines that parse, in order.\<close>

definition parsedLines :: "(string \<Rightarrow> string + json) \<Rightarrow> string list \<Rightarrow> json list" where
  "parsedLines parse lines =
     concat (map (\<lambda>line. if trim line = [] then [] else case parse (trim line) of Inl _ \<Rightarrow> [] | Inr j \<Rightarrow> [j]) lines)"

lemma parsedLines_simps [simp]:
  "parsedLines parse [] = []"
  "parsedLines parse (line # lines) =
     (if trim line = [] then [] else case parse (trim line) of Inl _ \<Rightarrow> [] | Inr j \<Rightarrow> [j]) @ parsedLines parse lines"
  by (simp_all add: parsedLines_def)

lemma lastJson_parsed:
  "lastJson parse acc lines = (if parsedLines parse lines = [] then acc else Some (last (parsedLines parse lines)))"
proof (induction lines arbitrary: acc)
  case (Cons line lines)
  then show ?case by (cases "trim line = []"; cases "parse (trim line)") (simp_all add: Let_def)
qed simp

text \<open>
  Of a Kubo answer only the last line that is JSON counts: with a successful response the upload
  succeeds exactly if that line has a hash under one of the four names the code looks for, and then
  returns it and its ipfs url; otherwise it fails with the message of an unexpected response, whatever
  earlier lines say.
\<close>

theorem kubo_last_line:
  assumes "post (KuboFile (LOCAL_IPFS_API e @ ''/add?pin=true&wrap-with-directory=false'') name content) = Inr r"
    and "resp_ok r" and "js = parsedLines parse (splitLines [] (resp_body r))"
  shows "kuboAdd e parse post name content =
     (if js \<noteq> [] \<and> (\<exists>k \<in> set [''Hash'', ''hash'', ''Cid'', ''cid'']. jsonTruthy (field (last js) k))
      then Inr \<lparr>u_hash = kuboHash (Some (last js)), u_url = ''ipfs://'' @ templateText (kuboHash (Some (last js)))\<rparr>
      else Inl (newError ''Local IPFS add returned unexpected response''))"
proof -
  have "jsonTruthy (kuboHash (Some j)) \<longleftrightarrow> (\<exists>k \<in> set [''Hash'', ''hash'', ''Cid'', ''cid'']. jsonTruthy (field j k))" for j
    by (simp add: kuboHash_def or_else_def)
  moreover have "\<not> jsonTruthy (kuboHash None)" by (simp add: kuboHash_def)
  ultimately show ?thesis using assms by (simp add: kuboAdd_def lastJson_parsed Let_def)
qed

text \<open>A parser for the answers of the examples: two lines of Kubo and the values themselves.\<close>

definition exampleHash :: string where
  "exampleHash = ''Qm'' @ replicate 44 CHR ''a''"

definition exampleParse :: "string \<Rightarrow> string + json" where
  "exampleParse s =
     (if s = ''first'' then Inr (JObj [(''Name'', JStr ''a'')])
      else if s = ''second'' then Inr (JObj [(''Hash'', JStr exampleHash)])
      else if s = ''busy'' then Inr (JObj [(''error'', JStr ''too many requests'')])
      else Inl ''Unexpected token'')"

definition examplePost :: "upload \<Rightarrow> string + response" where
  "examplePost u = Inr \<lparr>resp_status = 200, resp_statusText = ''OK'', resp_body = ''first'' @ [CHR 0x0A] @ '' second'' @ [CHR 0x0A] @ ''?''\<rparr>"

lemma parsed_example:
  "parsedLines exampleParse (splitLines [] (''first'' @ [CHR 0x0A] @ '' second'' @ [CHR 0x0A] @ ''?''))
     = [JObj [(''Name'', JStr ''a'')], JObj [(''Hash'', JStr exampleHash)]]"
  by code_simp

theorem kubo_last_line_witness:
  "resp_ok \<lparr>resp_status = 200, resp_statusText = ''OK'', resp_body = ''first'' @ [CHR 0x0A] @ '' second'' @ [CHR 0x0A] @ ''?''\<rparr>
   \<and> kuboAdd devEnv exampleParse examplePost ''f'' ''x'' = Inr \<lparr>u_hash = Some (JStr exampleHash), u_url = ''ipfs://'' @ exampleHash\<rparr>"
proof -
  have ok: "resp_ok \<lparr>resp_status = 200, resp_statusText = ''OK'', resp_body = ''first'' @ [CHR 0x0A] @ '' second'' @ [CHR 0x0A] @ ''?''\<rparr>"
    by (simp add: resp_ok_def)
  show ?thesis
    using ok kubo_last_line [where post = examplePost and e = devEnv and name = "''f''" and content = "''x''" and parse = exampleParse,
        OF examplePost_def ok refl]
    by (simp add: exampleHash_def parsed_example [simplified] kuboHash_def or_else_def templateText_def)
qed

section \<open>What was uploaded is what is fetched\<close>

lemma kubo_url: "kuboAdd e parse post name content = Inr r \<Longrightarrow> u_url r = ''ipfs://'' @ templateText (u_hash r)"
  by (auto simp: kuboAdd_def Let_def split: sum.splits if_splits)

lemma pinata_url: "pinataAnswer parse answer = Inr r \<Longrightarrow> u_url r = ''ipfs://'' @ templateText (u_hash r)"
  by (auto simp: pinataAnswer_def split: sum.splits if_splits json.splits)

lemma upload_url:
  "uploadJSONToIPFS e parse stringify post data metadata = Inr r \<Longrightarrow> u_url r = ''ipfs://'' @ templateText (u_hash r)"
  "uploadFileToIPFS e parse post fileName content metadata = Inr r \<Longrightarrow> u_url r = ''ipfs://'' @ templateText (u_hash r)"
  by (auto simp: uploadJSONToIPFS_def uploadFileToIPFS_def Let_def dest: kubo_url pinata_url split: sum.splits if_splits)

text \<open>
  C24. The url of an upload leads back to it: when an upload of a file or of JSON returns a plausible hash and the
  browser has no copy of its own, then retrieving its url fetches one url, that of this hash at the
  configured gateway, and returns the JSON found there.
\<close>

theorem uploaded_is_fetched:
  assumes "uploadJSONToIPFS e parse stringify post data metadata = Inr r
      \<or> uploadFileToIPFS e parse post fileName content metadata = Inr r"
    and "u_hash r = Some (JStr h)" and "isPlausibleCID h" and "localStorage (''ipfs_'' @ h) = None"
    and "get (GATEWAY e @ h) = Inr answer" and "parse (resp_body answer) = Inr j"
  shows "getFromIPFS e parse localStorage get (u_url r) = (Inr (Some j), [GATEWAY e @ h])"
proof -
  have "u_url r = ''ipfs://'' @ h" using assms(1, 2) upload_url by (auto simp: templateText_def)
  then show ?thesis using assms(3-6) by (simp add: getFromIPFS_def fetchFromGateway_def nonempty_def Let_def)
qed

theorem uploaded_is_fetched_witness:
  "uploadFileToIPFS devEnv exampleParse examplePost ''f'' ''x'' None = Inr \<lparr>u_hash = Some (JStr exampleHash), u_url = ''ipfs://'' @ exampleHash\<rparr>
   \<and> getFromIPFS devEnv exampleParse (\<lambda>_. None) (\<lambda>_. Inr \<lparr>resp_status = 200, resp_statusText = ''OK'', resp_body = ''first''\<rparr>)
       (''ipfs://'' @ exampleHash) = (Inr (Some (JObj [(''Name'', JStr ''a'')])), [GATEWAY devEnv @ exampleHash])"
proof -
  let ?r = "\<lparr>u_hash = Some (JStr exampleHash), u_url = ''ipfs://'' @ exampleHash\<rparr>"
  have up: "uploadFileToIPFS devEnv exampleParse examplePost ''f'' ''x'' None = Inr ?r" by code_simp
  have "isPlausibleCID exampleHash" by code_simp
  then have "getFromIPFS devEnv exampleParse (\<lambda>_. None) (\<lambda>_. Inr \<lparr>resp_status = 200, resp_statusText = ''OK'', resp_body = ''first''\<rparr>)
      (u_url ?r) = (Inr (Some (JObj [(''Name'', JStr ''a'')])), [GATEWAY devEnv @ exampleHash])"
    using uploaded_is_fetched [OF disjI2 [OF up], of exampleHash "\<lambda>_. None"
        "\<lambda>_. Inr \<lparr>resp_status = 200, resp_statusText = ''OK'', resp_body = ''first''\<rparr>"]
    by (simp add: exampleParse_def)
  then show ?thesis using up by simp
qed

text \<open>
  Malformed ids stay away from the gateway: retrieving anything fetches at most one url, and only
  the url of a plausible hash; every failure, of whatever cause, is the same error.
\<close>

theorem only_plausible_fetched:
  "(\<exists>h. isPlausibleCID h \<and> (snd (getFromIPFS e parse localStorage get hashOrUrl) = [GATEWAY e @ h]))
     \<or> snd (getFromIPFS e parse localStorage get hashOrUrl) = []"
  by (auto simp: getFromIPFS_def fetchFromGateway_def Let_def split: sum.splits json.splits)

lemma getFromIPFS_error:
  "fst (getFromIPFS e parse localStorage get hashOrUrl) = Inl err \<Longrightarrow> err = newError ''IPFS retrieval failed''"
  by (auto simp: getFromIPFS_def fetchFromGateway_def Let_def split: sum.splits json.splits if_splits)

lemma no_rate_limit_text: "replyOf (Inl (newError ''IPFS retrieval failed'')) = ReplyFailed"
  by (simp add: replyOf_def newError_def startsWith_def)

text \<open>
  A download never tells the queue of a rate limit, whatever the gateway answers: its error has
  neither the status nor the text the queue looks for.
\<close>

theorem download_rate_limit_unseen:
  "replyOf (fst (getFromIPFS e parse localStorage get hashOrUrl)) \<noteq> ReplyRateLimited"
proof (cases "fst (getFromIPFS e parse localStorage get hashOrUrl)")
  case (Inl err)
  then have "err = newError ''IPFS retrieval failed''" by (rule getFromIPFS_error)
  then show ?thesis by (simp add: Inl no_rate_limit_text)
qed (simp add: replyOf_def)

text \<open>
  An error answer of the gateway whose body is JSON is returned as the content: the status of the
  response is not looked at.
\<close>

theorem error_answer_is_content:
  "getFromIPFS devEnv exampleParse (\<lambda>_. None)
     (\<lambda>_. Inr \<lparr>resp_status = 429, resp_statusText = ''Too Many Requests'', resp_body = ''busy''\<rparr>) exampleHash
   = (Inr (Some (JObj [(''error'', JStr ''too many requests'')])), [GATEWAY devEnv @ exampleHash])"
  by code_simp

end
