(* ===== verification/Ipfs_Hooks.thy ===== *)
theory Ipfs_Hooks
  imports Ipfs
begin

text \<open>
  The hooks of \<open>packages/frontend/src/hooks/useIPFS.ts\<close> on top of the library and the queue.

  \<^item> \<open>ipfsCache\<close> is a map from keys to entries. A call reads the clock when it looks into the cache and when
    it stores into it; both readings are arguments.
  \<^item> What a queued request ends with is an argument, \<open>fetch\<close>: the queue answers every request that is not
    cleared. The loading of an image is the argument \<open>test\<close>.
  \<^item> \<open>useIPFS\<close>: \<open>fetchData\<close> is cut at its \<open>await\<close>. State updates take effect with the next render; a render
    in which \<open>retryCount\<close> changed gives a new \<open>fetchData\<close>, so React runs the clean-up of the effect, which
    drops the retry timer, and the effect, which calls it. The timer waits a second or more: the render
    comes first. A request of another hook for the same hash may be pending at the start. Calling \<open>retry\<close> by
    hand is not part of the model.
  \<^item> \<open>useIPFSBatch\<close>: the loop steps by \<open>batchSize\<close> and never ends when that is 0, hence \<open>None\<close>.

  The lemmas show how often a failing hash is requested and that the retry delay is never waited for,
  that every hash of a batch gets its result, and which image is shown in every case.
\<close>

section \<open>The cache\<close>

record cacheEntry =
  ce_data :: "json option"
  ce_timestamp :: int
  ce_ttl :: int

type_synonym ipfsCache = "string \<rightharpoonup> cacheEntry"

definition cachedData :: "ipfsCache \<Rightarrow> int \<Rightarrow> string \<Rightarrow> json option option" where
  "cachedData cache now key =
     (case cache key of
        None \<Rightarrow> None
      | Some c \<Rightarrow> if now - ce_timestamp c < ce_ttl c then Some (ce_data c) else None)"

definition orMessage :: "caughtError \<Rightarrow> string \<Rightarrow> string" where
  "orMessage err dflt = (if err_message err = [] then dflt else err_message err)"

section \<open>useIPFS\<close>

record ipfsOptions =
  o_enabled :: bool
  o_retryAttempts :: nat
  o_autoRetry :: bool
  o_cacheTTL :: int

record ipfsHook =
  h_data :: "json option"
  h_isLoading :: bool
  h_error :: "string option"
  h_retryCount :: nat
  h_timer :: bool
  h_cache :: ipfsCache
  h_pending :: bool
  h_waiting :: "nat option"
  h_running :: "nat option"
  h_requests :: nat

text \<open>
  \<open>h_pending\<close> says whether \<open>pendingRequests\<close> has an entry for the hash, its own or that of another hook.
  \<open>h_waiting\<close> is a call that waits for the request of another hook, \<open>h_running\<close> one that waits for its own, each
  with the \<open>retryCount\<close> of its closure; \<open>h_requests\<close> is how many requests were queued so far. \<open>startFetch\<close> is
  \<open>fetchData\<close> up to its first \<open>await\<close>, \<open>queueFetch\<close> the part that queues a request.
\<close>

definition queueFetch :: "nat \<Rightarrow> ipfsHook \<Rightarrow> ipfsHook" where
  "queueFetch retryCount s =
     s\<lparr>h_isLoading := True, h_error := None, h_pending := True, h_running := Some retryCount, h_requests := h_requests s + 1\<rparr>"

definition startFetch :: "ipfsOptions \<Rightarrow> string option \<Rightarrow> int \<Rightarrow> ipfsHook \<Rightarrow> ipfsHook" where
  "startFetch opts hash now s =
     (if \<not> nonempty hash \<or> \<not> o_enabled opts then s
      else case cachedData (h_cache s) now (the hash) of
             Some d \<Rightarrow> s\<lparr>h_data := d, h_isLoading := False, h_error := None\<rparr>
           | None \<Rightarrow>
               if h_pending s then s\<lparr>h_waiting := Some (h_retryCount s)\<rparr> else queueFetch (h_retryCount s) s)"

text \<open>The request of another hook ends: its result is shown, or a request of our own follows.\<close>

definition endWaiting :: "caughtError + json option \<Rightarrow> ipfsHook \<Rightarrow> ipfsHook" where
  "endWaiting result s =
     (let s' = s\<lparr>h_pending := False, h_waiting := None\<rparr> in
      case h_waiting s of
        None \<Rightarrow> s'
      | Some retryCount \<Rightarrow>
          (case result of
             Inr d \<Rightarrow> s'\<lparr>h_data := d, h_isLoading := False, h_error := None\<rparr>
           | Inl _ \<Rightarrow> queueFetch retryCount s'))"

text \<open>The clean-up and the effect.\<close>

definition rerun :: "ipfsOptions \<Rightarrow> string option \<Rightarrow> int \<Rightarrow> ipfsHook \<Rightarrow> ipfsHook" where
  "rerun opts hash now s = startFetch opts hash now (s\<lparr>h_timer := False\<rparr>)"

text \<open>\<open>fetchData\<close> after the \<open>await\<close>, in its three outcomes, and the render that follows.\<close>

definition endFetch :: "ipfsOptions \<Rightarrow> string \<Rightarrow> int \<Rightarrow> caughtError + json option \<Rightarrow> nat \<Rightarrow> ipfsHook \<Rightarrow> ipfsHook" where
  "endFetch opts hash now result retryCount s =
     (let s = s\<lparr>h_running := None, h_isLoading := False, h_pending := False\<rparr> in
      case result of
        Inr d \<Rightarrow>
          s\<lparr>h_cache := (h_cache s)(hash \<mapsto> \<lparr>ce_data = d, ce_timestamp = now, ce_ttl = o_cacheTTL opts\<rparr>),
            h_data := d, h_error := None, h_retryCount := 0\<rparr>
      | Inl err \<Rightarrow>
          (let s = s\<lparr>h_error := Some (orMessage err ''Failed to fetch from IPFS''), h_data := None\<rparr>
           in if o_autoRetry opts \<and> retryCount < o_retryAttempts opts
              then s\<lparr>h_retryCount := h_retryCount s + 1, h_timer := True\<rparr> else s))"

datatype fetchEvent = OwnEnds int "caughtError + json option" | OtherEnds "caughtError + json option"

fun settleFetch :: "ipfsOptions \<Rightarrow> string \<Rightarrow> fetchEvent \<Rightarrow> ipfsHook \<Rightarrow> ipfsHook" where
  "settleFetch opts hash (OwnEnds now result) s =
     (case h_running s of
        None \<Rightarrow> s
      | Some retryCount \<Rightarrow>
          (let s' = endFetch opts hash now result retryCount s
           in if h_retryCount s' \<noteq> h_retryCount s then rerun opts (Some hash) now s' else s'))"
| "settleFetch opts hash (OtherEnds result) s = (if h_running s = None then endWaiting result s else s)"

definition mountHook :: "ipfsOptions \<Rightarrow> string \<Rightarrow> int \<Rightarrow> ipfsCache \<Rightarrow> bool \<Rightarrow> ipfsHook" where
  "mountHook opts hash now cache pending =
     rerun opts (Some hash) now
       \<lparr>h_data = None, h_isLoading = False, h_error = None, h_retryCount = 0, h_timer = False, h_cache = cache,
        h_pending = pending, h_waiting = None, h_running = None, h_requests = 0\<rparr>"

definition hookAfter ::
  "ipfsOptions \<Rightarrow> string \<Rightarrow> int \<Rightarrow> ipfsCache \<Rightarrow> bool \<Rightarrow> fetchEvent list \<Rightarrow> ipfsHook" where
  "hookAfter opts hash now cache pending evs = fold (settleFetch opts hash) evs (mountHook opts hash now cache pending)"

section \<open>useIPFSImage\<close>

datatype imageTest = ImgOk | ImgFail | ImgTimeout

record imageHook =
  i_imageUrl :: "string option"
  i_isLoading :: bool
  i_error :: "string option"
  i_isImageLoaded :: bool
  i_imageError :: bool
  i_isFullyLoaded :: bool

text \<open>
  The cached or stored url of an image is a string; the stored copy is what the local storage holds
  under \<open>ipfs_file_\<close>, parsed. \<open>loadImage\<close> returns the state and the cache; its \<open>catch\<close> is never reached,
  since nothing in its \<open>try\<close> throws.
\<close>

definition storedImage :: "(string \<Rightarrow> string + json) \<Rightarrow> (string \<rightharpoonup> string) \<Rightarrow> string \<Rightarrow> json option" where
  "storedImage parse localStorage hash =
     (let stored = localStorage (''ipfs_file_'' @ hash) in
      if \<not> nonempty stored then None
      else case parse (the stored) of
             Inl _ \<Rightarrow> None
           | Inr parsed \<Rightarrow> (if jsonTruthy (field parsed ''data'') then field parsed ''data'' else None))"

definition imageKey :: "string \<Rightarrow> string" where
  "imageKey hash = ''ipfs-image-'' @ hash"

text \<open>The body after a cache miss: the stored copy, else the candidates in turn, else the fallback.\<close>

fun tryCandidates :: "(string \<Rightarrow> imageTest) \<Rightarrow> string list \<Rightarrow> string option" where
  "tryCandidates test [] = None"
| "tryCandidates test (candidate # cs) = (if test candidate = ImgOk then Some candidate else tryCandidates test cs)"

definition loadMissing ::
  "ipfsEnv \<Rightarrow> string \<Rightarrow> int \<Rightarrow> (string \<Rightarrow> string + json) \<Rightarrow> (string \<rightharpoonup> string) \<Rightarrow> (string \<Rightarrow> imageTest) \<Rightarrow> int
     \<Rightarrow> string \<Rightarrow> imageHook \<times> ipfsCache \<Rightarrow> imageHook \<times> ipfsCache" where
  "loadMissing e fallbackUrl cacheTTL parse localStorage test now' hash =
     (\<lambda>(s, cache).
      let s = s\<lparr>i_isLoading := True, i_error := None, i_imageError := False\<rparr>;
          store = (\<lambda>d. cache(imageKey hash \<mapsto> \<lparr>ce_data = Some d, ce_timestamp = now', ce_ttl = cacheTTL\<rparr>))
      in case storedImage parse localStorage hash of
           Some d \<Rightarrow> (s\<lparr>i_imageUrl := Some (jsText d), i_isLoading := False\<rparr>, store d)
         | None \<Rightarrow>
             (case tryCandidates test (getIPFSGatewayCandidates e hash) of
                Some url \<Rightarrow> (s\<lparr>i_imageUrl := Some url, i_isLoading := False\<rparr>, store (JStr url))
              | None \<Rightarrow> (s\<lparr>i_imageUrl := Some fallbackUrl, i_isLoading := False\<rparr>, cache)))"

definition loadImage ::
  "ipfsEnv \<Rightarrow> string \<Rightarrow> int \<Rightarrow> (string \<Rightarrow> string + json) \<Rightarrow> (string \<rightharpoonup> string) \<Rightarrow> (string \<Rightarrow> imageTest) \<Rightarrow> int \<Rightarrow> int
     \<Rightarrow> string option \<Rightarrow> imageHook \<times> ipfsCache \<Rightarrow> imageHook \<times> ipfsCache" where
  "loadImage e fallbackUrl cacheTTL parse localStorage test now now' hash =
     (\<lambda>(s, cache).
      if \<not> nonempty hash then (s\<lparr>i_imageUrl := Some fallbackUrl, i_isLoading := False\<rparr>, cache)
      else
        (let hash = the hash; sanitisedHash = (if startsWith hash ''ipfs://'' then drop 7 hash else hash) in
         if \<not> isPlausibleCID sanitisedHash then (s\<lparr>i_imageUrl := Some fallbackUrl, i_isLoading := False\<rparr>, cache)
         else
           case cache (imageKey hash) of
             Some c \<Rightarrow>
               if now - ce_timestamp c < cacheTTL then
                 (s\<lparr>i_imageUrl := map_option jsText (ce_data c), i_isLoading := False\<rparr>, cache)
               else loadMissing e fallbackUrl cacheTTL parse localStorage test now' hash (s, cache)
           | None \<Rightarrow> loadMissing e fallbackUrl cacheTTL parse localStorage test now' hash (s, cache)))"

text \<open>The events of the element that shows the image, and dropping the cached url before a retry.\<close>

definition handleLoad :: "imageHook \<Rightarrow> imageHook" where
  "handleLoad s = s\<lparr>i_isImageLoaded := True, i_isFullyLoaded := True, i_imageError := False\<rparr>"

definition handleError :: "string \<Rightarrow> imageHook \<Rightarrow> imageHook" where
  "handleError fallbackUrl s =
     (let s = s\<lparr>i_imageError := True, i_isImageLoaded := False, i_isFullyLoaded := False\<rparr>
      in if i_imageUrl s \<noteq> Some fallbackUrl then s\<lparr>i_imageUrl := Some fallbackUrl\<rparr> else s)"

definition hasImageError :: "imageHook \<Rightarrow> bool" where
  "hasImageError s \<longleftrightarrow> nonempty (i_error s) \<or> i_imageError s"

section \<open>useIPFSUpload\<close>

record uploadHook =
  up_isUploading :: bool
  up_progress :: nat
  up_error :: "string option"

text \<open>\<open>uploadFile\<close> and \<open>uploadJSON\<close> around the queued upload; the error is thrown on.\<close>

definition runUpload :: "string \<Rightarrow> caughtError + uploadResult \<Rightarrow> uploadHook \<Rightarrow> uploadHook \<times> (caughtError + json option)" where
  "runUpload dflt result s =
     (let s = s\<lparr>up_isUploading := True, up_error := None, up_progress := 0\<rparr> in
      case result of
        Inr r \<Rightarrow> (s\<lparr>up_progress := 100, up_isUploading := False\<rparr>, Inr (u_hash r))
      | Inl err \<Rightarrow> (s\<lparr>up_error := Some (orMessage err dflt), up_isUploading := False\<rparr>, Inl err))"

definition hookUploadFile :: "caughtError + uploadResult \<Rightarrow> uploadHook \<Rightarrow> uploadHook \<times> (caughtError + json option)" where
  "hookUploadFile = runUpload ''Failed to upload to IPFS''"

definition hookUploadJSON :: "caughtError + uploadResult \<Rightarrow> uploadHook \<Rightarrow> uploadHook \<times> (caughtError + json option)" where
  "hookUploadJSON = runUpload ''Failed to upload JSON to IPFS''"

definition resetUpload :: "uploadHook \<Rightarrow> uploadHook" where
  "resetUpload s = s\<lparr>up_isUploading := False, up_progress := 0, up_error := None\<rparr>"

section \<open>useIPFSBatch\<close>

record batchEntry =
  b_data :: "json option"
  b_isLoading :: bool
  b_error :: "string option"

text \<open>
  A batch: every hash looks into the cache before any answer arrives, so a hash that occurs twice is
  requested twice; the answers are stored in the order of the batch. \<open>fetch\<close> is what the requests of
  this batch end with; two requests of one hash in one batch end alike.
\<close>

definition batchItem :: "ipfsCache \<Rightarrow> int \<Rightarrow> (string \<Rightarrow> caughtError + json option) \<Rightarrow> string \<Rightarrow> json option \<times> string option" where
  "batchItem cache now fetch hash =
     (case cachedData cache now hash of
        Some d \<Rightarrow> (d, None)
      | None \<Rightarrow>
          (case fetch hash of
             Inr d \<Rightarrow> (d, None)
           | Inl err \<Rightarrow> (None, Some (orMessage err ''Failed to fetch''))))"

definition batchStore :: "ipfsCache \<Rightarrow> int \<Rightarrow> int \<Rightarrow> int \<Rightarrow> (string \<Rightarrow> caughtError + json option) \<Rightarrow> string \<Rightarrow> ipfsCache \<Rightarrow> ipfsCache" where
  "batchStore before now now' ttl fetch hash cache =
     (case (cachedData before now hash, fetch hash) of
        (None, Inr d) \<Rightarrow> cache(hash \<mapsto> \<lparr>ce_data = d, ce_timestamp = now', ce_ttl = ttl\<rparr>)
      | _ \<Rightarrow> cache)"

partial_function (option) hashLoop ::
  "nat \<Rightarrow> int \<Rightarrow> (nat \<Rightarrow> int \<times> int) \<Rightarrow> (nat \<Rightarrow> string \<Rightarrow> caughtError + json option) \<Rightarrow> string list \<Rightarrow> nat \<Rightarrow> ipfsCache
     \<Rightarrow> (string \<rightharpoonup> batchEntry) \<Rightarrow> (ipfsCache \<times> (string \<rightharpoonup> batchEntry)) option" where
  "hashLoop bs ttl readings fetch hashes i cache newResults =
     (if i < length hashes then
        (let batch = take bs (drop i hashes); now = fst (readings i); now' = snd (readings i);
             cache' = fold (batchStore cache now now' ttl (fetch i)) batch cache;
             newResults' = fold (\<lambda>hash m. m(hash \<mapsto> \<lparr>b_data = fst (batchItem cache now (fetch i) hash), b_isLoading = False,
                                  b_error = snd (batchItem cache now (fetch i) hash)\<rparr>)) batch newResults
         in hashLoop bs ttl readings fetch hashes (i + bs) cache' newResults')
      else Some (cache, newResults))"

record batchHook =
  bh_results :: "string \<rightharpoonup> batchEntry"
  bh_isLoading :: bool

definition processHashes ::
  "nat \<Rightarrow> int option \<Rightarrow> (nat \<Rightarrow> int \<times> int) \<Rightarrow> (nat \<Rightarrow> string \<Rightarrow> caughtError + json option) \<Rightarrow> string list
     \<Rightarrow> batchHook \<times> ipfsCache \<Rightarrow> (batchHook \<times> ipfsCache) option" where
  "processHashes bs cacheTTL readings fetch hashes =
     (\<lambda>(s, cache).
      if length hashes = 0 then Some (s, cache)
      else
        (let ttl = (case cacheTTL of None \<Rightarrow> 300000 | Some n \<Rightarrow> if n = 0 then 300000 else n) in
         case hashLoop bs ttl readings fetch hashes 0 cache Map.empty of
           None \<Rightarrow> None
         | Some (cache', newResults) \<Rightarrow> Some (s\<lparr>bh_results := newResults, bh_isLoading := False\<rparr>, cache')))"

definition batchHasErrors :: "string list \<Rightarrow> (string \<rightharpoonup> batchEntry) \<Rightarrow> bool" where
  "batchHasErrors keys results \<longleftrightarrow> (\<exists>k \<in> set keys. case results k of None \<Rightarrow> False | Some b \<Rightarrow> b_error b \<noteq> None)"

section \<open>Retries of useIPFS\<close>

lemma settle_timer: "\<not> h_timer s \<Longrightarrow> \<not> h_timer (settleFetch opts hash ev s)"
  by (cases ev)
    (auto simp: endFetch_def endWaiting_def rerun_def startFetch_def queueFetch_def Let_def split: option.splits sum.splits)

text \<open>
  The delay before a retry is never waited for: whatever happens, after every render no retry timer is
  left, since the update that counts the retry makes React clean up the effect that holds the timer.
\<close>

theorem retry_timer_never_pending: "\<not> h_timer (hookAfter opts hash now cache pending evs)"
proof -
  have "\<not> h_timer (mountHook opts hash now cache pending)"
    by (simp add: mountHook_def rerun_def startFetch_def queueFetch_def split: option.split)
  moreover have "\<not> h_timer s \<Longrightarrow> \<not> h_timer (fold (settleFetch opts hash) evs s)" for s
    by (induction evs arbitrary: s) (simp_all add: settle_timer)
  ultimately show ?thesis by (simp add: hookAfter_def)
qed

fun failure :: "fetchEvent \<Rightarrow> bool" where
  "failure (OwnEnds _ r) = isl r"
| "failure (OtherEnds r) = isl r"

definition retryLimit :: "ipfsOptions \<Rightarrow> nat" where
  "retryLimit opts = (if o_autoRetry opts then o_retryAttempts opts else 0)"

text \<open>While own requests fail, the state after \<open>n\<close> failures.\<close>

definition failedState :: "ipfsOptions \<Rightarrow> ipfsCache \<Rightarrow> string \<Rightarrow> nat \<Rightarrow> ipfsHook" where
  "failedState opts cache err n =
     \<lparr>h_data = None, h_isLoading = (n \<le> retryLimit opts), h_error = (if n \<le> retryLimit opts then None else Some err),
      h_retryCount = min n (retryLimit opts), h_timer = False, h_cache = cache, h_pending = (n \<le> retryLimit opts),
      h_waiting = None, h_running = (if n \<le> retryLimit opts then Some n else None), h_requests = Suc (min n (retryLimit opts))\<rparr>"

lemma failed_step:
  assumes "failure ev" "hash \<noteq> []" "o_enabled opts" "cache hash = None" "n \<le> Suc (retryLimit opts)"
  shows "\<exists>err'. settleFetch opts hash ev (failedState opts cache err n)
     = failedState opts cache err' (case ev of OwnEnds _ _ \<Rightarrow> min (Suc n) (Suc (retryLimit opts)) | OtherEnds _ \<Rightarrow> n)"
proof (cases ev)
  case (OtherEnds r)
  then show ?thesis using assms(5)
    by (cases "n \<le> retryLimit opts") (auto simp: failedState_def endWaiting_def Let_def)
next
  case (OwnEnds now r)
  then obtain e where e: "r = Inl e" using assms(1) by (cases r) auto
  consider "n < retryLimit opts" | "n = retryLimit opts" | "n = Suc (retryLimit opts)" using assms(5) by linarith
  then show ?thesis
    using OwnEnds e assms
    by cases (auto simp: failedState_def endFetch_def rerun_def startFetch_def queueFetch_def nonempty_def cachedData_def
        Let_def retryLimit_def min_def split: if_splits)
qed

definition ownEnds :: "fetchEvent list \<Rightarrow> nat" where
  "ownEnds evs = length (filter (\<lambda>ev. case ev of OwnEnds _ _ \<Rightarrow> True | OtherEnds _ \<Rightarrow> False) evs)"

lemma hook_failing:
  assumes "list_all failure evs" "hash \<noteq> []" "o_enabled opts" "cache hash = None"
  shows "\<exists>err. hookAfter opts hash now cache False evs = failedState opts cache err (min (ownEnds evs) (Suc (retryLimit opts)))"
  using assms(1)
proof (induction evs rule: rev_induct)
  case Nil
  show ?case using assms
    by (simp add: hookAfter_def ownEnds_def mountHook_def rerun_def startFetch_def queueFetch_def failedState_def nonempty_def cachedData_def)
next
  case (snoc ev evs)
  then obtain err where s: "hookAfter opts hash now cache False evs = failedState opts cache err (min (ownEnds evs) (Suc (retryLimit opts)))"
    by auto
  have "failure ev" using snoc.prems by simp
  then obtain err' where "settleFetch opts hash ev (failedState opts cache err (min (ownEnds evs) (Suc (retryLimit opts))))
      = failedState opts cache err' (case ev of OwnEnds _ _ \<Rightarrow> min (Suc (min (ownEnds evs) (Suc (retryLimit opts)))) (Suc (retryLimit opts))
          | OtherEnds _ \<Rightarrow> min (ownEnds evs) (Suc (retryLimit opts)))"
    using failed_step [where cache = cache, OF _ assms(2-4), of ev "min (ownEnds evs) (Suc (retryLimit opts))" err] by auto
  then show ?case using s by (intro exI [of _ err']) (cases ev; simp add: hookAfter_def ownEnds_def min_def)
qed

text \<open>
  A failing hash is requested a bounded number of times: after any number of failures, of its own
  requests or of those of other hooks, the hook has queued one request and one for each own failure up to the allowed
  retries; it loads until the last of them has failed, and then shows an error.
\<close>

theorem failing_hash_requests:
  assumes "list_all failure evs" "hash \<noteq> []" "o_enabled opts" "cache hash = None"
    and "limit = (if o_autoRetry opts then o_retryAttempts opts else 0)" and "s = hookAfter opts hash now cache False evs"
  shows "h_requests s = 1 + min (ownEnds evs) limit
     \<and> (h_isLoading s \<longleftrightarrow> ownEnds evs \<le> limit) \<and> h_data s = None \<and> (h_error s = None \<longleftrightarrow> ownEnds evs \<le> limit)"
proof -
  have l: "limit = retryLimit opts" using assms(5) by (simp add: retryLimit_def)
  obtain err where "s = failedState opts cache err (min (ownEnds evs) (Suc limit))"
    using hook_failing [where cache = cache, OF assms(1-4), of now] assms(6) l by auto
  then show ?thesis by (cases "ownEnds evs \<le> limit") (simp_all add: failedState_def l min_def)
qed

theorem failing_hash_requests_witness:
  "list_all failure (replicate 5 (OwnEnds 0 (Inl (newError ''x'')))) \<and>
   h_requests (hookAfter \<lparr>o_enabled = True, o_retryAttempts = 3, o_autoRetry = True, o_cacheTTL = 300000\<rparr> ''Qm'' 0 Map.empty False
     (replicate 5 (OwnEnds 0 (Inl (newError ''x''))))) = 4"
proof -
  have f: "list_all failure (replicate 5 (OwnEnds 0 (Inl (newError ''x''))))" by (simp add: list_all_length)
  show ?thesis
    using f failing_hash_requests [where cache = Map.empty, OF f, of "''Qm''" "\<lparr>o_enabled = True, o_retryAttempts = 3, o_autoRetry = True, o_cacheTTL = 300000\<rparr>"
        3, OF _ _ _ _ refl, of 0] by (simp add: ownEnds_def)
qed

text \<open>
  A successful request serves later ones: after it the content is shown without an error, and a
  hook that starts within the time to live shows the same content without a request.
\<close>

theorem success_is_cached:
  assumes "h_running s = Some k" "s' = settleFetch opts hash (OwnEnds t (Inr d)) s" "hash \<noteq> []" "o_enabled opts" "0 < o_cacheTTL opts"
    and "t \<le> t'" "t' < t + o_cacheTTL opts"
  shows "h_data s' = d \<and> h_error s' = None \<and> h_running s' = None \<and> h_requests s' = h_requests s
     \<and> h_data (mountHook opts' hash t' (h_cache s') pending) = (if o_enabled opts' then d else None)
     \<and> h_requests (mountHook opts' hash t' (h_cache s') pending) = 0"
  using assms by (auto simp: endFetch_def rerun_def startFetch_def queueFetch_def mountHook_def nonempty_def cachedData_def Let_def)

theorem success_is_cached_witness:
  "let opts = \<lparr>o_enabled = True, o_retryAttempts = 3, o_autoRetry = True, o_cacheTTL = 300000\<rparr>;
       s = mountHook opts ''Qm'' 0 Map.empty False; s' = settleFetch opts ''Qm'' (OwnEnds 10 (Inr (Some JNull))) s
   in h_running s = Some 0 \<and> h_data s' = Some JNull \<and> h_requests (mountHook opts ''Qm'' 300009 (h_cache s') True) = 0"
proof -
  define opts where "opts = \<lparr>o_enabled = True, o_retryAttempts = 3, o_autoRetry = True, o_cacheTTL = 300000\<rparr>"
  define s where "s = mountHook opts ''Qm'' 0 Map.empty False"
  have r: "h_running s = Some 0"
    by (simp add: s_def opts_def mountHook_def rerun_def startFetch_def queueFetch_def nonempty_def cachedData_def)
  have "h_data (settleFetch opts ''Qm'' (OwnEnds 10 (Inr (Some JNull))) s) = Some JNull
      \<and> h_requests (mountHook opts ''Qm'' 300009 (h_cache (settleFetch opts ''Qm'' (OwnEnds 10 (Inr (Some JNull))) s)) True) = 0"
    using success_is_cached [OF r refl, of "''Qm''" opts 10 300009 "Some JNull" opts] by (simp add: opts_def)
  with r show ?thesis by (simp add: Let_def s_def opts_def)
qed

section \<open>Batches\<close>

text \<open>Without a cache every hash would get the result of its own request.\<close>

definition directEntry :: "(string \<Rightarrow> caughtError + json option) \<Rightarrow> string \<Rightarrow> batchEntry" where
  "directEntry f hash =
     (case f hash of
        Inr d \<Rightarrow> \<lparr>b_data = d, b_isLoading = False, b_error = None\<rparr>
      | Inl err \<Rightarrow> \<lparr>b_data = None, b_isLoading = False, b_error = Some (orMessage err ''Failed to fetch'')\<rparr>)"

definition agrees :: "(string \<Rightarrow> caughtError + json option) \<Rightarrow> ipfsCache \<Rightarrow> bool" where
  "agrees f cache \<longleftrightarrow> (\<forall>h c. cache h = Some c \<longrightarrow> f h = Inr (ce_data c))"

lemma batchItem_direct:
  "agrees f cache \<Longrightarrow>
   \<lparr>b_data = fst (batchItem cache now f hash), b_isLoading = False, b_error = snd (batchItem cache now f hash)\<rparr> = directEntry f hash"
  by (auto simp: agrees_def batchItem_def cachedData_def directEntry_def split: option.splits sum.splits)

lemma agrees_store: "agrees f cache \<Longrightarrow> agrees f (fold (batchStore before now now' ttl f) batch cache)"
proof (induction batch arbitrary: cache)
  case (Cons h batch)
  have "agrees f (batchStore before now now' ttl f h cache)"
    using Cons.prems by (auto simp: agrees_def batchStore_def split: option.splits sum.splits)
  then show ?case by (simp add: Cons.IH)
qed simp

lemma fold_entries: "fold (\<lambda>h m. m(h \<mapsto> g h)) hs m = (\<lambda>h. if h \<in> set hs then Some (g h) else m h)"
  by (induction hs arbitrary: m) (auto simp: fun_eq_iff)

lemma hashLoop_direct:
  assumes "0 < bs" "fetch = (\<lambda>i. f)" "agrees f cache"
  shows "\<exists>cache'. agrees f cache' \<and> hashLoop bs ttl readings fetch hashes i cache m
     = Some (cache', \<lambda>h. if h \<in> set (drop i hashes) then Some (directEntry f h) else m h)"
  using assms(3)
proof (induction "length hashes - i" arbitrary: i cache m rule: less_induct)
  case less
  show ?case
  proof (cases "i < length hashes")
    case False
    then show ?thesis using less.prems by (simp add: hashLoop.simps [of bs])
  next
    case True
    let ?batch = "take bs (drop i hashes)"
    let ?cache = "fold (batchStore cache (fst (readings i)) (snd (readings i)) ttl f) ?batch cache"
    let ?m = "\<lambda>h. if h \<in> set ?batch then Some (directEntry f h) else m h"
    have dec: "length hashes - (i + bs) < length hashes - i" using True assms(1) by linarith
    have step: "hashLoop bs ttl readings fetch hashes i cache m = hashLoop bs ttl readings fetch hashes (i + bs) ?cache ?m"
      using True assms(2) less.prems by (subst hashLoop.simps) (simp add: Let_def batchItem_direct fold_entries)
    obtain cache' where c: "agrees f cache'" "hashLoop bs ttl readings fetch hashes (i + bs) ?cache ?m
        = Some (cache', \<lambda>h. if h \<in> set (drop (i + bs) hashes) then Some (directEntry f h) else ?m h)"
      using less.hyps [OF dec agrees_store [OF less.prems]] by blast
    have "set (drop i hashes) = set ?batch \<union> set (drop (i + bs) hashes)"
      by (metis add.commute append_take_drop_id drop_drop set_append)
    then show ?thesis using c unfolding step by (intro exI [of _ cache']) auto
  qed
qed

text \<open>
  C25. Batching and caching do not change results: with a positive batch size, requests that end the same
  whenever they are made and a cache that holds such results, processing a list of hashes ends, and
  every hash of the list has exactly the result of its own request, whatever the sizes, the times and the
  time to live.
\<close>

theorem batch_results_direct:
  assumes "0 < bs" "fetch = (\<lambda>i. f)" "agrees f cache" "hashes \<noteq> []"
  shows "\<exists>cache'. agrees f cache' \<and> processHashes bs cacheTTL readings fetch hashes (s, cache)
     = Some (s\<lparr>bh_results := (\<lambda>h. if h \<in> set hashes then Some (directEntry f h) else None), bh_isLoading := False\<rparr>, cache')"
proof -
  obtain cache' where "agrees f cache'" "hashLoop bs (case cacheTTL of None \<Rightarrow> 300000 | Some n \<Rightarrow> if n = 0 then 300000 else n)
      readings fetch hashes 0 cache Map.empty = Some (cache', \<lambda>h. if h \<in> set (drop 0 hashes) then Some (directEntry f h) else None)"
    using hashLoop_direct [OF assms(1-3)] by blast
  then show ?thesis using assms(4) by (simp add: processHashes_def Let_def)
qed

lemma hashLoop_end:
  "hashLoop bs ttl readings fetch hashes i cache m = Some y \<Longrightarrow> 0 < bs \<or> length hashes \<le> i"
proof (rule hashLoop.raw_induct [where P = "\<lambda>bs ttl readings fetch hashes i cache m y. 0 < bs \<or> length hashes \<le> i"], goal_cases)
  case (1 hashLoop bs ttl readings fetch hashes i cache m y)
  then show ?case by (fastforce simp: Let_def split: if_splits)
qed

text \<open>A batch size of 0 makes the loop run forever: the call never returns.\<close>

theorem batch_size_zero:
  assumes "hashes \<noteq> []"
  shows "processHashes 0 cacheTTL readings fetch hashes (s, cache) = None"
proof -
  from hashLoop_end [of 0 _ _ _ hashes 0] have "hashLoop 0 ttl readings fetch hashes 0 cache m = None" for ttl m
    using assms by (cases "hashLoop 0 ttl readings fetch hashes 0 cache m") simp_all
  then show ?thesis using assms by (simp add: processHashes_def Let_def)
qed

theorem batch_results_direct_witness:
  "\<exists>s'. processHashes 2 None (\<lambda>i. (int i, int i + 1)) (\<lambda>i h. if h = ''b'' then Inl (newError []) else Inr (Some (JStr h)))
     [''a'', ''b'', ''c''] (\<lparr>bh_results = Map.empty, bh_isLoading = True\<rparr>, Map.empty) = Some s'
   \<and> bh_results (fst s') ''b'' = Some \<lparr>b_data = None, b_isLoading = False, b_error = Some ''Failed to fetch''\<rparr>
   \<and> bh_results (fst s') ''c'' = Some \<lparr>b_data = Some (JStr ''c''), b_isLoading = False, b_error = None\<rparr>"
proof -
  let ?f = "\<lambda>h. if h = ''b'' then Inl (newError []) else Inr (Some (JStr h))"
  have "agrees ?f Map.empty" by (simp add: agrees_def)
  then obtain cache' where "processHashes 2 None (\<lambda>i. (int i, int i + 1)) (\<lambda>i. ?f) [''a'', ''b'', ''c'']
      (\<lparr>bh_results = Map.empty, bh_isLoading = True\<rparr>, Map.empty)
    = Some (\<lparr>bh_results = Map.empty, bh_isLoading = True\<rparr>\<lparr>bh_results :=
        (\<lambda>h. if h \<in> set [''a'', ''b'', ''c''] then Some (directEntry ?f h) else None), bh_isLoading := False\<rparr>, cache')"
    using batch_results_direct [of 2 "\<lambda>i. ?f" ?f Map.empty "[''a'', ''b'', ''c'']" None "\<lambda>i. (int i, int i + 1)"
        "\<lparr>bh_results = Map.empty, bh_isLoading = True\<rparr>"] by auto
  then show ?thesis by (simp add: directEntry_def orMessage_def newError_def)
qed

section \<open>Images\<close>

text \<open>
  What an image shows: without a hash, or when the hash (its ipfs prefix apart) is not plausible, the
  fallback and no request; else the cached url while it is fresh; else the stored copy; else the gateway
  url of the hash if it loads, and the fallback if it does not. In every case loading has ended, and only an image that was
  found is cached.
\<close>

theorem image_shown:
  assumes "loadImage e fallbackUrl cacheTTL parse localStorage test now now' hash (s, cache) = (s', cache')"
  shows "i_isLoading s' = False
     \<and> i_imageUrl s' =
        (if \<not> nonempty hash \<or> \<not> isPlausibleCID (if startsWith (the hash) ''ipfs://'' then drop 7 (the hash) else the hash)
         then Some fallbackUrl
         else case cache (imageKey (the hash)) of
                Some c \<Rightarrow>
                  if now - ce_timestamp c < cacheTTL then map_option jsText (ce_data c)
                  else (case storedImage parse localStorage (the hash) of
                          Some d \<Rightarrow> Some (jsText d)
                        | None \<Rightarrow> Some (if test (getIPFSUrl e (the hash)) = ImgOk then getIPFSUrl e (the hash) else fallbackUrl))
              | None \<Rightarrow>
                  (case storedImage parse localStorage (the hash) of
                     Some d \<Rightarrow> Some (jsText d)
                   | None \<Rightarrow> Some (if test (getIPFSUrl e (the hash)) = ImgOk then getIPFSUrl e (the hash) else fallbackUrl)))
     \<and> (cache' = cache \<or> (\<exists>d. i_imageUrl s' = Some (jsText d)
          \<and> cache' = cache(imageKey (the hash) \<mapsto> \<lparr>ce_data = Some d, ce_timestamp = now', ce_ttl = cacheTTL\<rparr>)))"
  using assms
  by (auto simp: loadImage_def loadMissing_def getIPFSGatewayCandidates_def getIPFSUrl_def Let_def split: option.splits if_splits)

text \<open>
  A broken image settles: after an error event the fallback is shown, and a further error leaves the url
  as it is, so the effect that loads the shown url runs at most twice.
\<close>

theorem image_error_settles:
  "i_imageUrl (handleError fallbackUrl s) = Some fallbackUrl
     \<and> i_imageUrl (handleError fallbackUrl (handleError fallbackUrl s)) = i_imageUrl (handleError fallbackUrl s)
     \<and> hasImageError (handleError fallbackUrl s) \<and> \<not> i_isImageLoaded (handleError fallbackUrl s)"
  by (simp add: handleError_def hasImageError_def Let_def)

text \<open>
  The url of an image at the configured gateway shows the fallback, though the hash library reads such
  urls: the check before the request takes off the ipfs prefix only.
\<close>

theorem gateway_url_shows_fallback:
  "isPlausibleCID (extractIPFSHash devEnv (getIPFSUrl devEnv exampleHash))
   \<and> i_imageUrl (fst (loadImage devEnv ''/splash.png'' 300000 exampleParse (\<lambda>_. None) (\<lambda>_. ImgOk) 0 0
        (Some (getIPFSUrl devEnv exampleHash)) (s, cache))) = Some ''/splash.png''"
proof -
  have "getIPFSUrl devEnv exampleHash = ''http://10.0.0.1:8080/ipfs/'' @ exampleHash" by code_simp
  moreover have "isPlausibleCID (extractIPFSHash devEnv (''http://10.0.0.1:8080/ipfs/'' @ exampleHash))" by code_simp
  moreover have "\<not> isPlausibleCID (''http://10.0.0.1:8080/ipfs/'' @ exampleHash)" by code_simp
  moreover have "\<not> startsWith (''http://10.0.0.1:8080/ipfs/'' @ exampleHash) ''ipfs://''" by (simp add: startsWith_def)
  ultimately show ?thesis by (simp add: loadImage_def nonempty_def Let_def)
qed

end
