(* ===== verification/Frontend_Ids.thy ===== *)
theory Frontend_Ids
  imports Ids
begin

text \<open>
  The id conversions of the web client: \<open>packages/frontend/src/lib/id-utils.ts\<close> (organization ids,
  eight characters or bytes8 hex) and \<open>hierarchical-id-utils.ts\<close> (proposal and campaign ids).

  \<^item> A regular expression is the bool-valued check of its character classes and length.
  \<^item> A thrown \<open>Error\<close> is \<open>Inl\<close> of its message.
  \<^item> Strings are lists of code units below 256. \<open>parseInt\<close> of a pair such as \<open>-1\<close> is negative and
    \<open>fromCharCode\<close> then leaves that range; the conversion returns \<open>None\<close> for exactly these inputs.
  \<^item> A transaction log is a record with the two properties the code reads, each of which may be
    missing; the log decoder of the client library is an argument.

  The lemmas show the round trips, that client and subgraph agree on the id of an organization, that
  the two id formats exclude each other, and the error behaviour of every checked conversion.
\<close>

section \<open>Character classes and number parsing\<close>

definition upper_alnum :: "char \<Rightarrow> bool" where
  "upper_alnum c \<longleftrightarrow> (let n = (of_char c :: nat) in (48 \<le> n \<and> n \<le> 57) \<or> (65 \<le> n \<and> n \<le> 90))"

definition hex_char :: "char \<Rightarrow> bool" where
  "hex_char c \<longleftrightarrow> hexval c \<noteq> None"

text \<open>\<open>parseInt(s, 16)\<close>: skip white space, an optional sign, an optional \<open>0x\<close>, then the digits; \<open>None\<close> is NaN.\<close>

definition parseHexDigits :: "string \<Rightarrow> int option" where
  "parseHexDigits s =
     (let t = (if take 2 s = ''0x'' \<or> take 2 s = ''0X'' then drop 2 s else s);
          ds = takeWhile hex_char t
      in if ds = [] then None else Some (foldl (\<lambda>a c. 16 * a + int (the (hexval c))) 0 ds))"

definition parseInt16 :: "string \<Rightarrow> int option" where
  "parseInt16 s =
     (case dropWhile js_space s of
        [] \<Rightarrow> None
      | c # cs \<Rightarrow> if c = CHR ''-'' then map_option uminus (parseHexDigits cs)
                 else if c = CHR ''+'' then parseHexDigits cs
                 else parseHexDigits (c # cs))"

text \<open>\<open>String.fromCharCode\<close> of a number: modulo \<open>2 ^ 16\<close>, NaN is 0.\<close>

definition jsFromCharCode :: "int option \<Rightarrow> char option" where
  "jsFromCharCode v =
     (case v of
        None \<Rightarrow> Some (char_of (0 :: nat))
      | Some n \<Rightarrow> (let u = nat (n mod 65536) in if u < 256 then Some (char_of u) else None))"

section \<open>Organization ids\<close>

fun decodePairs :: "string \<Rightarrow> string option" where
  "decodePairs (c # d # cs) =
     (case (jsFromCharCode (parseInt16 [c, d]), decodePairs cs) of
        (Some x, Some xs) \<Rightarrow> Some (x # xs)
      | _ \<Rightarrow> None)"
| "decodePairs _ = Some []"

definition bytes8ToAlphanumericString :: "string \<Rightarrow> string option" where
  "bytes8ToAlphanumericString bytes8Hex =
     (let hex = (if take 2 bytes8Hex = ''0x'' then drop 2 bytes8Hex else bytes8Hex)
      in if length hex \<noteq> 16 then Some bytes8Hex else decodePairs hex)"

definition frontend_alphanumericStringToBytes8 :: "string \<Rightarrow> string" where
  "frontend_alphanumericStringToBytes8 alphanumericId =
     (if length alphanumericId \<noteq> 8 then alphanumericId
      else ''0x'' @ concat (map (\<lambda>c. padStart 2 CHR ''0'' (show_hex (charCodeAt c))) alphanumericId))"

definition isValidAlphanumericId :: "string \<Rightarrow> bool" where
  "isValidAlphanumericId i \<longleftrightarrow> length i = 8 \<and> list_all upper_alnum i"

definition isValidBytes8Id :: "string \<Rightarrow> bool" where
  "isValidBytes8Id i \<longleftrightarrow> take 2 i = ''0x'' \<and> length i = 18 \<and> list_all hex_char (drop 2 i)"

definition toContractId :: "string \<Rightarrow> string" where
  "toContractId i =
     (if isValidBytes8Id i then i
      else if isValidAlphanumericId i then frontend_alphanumericStringToBytes8 i
      else frontend_alphanumericStringToBytes8 i)"

definition toDisplayId :: "string \<Rightarrow> string option" where
  "toDisplayId i =
     (if isValidAlphanumericId i then Some i
      else if isValidBytes8Id i then bytes8ToAlphanumericString i
      else Some i)"

record tx_log =
  log_address :: "string option"
  log_topics :: "string list option"

text \<open>
  \<open>logs.find(...)\<close> with its predicate: reading \<open>toLowerCase\<close> of a missing address throws (\<open>Inl\<close>),
  which the caller catches.
\<close>

fun findCreatedLog :: "tx_log list \<Rightarrow> string \<Rightarrow> unit + tx_log option" where
  "findCreatedLog [] contractAddress = Inr None"
| "findCreatedLog (l # logs) contractAddress =
     (case log_address l of
        None \<Rightarrow> Inl ()
      | Some a \<Rightarrow>
          if toLowerCase a = toLowerCase contractAddress \<and>
             (case log_topics l of None \<Rightarrow> False | Some ts \<Rightarrow> length ts = 4)
          then Inr (Some l)
          else findCreatedLog logs contractAddress)"

definition extractOrganizationIdFromLogs :: "tx_log list \<Rightarrow> string \<Rightarrow> string option option" where
  "extractOrganizationIdFromLogs logs contractAddress =
     (case findCreatedLog logs contractAddress of
        Inl _ \<Rightarrow> Some None
      | Inr None \<Rightarrow> Some None
      | Inr (Some l) \<Rightarrow>
          (case log_topics l of
             None \<Rightarrow> Some None
           | Some ts \<Rightarrow>
               (let orgIdBytes32 = ts ! 1
                in if orgIdBytes32 = [] then Some None
                   else map_option Some (bytes8ToAlphanumericString (take 18 orgIdBytes32)))))"

text \<open>
  \<open>decodeEventLog\<close> is code of the client library: it throws (\<open>None\<close>) or returns the event name and
  the value of \<open>args.id\<close>, either of which may be missing.
\<close>

fun extractOrganizationIdFromLogsViem ::
  "('l \<Rightarrow> (string option \<times> string option) option) \<Rightarrow> 'l list \<Rightarrow> string option option" where
  "extractOrganizationIdFromLogsViem decodeEventLog [] = Some None"
| "extractOrganizationIdFromLogsViem decodeEventLog (l # logs) =
     (case decodeEventLog l of
        Some (Some eventName, Some idHex) \<Rightarrow>
          if eventName = ''OrganizationCreated'' \<and> idHex \<noteq> [] then
            (let bytes8 = (if take 2 idHex = ''0x'' then take 18 idHex else ''0x'' @ take 16 idHex)
             in map_option Some (bytes8ToAlphanumericString bytes8))
          else extractOrganizationIdFromLogsViem decodeEventLog logs
      | _ \<Rightarrow> extractOrganizationIdFromLogsViem decodeEventLog logs)"

section \<open>Hierarchical ids\<close>

definition isHierarchicalId :: "string \<Rightarrow> bool" where
  "isHierarchicalId i \<longleftrightarrow> length i = 19 \<and> list_all upper_alnum (take 8 i) \<and> i ! 8 = CHR ''-''
     \<and> (i ! 9 = CHR ''P'' \<or> i ! 9 = CHR ''C'') \<and> i ! 10 = CHR ''-'' \<and> list_all upper_alnum (drop 11 i)"

definition isLegacyId :: "string \<Rightarrow> bool" where
  "isLegacyId i \<longleftrightarrow> (take 2 i = ''0x'' \<and> length i = 66 \<and> list_all hex_char (drop 2 i))
     \<or> (length i = 64 \<and> list_all hex_char i)"

definition invalidFormat :: string where
  "invalidFormat = ''Invalid hierarchical ID format''"

definition extractOrgId :: "string \<Rightarrow> string + string" where
  "extractOrgId i = (if \<not> isHierarchicalId i then Inl invalidFormat else Inr (take 8 i))"

definition extractEntityId :: "string \<Rightarrow> string + string" where
  "extractEntityId i = (if \<not> isHierarchicalId i then Inl invalidFormat else Inr (drop 11 i))"

definition extractEntityType :: "string \<Rightarrow> string + char" where
  "extractEntityType i = (if \<not> isHierarchicalId i then Inl invalidFormat else Inr (i ! 9))"

definition validateHierarchicalId :: "string \<Rightarrow> char option \<Rightarrow> string + bool" where
  "validateHierarchicalId i expectedType =
     (if \<not> isHierarchicalId i then Inr False
      else case expectedType of
             Some t \<Rightarrow> bind_halt (extractEntityType i) (\<lambda>c. Inr (c = t))
           | None \<Rightarrow> Inr True)"

definition generateProposalId :: "string \<Rightarrow> string \<Rightarrow> string + string" where
  "generateProposalId orgId proposalId =
     (if length orgId \<noteq> 8 then Inl ''Organization ID must be 8 characters''
      else if length proposalId \<noteq> 8 then Inl ''Proposal ID must be 8 characters''
      else Inr (orgId @ ''-P-'' @ proposalId))"

definition generateCampaignId :: "string \<Rightarrow> string \<Rightarrow> string + string" where
  "generateCampaignId orgId campaignId =
     (if length orgId \<noteq> 8 then Inl ''Organization ID must be 8 characters''
      else if length campaignId \<noteq> 8 then Inl ''Campaign ID must be 8 characters''
      else Inr (orgId @ ''-C-'' @ campaignId))"

definition formatIdForDisplay :: "string \<Rightarrow> string" where
  "formatIdForDisplay i =
     (if isHierarchicalId i then i
      else if isLegacyId i then
        (let cleanId = (if take 2 i = ''0x'' then drop 2 i else i)
         in take 8 cleanId @ ''...'' @ drop (length cleanId - 8) cleanId)
      else i)"

definition formatIdForUrl :: "string \<Rightarrow> string" where
  "formatIdForUrl i =
     (if isHierarchicalId i then i
      else if isLegacyId i then (if take 2 i = ''0x'' then i else ''0x'' @ i)
      else i)"

definition parseIdFromUrl :: "string \<Rightarrow> string" where
  "parseIdFromUrl urlParam =
     (if isHierarchicalId urlParam then urlParam
      else if isLegacyId urlParam then (if take 2 urlParam = ''0x'' then urlParam else ''0x'' @ urlParam)
      else urlParam)"

definition getContractFunctionName :: "string \<Rightarrow> string \<Rightarrow> string" where
  "getContractFunctionName baseFunction i = (if isHierarchicalId i then baseFunction @ ''V2'' else baseFunction)"

definition formatIdForContract :: "string \<Rightarrow> string" where
  "formatIdForContract i =
     (if isHierarchicalId i then i
      else if isLegacyId i then (if take 2 i = ''0x'' then i else ''0x'' @ i)
      else i)"

definition shouldUseV2Functions :: "string \<Rightarrow> bool" where
  "shouldUseV2Functions i = isHierarchicalId i"

datatype idFormat = Hierarchical | Legacy

definition migrateIdFormat :: "string \<Rightarrow> idFormat \<Rightarrow> string + string" where
  "migrateIdFormat i targetFormat =
     (if targetFormat = Hierarchical \<and> isLegacyId i then
        Inl ''Legacy to hierarchical conversion requires contract lookup''
      else if targetFormat = Legacy \<and> isHierarchicalId i then
        Inl ''Hierarchical to legacy conversion requires contract lookup''
      else Inr i)"

section \<open>Client and subgraph use the same organization ids\<close>

lemma hexval_less: "hexval c = Some h \<Longrightarrow> h < 16"
  by (auto simp: hexval_def Let_def split: if_splits)

lemma hex_char_simps [simp]: "n < 16 \<Longrightarrow> hex_char (hexdigit n)"
  by (simp add: hex_char_def)

lemma hex_char_plain:
  assumes "hex_char c"
  shows "\<not> js_space c" and "c \<noteq> CHR ''-''" and "c \<noteq> CHR ''+''" and "c \<noteq> CHR ''x''" and "c \<noteq> CHR ''X''"
  using assms by (auto simp: hex_char_def hexval_def js_space_def Let_def split: if_splits)

lemma parseInt16_pair:
  assumes "hexval c = Some h" and "hexval d = Some l"
  shows "parseInt16 [c, d] = Some (int (16 * h + l))"
proof -
  have hc: "hex_char c" "hex_char d" using assms by (simp_all add: hex_char_def)
  note p = hex_char_plain [OF hc(1)] hex_char_plain [OF hc(2)]
  show ?thesis using p hc assms by (simp add: parseInt16_def parseHexDigits_def)
qed

lemma jsFromCharCode_byte: "n < 256 \<Longrightarrow> jsFromCharCode (Some (int n)) = Some (char_of n)"
  by (simp add: jsFromCharCode_def Let_def nat_mod_distrib)

lemma decodePairs_byte_hex: "decodePairs (byte_hex b @ cs) = map_option ((#) (fromCharCode b)) (decodePairs cs)"
proof -
  have "parseInt16 [hexdigit (unat b div 16), hexdigit (unat b mod 16)] = Some (int (unat b))"
    using parseInt16_pair [of "hexdigit (unat b div 16)" "unat b div 16" "hexdigit (unat b mod 16)" "unat b mod 16"]
    by (simp add: byte_nibbles flip: of_nat_add of_nat_mult)
  then show ?thesis
    using jsFromCharCode_byte [OF unat_byte_less, of b]
    by (auto simp: byte_hex_def fromCharCode_def split: option.splits)
qed

lemma decodePairs_encode: "decodePairs (concat (map byte_hex bs)) = Some (map fromCharCode bs)"
  by (induction bs) (simp_all add: decodePairs_byte_hex)

lemma length_hex_body: "length (concat (map byte_hex bs)) = 2 * length bs"
  by (induction bs) simp_all

lemma bytes8ToAlphanumericString_toHex:
  "length b = 8 \<Longrightarrow> bytes8ToAlphanumericString (toHex b) = Some (map fromCharCode b)"
  by (simp add: bytes8ToAlphanumericString_def toHex_def length_hex_body decodePairs_encode Let_def)

lemma frontend_alphanumericStringToBytes8_map:
  "length b = 8 \<Longrightarrow> frontend_alphanumericStringToBytes8 (map fromCharCode b) = toHex b"
  by (simp add: frontend_alphanumericStringToBytes8_def toHex_def padStart_show_hex comp_def)

lemma list_all_hex_body: "list_all hex_char (concat (map byte_hex bs))"
  by (induction bs) (simp_all add: byte_hex_def byte_nibbles)

lemma isValidBytes8Id_toHex: "isValidBytes8Id (toHex b) \<longleftrightarrow> length b = 8"
  by (auto simp: isValidBytes8Id_def toHex_def length_hex_body list_all_hex_body)

text \<open>
  C35. Client and subgraph name an organization alike. For every bytes8 id the subgraph's id
  string is what the client displays for the hex form, and the client turns that string back into the
  hex form the contract expects.
\<close>

theorem organization_ids_agree:
  assumes "length b = 8"
  shows "\<exists>s. getOrganizationIdString b = Inr s \<and> toDisplayId (toHex b) = Some s \<and> toContractId s = toHex b
     \<and> toContractId (toHex b) = toHex b"
proof -
  have "\<not> isValidAlphanumericId (toHex b)" using assms by (simp add: isValidAlphanumericId_def length_toHex)
  then have d: "toDisplayId (toHex b) = Some (map fromCharCode b)"
    using assms by (simp add: toDisplayId_def isValidBytes8Id_toHex bytes8ToAlphanumericString_toHex)
  have "\<not> isValidBytes8Id (map fromCharCode b)" using assms by (simp add: isValidBytes8Id_def)
  then have "toContractId (map fromCharCode b) = toHex b"
    using assms by (simp add: toContractId_def frontend_alphanumericStringToBytes8_map)
  with d assms show ?thesis
    by (simp add: getOrganizationIdString_bytes8 toContractId_def isValidBytes8Id_toHex)
qed

theorem organization_ids_agree_witness:
  "length ([90, 81, 57, 71, 56, 69, 65, 90] :: bytes) = 8 \<and>
   (\<exists>s. getOrganizationIdString [90, 81, 57, 71, 56, 69, 65, 90] = Inr s
     \<and> toDisplayId (toHex [90, 81, 57, 71, 56, 69, 65, 90]) = Some s
     \<and> toContractId s = toHex [90, 81, 57, 71, 56, 69, 65, 90]
     \<and> toContractId (toHex [90, 81, 57, 71, 56, 69, 65, 90]) = toHex [90, 81, 57, 71, 56, 69, 65, 90])"
proof -
  have "length ([90, 81, 57, 71, 56, 69, 65, 90] :: bytes) = 8" by simp
  from this organization_ids_agree [OF this] show ?thesis by blast
qed

section \<open>The organization id in the logs of a transaction\<close>

definition createdLog :: "string \<Rightarrow> tx_log \<Rightarrow> bool" where
  "createdLog contractAddress l \<longleftrightarrow>
     map_option toLowerCase (log_address l) = Some (toLowerCase contractAddress)
     \<and> map_option length (log_topics l) = Some 4"

lemma findCreatedLog_skip:
  assumes "list_all (\<lambda>l. log_address l \<noteq> None \<and> \<not> createdLog c l) pre"
  shows "findCreatedLog (pre @ logs) c = findCreatedLog logs c"
  using assms by (induction pre) (auto simp: createdLog_def split: option.splits)

lemma findCreatedLog_hit: "createdLog c l \<Longrightarrow> findCreatedLog (l # logs) c = Inr (Some l)"
  by (auto simp: createdLog_def)

lemma take_toHex: "take 18 (toHex (b @ pad)) = (if length b = 8 then toHex b else take 18 (toHex (b @ pad)))"
  by (simp add: toHex_def length_hex_body)

text \<open>
  Reading the id of a new organization from a receipt: the first log of the factory with four
  topics decides, whatever follows it, and the eight leading bytes of its second topic give the id
  under which the subgraph stores the organization.
\<close>

theorem receipt_gives_organization_id:
  assumes "list_all (\<lambda>l. log_address l \<noteq> None \<and> \<not> createdLog factory l) pre"
    and "createdLog factory l" and "log_topics l = Some [sig, toHex (b @ pad), t2, t3]" and "length b = 8"
  shows "\<exists>s. getOrganizationIdString b = Inr s
     \<and> extractOrganizationIdFromLogs (pre @ l # post) factory = Some (Some s)"
proof -
  have "findCreatedLog (pre @ l # post) factory = Inr (Some l)"
    using assms(1, 2) by (simp only: findCreatedLog_skip findCreatedLog_hit)
  then show ?thesis using assms(3, 4) take_toHex [of b pad]
    by (simp add: extractOrganizationIdFromLogs_def bytes8ToAlphanumericString_toHex
        getOrganizationIdString_bytes8)
qed

theorem receipt_gives_organization_id_witness:
  "\<exists>s. getOrganizationIdString [90, 81, 57, 71, 56, 69, 65, 90] = Inr s \<and>
     extractOrganizationIdFromLogs
       ([\<lparr>log_address = Some ''0xaa'', log_topics = None\<rparr>] @
        \<lparr>log_address = Some ''0xBB'',
         log_topics = Some [[], toHex ([90, 81, 57, 71, 56, 69, 65, 90] @ [0, 0]), [], []]\<rparr> # [])
       ''0xbb'' = Some (Some s)"
  by (rule receipt_gives_organization_id [where sig = "[]" and ?t2.0 = "[]" and ?t3.0 = "[]" and pad = "[0, 0]"])
    (simp_all add: createdLog_def toLowerCase_def lower_char_def, code_simp)

section \<open>Hierarchical ids take apart what was put together\<close>

lemma isHierarchicalId_parts:
  assumes "length org = 8" and "length ent = 8"
  shows "isHierarchicalId (org @ CHR ''-'' # t # CHR ''-'' # ent)
     \<longleftrightarrow> list_all upper_alnum org \<and> (t = CHR ''P'' \<or> t = CHR ''C'') \<and> list_all upper_alnum ent"
  using assms by (auto simp: isHierarchicalId_def nth_append)

lemma extract_parts:
  assumes "length org = 8" and "isHierarchicalId (org @ CHR ''-'' # t # CHR ''-'' # ent)"
  shows "extractOrgId (org @ CHR ''-'' # t # CHR ''-'' # ent) = Inr org"
    and "extractEntityId (org @ CHR ''-'' # t # CHR ''-'' # ent) = Inr ent"
    and "extractEntityType (org @ CHR ''-'' # t # CHR ''-'' # ent) = Inr t"
  using assms by (simp_all add: extractOrgId_def extractEntityId_def extractEntityType_def nth_append)

lemma isHierarchicalId_split:
  assumes "isHierarchicalId i"
  obtains org t ent where "i = org @ CHR ''-'' # t # CHR ''-'' # ent" and "length org = 8" and "length ent = 8"
    and "list_all upper_alnum org" and "list_all upper_alnum ent" and "t = CHR ''P'' \<or> t = CHR ''C''"
proof
  have len: "length i = 19" using assms by (simp add: isHierarchicalId_def)
  have "drop 8 i = i ! 8 # drop 9 i" and "drop 9 i = i ! 9 # drop 10 i" and "drop 10 i = i ! 10 # drop 11 i"
    using Cons_nth_drop_Suc [of 8 i] Cons_nth_drop_Suc [of 9 i] Cons_nth_drop_Suc [of 10 i] len by simp_all
  then show "i = take 8 i @ CHR ''-'' # (i ! 9) # CHR ''-'' # drop 11 i"
    using assms append_take_drop_id [of 8 i] by (simp add: isHierarchicalId_def)
  show "length (take 8 i) = 8" "length (drop 11 i) = 8" using len by simp_all
  show "list_all upper_alnum (take 8 i)" "list_all upper_alnum (drop 11 i)" "i ! 9 = CHR ''P'' \<or> i ! 9 = CHR ''C''"
    using assms by (simp_all add: isHierarchicalId_def)
qed

lemmas generated_id_defs = generateProposalId_def generateCampaignId_def

text \<open>
  The hierarchical ids are exactly the generated ones: a string passes \<open>isHierarchicalId\<close> if and
  only if it is the proposal id or the campaign id of an organization and an entity with upper-case
  alphanumeric ids, and for every other string each of the three extractions throws the same error.
\<close>

theorem hierarchical_ids_are_generated:
  "(isHierarchicalId i \<longleftrightarrow>
      (\<exists>org ent. list_all upper_alnum org \<and> list_all upper_alnum ent
         \<and> (generateProposalId org ent = Inr i \<or> generateCampaignId org ent = Inr i)))
   \<and> (if isHierarchicalId i then
        (\<exists>org ent t. extractOrgId i = Inr org \<and> extractEntityId i = Inr ent \<and> extractEntityType i = Inr t
           \<and> (if t = CHR ''P'' then generateProposalId org ent else generateCampaignId org ent) = Inr i)
      else extractOrgId i = Inl ''Invalid hierarchical ID format''
         \<and> extractEntityId i = Inl ''Invalid hierarchical ID format''
         \<and> extractEntityType i = Inl ''Invalid hierarchical ID format'')"
proof (cases "isHierarchicalId i")
  case True
  then obtain org t ent where p: "i = org @ CHR ''-'' # t # CHR ''-'' # ent" "length org = 8" "length ent = 8"
    "list_all upper_alnum org" "list_all upper_alnum ent" "t = CHR ''P'' \<or> t = CHR ''C''"
    by (rule isHierarchicalId_split)
  then have g: "(if t = CHR ''P'' then generateProposalId org ent else generateCampaignId org ent) = Inr i"
    by (auto simp: generated_id_defs)
  with p have "generateProposalId org ent = Inr i \<or> generateCampaignId org ent = Inr i"
    by (simp split: if_splits)
  moreover from True p have "extractOrgId i = Inr org" "extractEntityId i = Inr ent" "extractEntityType i = Inr t"
    by (simp_all only: extract_parts)
  ultimately show ?thesis using True g p by auto
next
  case False
  have "isHierarchicalId i" if "list_all upper_alnum org" "list_all upper_alnum ent"
    "generateProposalId org ent = Inr i \<or> generateCampaignId org ent = Inr i" for org ent
    using that isHierarchicalId_parts [of org ent] by (auto simp: generated_id_defs split: if_splits)
  with False show ?thesis
    by (auto simp: extractOrgId_def extractEntityId_def extractEntityType_def invalidFormat_def)
qed

text \<open>
  Putting an id together and taking it apart: for eight-character upper-case alphanumeric
  parts the generated proposal id gives back the organization, the proposal and the type, it
  validates as a proposal and not as a campaign, and it selects the contract's V2 functions. The same
  holds for campaigns.
\<close>

theorem hierarchical_id_roundtrip:
  assumes "isValidAlphanumericId org" and "isValidAlphanumericId ent"
  shows "(\<exists>h. generateProposalId org ent = Inr h \<and> extractOrgId h = Inr org \<and> extractEntityId h = Inr ent
        \<and> validateHierarchicalId h (Some CHR ''P'') = Inr True \<and> validateHierarchicalId h (Some CHR ''C'') = Inr False
        \<and> getContractFunctionName f h = f @ ''V2'')
     \<and> (\<exists>h. generateCampaignId org ent = Inr h \<and> extractOrgId h = Inr org \<and> extractEntityId h = Inr ent
        \<and> validateHierarchicalId h (Some CHR ''C'') = Inr True \<and> validateHierarchicalId h (Some CHR ''P'') = Inr False
        \<and> getContractFunctionName f h = f @ ''V2'')"
proof -
  have len: "length org = 8" "length ent = 8" using assms by (simp_all add: isValidAlphanumericId_def)
  have h: "isHierarchicalId (org @ CHR ''-'' # t # CHR ''-'' # ent)" if "t = CHR ''P'' \<or> t = CHR ''C''" for t
    using assms len that by (simp add: isHierarchicalId_parts isValidAlphanumericId_def)
  show ?thesis using h [of "CHR ''P''"] h [of "CHR ''C''"] len
    by (simp add: generated_id_defs extract_parts validateHierarchicalId_def getContractFunctionName_def)
qed

theorem hierarchical_id_roundtrip_witness:
  "(\<exists>h. generateProposalId ''ABCD1234'' ''EFGH5678'' = Inr h \<and> extractOrgId h = Inr ''ABCD1234''
        \<and> extractEntityId h = Inr ''EFGH5678''
        \<and> validateHierarchicalId h (Some CHR ''P'') = Inr True \<and> validateHierarchicalId h (Some CHR ''C'') = Inr False
        \<and> getContractFunctionName ''castVote'' h = ''castVote'' @ ''V2'')
     \<and> (\<exists>h. generateCampaignId ''ABCD1234'' ''EFGH5678'' = Inr h \<and> extractOrgId h = Inr ''ABCD1234''
        \<and> extractEntityId h = Inr ''EFGH5678''
        \<and> validateHierarchicalId h (Some CHR ''C'') = Inr True \<and> validateHierarchicalId h (Some CHR ''P'') = Inr False
        \<and> getContractFunctionName ''castVote'' h = ''castVote'' @ ''V2'')"
  by (rule hierarchical_id_roundtrip) (simp_all add: isValidAlphanumericId_def upper_alnum_def)

section \<open>The two id formats\<close>

lemma hierarchical_not_legacy: "isHierarchicalId i \<Longrightarrow> \<not> isLegacyId i"
  by (simp add: isHierarchicalId_def isLegacyId_def)

lemma hex_no_prefix: "list_all hex_char i \<Longrightarrow> take 2 i \<noteq> ''0x''"
  by (cases i; cases "tl i") (auto simp: hex_char_def hexval_def)

lemma hex_prefix_legacy:
  assumes "isLegacyId i"
  shows "isLegacyId (if take 2 i = ''0x'' then i else ''0x'' @ i)"
    and "take 2 (if take 2 i = ''0x'' then i else ''0x'' @ i) = ''0x''"
  using assms by (auto simp: isLegacyId_def)

text \<open>
  Ids survive the address bar: normalising an id for a URL, parsing it back and formatting it
  for a contract call agree and do nothing a second time; a hierarchical id passes unchanged; no id
  has both formats, so a migration throws exactly when the id has the other format.
\<close>

theorem id_formats_consistent:
  "parseIdFromUrl (formatIdForUrl i) = formatIdForUrl i \<and> formatIdForContract (parseIdFromUrl i) = formatIdForUrl i
   \<and> (if isHierarchicalId i then \<not> isLegacyId i \<and> formatIdForUrl i = i \<and> formatIdForDisplay i = i
        \<and> migrateIdFormat i Hierarchical = Inr i
        \<and> migrateIdFormat i Legacy = Inl ''Hierarchical to legacy conversion requires contract lookup''
      else if isLegacyId i then take 2 (formatIdForUrl i) = ''0x'' \<and> length (formatIdForUrl i) = 66
        \<and> length (formatIdForDisplay i) = 19 \<and> migrateIdFormat i Legacy = Inr i
        \<and> migrateIdFormat i Hierarchical = Inl ''Legacy to hierarchical conversion requires contract lookup''
      else formatIdForUrl i = i \<and> formatIdForDisplay i = i \<and> migrateIdFormat i t = Inr i)"
proof (cases "isHierarchicalId i \<or> \<not> isLegacyId i")
  case True
  then show ?thesis
    by (auto simp: parseIdFromUrl_def formatIdForUrl_def formatIdForContract_def formatIdForDisplay_def
        migrateIdFormat_def hierarchical_not_legacy)
next
  case False
  let ?u = "if take 2 i = ''0x'' then i else ''0x'' @ i"
  have l: "isLegacyId ?u" "\<not> isHierarchicalId ?u" "take 2 ?u = ''0x''"
    using False hex_prefix_legacy [of i] hierarchical_not_legacy by metis+
  have f: "formatIdForUrl i = ?u" "parseIdFromUrl i = ?u" "parseIdFromUrl ?u = ?u" "formatIdForContract ?u = ?u"
    using False l by (simp_all add: formatIdForUrl_def parseIdFromUrl_def formatIdForContract_def)
  have n: "length ?u = 66" using l(1) False by (auto simp: isLegacyId_def hex_no_prefix split: if_splits)
  have "length (formatIdForDisplay i) = 19"
    using False n by (auto simp: formatIdForDisplay_def Let_def split: if_splits)
  with False l f n show ?thesis by (auto simp: migrateIdFormat_def simp del: length_append)
qed

end
