(* ===== verification/Names.thy ===== *)
theory Names
  imports Frontend_Ids
begin

text \<open>
  The name claims of the web client, \<open>packages/frontend/src/hooks/useNameClaiming.ts\<close>.

  \<^item> A name is a list of code units below 256. \<open>toUpperCase\<close> may lengthen it and may leave that range (sharp s,
    micro sign, y with diaeresis), so its result is a list of code units.
  \<^item> \<open>parseEther\<close> of the client library is an argument. A contract call is the record of its arguments; what the wallet
    answers is an argument. A thrown error is \<open>Inl\<close> of its message.

  The lemmas show that a valid name survives the conversion to bytes8 and back, that the conversion is the one
  the organization ids use, when a claim reaches the contract and with which arguments, and that the
  availability check asks for something else than what is claimed.
\<close>

section \<open>Names and bytes8\<close>

definition upper_units :: "char \<Rightarrow> nat list" where
  "upper_units c =
     (let n = (of_char c :: nat) in
      if 97 \<le> n \<and> n \<le> 122 then [n - 32]
      else if n = 223 then [83, 83]
      else if n = 181 then [924]
      else if n = 255 then [376]
      else if 224 \<le> n \<and> n \<noteq> 247 then [n - 32]
      else [n])"

definition upperUnits :: "string \<Rightarrow> nat list" where
  "upperUnits s = concat (map upper_units s)"

definition name_unit :: "nat \<Rightarrow> bool" where
  "name_unit n \<longleftrightarrow> (48 \<le> n \<and> n \<le> 57) \<or> (65 \<le> n \<and> n \<le> 90)"

definition validateNameFormat :: "string \<Rightarrow> bool" where
  "validateNameFormat name \<longleftrightarrow> length (upperUnits name) = 8 \<and> list_all name_unit (upperUnits name)"

definition stringToBytes8 :: "string \<Rightarrow> string" where
  "stringToBytes8 str =
     (let upper = upperUnits str; normalizedStr = take 8 (upper @ replicate (8 - length upper) 0)
      in ''0x'' @ concat (map (\<lambda>charCode. padStart 2 CHR ''0'' (show_hex charCode)) normalizedStr))"

text \<open>A pair that is not a number is NaN, which differs from 0 and prints as the character 0.\<close>

fun decodeNonzero :: "string \<Rightarrow> string option" where
  "decodeNonzero [] = Some []"
| "decodeNonzero [c] =
     (if parseInt16 [c] = Some 0 then Some [] else map_option (\<lambda>x. [x]) (jsFromCharCode (parseInt16 [c])))"
| "decodeNonzero (c # d # cs) =
     (if parseInt16 [c, d] = Some 0 then decodeNonzero cs
      else case (jsFromCharCode (parseInt16 [c, d]), decodeNonzero cs) of
             (Some x, Some xs) \<Rightarrow> Some (x # xs)
           | _ \<Rightarrow> None)"

definition bytes8ToString :: "string \<Rightarrow> string option" where
  "bytes8ToString bytes8 = decodeNonzero (drop 2 bytes8)"

section \<open>Validation\<close>

record nameValidation =
  nv_isValid :: bool
  nv_isAvailable :: bool
  nv_error :: "string option"
  nv_suggestion :: "string option"

definition validateName :: "string \<Rightarrow> nameValidation" where
  "validateName name =
     (if name = [] then \<lparr>nv_isValid = False, nv_isAvailable = False, nv_error = None, nv_suggestion = None\<rparr>
      else if \<not> validateNameFormat name then
        \<lparr>nv_isValid = False, nv_isAvailable = False,
         nv_error = Some ''Name must be exactly 8 characters (A-Z, 0-9 only)'',
         nv_suggestion = Some (if length name < 8 then ''Add more characters'' else ''Remove extra characters'')\<rparr>
      else \<lparr>nv_isValid = True, nv_isAvailable = True, nv_error = None, nv_suggestion = None\<rparr>)"

section \<open>Contract calls and queries\<close>

datatype nameType = PERSONAL | ORGANIZATION

record nameClaimingParams =
  np_name :: string
  np_stakeAmount :: string
  np_stakeDuration :: int
  np_nameType :: nameType

datatype nameCall = ClaimName string int int nat | ReleaseName string

record nameEnv =
  ne_isConnected :: bool
  ne_identity :: "string option"

definition nameReady :: "nameEnv \<Rightarrow> bool" where
  "nameReady env \<longleftrightarrow> ne_isConnected env \<and> nonempty (ne_identity env)"

text \<open>The calls sent, and the result: the answer of the wallet or an error.\<close>

definition handleClaimName ::
  "nameEnv \<Rightarrow> (string \<Rightarrow> string + int) \<Rightarrow> (nameCall \<Rightarrow> string + 'r) \<Rightarrow> nameClaimingParams
     \<Rightarrow> nameCall list \<times> (string + 'r)" where
  "handleClaimName env parseEther wallet params =
     (if \<not> nameReady env then ([], Inl ''Wallet not connected or contracts not loaded'')
      else if \<not> validateNameFormat (np_name params) then ([], Inl ''Invalid name format'')
      else case parseEther (np_stakeAmount params) of
             Inl e \<Rightarrow> ([], Inl e)
           | Inr stakeAmountWei \<Rightarrow>
               (let nameTypeIndex = (if np_nameType params = PERSONAL then 0 else 1);
                    nameBytes8 = stringToBytes8 (np_name params);
                    call = ClaimName nameBytes8 stakeAmountWei (np_stakeDuration params) nameTypeIndex
                in ([call], wallet call)))"

definition handleReleaseName ::
  "nameEnv \<Rightarrow> (nameCall \<Rightarrow> string + 'r) \<Rightarrow> string \<Rightarrow> nameCall list \<times> (string + 'r)" where
  "handleReleaseName env wallet name =
     (if \<not> nameReady env then ([], Inl ''Wallet not connected or contracts not loaded'')
      else (let call = ReleaseName (stringToBytes8 name) in ([call], wallet call)))"

text \<open>A query is the argument it passes, or \<open>None\<close> when it is not enabled.\<close>

definition useCheckNameAvailability :: "nameEnv \<Rightarrow> string \<Rightarrow> string option" where
  "useCheckNameAvailability env name =
     (if nonempty (ne_identity env) \<and> name \<noteq> [] \<and> validateNameFormat name then Some name else None)"

definition useGetNameClaim :: "nameEnv \<Rightarrow> string \<Rightarrow> string option" where
  "useGetNameClaim env name = (if nonempty (ne_identity env) \<and> name \<noteq> [] then Some name else None)"

definition useGetUserNames :: "nameEnv \<Rightarrow> string option \<Rightarrow> string option" where
  "useGetUserNames env address = (if nonempty (ne_identity env) \<and> nonempty address then address else None)"

section \<open>Stakes\<close>

record stakingTier =
  st_name :: string
  st_gameAmount :: string
  st_duration :: int
  st_benefits :: "string list"
  st_multiplier_tenths :: nat
  st_color :: string

definition getStakingTiers :: "stakingTier list" where
  "getStakingTiers =
     [\<lparr>st_name = ''Basic'', st_gameAmount = ''100'', st_duration = 30 * 24 * 60 * 60,
       st_benefits = [''Name reservation'', ''Basic profile features''], st_multiplier_tenths = 10, st_color = ''text-gray-600''\<rparr>,
      \<lparr>st_name = ''Premium'', st_gameAmount = ''500'', st_duration = 90 * 24 * 60 * 60,
       st_benefits = [''Name reservation'', ''Premium profile features'', ''Priority support''], st_multiplier_tenths = 15,
       st_color = ''text-blue-600''\<rparr>,
      \<lparr>st_name = ''Elite'', st_gameAmount = ''1000'', st_duration = 180 * 24 * 60 * 60,
       st_benefits = [''Name reservation'', ''Elite profile features'', ''Priority support'', ''Exclusive badges''],
       st_multiplier_tenths = 20, st_color = ''text-purple-600''\<rparr>]"

text \<open>Of a whole number of seconds.\<close>

definition formatStakeDuration :: "int \<Rightarrow> string" where
  "formatStakeDuration seconds =
     (let days = seconds div (24 * 60 * 60) in
      if days = 1 then ''1 day''
      else if days < 30 then show_int days @ '' days''
      else if days < 365 then
        (let months = days div 30 in if months = 1 then ''1 month'' else show_int months @ '' months'')
      else (let years = days div 365 in if years = 1 then ''1 year'' else show_int years @ '' years''))"

section \<open>Names survive the conversion\<close>

text \<open>The bytes of a valid name.\<close>

definition nameBytes :: "string \<Rightarrow> bytes" where
  "nameBytes name = map of_nat (upperUnits name)"

lemma name_unit_byte: "name_unit n \<Longrightarrow> n < 256 \<and> n \<noteq> 0"
  by (auto simp: name_unit_def)

lemma valid_units:
  assumes "validateNameFormat name"
  shows "length (upperUnits name) = 8" and "\<And>n. n \<in> set (upperUnits name) \<Longrightarrow> n < 256 \<and> n \<noteq> 0"
  using assms by (auto simp: validateNameFormat_def list_all_iff dest: name_unit_byte)

lemma unat_of_small: "n < 256 \<Longrightarrow> unat (of_nat n :: byte) = n"
  by (simp add: unat_of_nat)

lemma stringToBytes8_bytes:
  assumes "validateNameFormat name"
  shows "stringToBytes8 name = toHex (nameBytes name)" and "length (nameBytes name) = 8" and "0 \<notin> set (nameBytes name)"
proof -
  note v = valid_units [OF assms]
  have "padStart 2 CHR ''0'' (show_hex n) = byte_hex (of_nat n)" if "n \<in> set (upperUnits name)" for n
    using padStart_show_hex [of "of_nat n"] v(2) [OF that] by (simp add: unat_of_small)
  then have "map (\<lambda>charCode. padStart 2 CHR ''0'' (show_hex charCode)) (upperUnits name) = map byte_hex (nameBytes name)"
    by (simp add: nameBytes_def)
  then show "stringToBytes8 name = toHex (nameBytes name)" using v(1) by (simp add: stringToBytes8_def toHex_def Let_def)
  show "length (nameBytes name) = 8" using v(1) by (simp add: nameBytes_def)
  have "of_nat n \<noteq> (0 :: byte)" if "n \<in> set (upperUnits name)" for n
    using v(2) [OF that] unat_of_small [of n] by auto
  then show "0 \<notin> set (nameBytes name)" by (auto simp: nameBytes_def)
qed

lemma decodeNonzero_encode:
  "decodeNonzero (concat (map byte_hex bs)) = Some (map fromCharCode (filter (\<lambda>b. b \<noteq> 0) bs))"
proof (induction bs)
  case (Cons b bs)
  have p: "parseInt16 [hexdigit (unat b div 16), hexdigit (unat b mod 16)] = Some (int (unat b))"
    using parseInt16_pair [of "hexdigit (unat b div 16)" "unat b div 16" "hexdigit (unat b mod 16)" "unat b mod 16"]
    by (simp add: byte_nibbles flip: of_nat_add of_nat_mult)
  have "jsFromCharCode (Some (int (unat b))) = Some (fromCharCode b)"
    using jsFromCharCode_byte [OF unat_byte_less, of b] by (simp add: fromCharCode_def)
  moreover have "uint b = 0 \<longleftrightarrow> b = 0" by (rule uint_0_iff)
  ultimately show ?case using Cons p by (cases "b = 0") (simp_all add: byte_hex_def)
qed simp

text \<open>The upper-case form of a name whose units are bytes.\<close>

definition upperName :: "string \<Rightarrow> string" where
  "upperName name = map char_of (upperUnits name)"

lemma nameBytes_upperName: "validateNameFormat name \<Longrightarrow> map fromCharCode (nameBytes name) = upperName name"
  using valid_units(2) [of name] by (auto simp: nameBytes_def upperName_def fromCharCode_def unat_of_small)

lemma valid_upperName: "validateNameFormat name \<Longrightarrow> isValidAlphanumericId (upperName name)"
  by (auto simp: validateNameFormat_def isValidAlphanumericId_def upperName_def list_all_iff upper_alnum_def name_unit_def Let_def)

text \<open>
  C26. A valid name survives the contract: converting it to bytes8 and back gives its upper-case form; the
  bytes8 are those that the organization ids of the client and of the subgraph have for that form; and two
  valid names share their bytes8 exactly if they agree up to case.
\<close>

theorem name_bytes8_roundtrip:
  assumes "validateNameFormat name" and "validateNameFormat name'"
  shows "bytes8ToString (stringToBytes8 name) = Some (upperName name)
     \<and> stringToBytes8 name = toContractId (upperName name)
     \<and> getOrganizationIdString (nameBytes name) = Inr (upperName name)
     \<and> (stringToBytes8 name = stringToBytes8 name' \<longleftrightarrow> upperName name = upperName name')"
proof -
  note b = stringToBytes8_bytes [OF assms(1)] and b' = stringToBytes8_bytes [OF assms(2)]
  have "bytes8ToString (stringToBytes8 name) = Some (map fromCharCode (nameBytes name))"
  proof -
    have "filter (\<lambda>b. b \<noteq> 0) (nameBytes name) = nameBytes name" using b(3) by (intro filter_True) auto
    then show ?thesis by (simp add: bytes8ToString_def b(1) toHex_def decodeNonzero_encode)
  qed
  moreover have "toContractId (upperName name) = toHex (nameBytes name)"
    using frontend_alphanumericStringToBytes8_map [OF b(2)] valid_upperName [OF assms(1)]
    by (simp add: toContractId_def isValidBytes8Id_def isValidAlphanumericId_def nameBytes_upperName [OF assms(1)])
  moreover have "stringToBytes8 name = stringToBytes8 name' \<longleftrightarrow> upperName name = upperName name'"
    by (simp add: b(1) b'(1) flip: nameBytes_upperName [OF assms(1)] nameBytes_upperName [OF assms(2)])
  ultimately show ?thesis
    using getOrganizationIdString_bytes8 [OF b(2)] by (simp add: b(1) nameBytes_upperName [OF assms(1)])
qed

theorem name_bytes8_roundtrip_witness:
  "validateNameFormat ''gamedao1'' \<and> bytes8ToString (stringToBytes8 ''gamedao1'') = Some ''GAMEDAO1''
     \<and> stringToBytes8 ''gamedao1'' = stringToBytes8 ''GameDAO1''"
proof -
  have v: "validateNameFormat ''gamedao1''" "validateNameFormat ''GameDAO1''" by code_simp+
  have u: "upperName ''gamedao1'' = ''GAMEDAO1''" "upperName ''GameDAO1'' = ''GAMEDAO1''" by code_simp+
  show ?thesis using v(1) name_bytes8_roundtrip [OF v] unfolding u by metis
qed

section \<open>Claims\<close>

lemma upperUnits_length: "length s \<le> length (upperUnits s)"
proof (induction s)
  case (Cons c s)
  have "Suc 0 \<le> length (upper_units c)" by (simp add: upper_units_def Let_def)
  then show ?case using Cons by (simp add: upperUnits_def)
qed simp

text \<open>
  What a claim sends: nothing without a connected wallet, for a name of another format or for an amount that
  does not parse, each with its own error; otherwise one call, with eight non-zero bytes, the parsed
  amount, the duration and the index of the kind of name, and the result is the answer of the wallet.
\<close>

theorem claim_sends:
  "handleClaimName env parseEther wallet params =
     (if \<not> nameReady env then ([], Inl ''Wallet not connected or contracts not loaded'')
      else if \<not> validateNameFormat (np_name params) then ([], Inl ''Invalid name format'')
      else case parseEther (np_stakeAmount params) of
             Inl e \<Rightarrow> ([], Inl e)
           | Inr wei \<Rightarrow>
               (let call = ClaimName (toHex (nameBytes (np_name params))) wei (np_stakeDuration params)
                             (case np_nameType params of PERSONAL \<Rightarrow> 0 | ORGANIZATION \<Rightarrow> 1)
                in ([call], wallet call)))"
  by (auto simp: handleClaimName_def stringToBytes8_bytes(1) Let_def split: sum.splits nameType.splits)

text \<open>
  The availability check does not ask about the name that would be claimed: whenever it is enabled,
  it passes the name as typed, which is never the bytes8 that a claim of the same name sends.
\<close>

theorem availability_asks_other_name:
  assumes "useCheckNameAvailability env name = Some arg"
  shows "arg = name \<and> arg \<noteq> stringToBytes8 name \<and> arg \<noteq> toHex (nameBytes name)"
proof -
  have v: "validateNameFormat name" "arg = name"
    using assms by (auto simp: useCheckNameAvailability_def split: if_splits)
  have "length name \<le> 8" using valid_units(1) [OF v(1)] upperUnits_length [of name] by simp
  then have "name \<noteq> toHex (nameBytes name)" using stringToBytes8_bytes(2) [OF v(1)] length_toHex [of "nameBytes name"] by auto
  then show ?thesis using v stringToBytes8_bytes(1) [OF v(1)] by simp
qed

theorem availability_asks_other_name_witness:
  "useCheckNameAvailability \<lparr>ne_isConnected = True, ne_identity = Some ''0x1''\<rparr> ''gamedao1'' = Some ''gamedao1''
     \<and> ''gamedao1'' \<noteq> stringToBytes8 ''gamedao1''"
proof -
  have "useCheckNameAvailability \<lparr>ne_isConnected = True, ne_identity = Some ''0x1''\<rparr> ''gamedao1'' = Some ''gamedao1''"
    by code_simp
  then show ?thesis using availability_asks_other_name by blast
qed

text \<open>
  The suggestion for a name of eight characters with a wrong one among them is to remove characters,
  after which it is too short.
\<close>

theorem suggestion_misleads:
  "nv_suggestion (validateName ''GAME-DAO'') = Some ''Remove extra characters'' \<and> length ''GAME-DAO'' = 8"
  by code_simp

section \<open>Durations\<close>

text \<open>
  A duration is shown in the largest unit that fits: for any number of seconds of at least thirty days
  the shown number of months or years is at least one, months never exceed twelve, and days appear for less than
  thirty days only.
\<close>

theorem duration_units:
  assumes "0 \<le> seconds"
  shows "\<exists>n unit. formatStakeDuration seconds = show_int n @ '' '' @ unit @ (if n = 1 then [] else ''s'')
     \<and> (unit = ''day'' \<and> n = seconds div 86400 \<and> n < 30 \<or> unit = ''month'' \<and> 1 \<le> n \<and> n \<le> 12 \<or> unit = ''year'' \<and> 1 \<le> n)"
proof -
  let ?d = "seconds div 86400"
  have one: "show_int 1 = ''1''" by code_simp
  consider "?d < 30" | "30 \<le> ?d" "?d < 365" | "365 \<le> ?d" by linarith
  then show ?thesis
  proof cases
    case 1
    then show ?thesis by (intro exI [of _ ?d] exI [of _ "''day''"]) (simp add: formatStakeDuration_def one Let_def)
  next
    case 2
    then have "1 \<le> ?d div 30" "?d div 30 \<le> 12" by linarith+
    with 2 show ?thesis
      by (intro exI [of _ "?d div 30"] exI [of _ "''month''"]) (simp add: formatStakeDuration_def one Let_def)
  next
    case 3
    then have "1 \<le> ?d div 365" by linarith
    with 3 show ?thesis
      by (intro exI [of _ "?d div 365"] exI [of _ "''year''"]) (simp add: formatStakeDuration_def one Let_def)
  qed
qed

theorem duration_units_witness:
  "(0::int) \<le> 360 * 86400 \<and> (\<exists>n unit. formatStakeDuration (360 * 86400) = show_int n @ '' '' @ unit @ (if n = 1 then [] else ''s'')
     \<and> (unit = ''day'' \<and> n = 360 * 86400 div 86400 \<and> n < 30 \<or> unit = ''month'' \<and> 1 \<le> n \<and> n \<le> 12 \<or> unit = ''year'' \<and> 1 \<le> n))"
  using duration_units [of "360 * 86400"] by simp

end
