(* ===== verification/Approval.thy ===== *)
theory Approval
  imports Encoding
begin

text \<open>
  Token amounts and token approvals of the web client: \<open>packages/frontend/src/lib/tokenUtils.ts\<close> (the
  conversion of user input), \<open>lib/tokens.ts\<close> (token lookup) and the hooks \<open>hooks/useTokenApproval.ts\<close>,
  \<open>hooks/useGameTokenApproval.ts\<close> and \<open>hooks/useNonce.ts\<close>.

  \<^item> A user input is a string or a number; a number carries its text (\<open>toString\<close>) and its integer
    value, missing when \<open>BigInt(value)\<close> would throw.
  \<^item> \<open>parseUnits\<close> of the client library is an argument: it throws (\<open>Inl\<close>) or returns the amount.
  \<^item> A hook is its React state, the pending approval, and the effects it causes in order: messages,
    approval transactions, resets. What it reads from the wallet (address, contract addresses, allowance,
    transaction count, the outcome of a write) is the record \<open>approvalEnv\<close>. An asynchronous function
    returns its result, an error or a value, together with the next state.
  \<^item> The effects that React runs after a change of the transaction status are functions of that status.

  The lemmas show how amounts scale, when a hook sends an approval and for how much, which errors it
  throws, and that a pending approval ends with the transaction. The interface \<open>approval_flow\<close> holds what
  both hooks share.
\<close>

section \<open>Amounts\<close>

datatype amountInput = AStr string | ANum "int option" string

definition digit_char :: "char \<Rightarrow> bool" where
  "digit_char c \<longleftrightarrow> (let n = (of_char c :: nat) in 48 \<le> n \<and> n \<le> 57)"

text \<open>\<open>value.replace(/[^0-9.]/g, '')\<close>\<close>

definition cleanAmount :: "string \<Rightarrow> string" where
  "cleanAmount s = filter (\<lambda>c. digit_char c \<or> c = CHR ''.'') s"

text \<open>\<open>BigInt\<close> of a string of digits.\<close>

definition bigIntOf :: "string \<Rightarrow> int" where
  "bigIntOf s = int (read_nat s)"

definition padEnd :: "nat \<Rightarrow> char \<Rightarrow> string \<Rightarrow> string" where
  "padEnd n c s = s @ replicate (n - length s) c"

definition notDot :: "char \<Rightarrow> bool" where
  "notDot c \<longleftrightarrow> c \<noteq> CHR ''.''"

text \<open>The two leading parts of \<open>cleaned.split('.')\<close> for a string with a dot.\<close>

definition splitDot :: "string \<Rightarrow> string \<times> string" where
  "splitDot s = (takeWhile notDot s, takeWhile notDot (tl (dropWhile notDot s)))"

definition safeBigInt :: "amountInput \<Rightarrow> string \<Rightarrow> int" where
  "safeBigInt amount fallback =
     (case amount of
        ANum v _ \<Rightarrow> (case v of Some n \<Rightarrow> n | None \<Rightarrow> bigIntOf fallback)
      | AStr s \<Rightarrow>
          if trim s \<noteq> [] then
            (let cleaned = cleanAmount s
             in if cleaned = [] \<or> cleaned = ''.'' then bigIntOf fallback
                else if CHR ''.'' \<in> set cleaned then
                  (let (whole, decimal) = splitDot cleaned;
                       paddedDecimal = take 18 (padEnd 18 CHR ''0'' decimal)
                   in bigIntOf (whole @ paddedDecimal))
                else bigIntOf cleaned)
          else bigIntOf fallback)"

datatype tokenSymbol = GAME | USDC | ETH

fun TOKEN_DECIMALS :: "tokenSymbol \<Rightarrow> nat" where
  "TOKEN_DECIMALS GAME = 18"
| "TOKEN_DECIMALS USDC = 6"
| "TOKEN_DECIMALS ETH = 18"

definition parseTokenAmount ::
  "(string \<Rightarrow> nat \<Rightarrow> 'x + int) \<Rightarrow> amountInput \<Rightarrow> tokenSymbol \<Rightarrow> string \<Rightarrow> 'x + int" where
  "parseTokenAmount parseUnits amount tokenSymbol fallback =
     (let v = (case amount of AStr s \<Rightarrow> s | ANum _ t \<Rightarrow> t); decimals = TOKEN_DECIMALS tokenSymbol
      in if trim v = [] then parseUnits fallback decimals
         else
           (let cleaned = cleanAmount v
            in if cleaned = [] \<or> cleaned = ''.'' then parseUnits fallback decimals
               else case parseUnits cleaned decimals of
                      Inl _ \<Rightarrow> parseUnits fallback decimals
                    | Inr n \<Rightarrow> Inr n))"

definition toContractAmount :: "(string \<Rightarrow> nat \<Rightarrow> 'x + int) \<Rightarrow> string \<Rightarrow> tokenSymbol \<Rightarrow> 'x + int" where
  "toContractAmount parseUnits userInput tokenSymbol = parseTokenAmount parseUnits (AStr userInput) tokenSymbol ''0''"

definition isTokenAmountEqual :: "int \<Rightarrow> int \<Rightarrow> bool" where
  "isTokenAmountEqual a b \<longleftrightarrow> a = b"

definition hasSufficientBalance :: "int \<Rightarrow> int \<Rightarrow> bool" where
  "hasSufficientBalance userBalance requiredAmount \<longleftrightarrow> requiredAmount \<le> userBalance"

section \<open>Token lookup\<close>

record tokenAddresses =
  ta_GAME_TOKEN :: string
  ta_USDC_TOKEN :: string

record tokenInfoRecord =
  ti_symbol :: string
  ti_decimals :: nat
  ti_address :: string

definition ZERO :: string where
  "ZERO = ''0x0000000000000000000000000000000000000000''"

definition tokenInfo :: "string option \<Rightarrow> tokenAddresses \<Rightarrow> tokenInfoRecord" where
  "tokenInfo address contracts =
     (let a = toLowerCase (the (js_or address (Some ZERO)))
      in if a = toLowerCase (ta_GAME_TOKEN contracts)
         then \<lparr>ti_symbol = ''GAME'', ti_decimals = 18, ti_address = ta_GAME_TOKEN contracts\<rparr>
         else if a = toLowerCase (ta_USDC_TOKEN contracts)
         then \<lparr>ti_symbol = ''USDC'', ti_decimals = 6, ti_address = ta_USDC_TOKEN contracts\<rparr>
         else if a = ZERO then \<lparr>ti_symbol = ''ETH'', ti_decimals = 18, ti_address = ZERO\<rparr>
         else \<lparr>ti_symbol = ''TOKEN'', ti_decimals = 18, ti_address = a\<rparr>)"

section \<open>The wallet and the effects of a hook\<close>

datatype hookEffect =
    ToastLoading string
  | ToastSuccess string
  | ToastError string
  | ToastDismiss
  | ApproveWrite string string int "int option"
  | ResetApprove

record approvalEnv =
  ae_address :: "string option"
  ae_contracts :: tokenAddresses
  ae_client :: bool
  ae_allowance :: "string \<Rightarrow> string \<Rightarrow> string + int"
  ae_txCount :: "string + int"
  ae_approve :: "string + unit"

record 'p approvalState =
  as_pending :: "'p option"
  as_effects :: "hookEffect list"

definition emit :: "hookEffect list \<Rightarrow> 'p approvalState \<Rightarrow> 'p approvalState" where
  "emit es s = s\<lparr>as_effects := as_effects s @ es\<rparr>"

definition getNextNonce :: "approvalEnv \<Rightarrow> string + int" where
  "getNextNonce env =
     (if \<not> ae_client env then Inl ''No public client''
      else if \<not> nonempty (ae_address env) then Inl ''No connected address''
      else ae_txCount env)"

section \<open>\<open>useTokenApproval\<close>\<close>

datatype approvalToken = GameT | UsdcT

fun tokenName :: "approvalToken \<Rightarrow> string" where
  "tokenName GameT = ''GAME''"
| "tokenName UsdcT = ''USDC''"

record tokenApprovalParams =
  tp_token :: approvalToken
  tp_spender :: string
  tp_amount :: amountInput
  tp_purpose :: "string option"

definition getTokenAddress :: "approvalEnv \<Rightarrow> approvalToken \<Rightarrow> string" where
  "getTokenAddress env token =
     (if token = GameT then ta_GAME_TOKEN (ae_contracts env) else ta_USDC_TOKEN (ae_contracts env))"

definition checkApprovalNeeded :: "approvalEnv \<Rightarrow> approvalToken \<Rightarrow> string \<Rightarrow> amountInput \<Rightarrow> bool" where
  "checkApprovalNeeded env token spender amount =
     (if \<not> nonempty (ae_address env) \<or> spender = [] then False
      else
        (let tokenAddress = getTokenAddress env token
         in if tokenAddress = [] then False
            else
              (let amountBigInt = safeBigInt amount ''0''
               in if amountBigInt = 0 then False
                  else if \<not> ae_client env then True
                  else case ae_allowance env tokenAddress spender of
                         Inl _ \<Rightarrow> True
                       | Inr currentAllowance \<Rightarrow> currentAllowance < amountBigInt)))"

definition purposeOr :: "string option \<Rightarrow> string" where
  "purposeOr purpose = (case purpose of None \<Rightarrow> ''token approval'' | Some p \<Rightarrow> p)"

definition requestApproval ::
  "approvalEnv \<Rightarrow> tokenApprovalParams \<Rightarrow> tokenApprovalParams approvalState \<Rightarrow>
   (string + unit) \<times> tokenApprovalParams approvalState" where
  "requestApproval env params s =
     (if \<not> nonempty (ae_address env) then (Inl ''Wallet not connected'', s)
      else
        (let token = tp_token params; purpose = purposeOr (tp_purpose params);
             tokenAddress = getTokenAddress env token
         in if tokenAddress = [] then (Inl (tokenName token @ '' token contract not found''), s)
            else
              (let amountBigInt = safeBigInt (tp_amount params) ''0''
               in if amountBigInt = 0 then (Inl ''Amount must be greater than 0'', s)
                  else
                    (let s = emit [ToastLoading (''Requesting '' @ tokenName token @ '' token approval for '' @ purpose @ ''...'')] s;
                         nonce = (case getNextNonce env of Inl _ \<Rightarrow> None | Inr n \<Rightarrow> Some n);
                         s = emit [ApproveWrite tokenAddress (tp_spender params) amountBigInt nonce] s
                     in case ae_approve env of
                          Inl e \<Rightarrow>
                            (Inl e, emit [ToastError (''Failed to request '' @ tokenName token @ '' '' @ purpose @ '' approval'')] s)
                        | Inr u \<Rightarrow> (Inr u, s\<lparr>as_pending := Some params\<rparr>)))))"

definition handleApproval ::
  "approvalEnv \<Rightarrow> tokenApprovalParams \<Rightarrow> tokenApprovalParams approvalState \<Rightarrow>
   (string + bool) \<times> tokenApprovalParams approvalState" where
  "handleApproval env params s =
     (if \<not> checkApprovalNeeded env (tp_token params) (tp_spender params) (tp_amount params) then (Inr True, s)
      else case requestApproval env params s of
             (Inl e, s) \<Rightarrow> (Inl e, s)
           | (Inr _, s) \<Rightarrow> (Inr False, s))"

text \<open>The messages after the transaction print the purpose of the parameters themselves, \<open>undefined\<close> when it is missing.\<close>

definition showPurpose :: "string option \<Rightarrow> string" where
  "showPurpose purpose = (case purpose of None \<Rightarrow> ''undefined'' | Some p \<Rightarrow> p)"

definition onApprovalSuccess :: "bool \<Rightarrow> tokenApprovalParams approvalState \<Rightarrow> tokenApprovalParams approvalState" where
  "onApprovalSuccess approvalSuccess s =
     (case as_pending s of
        Some p \<Rightarrow>
          if approvalSuccess then
            emit [ToastDismiss, ToastSuccess (tokenName (tp_token p) @ '' '' @ showPurpose (tp_purpose p) @ '' approval confirmed!''),
              ResetApprove] (s\<lparr>as_pending := None\<rparr>)
          else s
      | None \<Rightarrow> s)"

definition onApprovalError :: "bool \<Rightarrow> tokenApprovalParams approvalState \<Rightarrow> tokenApprovalParams approvalState" where
  "onApprovalError anyError s =
     (case as_pending s of
        Some p \<Rightarrow>
          if anyError then
            emit [ToastDismiss, ToastError (tokenName (tp_token p) @ '' '' @ showPurpose (tp_purpose p) @ '' approval failed'')]
              (s\<lparr>as_pending := None\<rparr>)
          else s
      | None \<Rightarrow> s)"

section \<open>\<open>useGameTokenApproval\<close>\<close>

record gameApprovalParams =
  gp_spender :: string
  gp_amount :: amountInput
  gp_purpose :: "string option"

text \<open>An error of \<open>parseUnits\<close> on the fallback \<open>0\<close> would leave the function.\<close>

definition game_safeBigInt :: "(string \<Rightarrow> nat \<Rightarrow> string + int) \<Rightarrow> amountInput \<Rightarrow> string \<Rightarrow> string + int" where
  "game_safeBigInt parseUnits amount fallback = parseTokenAmount parseUnits amount GAME fallback"

definition game_checkApprovalNeeded ::
  "(string \<Rightarrow> nat \<Rightarrow> string + int) \<Rightarrow> approvalEnv \<Rightarrow> string \<Rightarrow> amountInput \<Rightarrow> string + bool" where
  "game_checkApprovalNeeded parseUnits env spender amount =
     (let game = ta_GAME_TOKEN (ae_contracts env)
      in if \<not> nonempty (ae_address env) \<or> game = [] \<or> spender = [] then Inr False
         else bind_halt (game_safeBigInt parseUnits amount ''0'') (\<lambda>amountBigInt.
           if amountBigInt = 0 then Inr False
           else if \<not> ae_client env then Inr True
           else case ae_allowance env game spender of
                  Inl _ \<Rightarrow> Inr True
                | Inr currentAllowance \<Rightarrow> Inr (currentAllowance < amountBigInt)))"

definition game_requestApproval ::
  "(string \<Rightarrow> nat \<Rightarrow> string + int) \<Rightarrow> approvalEnv \<Rightarrow> gameApprovalParams \<Rightarrow> gameApprovalParams approvalState \<Rightarrow>
   (string + unit) \<times> gameApprovalParams approvalState" where
  "game_requestApproval parseUnits env params s =
     (let game = ta_GAME_TOKEN (ae_contracts env)
      in if \<not> nonempty (ae_address env) \<or> game = [] then (Inl ''Wallet not connected or contracts not loaded'', s)
         else
           (let purpose = purposeOr (gp_purpose params)
            in case game_safeBigInt parseUnits (gp_amount params) ''0'' of
                 Inl e \<Rightarrow> (Inl e, s)
               | Inr amountBigInt \<Rightarrow>
                   if amountBigInt = 0 then (Inl ''Amount must be greater than 0'', s)
                   else
                     (let s = emit [ToastLoading (''Requesting GAME token approval for '' @ purpose @ ''...'')] s;
                          s = emit [ApproveWrite game (gp_spender params) amountBigInt None] s
                      in case ae_approve env of
                           Inl e \<Rightarrow> (Inl e, emit [ToastError (''Failed to request '' @ purpose @ '' approval'')] s)
                         | Inr u \<Rightarrow> (Inr u, s\<lparr>as_pending := Some params\<rparr>))))"

definition game_handleApproval ::
  "(string \<Rightarrow> nat \<Rightarrow> string + int) \<Rightarrow> approvalEnv \<Rightarrow> gameApprovalParams \<Rightarrow> gameApprovalParams approvalState \<Rightarrow>
   (string + bool) \<times> gameApprovalParams approvalState" where
  "game_handleApproval parseUnits env params s =
     (case game_checkApprovalNeeded parseUnits env (gp_spender params) (gp_amount params) of
        Inl e \<Rightarrow> (Inl e, s)
      | Inr False \<Rightarrow> (Inr True, s)
      | Inr True \<Rightarrow>
          (case game_requestApproval parseUnits env params s of
             (Inl e, s) \<Rightarrow> (Inl e, s)
           | (Inr _, s) \<Rightarrow> (Inr False, s)))"

definition game_onApprovalSuccess :: "bool \<Rightarrow> gameApprovalParams approvalState \<Rightarrow> gameApprovalParams approvalState" where
  "game_onApprovalSuccess approvalSuccess s =
     (case as_pending s of
        Some p \<Rightarrow>
          if approvalSuccess then
            emit [ToastDismiss, ToastSuccess (showPurpose (gp_purpose p) @ '' approval confirmed!''), ResetApprove]
              (s\<lparr>as_pending := None\<rparr>)
          else s
      | None \<Rightarrow> s)"

definition game_onApprovalError :: "bool \<Rightarrow> gameApprovalParams approvalState \<Rightarrow> gameApprovalParams approvalState" where
  "game_onApprovalError anyError s =
     (case as_pending s of
        Some p \<Rightarrow>
          if anyError then
            emit [ToastDismiss, ToastError (showPurpose (gp_purpose p) @ '' approval failed'')] (s\<lparr>as_pending := None\<rparr>)
          else s
      | None \<Rightarrow> s)"

section \<open>How amounts scale\<close>

lemma read_nat_snoc: "read_nat (s @ [c]) = 10 * read_nat s + (of_char c - 48)"
  by (simp add: read_nat_def)

lemma read_nat_zeros: "read_nat (s @ replicate n CHR ''0'') = read_nat s * 10 ^ n"
  by (induction n) (simp_all add: replicate_append_same [symmetric] read_nat_snoc flip: append_assoc)

lemma digit_not_dot: "digit_char c \<Longrightarrow> notDot c"
  by (auto simp: digit_char_def notDot_def)

lemma digit_not_space: "digit_char c \<Longrightarrow> \<not> js_space c"
  by (auto simp: digit_char_def js_space_def Let_def)

lemma trim_nonempty: "c \<in> set s \<Longrightarrow> \<not> js_space c \<Longrightarrow> trim s \<noteq> []"
proof -
  assume c: "c \<in> set s" "\<not> js_space c"
  then have "dropWhile js_space s \<noteq> []" by (auto simp: dropWhile_eq_Nil_conv)
  then have "\<not> js_space (hd (dropWhile js_space s))" by (rule hd_dropWhile)
  then show ?thesis using \<open>dropWhile js_space s \<noteq> []\<close> hd_in_set [of "dropWhile js_space s"]
    by (auto simp: trim_def dropWhile_eq_Nil_conv simp del: hd_in_set)
qed

lemma cleanAmount_digits: "list_all digit_char w \<Longrightarrow> cleanAmount w = w"
  by (induction w) (simp_all add: cleanAmount_def)

lemma cleanAmount_append: "cleanAmount (u @ v) = cleanAmount u @ cleanAmount v"
  by (simp add: cleanAmount_def)

lemma digits_no_dot: "list_all digit_char w \<Longrightarrow> CHR ''.'' \<notin> set w"
  by (auto simp: list_all_iff digit_char_def)

lemma splitDot_parts:
  assumes "list_all digit_char w" and "list_all digit_char d"
  shows "splitDot (w @ CHR ''.'' # d) = (w, d)"
proof -
  have "list_all notDot w" "list_all notDot d" using assms digit_not_dot by (auto simp: list_all_iff)
  then show ?thesis by (simp add: splitDot_def list_all_iff notDot_def takeWhile_append dropWhile_append)
qed

lemma safeBigInt_digits:
  assumes "w \<noteq> []" and "list_all digit_char w"
  shows "safeBigInt (AStr w) f = bigIntOf w"
proof -
  have "digit_char (hd w)" using assms by (cases w) simp_all
  then have "trim w \<noteq> []" using assms(1) digit_not_space by (intro trim_nonempty [of "hd w"]) simp_all
  moreover have "CHR ''.'' \<notin> set w" by (rule digits_no_dot [OF assms(2)])
  moreover from this have "w \<noteq> ''.''" by auto
  ultimately show ?thesis using assms by (simp add: safeBigInt_def cleanAmount_digits Let_def)
qed

lemma safeBigInt_decimal:
  assumes "w \<noteq> []" and "list_all digit_char w" and "list_all digit_char d" and "length d \<le> 18"
  shows "safeBigInt (AStr (w @ CHR ''.'' # d)) f = bigIntOf (w @ d) * 10 ^ (18 - length d)"
proof -
  have "digit_char (hd w)" using assms by (cases w) simp_all
  then have t: "trim (w @ CHR ''.'' # d) \<noteq> []" using assms(1) digit_not_space by (intro trim_nonempty [of "hd w"]) simp_all
  have c: "cleanAmount (w @ CHR ''.'' # d) = w @ CHR ''.'' # d"
    using assms cleanAmount_digits [of w] cleanAmount_digits [of d] by (simp add: cleanAmount_def)
  have "bigIntOf (w @ take 18 (padEnd 18 CHR ''0'' d)) = bigIntOf (w @ d) * 10 ^ (18 - length d)"
    using assms(4) read_nat_zeros [of "w @ d" "18 - length d"] by (simp add: bigIntOf_def padEnd_def)
  moreover have "w @ CHR ''.'' # d \<noteq> ''.''" using assms(1) by (cases w) simp_all
  ultimately show ?thesis using t c assms splitDot_parts [of w d]
    by (simp add: safeBigInt_def Let_def)
qed

lemma parseTokenAmount_digits:
  assumes "w \<noteq> []" and "list_all digit_char w" and "parseUnits w (TOKEN_DECIMALS t) = Inr n"
  shows "parseTokenAmount parseUnits (AStr w) t f = Inr n"
proof -
  have "digit_char (hd w)" using assms by (cases w) simp_all
  then have "trim w \<noteq> []" using assms(1) digit_not_space by (intro trim_nonempty [of "hd w"]) simp_all
  moreover have "w \<noteq> ''.''" using digits_no_dot [OF assms(2)] by auto
  ultimately show ?thesis using assms by (simp add: parseTokenAmount_def cleanAmount_digits Let_def)
qed

text \<open>
  The two approval hooks read the same input as different amounts. For a whole number typed
  without a decimal point \<open>useTokenApproval\<close> takes the digits as base units, while with \<open>.0\<close> appended it
  scales by \<open>10 ^ 18\<close>, and \<open>useGameTokenApproval\<close> always scales, as \<open>parseUnits\<close> is documented to do.
\<close>

theorem approval_amounts_disagree:
  assumes "w \<noteq> []" and "list_all digit_char w"
    and parseUnits_whole: "\<And>s d. s \<noteq> [] \<Longrightarrow> list_all digit_char s \<Longrightarrow> parseUnits s d = Inr (bigIntOf s * 10 ^ d)"
  shows "safeBigInt (AStr w) ''0'' = bigIntOf w
     \<and> safeBigInt (AStr (w @ ''.0'')) ''0'' = bigIntOf w * 10 ^ 18
     \<and> game_safeBigInt parseUnits (AStr w) ''0'' = Inr (bigIntOf w * 10 ^ 18)"
proof -
  have d: "list_all digit_char ''0''" by (simp add: digit_char_def)
  have "bigIntOf (w @ ''0'') = bigIntOf w * 10"
    using read_nat_zeros [of w 1] by (simp add: bigIntOf_def)
  then have "safeBigInt (AStr (w @ CHR ''.'' # ''0'')) ''0'' = bigIntOf w * 10 ^ 18"
    using safeBigInt_decimal [OF assms(1, 2) d] by simp
  moreover have "game_safeBigInt parseUnits (AStr w) ''0'' = Inr (bigIntOf w * 10 ^ 18)"
    unfolding game_safeBigInt_def by (rule parseTokenAmount_digits [OF assms(1, 2)]) (simp add: assms)
  ultimately show ?thesis using safeBigInt_digits [OF assms(1, 2)] by simp
qed

theorem approval_amounts_disagree_witness:
  "safeBigInt (AStr ''5'') ''0'' = 5 \<and> safeBigInt (AStr (''5'' @ ''.0'')) ''0'' = 5 * 10 ^ 18
   \<and> game_safeBigInt (\<lambda>s d. Inr (bigIntOf s * 10 ^ d)) (AStr ''5'') ''0'' = Inr (5 * 10 ^ 18)"
proof -
  have "list_all digit_char ''5''" and "bigIntOf ''5'' = 5" by (simp_all add: digit_char_def bigIntOf_def read_nat_def)
  then show ?thesis
    using approval_amounts_disagree [where w = "''5''" and parseUnits = "\<lambda>s d. Inr (bigIntOf s * 10 ^ d)"] by simp
qed

section \<open>When an approval is sent\<close>

text \<open>
  C38. What \<open>handleApproval\<close> does, on every branch. If no approval is needed it returns true and changes
  nothing. Otherwise the guards of \<open>requestApproval\<close> all pass: it announces the request, sends exactly one
  approval for the converted amount, and either remembers the request and returns false, or reports the
  failure of the transaction and throws its error.
\<close>

theorem handleApproval_outcome:
  "handleApproval env p s =
     (let name = tokenName (tp_token p); purpose = purposeOr (tp_purpose p);
          announce = ToastLoading (''Requesting '' @ name @ '' token approval for '' @ purpose @ ''...'');
          write = ApproveWrite (getTokenAddress env (tp_token p)) (tp_spender p) (safeBigInt (tp_amount p) ''0'')
            (case getNextNonce env of Inl _ \<Rightarrow> None | Inr n \<Rightarrow> Some n)
      in if \<not> checkApprovalNeeded env (tp_token p) (tp_spender p) (tp_amount p) then (Inr True, s)
         else case ae_approve env of
                Inl e \<Rightarrow> (Inl e, emit [announce, write, ToastError (''Failed to request '' @ name @ '' '' @ purpose @ '' approval'')] s)
              | Inr _ \<Rightarrow> (Inr False, (emit [announce, write] s)\<lparr>as_pending := Some p\<rparr>))"
proof (cases "checkApprovalNeeded env (tp_token p) (tp_spender p) (tp_amount p)")
  case True
  then have "nonempty (ae_address env)" "getTokenAddress env (tp_token p) \<noteq> []" "safeBigInt (tp_amount p) ''0'' \<noteq> 0"
    by (auto simp: checkApprovalNeeded_def Let_def split: if_splits)
  with True show ?thesis
    by (simp add: handleApproval_def requestApproval_def emit_def Let_def split: sum.split)
qed (simp add: handleApproval_def Let_def)

lemma checkApprovalNeeded_iff:
  "checkApprovalNeeded env t sp a \<longleftrightarrow>
     nonempty (ae_address env) \<and> sp \<noteq> [] \<and> getTokenAddress env t \<noteq> [] \<and> safeBigInt a ''0'' \<noteq> 0
     \<and> (\<not> ae_client env \<or> (case ae_allowance env (getTokenAddress env t) sp of
           Inl _ \<Rightarrow> True | Inr n \<Rightarrow> n < safeBigInt a ''0''))"
  by (auto simp: checkApprovalNeeded_def Let_def)

section \<open>Confirmed approvals were sent\<close>

fun isWrite :: "hookEffect \<Rightarrow> bool" where
  "isWrite (ApproveWrite _ _ _ _) = True"
| "isWrite _ = False"

definition writes :: "'p approvalState \<Rightarrow> nat" where
  "writes s = length (filter isWrite (as_effects s))"

definition resets :: "'p approvalState \<Rightarrow> nat" where
  "resets s = length (filter (\<lambda>e. e = ResetApprove) (as_effects s))"

lemma writes_resets_emit [simp]:
  "writes (emit es s) = writes s + length (filter isWrite es)"
  "resets (emit es s) = resets s + length (filter (\<lambda>e. e = ResetApprove) es)"
  "as_pending (emit es s) = as_pending s"
  "writes (s\<lparr>as_pending := q\<rparr>) = writes s" "resets (s\<lparr>as_pending := q\<rparr>) = resets s"
  by (simp_all add: writes_def resets_def emit_def)

datatype ('e, 'p) hookEvent = Handle 'e 'p | StatusSuccess bool | StatusError bool

fun hookStep ::
  "('e \<Rightarrow> 'p \<Rightarrow> 'p approvalState \<Rightarrow> (string + bool) \<times> 'p approvalState) \<Rightarrow>
   (bool \<Rightarrow> 'p approvalState \<Rightarrow> 'p approvalState) \<Rightarrow> (bool \<Rightarrow> 'p approvalState \<Rightarrow> 'p approvalState) \<Rightarrow>
   ('e, 'p) hookEvent \<Rightarrow> 'p approvalState \<Rightarrow> 'p approvalState" where
  "hookStep h f g (Handle e p) s = snd (h e p s)"
| "hookStep h f g (StatusSuccess b) s = f b s"
| "hookStep h f g (StatusError b) s = g b s"

definition outstanding :: "'p approvalState \<Rightarrow> nat" where
  "outstanding s = (if as_pending s = None then 0 else 1)"

locale approval_flow =
  fixes handle :: "'e \<Rightarrow> 'p \<Rightarrow> 'p approvalState \<Rightarrow> (string + bool) \<times> 'p approvalState"
    and success :: "bool \<Rightarrow> 'p approvalState \<Rightarrow> 'p approvalState"
    and failure :: "bool \<Rightarrow> 'p approvalState \<Rightarrow> 'p approvalState"
  assumes handle_counts: "resets (snd (handle e p s)) = resets s"
      "writes s + outstanding (snd (handle e p s)) \<le> writes (snd (handle e p s)) + outstanding s"
    and success_counts: "resets (success b s) + outstanding (success b s) = resets s + outstanding s"
      "writes (success b s) = writes s"
    and failure_counts: "resets (failure b s) + outstanding (failure b s) \<le> resets s + outstanding s"
      "writes (failure b s) = writes s"
begin

lemma step_balanced:
  assumes "resets s + outstanding s \<le> writes s"
  shows "resets (hookStep handle success failure ev s) + outstanding (hookStep handle success failure ev s)
     \<le> writes (hookStep handle success failure ev s)"
proof (cases ev)
  case (Handle e p)
  then show ?thesis using assms handle_counts(1) [of e p s] handle_counts(2) [of s e p] by simp
next
  case (StatusSuccess b)
  then show ?thesis using assms success_counts [of b s] by simp
next
  case (StatusError b)
  then show ?thesis using assms failure_counts [of b s] by simp
qed

lemma run_balanced:
  "resets s + outstanding s \<le> writes s \<Longrightarrow>
   resets (fold (hookStep handle success failure) evs s) + outstanding (fold (hookStep handle success failure) evs s)
     \<le> writes (fold (hookStep handle success failure) evs s)"
  by (induction evs arbitrary: s) (simp_all add: step_balanced)

end

lemma checkedRequest_counts:
  "resets (snd (requestApproval env p s)) = resets s"
  "writes s + outstanding (snd (requestApproval env p s)) \<le> writes (snd (requestApproval env p s)) + outstanding s"
  by (simp_all add: requestApproval_def Let_def outstanding_def split: sum.split)

lemma game_request_counts:
  "resets (snd (game_requestApproval pu env p s)) = resets s"
  "writes s + outstanding (snd (game_requestApproval pu env p s)) \<le> writes (snd (game_requestApproval pu env p s)) + outstanding s"
  by (simp_all add: game_requestApproval_def Let_def outstanding_def split: sum.split)

lemma handleApproval_state:
  "snd (handleApproval env p s) =
     (if checkApprovalNeeded env (tp_token p) (tp_spender p) (tp_amount p) then snd (requestApproval env p s) else s)"
  by (simp add: handleApproval_def split: prod.split sum.split)

lemma game_handleApproval_state:
  "snd (game_handleApproval pu env p s) =
     (if game_checkApprovalNeeded pu env (gp_spender p) (gp_amount p) = Inr True
      then snd (game_requestApproval pu env p s) else s)"
  by (simp add: game_handleApproval_def split: prod.split sum.split bool.split)

lemma outstanding_simps [simp]:
  "outstanding (emit es s) = outstanding s" "outstanding (s\<lparr>as_pending := None\<rparr>) = 0"
  "as_pending s = Some q \<Longrightarrow> outstanding s = 1"
  by (simp_all add: outstanding_def)

lemmas status_defs = onApprovalSuccess_def onApprovalError_def game_onApprovalSuccess_def game_onApprovalError_def

interpretation token_hook: approval_flow handleApproval onApprovalSuccess onApprovalError
  by unfold_locales
    (simp_all add: handleApproval_state checkedRequest_counts status_defs split: option.split)

interpretation game_hook: approval_flow "game_handleApproval pu" game_onApprovalSuccess game_onApprovalError for pu
  by unfold_locales
    (simp_all add: game_handleApproval_state game_request_counts status_defs split: option.split)

lemma idle_balanced: "resets \<lparr>as_pending = None, as_effects = []\<rparr> + outstanding \<lparr>as_pending = None, as_effects = []\<rparr>
     \<le> writes \<lparr>as_pending = None, as_effects = []\<rparr>"
  by (simp add: resets_def outstanding_def)

text \<open>
  C39. No approval is confirmed that was not sent. Along every interleaving of approval requests and
  changes of the transaction status, in both hooks, the confirmed approvals and the pending one together
  never outnumber the approval transactions sent, and starting without a pending approval none is
  confirmed before one was sent.
\<close>

theorem confirmed_approvals_were_sent:
  "(let s = fold (hookStep handleApproval onApprovalSuccess onApprovalError) evs \<lparr>as_pending = None, as_effects = []\<rparr>
    in resets s + outstanding s \<le> writes s)
   \<and> (let s = fold (hookStep (game_handleApproval pu) game_onApprovalSuccess game_onApprovalError) evs'
            \<lparr>as_pending = None, as_effects = []\<rparr>
      in resets s + outstanding s \<le> writes s)"
  unfolding Let_def
  by (intro conjI token_hook.run_balanced game_hook.run_balanced idle_balanced)

end
