(* ===== verification/Creation.thy ===== *)
theory Creation
  imports Approval Ipfs
begin

text \<open>
  The two creation hooks of the web client, \<open>packages/frontend/src/hooks/useOrganizationCreation.ts\<close> and
  \<open>useProposalCreation.ts\<close>: upload, token approval, contract call, confirmation.

  \<^item> \<open>creation\<close> is the React state of a hook. Its last fields are the surroundings: the suspended calls
    (\<open>c_flows\<close>), the contract calls made (\<open>c_created\<close>), the approvals requested (\<open>c_requests\<close>) and how often a
    creation was started.
  \<^item> An asynchronous function is cut at its \<open>await\<close>s; a suspended call keeps the values it still needs. \<open>settle\<close>
    functions continue one of them with the result of the upload, of the approval or of the contract call.
  \<^item> Each \<open>useEffect\<close> is a function of what the other hooks report (\<open>notice\<close>).
  \<^item> \<open>parseFloat\<close>, the sum and \<open>toString\<close> work on floating-point numbers; an argument \<open>totalAmount\<close> says whether the total is
    positive and what its text is. The upload of the metadata ends with the url of \<open>uploadOrganizationMetadata\<close>.

  The interface \<open>creation_hook\<close> holds what both hooks share: every start leads to at most one contract
  call, and a successful creation is not in progress. The lemmas also follow a whole creation, show that the approved
  amount covers what the contract takes, and a failure after which the hook stays busy.
\<close>

section \<open>State\<close>

datatype creationStep = SIdle | SUploading | SApproving | SCreating | SConfirming | SSuccess | SError

text \<open>The text shown; the one with an ellipsis at its end, \<open>Deploying your collective\<close>, is a case of its own.\<close>

datatype progressText = Progress string | Deploying

record ('p, 'f) creation =
  c_isCreating :: bool
  c_progress :: progressText
  c_step :: creationStep
  c_error :: "string option"
  c_createdId :: "string option"
  c_pending :: "'p option"
  c_approvalCompleted :: bool
  c_flows :: "'f list"
  c_created :: "'p list"
  c_requests :: "gameApprovalParams list"
  c_starts :: nat

definition newCreation :: "('p, 'f) creation" where
  "newCreation =
     \<lparr>c_isCreating = False, c_progress = Progress [], c_step = SIdle, c_error = None, c_createdId = None, c_pending = None,
      c_approvalCompleted = False, c_flows = [], c_created = [], c_requests = [], c_starts = 0\<rparr>"

definition orText :: "string \<Rightarrow> string \<Rightarrow> string" where
  "orText m dflt = (if m = [] then dflt else m)"

text \<open>What the approval hook and the hook of the contract call report.\<close>

datatype notice = ApprovalSuccess | ApprovalError string | CreateSuccess "string option" | CreateError string

section \<open>Organizations\<close>

record organizationParams =
  og_name :: string
  og_description :: string
  og_longDescription :: "string option"
  og_website :: "string option"
  og_twitter :: "string option"
  og_discord :: "string option"
  og_github :: "string option"
  og_tags :: "string option"
  og_orgType :: int
  og_accessModel :: int
  og_feeModel :: int
  og_memberLimit :: int
  og_membershipFee :: string
  og_stakeAmount :: string
  og_profileImage :: "string option"
  og_bannerImage :: "string option"

record organizationCall =
  oc_name :: string
  oc_metadataURI :: string
  oc_orgType :: int
  oc_accessModel :: int
  oc_feeModel :: int
  oc_memberLimit :: int
  oc_membershipFee :: string
  oc_gameStakeRequired :: string

datatype organizationFlow =
    AwaitProfile organizationParams
  | AwaitBanner organizationParams string
  | AwaitMetadata organizationParams json
  | AwaitApproval
  | AwaitCreate
  | AwaitApproved

type_synonym orgCreation = "(organizationCall, organizationFlow) creation"

definition org_resetState :: "orgCreation \<Rightarrow> orgCreation" where
  "org_resetState s =
     s\<lparr>c_isCreating := False, c_progress := Progress [], c_step := SIdle, c_error := None, c_createdId := None,
       c_pending := None, c_approvalCompleted := False\<rparr>"

definition org_onApproved :: "bool \<Rightarrow> orgCreation \<Rightarrow> orgCreation" where
  "org_onApproved approvalSuccess s =
     (case c_pending s of
        Some p \<Rightarrow>
          if approvalSuccess \<and> \<not> c_approvalCompleted s then
            s\<lparr>c_approvalCompleted := True, c_step := SCreating, c_progress := Deploying, c_created := c_created s @ [p],
              c_flows := c_flows s @ [AwaitApproved]\<rparr>
          else s
      | None \<Rightarrow> s)"

definition org_onCreateSuccess :: "string option \<Rightarrow> string option \<Rightarrow> orgCreation \<Rightarrow> orgCreation" where
  "org_onCreateSuccess createdOrgId address s =
     (if nonempty createdOrgId \<and> nonempty address then
        s\<lparr>c_step := SSuccess, c_progress := Progress ''Organization created successfully!'', c_createdId := createdOrgId,
          c_isCreating := False, c_approvalCompleted := False, c_pending := None\<rparr>
      else s)"

definition org_onCreateError :: "string \<Rightarrow> orgCreation \<Rightarrow> orgCreation" where
  "org_onCreateError m s =
     s\<lparr>c_step := SError, c_error := Some (orText m ''Failed to create organization''), c_progress := Progress [],
       c_isCreating := False\<rparr>"

definition org_onApprovalError :: "string \<Rightarrow> orgCreation \<Rightarrow> orgCreation" where
  "org_onApprovalError m s =
     s\<lparr>c_step := SError, c_error := Some (orText m ''Token approval failed''), c_progress := Progress [], c_isCreating := False\<rparr>"

fun splitComma :: "string \<Rightarrow> string \<Rightarrow> string list" where
  "splitComma acc [] = [acc]"
| "splitComma acc (c # cs) = (if c = CHR '','' then acc # splitComma [] cs else splitComma (acc @ [c]) cs)"

definition tagList :: "string option \<Rightarrow> string list" where
  "tagList tags = (if nonempty tags then filter (\<lambda>t. t \<noteq> []) (map trim (splitComma [] (the tags))) else [])"

definition organizationMetadata :: "organizationParams \<Rightarrow> string \<Rightarrow> string \<Rightarrow> json" where
  "organizationMetadata params profileImageUrl bannerImageUrl =
     JObj [(''name'', JStr (og_name params)), (''description'', JStr (og_description params)),
       (''longDescription'', JStr (or_empty (og_longDescription params))), (''profileImage'', JStr profileImageUrl),
       (''bannerImage'', JStr bannerImageUrl), (''website'', JStr (or_empty (og_website params))),
       (''social'', JObj [(''twitter'', JStr (or_empty (og_twitter params))), (''discord'', JStr (or_empty (og_discord params))),
          (''github'', JStr (or_empty (og_github params)))]),
       (''tags'', JArr (map JStr (tagList (og_tags params))))]"

definition contractParams :: "organizationParams \<Rightarrow> string \<Rightarrow> organizationCall" where
  "contractParams params metadataURI =
     \<lparr>oc_name = og_name params, oc_metadataURI = metadataURI, oc_orgType = og_orgType params,
      oc_accessModel = og_accessModel params, oc_feeModel = og_feeModel params, oc_memberLimit = og_memberLimit params,
      oc_membershipFee = og_membershipFee params, oc_gameStakeRequired = og_stakeAmount params\<rparr>"

definition org_fail :: "string \<Rightarrow> orgCreation \<Rightarrow> orgCreation" where
  "org_fail m s = s\<lparr>c_step := SError, c_error := Some m, c_progress := Progress [], c_isCreating := False\<rparr>"

definition org_uploadMetadata :: "organizationParams \<Rightarrow> string \<Rightarrow> string \<Rightarrow> orgCreation \<Rightarrow> orgCreation" where
  "org_uploadMetadata params profileUrl bannerUrl s =
     s\<lparr>c_progress := Progress ''Uploading metadata to IPFS...'',
       c_flows := c_flows s @ [AwaitMetadata params (organizationMetadata params profileUrl bannerUrl)]\<rparr>"

definition org_uploadBanner :: "organizationParams \<Rightarrow> string \<Rightarrow> orgCreation \<Rightarrow> orgCreation" where
  "org_uploadBanner params profileUrl s =
     (if og_bannerImage params \<noteq> None then
        s\<lparr>c_progress := Progress ''Uploading banner image to IPFS...'', c_flows := c_flows s @ [AwaitBanner params profileUrl]\<rparr>
      else org_uploadMetadata params profileUrl [] s)"

definition org_uploadProfile :: "organizationParams \<Rightarrow> orgCreation \<Rightarrow> orgCreation" where
  "org_uploadProfile params s =
     (if og_profileImage params \<noteq> None then
        s\<lparr>c_progress := Progress ''Uploading profile image to IPFS...'', c_flows := c_flows s @ [AwaitProfile params]\<rparr>
      else org_uploadBanner params [] s)"

text \<open>The upload a suspended call waits for: an image with its name and description, or the metadata.\<close>

datatype uploadRequest = UploadImage string string string | UploadMetadata json

fun awaitedUpload :: "organizationFlow \<Rightarrow> uploadRequest option" where
  "awaitedUpload (AwaitProfile params) =
     Some (UploadImage (the (og_profileImage params)) (og_name params @ '' Profile Image'')
       (''Profile image for '' @ og_name params @ '' organization''))"
| "awaitedUpload (AwaitBanner params profileUrl) =
     Some (UploadImage (the (og_bannerImage params)) (og_name params @ '' Banner Image'')
       (''Banner image for '' @ og_name params @ '' organization''))"
| "awaitedUpload (AwaitMetadata params metadata) = Some (UploadMetadata metadata)"
| "awaitedUpload _ = None"

text \<open>From the uploaded metadata to the approval request or, when nothing has to be approved, to the contract.\<close>

definition org_afterMetadata :: "(organizationParams \<Rightarrow> bool \<times> string) \<Rightarrow> string \<Rightarrow> organizationParams \<Rightarrow> string \<Rightarrow> orgCreation \<Rightarrow> orgCreation" where
  "org_afterMetadata totalAmount staking params url s =
     (let call = contractParams params url in
      if fst (totalAmount params) then
        s\<lparr>c_step := SApproving, c_progress := Progress ''Requesting GAME token approval...'', c_pending := Some call,
          c_requests := c_requests s @ [\<lparr>gp_spender = staking, gp_amount = AStr (snd (totalAmount params)), gp_purpose = Some ''organization creation''\<rparr>],
          c_flows := c_flows s @ [AwaitApproval]\<rparr>
      else
        s\<lparr>c_step := SCreating, c_progress := Deploying, c_created := c_created s @ [call], c_flows := c_flows s @ [AwaitCreate]\<rparr>)"

definition createOrganizationWithApproval :: "bool \<Rightarrow> organizationParams \<Rightarrow> orgCreation \<Rightarrow> (string + unit) \<times> orgCreation" where
  "createOrganizationWithApproval ready params s =
     (if \<not> ready then (Inl ''Wallet not connected or contracts not loaded'', s)
      else
        (let s = org_resetState s;
             s = s\<lparr>c_isCreating := True, c_step := SUploading, c_progress := Progress ''Preparing metadata...'', c_starts := c_starts s + 1\<rparr>
         in (Inr (), org_uploadProfile params s)))"

text \<open>A suspended call goes on with the result it waits for: the url of an upload, else nothing.\<close>

fun org_continue :: "(organizationParams \<Rightarrow> bool \<times> string) \<Rightarrow> string \<Rightarrow> organizationFlow \<Rightarrow> string + string \<Rightarrow> orgCreation \<Rightarrow> orgCreation" where
  "org_continue totalAmount staking (AwaitProfile params) (Inr url) s = org_uploadBanner params url s"
| "org_continue totalAmount staking (AwaitBanner params profileUrl) (Inr url) s = org_uploadMetadata params profileUrl url s"
| "org_continue totalAmount staking (AwaitMetadata params metadata) (Inr url) s = org_afterMetadata totalAmount staking params url s"
| "org_continue totalAmount staking AwaitApproval (Inr _) s = s"
| "org_continue totalAmount staking AwaitApproval (Inl m) s = org_fail (''GAME token approval failed: '' @ m) s"
| "org_continue totalAmount staking AwaitCreate (Inr _) s =
     s\<lparr>c_step := SConfirming, c_progress := Progress ''Waiting for transaction confirmation...''\<rparr>"
| "org_continue totalAmount staking AwaitApproved (Inr _) s =
     s\<lparr>c_step := SConfirming, c_progress := Progress ''Waiting for transaction confirmation...''\<rparr>"
| "org_continue totalAmount staking AwaitApproved (Inl m) s = s\<lparr>c_step := SError, c_error := Some m, c_progress := Progress []\<rparr>"
| "org_continue totalAmount staking _ (Inl m) s = org_fail m s"

definition org_settle :: "(organizationParams \<Rightarrow> bool \<times> string) \<Rightarrow> string \<Rightarrow> nat \<Rightarrow> string + string \<Rightarrow> orgCreation \<Rightarrow> orgCreation" where
  "org_settle totalAmount staking n result s =
     (if n < length (c_flows s) then
        org_continue totalAmount staking (c_flows s ! n) result (s\<lparr>c_flows := take n (c_flows s) @ drop (Suc n) (c_flows s)\<rparr>)
      else s)"

fun org_react :: "string option \<Rightarrow> notice \<Rightarrow> orgCreation \<Rightarrow> orgCreation" where
  "org_react address ApprovalSuccess s = org_onApproved True s"
| "org_react address (ApprovalError m) s = org_onApprovalError m s"
| "org_react address (CreateSuccess createdOrgId) s = org_onCreateSuccess createdOrgId address s"
| "org_react address (CreateError m) s = org_onCreateError m s"

definition org_canCreate :: "bool \<Rightarrow> orgCreation \<Rightarrow> bool" where
  "org_canCreate ready s \<longleftrightarrow> ready \<and> \<not> c_isCreating s"

section \<open>Proposals\<close>

record proposalParams =
  pp_organizationId :: string
  pp_title :: string
  pp_description :: string
  pp_proposalType :: int
  pp_votingType :: int
  pp_votingPeriod :: int
  pp_gameDeposit :: string

datatype proposalFlow = PAwaitApproval | PAwaitCreate | PAwaitApproved

type_synonym propCreation = "(proposalParams, proposalFlow) creation"

definition prop_resetState :: "propCreation \<Rightarrow> propCreation" where
  "prop_resetState s =
     s\<lparr>c_isCreating := False, c_progress := Progress [], c_step := SIdle, c_error := None, c_createdId := None,
       c_pending := None, c_approvalCompleted := False\<rparr>"

definition prop_onApproved :: "bool \<Rightarrow> propCreation \<Rightarrow> propCreation" where
  "prop_onApproved approvalSuccess s =
     (case c_pending s of
        Some p \<Rightarrow>
          if approvalSuccess \<and> \<not> c_approvalCompleted s then
            s\<lparr>c_approvalCompleted := True, c_step := SCreating, c_progress := Progress ''Creating proposal on blockchain...'',
              c_created := c_created s @ [p], c_flows := c_flows s @ [PAwaitApproved]\<rparr>
          else s
      | None \<Rightarrow> s)"

definition prop_onCreateSuccess :: "propCreation \<Rightarrow> propCreation" where
  "prop_onCreateSuccess s =
     (if c_step s = SConfirming then
        s\<lparr>c_step := SSuccess, c_progress := Progress ''Proposal created successfully!'', c_isCreating := False,
          c_approvalCompleted := False, c_pending := None\<rparr>
      else s)"

definition prop_onCreateError :: "string \<Rightarrow> propCreation \<Rightarrow> propCreation" where
  "prop_onCreateError m s =
     (if c_step s = SConfirming then
        s\<lparr>c_step := SError, c_error := Some (orText m ''Failed to create proposal''), c_progress := Progress [],
          c_isCreating := False\<rparr>
      else s)"

definition prop_onApprovalError :: "string \<Rightarrow> propCreation \<Rightarrow> propCreation" where
  "prop_onApprovalError m s =
     s\<lparr>c_step := SError, c_error := Some (orText m ''Token approval failed''), c_progress := Progress [], c_isCreating := False\<rparr>"

definition prop_fail :: "string \<Rightarrow> propCreation \<Rightarrow> propCreation" where
  "prop_fail m s = s\<lparr>c_step := SError, c_error := Some m, c_progress := Progress [], c_isCreating := False\<rparr>"

text \<open>\<open>positive\<close> says whether the deposit, read by \<open>parseFloat\<close>, is greater than 0.\<close>

definition createProposalWithApproval ::
  "(string \<Rightarrow> bool) \<Rightarrow> string \<Rightarrow> bool \<Rightarrow> proposalParams \<Rightarrow> propCreation \<Rightarrow> (string + unit) \<times> propCreation" where
  "createProposalWithApproval positive signal ready params s =
     (if \<not> ready then (Inl ''Wallet not connected or contracts not loaded'', s)
      else
        (let s = prop_resetState s;
             s = s\<lparr>c_isCreating := True, c_step := SApproving, c_progress := Progress ''Preparing proposal creation...'',
                   c_starts := c_starts s + 1\<rparr>
         in (Inr (),
             if positive (pp_gameDeposit params) then
               s\<lparr>c_step := SApproving, c_progress := Progress ''Requesting GAME token approval...'', c_pending := Some params,
                 c_requests := c_requests s @ [\<lparr>gp_spender = signal, gp_amount = AStr (pp_gameDeposit params),
                   gp_purpose = Some ''proposal creation''\<rparr>],
                 c_flows := c_flows s @ [PAwaitApproval]\<rparr>
             else
               s\<lparr>c_step := SCreating, c_progress := Progress ''Creating proposal on blockchain...'', c_created := c_created s @ [params],
                 c_flows := c_flows s @ [PAwaitCreate]\<rparr>)))"

fun prop_continue :: "proposalFlow \<Rightarrow> string + unit \<Rightarrow> propCreation \<Rightarrow> propCreation" where
  "prop_continue PAwaitApproval (Inr _) s = s"
| "prop_continue PAwaitApproval (Inl m) s = prop_fail (''GAME token approval failed: '' @ m) s"
| "prop_continue PAwaitCreate (Inr _) s =
     s\<lparr>c_step := SConfirming, c_progress := Progress ''Waiting for transaction confirmation...''\<rparr>"
| "prop_continue PAwaitCreate (Inl m) s = prop_fail m s"
| "prop_continue PAwaitApproved (Inr _) s =
     s\<lparr>c_step := SConfirming, c_progress := Progress ''Waiting for transaction confirmation...''\<rparr>"
| "prop_continue PAwaitApproved (Inl m) s = s\<lparr>c_step := SError, c_error := Some m, c_progress := Progress []\<rparr>"

definition prop_settle :: "nat \<Rightarrow> string + unit \<Rightarrow> propCreation \<Rightarrow> propCreation" where
  "prop_settle n result s =
     (if n < length (c_flows s) then
        prop_continue (c_flows s ! n) result (s\<lparr>c_flows := take n (c_flows s) @ drop (Suc n) (c_flows s)\<rparr>)
      else s)"

fun prop_react :: "notice \<Rightarrow> propCreation \<Rightarrow> propCreation" where
  "prop_react ApprovalSuccess s = prop_onApproved True s"
| "prop_react (ApprovalError m) s = prop_onApprovalError m s"
| "prop_react (CreateSuccess _) s = prop_onCreateSuccess s"
| "prop_react (CreateError m) s = prop_onCreateError m s"

definition prop_canCreate :: "bool \<Rightarrow> propCreation \<Rightarrow> bool" where
  "prop_canCreate ready s \<longleftrightarrow> ready \<and> \<not> c_isCreating s"

section \<open>What both hooks share\<close>

datatype ('i, 'r) creationEvent = Start 'i | Settles nat 'r | Notice notice | Reset

fun creationRun ::
  "('i \<Rightarrow> 's \<Rightarrow> 's) \<Rightarrow> (nat \<Rightarrow> 'r \<Rightarrow> 's \<Rightarrow> 's) \<Rightarrow> (notice \<Rightarrow> 's \<Rightarrow> 's) \<Rightarrow> ('s \<Rightarrow> 's) \<Rightarrow> ('i, 'r) creationEvent \<Rightarrow> 's \<Rightarrow> 's" where
  "creationRun start settle react reset (Start i) s = start i s"
| "creationRun start settle react reset (Settles n r) s = settle n r s"
| "creationRun start settle react reset (Notice e) s = react e s"
| "creationRun start settle react reset Reset s = reset s"

text \<open>
  The contract calls made and those still to come: from suspended calls that have not reached the
  decision yet, and from the pending one.
\<close>

definition creationCredit :: "('f \<Rightarrow> bool) \<Rightarrow> ('p, 'f) creation \<Rightarrow> nat" where
  "creationCredit early s = length (c_created s) + length (filter early (c_flows s))
     + (if c_pending s \<noteq> None \<and> \<not> c_approvalCompleted s then 1 else 0)"

definition calm :: "('p, 'f) creation \<Rightarrow> bool" where
  "calm s \<longleftrightarrow> (c_step s = SSuccess \<or> c_step s = SIdle \<longrightarrow> \<not> c_isCreating s)"

locale creation_hook =
  fixes start :: "'i \<Rightarrow> ('p, 'f) creation \<Rightarrow> ('p, 'f) creation"
    and settle :: "nat \<Rightarrow> 'r \<Rightarrow> ('p, 'f) creation \<Rightarrow> ('p, 'f) creation"
    and react :: "notice \<Rightarrow> ('p, 'f) creation \<Rightarrow> ('p, 'f) creation"
    and reset :: "('p, 'f) creation \<Rightarrow> ('p, 'f) creation"
    and early :: "'f \<Rightarrow> bool"
  assumes start_credit: "creationCredit early (start i s) + c_starts s \<le> creationCredit early s + c_starts (start i s)"
    and settle_credit: "creationCredit early (settle n r s) \<le> creationCredit early s" "c_starts (settle n r s) = c_starts s"
    and react_credit: "creationCredit early (react e s) \<le> creationCredit early s" "c_starts (react e s) = c_starts s"
    and reset_credit: "creationCredit early (reset s) \<le> creationCredit early s" "c_starts (reset s) = c_starts s"
    and keeps_calm: "calm s \<Longrightarrow> calm (start i s)" "calm s \<Longrightarrow> calm (settle n r s)" "calm s \<Longrightarrow> calm (react e s)" "calm (reset s)"
begin

lemma step_credit:
  "creationCredit early s \<le> c_starts s \<Longrightarrow>
   creationCredit early (creationRun start settle react reset ev s) \<le> c_starts (creationRun start settle react reset ev s)"
proof (cases ev)
  case (Start i)
  assume "creationCredit early s \<le> c_starts s"
  with Start show ?thesis using start_credit [of i s] by simp
next
  case (Settles n r)
  assume "creationCredit early s \<le> c_starts s"
  with Settles show ?thesis using settle_credit [of n r s] by simp
next
  case (Notice e)
  assume "creationCredit early s \<le> c_starts s"
  with Notice show ?thesis using react_credit [of e s] by simp
next
  case Reset
  assume "creationCredit early s \<le> c_starts s"
  with Reset show ?thesis using reset_credit [of s] by simp
qed

lemma run_credit:
  "creationCredit early s \<le> c_starts s \<Longrightarrow>
   creationCredit early (fold (creationRun start settle react reset) evs s) \<le> c_starts (fold (creationRun start settle react reset) evs s)"
  by (induction evs arbitrary: s) (simp_all add: step_credit)

lemma run_calm: "calm s \<Longrightarrow> calm (fold (creationRun start settle react reset) evs s)"
proof (induction evs arbitrary: s)
  case (Cons ev evs)
  have "calm (creationRun start settle react reset ev s)" using Cons.prems by (cases ev) (simp_all add: keeps_calm)
  then show ?case by (simp add: Cons.IH)
qed simp

lemma created_once:
  "length (c_created (fold (creationRun start settle react reset) evs newCreation))
     \<le> c_starts (fold (creationRun start settle react reset) evs newCreation)"
  using run_credit [of newCreation evs] by (simp add: creationCredit_def newCreation_def)

lemma success_calm: "calm (fold (creationRun start settle react reset) evs newCreation)"
  by (rule run_calm) (simp add: calm_def newCreation_def)

end

fun org_early :: "organizationFlow \<Rightarrow> bool" where
  "org_early (AwaitProfile _) = True"
| "org_early (AwaitBanner _ _) = True"
| "org_early (AwaitMetadata _ _) = True"
| "org_early _ = False"

definition org_start :: "bool \<times> organizationParams \<Rightarrow> orgCreation \<Rightarrow> orgCreation" where
  "org_start i s = snd (createOrganizationWithApproval (fst i) (snd i) s)"

definition prop_start :: "(string \<Rightarrow> bool) \<Rightarrow> string \<Rightarrow> bool \<times> proposalParams \<Rightarrow> propCreation \<Rightarrow> propCreation" where
  "prop_start positive signal i s = snd (createProposalWithApproval positive signal (fst i) (snd i) s)"

lemma filter_nth_removed:
  "n < length xs \<Longrightarrow> length (filter f xs) = length (filter f (take n xs @ drop (Suc n) xs)) + (if f (xs ! n) then 1 else 0)"
  by (subst id_take_nth_drop [of n xs]) simp_all

lemmas org_upload_defs = org_uploadProfile_def org_uploadBanner_def org_uploadMetadata_def
lemmas org_effect_defs = org_onApproved_def org_onCreateSuccess_def org_onCreateError_def org_onApprovalError_def org_resetState_def
lemmas prop_effect_defs = prop_onApproved_def prop_onCreateSuccess_def prop_onCreateError_def prop_onApprovalError_def prop_resetState_def

lemma org_continue_credit:
  "creationCredit org_early (org_continue totalAmount staking f r s) \<le> creationCredit org_early s + (if org_early f then 1 else 0)"
  "c_starts (org_continue totalAmount staking f r s) = c_starts s"
  by (induction totalAmount staking f r s rule: org_continue.induct)
    (simp_all add: creationCredit_def org_upload_defs org_afterMetadata_def org_fail_def Let_def)

lemma org_continue_calm: "calm s \<Longrightarrow> calm (org_continue totalAmount staking f r s)"
  by (induction totalAmount staking f r s rule: org_continue.induct)
    (simp_all add: calm_def org_upload_defs org_afterMetadata_def org_fail_def Let_def)

lemma org_settle_credit:
  "creationCredit org_early (org_settle totalAmount staking n r s) \<le> creationCredit org_early s"
  "c_starts (org_settle totalAmount staking n r s) = c_starts s" "calm s \<Longrightarrow> calm (org_settle totalAmount staking n r s)"
proof -
  let ?s = "s\<lparr>c_flows := take n (c_flows s) @ drop (Suc n) (c_flows s)\<rparr>"
  show "creationCredit org_early (org_settle totalAmount staking n r s) \<le> creationCredit org_early s"
  proof (cases "n < length (c_flows s)")
    case True
    have "creationCredit org_early ?s + (if org_early (c_flows s ! n) then 1 else 0) = creationCredit org_early s"
      using filter_nth_removed [OF True, of org_early] by (simp add: creationCredit_def)
    then show ?thesis using True org_continue_credit(1) [of totalAmount staking "c_flows s ! n" r ?s] by (simp add: org_settle_def)
  qed (simp add: org_settle_def)
  show "c_starts (org_settle totalAmount staking n r s) = c_starts s" by (simp add: org_settle_def org_continue_credit)
  assume "calm s"
  then have "calm ?s" by (simp add: calm_def)
  then show "calm (org_settle totalAmount staking n r s)" using \<open>calm s\<close> by (simp add: org_settle_def org_continue_calm)
qed

lemma prop_continue_credit:
  "creationCredit (\<lambda>_. False) (prop_continue f r s) = creationCredit (\<lambda>_. False) s" "c_starts (prop_continue f r s) = c_starts s"
  "calm s \<Longrightarrow> calm (prop_continue f r s)"
  by (induction f r s rule: prop_continue.induct) (simp_all add: creationCredit_def calm_def prop_fail_def)

lemma org_react_credit:
  "creationCredit org_early (org_react address e s) \<le> creationCredit org_early s" "c_starts (org_react address e s) = c_starts s"
  "calm s \<Longrightarrow> calm (org_react address e s)"
  by (cases e; simp add: org_effect_defs creationCredit_def calm_def split: option.split)+

lemma prop_react_credit:
  "creationCredit (\<lambda>_. False) (prop_react e s) \<le> creationCredit (\<lambda>_. False) s" "c_starts (prop_react e s) = c_starts s"
  "calm s \<Longrightarrow> calm (prop_react e s)"
  by (cases e; simp add: prop_effect_defs creationCredit_def calm_def split: option.split)+

lemma org_start_credit:
  "creationCredit org_early (org_start i s) + c_starts s \<le> creationCredit org_early s + c_starts (org_start i s)"
  "calm s \<Longrightarrow> calm (org_start i s)"
  "creationCredit org_early (org_resetState s) \<le> creationCredit org_early s" "c_starts (org_resetState s) = c_starts s" "calm (org_resetState s)"
  by (simp_all add: org_start_def createOrganizationWithApproval_def org_upload_defs org_resetState_def creationCredit_def calm_def Let_def)

lemma prop_start_credit:
  "creationCredit (\<lambda>_. False) (prop_start positive signal i s) + c_starts s
     \<le> creationCredit (\<lambda>_. False) s + c_starts (prop_start positive signal i s)"
  "calm s \<Longrightarrow> calm (prop_start positive signal i s)"
  "creationCredit (\<lambda>_. False) (prop_resetState s) \<le> creationCredit (\<lambda>_. False) s" "c_starts (prop_resetState s) = c_starts s" "calm (prop_resetState s)"
  by (simp_all add: prop_start_def createProposalWithApproval_def prop_resetState_def creationCredit_def calm_def Let_def)

lemma prop_settle_credit:
  "creationCredit (\<lambda>_. False) (prop_settle n r s) \<le> creationCredit (\<lambda>_. False) s" "c_starts (prop_settle n r s) = c_starts s"
  "calm s \<Longrightarrow> calm (prop_settle n r s)"
proof -
  have same: "creationCredit (\<lambda>_. False) (s\<lparr>c_flows := fs\<rparr>) = creationCredit (\<lambda>_. False) s" "calm (s\<lparr>c_flows := fs\<rparr>) \<longleftrightarrow> calm s" for fs
    by (simp_all add: creationCredit_def calm_def)
  show "creationCredit (\<lambda>_. False) (prop_settle n r s) \<le> creationCredit (\<lambda>_. False) s" "c_starts (prop_settle n r s) = c_starts s"
    "calm s \<Longrightarrow> calm (prop_settle n r s)"
    by (simp_all add: prop_settle_def prop_continue_credit same)
qed

interpretation org_creation: creation_hook org_start "org_settle totalAmount staking" "org_react address" org_resetState org_early
  for totalAmount staking address
  by unfold_locales (simp_all add: org_settle_credit org_react_credit org_start_credit)

interpretation prop_creation: creation_hook "prop_start positive signal" prop_settle prop_react prop_resetState "\<lambda>_. False"
  for positive signal
  by unfold_locales (simp_all add: prop_settle_credit prop_react_credit prop_start_credit)

definition org_run ::
  "(organizationParams \<Rightarrow> bool \<times> string) \<Rightarrow> string \<Rightarrow> string option
     \<Rightarrow> (bool \<times> organizationParams, string + string) creationEvent list \<Rightarrow> orgCreation" where
  "org_run totalAmount staking address evs =
     fold (creationRun org_start (org_settle totalAmount staking) (org_react address) org_resetState) evs newCreation"

definition prop_run ::
  "(string \<Rightarrow> bool) \<Rightarrow> string \<Rightarrow> (bool \<times> proposalParams, string + unit) creationEvent list \<Rightarrow> propCreation" where
  "prop_run positive signal evs =
     fold (creationRun (prop_start positive signal) prop_settle prop_react prop_resetState) evs newCreation"

text \<open>
  C22. A creation is sent at most once: along every interleaving of starts, results of uploads, approvals and
  contract calls, reports of the other hooks and resets, neither hook makes more contract calls than creations were
  started, however often the approval is reported; and a hook that shows success or nothing is not busy.
\<close>

theorem created_at_most_once:
  "length (c_created (org_run totalAmount staking address evs)) \<le> c_starts (org_run totalAmount staking address evs)
   \<and> length (c_created (prop_run positive signal evs')) \<le> c_starts (prop_run positive signal evs')
   \<and> calm (org_run totalAmount staking address evs) \<and> calm (prop_run positive signal evs')"
  unfolding org_run_def prop_run_def
  by (intro conjI org_creation.created_once prop_creation.created_once org_creation.success_calm prop_creation.success_calm)

section \<open>A whole creation\<close>

text \<open>
  The surroundings answer the oldest suspended call: an upload with the url \<open>up\<close> that the storage gives to this content, an approval or a contract call
  with success. A creation is started, its uploads are answered one after the other, the approval is reported if one was
  requested, and the creation is confirmed.
\<close>

definition answerFlow ::
  "(organizationParams \<Rightarrow> bool \<times> string) \<Rightarrow> string \<Rightarrow> (uploadRequest \<Rightarrow> string) \<Rightarrow> orgCreation \<Rightarrow> orgCreation" where
  "answerFlow totalAmount staking up s =
     (case c_flows s of
        [] \<Rightarrow> s
      | f # _ \<Rightarrow> org_settle totalAmount staking 0 (Inr (case awaitedUpload f of None \<Rightarrow> [] | Some x \<Rightarrow> up x)) s)"

definition uploadsOf :: "organizationParams \<Rightarrow> nat" where
  "uploadsOf params = (if og_profileImage params = None then 0 else 1) + (if og_bannerImage params = None then 0 else 1) + 1"

definition completeCreation ::
  "(organizationParams \<Rightarrow> bool \<times> string) \<Rightarrow> string \<Rightarrow> (uploadRequest \<Rightarrow> string) \<Rightarrow> string \<Rightarrow> string
     \<Rightarrow> organizationParams \<Rightarrow> orgCreation \<Rightarrow> orgCreation" where
  "completeCreation totalAmount staking up account i params s =
     (let answer = answerFlow totalAmount staking up;
          s = (answer ^^ uploadsOf params) (org_start (True, params) s);
          s = (if fst (totalAmount params) then org_react (Some account) ApprovalSuccess (answer s) else s)
      in org_react (Some account) (CreateSuccess (Some i)) (answer s))"

text \<open>What the storage must have given: the urls of the images by their own contents, none for an image that is missing, and that of the metadata with both.\<close>

definition profileUrlOf :: "(uploadRequest \<Rightarrow> string) \<Rightarrow> organizationParams \<Rightarrow> string" where
  "profileUrlOf up params =
     (case og_profileImage params of
        None \<Rightarrow> []
      | Some file \<Rightarrow> up (UploadImage file (og_name params @ '' Profile Image'') (''Profile image for '' @ og_name params @ '' organization'')))"

definition bannerUrlOf :: "(uploadRequest \<Rightarrow> string) \<Rightarrow> organizationParams \<Rightarrow> string" where
  "bannerUrlOf up params =
     (case og_bannerImage params of
        None \<Rightarrow> []
      | Some file \<Rightarrow> up (UploadImage file (og_name params @ '' Banner Image'') (''Banner image for '' @ og_name params @ '' organization'')))"

lemma uploads_answered:
  assumes "c_flows s = []"
  shows "\<exists>s'. (answerFlow totalAmount staking up ^^ uploadsOf params) (org_start (True, params) s)
       = org_afterMetadata totalAmount staking params
           (up (UploadMetadata (organizationMetadata params (profileUrlOf up params) (bannerUrlOf up params)))) s'
     \<and> c_flows s' = [] \<and> c_created s' = c_created s \<and> c_requests s' = c_requests s \<and> c_isCreating s' \<and> \<not> c_approvalCompleted s' \<and> c_pending s' = None"
  by (rule exI [of _ "s\<lparr>c_error := None, c_createdId := None, c_pending := None, c_approvalCompleted := False, c_isCreating := True,
        c_step := SUploading, c_starts := c_starts s + 1, c_progress := Progress ''Uploading metadata to IPFS...'', c_flows := []\<rparr>"],
      cases "og_profileImage params"; cases "og_bannerImage params")
    (use assms in \<open>simp_all add: org_start_def createOrganizationWithApproval_def org_upload_defs org_resetState_def org_settle_def answerFlow_def
      uploadsOf_def profileUrlOf_def bannerUrlOf_def Let_def numeral_2_eq_2 numeral_3_eq_3\<close>)

text \<open>
  C23. A creation runs to its end. Let a creation start in any state without suspended calls, with or without a profile and a banner image, with or without
  something to approve, and let every awaited upload, approval and call be answered with success: then the hook shows success with the id of
  the organization, is no longer busy and waits for nothing. It has made exactly one further contract call, with the parameters as given and the url of the
  metadata that name exactly the uploaded profile and banner images (empty where there is none); and it has requested
  exactly one further approval, for the total, from the staking contract, if the total is positive, and none otherwise.
\<close>

theorem organization_creation_completes:
  assumes "c_flows s = []" and "i \<noteq> []" "account \<noteq> []"
    and "s' = completeCreation totalAmount staking up account i params s"
  shows "c_step s' = SSuccess \<and> c_createdId s' = Some i \<and> \<not> c_isCreating s' \<and> c_flows s' = [] \<and> c_pending s' = None
     \<and> c_created s' = c_created s @ [contractParams params (up (UploadMetadata (organizationMetadata params (profileUrlOf up params) (bannerUrlOf up params))))]
     \<and> c_requests s' = c_requests s @ (if fst (totalAmount params)
          then [\<lparr>gp_spender = staking, gp_amount = AStr (snd (totalAmount params)), gp_purpose = Some ''organization creation''\<rparr>] else [])"
proof -
  let ?url = "up (UploadMetadata (organizationMetadata params (profileUrlOf up params) (bannerUrlOf up params)))"
  obtain t where t: "(answerFlow totalAmount staking up ^^ uploadsOf params) (org_start (True, params) s)
       = org_afterMetadata totalAmount staking params ?url t" "c_flows t = []" "c_created t = c_created s"
      "c_requests t = c_requests s" "c_isCreating t" "\<not> c_approvalCompleted t" "c_pending t = None"
    using uploads_answered [OF assms(1), where totalAmount = totalAmount and staking = staking and up = up and params = params] by blast
  show ?thesis
    unfolding assms(4) completeCreation_def Let_def t(1)
    using assms(2,3) t(2-7)
    by (simp add: answerFlow_def org_settle_def org_afterMetadata_def org_effect_defs nonempty_def Let_def)
qed

definition exampleParams :: organizationParams where
  "exampleParams = \<lparr>og_name = ''Guild'', og_description = ''d'', og_longDescription = None, og_website = None, og_twitter = None,
     og_discord = None, og_github = None, og_tags = Some ''rpg, ,indie'', og_orgType = 0, og_accessModel = 0, og_feeModel = 0,
     og_memberLimit = 10, og_membershipFee = ''2'', og_stakeAmount = ''3'', og_profileImage = None, og_bannerImage = None\<rparr>"

text \<open>With a banner image and no profile image; the storage answers with the name of an image.\<close>

theorem organization_creation_completes_witness:
  "let params = exampleParams\<lparr>og_bannerImage := Some ''bytes''\<rparr>;
       s' = completeCreation (\<lambda>_. (True, ''5'')) ''0xs'' (case_uploadRequest (\<lambda>file n d. n) (\<lambda>_. ''ipfs://m'')) ''0xa'' ''ORG'' params newCreation
   in c_step s' = SSuccess \<and> c_created s' = [contractParams params ''ipfs://m''] \<and> length (c_requests s') = 1"
proof -
  have f: "c_flows (newCreation :: orgCreation) = []" by (simp add: newCreation_def)
  have n: "c_created (newCreation :: orgCreation) = []" "c_requests (newCreation :: orgCreation) = []" by (simp_all add: newCreation_def)
  show ?thesis
    using organization_creation_completes [OF f _ _ refl, of "''ORG''" "''0xa''" "\<lambda>_. (True, ''5'')" "''0xs''"
        "case_uploadRequest (\<lambda>file n d. n) (\<lambda>_. ''ipfs://m'')" "exampleParams\<lparr>og_bannerImage := Some ''bytes''\<rparr>"]
    by (simp add: n Let_def)
qed

lemma show_nat_digit: "list_all digit_char (show_nat n)"
  using show_nat_digits [of _ n] by (auto simp: list_all_iff digit_char_def Let_def)

text \<open>
  The approval covers the creation: for a fee and a stake given as whole numbers, and a total whose
  text is the sum of the two (which floating-point addition gives below \<open>2 ^ 53\<close>), the amount the approval hook requests is
  exactly the sum of the fee and the stake that the contract call passes, given that the conversion
  library scales whole numbers as documented.
\<close>

theorem approval_covers_creation:
  assumes parseUnits_whole: "\<And>s d. s \<noteq> [] \<Longrightarrow> list_all digit_char s \<Longrightarrow> parseUnits s d = Inr (bigIntOf s * 10 ^ d)"
    and "og_membershipFee params = show_nat fee" "og_stakeAmount params = show_nat stake"
    and "totalAmount params = (True, show_nat (stake + fee))"
    and "call = contractParams params url"
    and "request = last (c_requests (org_afterMetadata totalAmount staking params url s))"
  shows "\<exists>m n. parseTokenAmount parseUnits (AStr (oc_membershipFee call)) GAME ''0'' = Inr m
     \<and> parseTokenAmount parseUnits (AStr (oc_gameStakeRequired call)) GAME ''0'' = Inr n
     \<and> game_safeBigInt parseUnits (gp_amount request) ''0'' = Inr (m + n) \<and> m = int fee * 10 ^ 18 \<and> n = int stake * 10 ^ 18"
proof -
  have amount: "parseTokenAmount parseUnits (AStr (show_nat k)) GAME ''0'' = Inr (int k * 10 ^ 18)" for k
    by (rule parseTokenAmount_digits) (simp_all add: show_nat_digit parseUnits_whole bigIntOf_def)
  have "gp_amount request = AStr (show_nat (stake + fee))" using assms(4, 6) by (simp add: org_afterMetadata_def Let_def)
  moreover have "oc_membershipFee call = show_nat fee" "oc_gameStakeRequired call = show_nat stake"
    using assms(2, 3, 5) by (simp_all add: contractParams_def)
  ultimately show ?thesis by (simp add: amount game_safeBigInt_def algebra_simps)
qed

theorem approval_covers_creation_witness:
  "\<exists>m n. parseTokenAmount (\<lambda>s d. Inr (bigIntOf s * 10 ^ d) :: string + int) (AStr (oc_membershipFee (contractParams exampleParams ''u''))) GAME ''0'' = Inr m
     \<and> parseTokenAmount (\<lambda>s d. Inr (bigIntOf s * 10 ^ d) :: string + int) (AStr (oc_gameStakeRequired (contractParams exampleParams ''u''))) GAME ''0'' = Inr n
     \<and> m + n = 5 * 10 ^ 18"
proof -
  have f: "og_membershipFee exampleParams = show_nat 2" "og_stakeAmount exampleParams = show_nat 3" "(True, ''5'') = (True, show_nat (3 + 2))"
    by code_simp+
  show ?thesis
    using approval_covers_creation [of "\<lambda>s d. Inr (bigIntOf s * 10 ^ d)", OF _ f(1, 2), of "\<lambda>_. (True, ''5'')", OF _ f(3) refl refl, of "''u''" "''0xs''" newCreation]
    by auto
qed

text \<open>
  A contract call that fails after the approval leaves the hook busy: the step is an error, yet
  \<open>isCreating\<close> stays set and \<open>canCreate\<close> false, unlike the failure of the same call without an approval.
\<close>

theorem failure_after_approval_stays_busy:
  "let s = org_run (\<lambda>_. (True, ''5'')) ''0xs'' (Some ''0xa'')
        [Start (True, exampleParams), Settles 0 (Inr ''u''), Settles 0 (Inr []), Notice ApprovalSuccess, Settles 0 (Inl ''m'')];
       t = org_run (\<lambda>_. (False, ''0'')) ''0xs'' (Some ''0xa'')
        [Start (True, exampleParams), Settles 0 (Inr ''u''), Settles 0 (Inl ''m'')]
   in c_step s = SError \<and> \<not> org_canCreate True s \<and> c_flows s = [] \<and> c_step t = SError \<and> org_canCreate True t"
  by (simp add: org_run_def org_start_def createOrganizationWithApproval_def org_upload_defs org_effect_defs org_settle_def
      org_afterMetadata_def org_fail_def org_canCreate_def exampleParams_def newCreation_def nonempty_def Let_def)

text \<open>
  The id of a created proposal is never recorded: \<open>createdProposalId\<close> stays empty along every run.
\<close>

lemma prop_step_createdId:
  "c_createdId s = None \<Longrightarrow> c_createdId (creationRun (prop_start positive signal) prop_settle prop_react prop_resetState ev s) = None"
proof (cases ev)
  case (Settles n r)
  assume "c_createdId s = None"
  then have "c_createdId (prop_continue f r (s\<lparr>c_flows := fs\<rparr>)) = None" for f fs
    by (induction f r "s\<lparr>c_flows := fs\<rparr>" rule: prop_continue.induct) (simp_all add: prop_fail_def)
  then show ?thesis using Settles \<open>c_createdId s = None\<close> by (simp add: prop_settle_def)
next
  case (Notice e)
  assume "c_createdId s = None"
  then show ?thesis using Notice by (cases e) (simp_all add: prop_effect_defs split: option.split)
qed (simp_all add: prop_start_def createProposalWithApproval_def prop_resetState_def Let_def)

theorem proposal_id_never_recorded: "c_createdId (prop_run positive signal evs) = None"
proof -
  have "c_createdId s = None \<Longrightarrow>
    c_createdId (fold (creationRun (prop_start positive signal) prop_settle prop_react prop_resetState) evs s) = None" for s
    by (induction evs arbitrary: s) (simp_all add: prop_step_createdId)
  then show ?thesis by (simp add: prop_run_def newCreation_def)
qed

end
