(* ===== verification/Client_Data.thy ===== *)
theory Client_Data
  imports Approval Ipfs Frontend_Ids "HOL-Library.Log_Nat" "HOL-Library.Multiset"
begin

text \<open>
  How the hooks of the web client read the answers of the subgraph: \<open>parseInt\<close> and the fallbacks after it,
  \<open>data?.key?.map(f)\<close>, and the numbers these give.

  \<^item> A number of the language that comes from an integer is an \<open>int\<close>; \<open>None\<close> is NaN. \<open>toDouble\<close> is the rounding of an
    integer to the nearest double, ties to even, for integers below \<open>2 ^ 1024\<close>: the integers of the chain have 256 bits.
  \<^item> The answer of the subgraph is JSON or nothing; the hooks tell the client library to ignore errors, so a query that
    fails is a query without data.

  The lemmas show that decimal texts are read back, that numbers up to \<open>2 ^ 53\<close> are exact and larger ones off by less than one
  part in \<open>2 ^ 53\<close>.
\<close>

section \<open>Numbers\<close>

definition toDouble :: "int \<Rightarrow> int" where
  "toDouble n =
     (if bitlen \<bar>n\<bar> \<le> 53 then n
      else
        (let e = nat (bitlen \<bar>n\<bar> - 53); q = \<bar>n\<bar> div 2 ^ e; r = \<bar>n\<bar> mod 2 ^ e;
             up = (2 ^ e < 2 * r \<or> 2 ^ e = 2 * r \<and> odd q)
         in sgn n * ((if up then q + 1 else q) * 2 ^ e)))"

text \<open>\<open>parseInt(text)\<close>: white space, a sign, a hexadecimal prefix, then the digits.\<close>

definition parseIntText :: "string \<Rightarrow> int option" where
  "parseIntText s =
     (let t = dropWhile js_space s; neg = (t \<noteq> [] \<and> hd t = CHR ''-'');
          u = (if t \<noteq> [] \<and> (hd t = CHR ''-'' \<or> hd t = CHR ''+'') then tl t else t);
          v = (if take 2 u = ''0x'' \<or> take 2 u = ''0X'' then parseHexDigits u
               else (let ds = takeWhile digit_char u in if ds = [] then None else Some (bigIntOf ds)))
      in map_option (\<lambda>n. if neg then - n else n) v)"

definition parseIntNum :: "json option \<Rightarrow> int option" where
  "parseIntNum value = map_option toDouble (parseIntText (templateText value))"

text \<open>\<open>parseInt(value) || fallback\<close>: NaN and 0 give the fallback.\<close>

definition parseIntOr :: "json option \<Rightarrow> int \<Rightarrow> int" where
  "parseIntOr value fallback =
     (case parseIntNum value of None \<Rightarrow> fallback | Some n \<Rightarrow> if n = 0 then fallback else n)"

text \<open>\<open>sum + x\<close> over a list of numbers.\<close>

definition sumNumbers :: "('a \<Rightarrow> int) \<Rightarrow> 'a list \<Rightarrow> int" where
  "sumNumbers f xs = foldl (\<lambda>sum x. toDouble (sum + f x)) 0 xs"

text \<open>The quotient of two non-negative integers, to the nearest integer, ties to even.\<close>

definition roundQuotient :: "int \<Rightarrow> int \<Rightarrow> int" where
  "roundQuotient a b =
     (let q = a div b; r = a mod b in if b < 2 * r \<or> b = 2 * r \<and> odd q then q + 1 else q)"

text \<open>
  \<open>Math.round((a / b) * 100)\<close> for \<open>0 \<le> a\<close> and \<open>0 < b\<close>: the quotient is the double \<open>m * 2 powr (- k)\<close> with 53 bits in \<open>m\<close>, the
  product is rounded again, and \<open>Math.round\<close> takes the nearest integer, the upper one at a tie.
\<close>

definition percentOf :: "int \<Rightarrow> int \<Rightarrow> int" where
  "percentOf a b =
     (let k0 = nat (53 + bitlen b - bitlen a); k = (if a * 2 ^ k0 div b < 2 ^ 53 then k0 else k0 - 1);
          m = roundQuotient (a * 2 ^ k) b
      in (2 * toDouble (100 * m) + 2 ^ k) div (2 * 2 ^ k))"

text \<open>\<open>parseFloat\<close>: white space, a sign, \<open>Infinity\<close> or digits with a point and an exponent. Only comparisons of its result are needed.\<close>

definition exponentOf :: "string \<Rightarrow> int" where
  "exponentOf s =
     (if s \<noteq> [] \<and> (hd s = CHR ''e'' \<or> hd s = CHR ''E'') then
        (let t = tl s; neg = (t \<noteq> [] \<and> hd t = CHR ''-'');
             u = (if t \<noteq> [] \<and> (hd t = CHR ''-'' \<or> hd t = CHR ''+'') then tl t else t); n = bigIntOf (takeWhile digit_char u)
         in if neg then - n else n)
      else 0)"

text \<open>The unsigned part of the text: whether it is \<open>Infinity\<close>, else the mantissa and the power of ten; \<open>None\<close> is NaN.\<close>

definition floatParts :: "string \<Rightarrow> (bool \<times> int \<times> int) option" where
  "floatParts u =
     (if take 8 u = ''Infinity'' then Some (True, 0, 0)
      else
        (let whole = takeWhile digit_char u; rest = dropWhile digit_char u;
             frac = (if rest \<noteq> [] \<and> hd rest = CHR ''.'' then takeWhile digit_char (tl rest) else []);
             rest = (if rest \<noteq> [] \<and> hd rest = CHR ''.'' \<and> (whole \<noteq> [] \<or> frac \<noteq> []) then dropWhile digit_char (tl rest) else rest)
         in if whole = [] \<and> frac = [] then None else Some (False, bigIntOf (whole @ frac), exponentOf rest - int (length frac))))"

text \<open>\<open>P\<close> of the unsigned part of a text without a minus sign.\<close>

definition floatHolds :: "(int \<Rightarrow> int \<Rightarrow> bool) \<Rightarrow> string \<Rightarrow> bool" where
  "floatHolds P s =
     (let t = dropWhile js_space s; neg = (t \<noteq> [] \<and> hd t = CHR ''-'');
          u = (if t \<noteq> [] \<and> (hd t = CHR ''-'' \<or> hd t = CHR ''+'') then tl t else t)
      in \<not> neg \<and> (case floatParts u of None \<Rightarrow> False | Some (unbounded, mantissa, x) \<Rightarrow> unbounded \<or> P mantissa x))"

text \<open>
  \<open>parseFloat(text) > 0\<close>: a positive decimal is a positive double unless it is at most half of the smallest one, \<open>2 powr (- 1075)\<close>.
\<close>

definition parseFloatPositive :: "string \<Rightarrow> bool" where
  "parseFloatPositive s = floatHolds (\<lambda>mantissa x. 0 < mantissa \<and> (0 \<le> x \<or> 10 ^ nat (- x) < mantissa * 2 ^ 1075)) s"

text \<open>
  \<open>parseFloat(text) >= n\<close> for \<open>0 < n\<close> that is no power of two: the double next below \<open>n\<close> is \<open>2 powr (bitlen n - 53)\<close> away, and a decimal in the
  upper half of that gap, its middle included, is rounded to \<open>n\<close>.
\<close>

definition parseFloatAtLeast :: "int \<Rightarrow> string \<Rightarrow> bool" where
  "parseFloatAtLeast n s =
     (let k = nat (54 - bitlen n); b = n * 2 ^ k - 1
      in floatHolds (\<lambda>mantissa x. if 0 \<le> x then b \<le> mantissa * 2 ^ k * 10 ^ nat x else b * 10 ^ nat (- x) \<le> mantissa * 2 ^ k) s)"

text \<open>The time left until \<open>end\<close>: \<open>Math.max\<close> of NaN is NaN, no comparison with it holds, and its text is \<open>NaN\<close>.\<close>

definition remainingText :: "int \<Rightarrow> int option \<Rightarrow> string" where
  "remainingText now end =
     (case end of
        None \<Rightarrow> ''NaNh''
      | Some t \<Rightarrow>
          (let remaining = max 0 (toDouble (t - now))
           in if remaining \<le> 0 then ''Ended''
              else
                (let days = remaining div 86400; hours = remaining mod 86400 div 3600
                 in if 0 < days then show_int days @ ''d '' @ show_int hours @ ''h'' else show_int hours @ ''h'')))"

section \<open>Answers\<close>

text \<open>Reading a property of a value: \<open>None\<close> is the error of reading one of \<open>undefined\<close> or \<open>null\<close>.\<close>

definition readProp :: "json option \<Rightarrow> string \<Rightarrow> json option option" where
  "readProp v k = (case v of None \<Rightarrow> None | Some JNull \<Rightarrow> None | Some j \<Rightarrow> Some (field j k))"

text \<open>\<open>data?.key?.map(f) || dflt\<close>: an empty array is no reason to fall back.\<close>

definition answerArray :: "json option \<Rightarrow> string \<Rightarrow> json list option" where
  "answerArray data key = (case Option.bind data (\<lambda>d. field d key) of Some (JArr xs) \<Rightarrow> Some xs | _ \<Rightarrow> None)"

definition mapArray :: "json option \<Rightarrow> string \<Rightarrow> (json \<Rightarrow> 'a) \<Rightarrow> 'a list \<Rightarrow> 'a list" where
  "mapArray data key f dflt = (case answerArray data key of Some xs \<Rightarrow> map f xs | None \<Rightarrow> dflt)"

text \<open>\<open>value?.toUpperCase()\<close> and \<open>value?.toLowerCase()\<close> of a text.\<close>

definition upcase :: "char \<Rightarrow> char" where
  "upcase c = (let n = (of_char c :: nat) in if 97 \<le> n \<and> n \<le> 122 then char_of (n - 32) else c)"

definition toUpperCase :: "string \<Rightarrow> string" where
  "toUpperCase s = map upcase s"

section \<open>Transactions\<close>

text \<open>A transaction goes out through the smart account, or through the wallet with the nonce, if it was found.\<close>

datatype sender = SmartAccount | Wallet "int option"

definition nonceOr :: "string + int \<Rightarrow> int option" where
  "nonceOr r = (case r of Inl _ \<Rightarrow> None | Inr n \<Rightarrow> Some n)"

text \<open>
  What the hooks that send transactions share: the transactions sent and those still waiting, \<open>known\<close>, grow with every event by exactly the ones it
  accepts.
\<close>

locale sends_once =
  fixes step :: "'e \<Rightarrow> 's \<Rightarrow> 's" and known :: "'s \<Rightarrow> 'c multiset" and accepted :: "'e \<Rightarrow> 'c list"
  assumes step_known: "known (step e s) = known s + mset (accepted e)"
begin

lemma run_known: "known (fold step es s) = known s + mset (concat (map accepted es))"
  by (induction es arbitrary: s) (simp_all add: step_known)

end

definition dropNth :: "nat \<Rightarrow> 'a list \<Rightarrow> 'a list" where
  "dropNth i xs = take i xs @ drop (Suc i) xs"

lemma mset_dropNth: "i < length xs \<Longrightarrow> add_mset (xs ! i) (mset (dropNth i xs)) = mset xs"
  by (subst (3) id_take_nth_drop [of i xs]) (simp_all add: dropNth_def)

lemma mapArray_simps [simp]:
  "answerArray None k = None" "answerArray (Some (JObj [(k, JArr xs)])) k = Some xs"
  "mapArray None k f d = d" "mapArray (Some (JObj [(k, JArr xs)])) k f d = map f xs"
  by (simp_all add: mapArray_def answerArray_def)

section \<open>Rounding\<close>

lemma bitlen_le_53: "bitlen \<bar>n\<bar> \<le> 53 \<longleftrightarrow> \<bar>n\<bar> < 2 ^ 53"
proof (cases "n = 0")
  case False
  then have b: "2 ^ nat (bitlen \<bar>n\<bar> - 1) \<le> \<bar>n\<bar>" "\<bar>n\<bar> < 2 ^ nat (bitlen \<bar>n\<bar>)" using bitlen_bounds [of "\<bar>n\<bar>"] by simp_all
  show ?thesis
  proof
    assume "bitlen \<bar>n\<bar> \<le> 53"
    then have "(2 :: int) ^ nat (bitlen \<bar>n\<bar>) \<le> 2 ^ 53" by (intro power_increasing) auto
    then show "\<bar>n\<bar> < 2 ^ 53" using b(2) by linarith
  next
    assume "\<bar>n\<bar> < 2 ^ 53"
    then have "(2 :: int) ^ nat (bitlen \<bar>n\<bar> - 1) < 2 ^ 53" using b(1) by linarith
    then have "nat (bitlen \<bar>n\<bar> - 1) < 53" by (rule power_less_imp_less_exp [rotated]) simp
    then show "bitlen \<bar>n\<bar> \<le> 53" by linarith
  qed
qed simp

lemma toDouble_exact [simp]: "\<bar>n\<bar> < 2 ^ 53 \<Longrightarrow> toDouble n = n"
  by (simp add: toDouble_def bitlen_le_53)

lemma toDouble_0 [simp]: "toDouble 0 = 0"
  by simp

lemma toDouble_error: "\<bar>toDouble n - n\<bar> * 2 ^ 53 \<le> \<bar>n\<bar>"
proof (cases "\<bar>n\<bar> < 2 ^ 53")
  case False
  define e where "e = nat (bitlen \<bar>n\<bar> - 53)"
  define q where "q = \<bar>n\<bar> div 2 ^ e"
  define r where "r = \<bar>n\<bar> mod 2 ^ e"
  define up where "up \<longleftrightarrow> 2 ^ e < 2 * r \<or> 2 ^ e = 2 * r \<and> odd q"
  have n: "\<bar>n\<bar> = q * 2 ^ e + r" unfolding q_def r_def by (rule div_mult_mod_eq [symmetric])
  have r: "0 \<le> r" "r < 2 ^ e" unfolding r_def by simp_all
  have big: "53 < bitlen \<bar>n\<bar>" using False bitlen_le_53 [of n] by linarith
  then have "toDouble n = sgn n * ((if up then q + 1 else q) * 2 ^ e)"
    unfolding toDouble_def Let_def e_def [symmetric] q_def [symmetric] r_def [symmetric] up_def [symmetric] by simp
  then have "toDouble n - n = sgn n * ((if up then q + 1 else q) * 2 ^ e - \<bar>n\<bar>)" by (simp add: algebra_simps sgn_if)
  then have "\<bar>toDouble n - n\<bar> = \<bar>(if up then q + 1 else q) * 2 ^ e - \<bar>n\<bar>\<bar>" using False by (auto simp: abs_mult sgn_if)
  then have "2 * \<bar>toDouble n - n\<bar> \<le> 2 ^ e"
    using r unfolding n up_def by (auto simp: algebra_simps abs_if)
  then have "2 * \<bar>toDouble n - n\<bar> * 2 ^ 52 \<le> 2 ^ e * 2 ^ 52" by simp
  also have "\<dots> = 2 ^ nat (bitlen \<bar>n\<bar> - 1)"
  proof -
    have "nat (bitlen \<bar>n\<bar> - 1) = e + 52" using big unfolding e_def by linarith
    then show ?thesis by (simp only: power_add)
  qed
  also have "\<dots> \<le> \<bar>n\<bar>" using bitlen_bounds [of "\<bar>n\<bar>"] False by simp
  finally show ?thesis by simp
qed simp

lemma toDouble_eq_0 [simp]: "toDouble n = 0 \<longleftrightarrow> n = 0"
proof
  assume "toDouble n = 0"
  then have "\<bar>n\<bar> * 2 ^ 53 \<le> \<bar>n\<bar>" using toDouble_error [of n] by simp
  then show "n = 0" by (simp add: mult_le_cancel_left1)
qed simp

lemma sumNumbers_exact:
  assumes "list_all (\<lambda>x. 0 \<le> f x) xs" and "sum_list (map f xs) < 2 ^ 53"
  shows "sumNumbers f xs = sum_list (map f xs)"
proof -
  have "foldl (\<lambda>sum x. toDouble (sum + f x)) a xs = a + sum_list (map f xs)"
    if "0 \<le> a" "a + sum_list (map f xs) < 2 ^ 53" for a
    using assms(1) that
  proof (induction xs arbitrary: a)
    case (Cons x xs)
    have "0 \<le> sum_list (map f xs)" using Cons.prems(1) by (intro sum_list_nonneg) (auto simp: list_all_iff)
    then have "toDouble (a + f x) = a + f x" using Cons.prems by (intro toDouble_exact) simp
    then show ?case using Cons.IH [of "a + f x"] Cons.prems by (simp add: algebra_simps)
  qed simp
  from this [of 0] assms(2) show ?thesis by (simp add: sumNumbers_def)
qed

lemma remainingText_ended: "\<bar>t - now\<bar> < 2 ^ 53 \<Longrightarrow> remainingText now (Some t) = ''Ended'' \<longleftrightarrow> t \<le> now"
proof -
  assume small: "\<bar>t - now\<bar> < 2 ^ 53"
  have "last ''Ended'' \<noteq> last (a @ ''h'')" for a :: string by simp
  then have "''Ended'' \<noteq> a @ ''h''" "''Ended'' \<noteq> a @ ''d '' @ b @ ''h''" for a b :: string
    by (metis, metis append.assoc)
  then show ?thesis using small by (auto simp: remainingText_def Let_def)
qed

lemma percentOf_0 [simp]: "0 < b \<Longrightarrow> percentOf 0 b = 0"
  by (simp add: percentOf_def roundQuotient_def Let_def)

section \<open>Decimal texts\<close>

lemma show_nat_digits_all: "list_all digit_char (show_nat n)"
  using show_nat_digits [of _ n] by (auto simp: list_all_iff digit_char_def Let_def)

lemma digit_prefix:
  assumes "list_all digit_char s" "c \<in> {CHR ''x'', CHR ''X'', CHR ''o'', CHR ''O'', CHR ''b'', CHR ''B''}"
  shows "take 2 s \<noteq> [d, c]"
proof
  assume "take 2 s = [d, c]"
  then have "c \<in> set s" by (metis in_set_takeD list.set_intros(1) list.set_intros(2))
  then have "digit_char c" using assms(1) by (auto simp: list_all_iff)
  then show False using assms(2) by (auto simp: digit_char_def)
qed

lemma trim_plain: "list_all (\<lambda>c. \<not> js_space c) s \<Longrightarrow> trim s = s"
proof -
  assume s: "list_all (\<lambda>c. \<not> js_space c) s"
  have d: "dropWhile js_space t = t" if "list_all (\<lambda>c. \<not> js_space c) t" for t using that by (cases t) simp_all
  have "list_all (\<lambda>c. \<not> js_space c) (rev s)" using s by (simp add: list_all_iff)
  then show ?thesis using s by (simp add: trim_def d)
qed

lemma show_int_plain: "list_all (\<lambda>c. \<not> js_space c) (show_int n)" "show_int n \<noteq> []" "show_int n \<noteq> ''null''" "show_int n \<noteq> ''undefined''"
proof -
  have ns: "\<not> js_space c" if "c \<in> set (show_nat m)" for c m
    using show_nat_digits_all [of m] that by (auto simp: list_all_iff digit_not_space)
  then show "list_all (\<lambda>c. \<not> js_space c) (show_int n)" by (auto simp: show_int_def list_all_iff js_space_def)
  show "show_int n \<noteq> []" by (simp add: show_int_def)
  have "CHR ''u'' \<notin> set (show_nat m)" for m using show_nat_digits [of "CHR ''u''" m] by auto
  then have "CHR ''u'' \<notin> set (show_int n)" by (simp add: show_int_def)
  then show "show_int n \<noteq> ''null''" "show_int n \<noteq> ''undefined''" by auto
qed

lemma parseIntText_digits:
  assumes "s \<noteq> []" "list_all digit_char s"
  shows "parseIntText s = Some (bigIntOf s)" "parseIntText (CHR ''-'' # s) = Some (- bigIntOf s)"
proof -
  obtain c cs where s: "s = c # cs" using assms(1) by (cases s) auto
  then have c: "\<not> js_space c" "c \<noteq> CHR ''-''" "c \<noteq> CHR ''+''" using assms(2) by (auto simp: digit_char_def js_space_def Let_def)
  have t: "takeWhile digit_char s = s" using assms(2) by (simp add: takeWhile_eq_all_conv list_all_iff)
  have x: "take 2 s \<noteq> ''0x''" "take 2 s \<noteq> ''0X''" by (rule digit_prefix [OF assms(2)], simp)+
  have "dropWhile js_space s = s" "hd s \<noteq> CHR ''-''" "hd s \<noteq> CHR ''+''" using c by (simp_all add: s)
  then show "parseIntText s = Some (bigIntOf s)" using assms(1) x by (simp add: parseIntText_def t Let_def)
  show "parseIntText (CHR ''-'' # s) = Some (- bigIntOf s)" using assms(1) x by (simp add: parseIntText_def js_space_def t Let_def)
qed

lemma parseIntText_show [simp]: "parseIntText (show_int n) = Some n"
  using parseIntText_digits [OF _ show_nat_digits_all] by (simp add: show_int_def bigIntOf_def)

lemma parseIntNum_show [simp]: "parseIntNum (Some (JStr (show_int n))) = Some (toDouble n)"
  by (simp add: parseIntNum_def templateText_def)

lemma parseIntNum_missing [simp]: "parseIntNum None = None"
  by (simp add: parseIntNum_def templateText_def parseIntText_def js_space_def digit_char_def)

lemma parseIntOr_show [simp]: "parseIntOr (Some (JStr (show_int n))) 0 = toDouble n"
  by (simp add: parseIntOr_def)

lemma foldl_sum: "foldl (\<lambda>sum x. sum + f x) a xs = a + sum_list (map f xs)" for f :: "'b \<Rightarrow> int"
  by (induction xs arbitrary: a) simp_all

end
