(* ===== verification/Queries.thy ===== *)
theory Queries
  imports Encoding
begin

text \<open>
  The queries the web client sends to the subgraph, \<open>packages/frontend/src/lib/queries.ts\<close> and the queries in the
  hooks \<open>usePortfolio.ts\<close> and \<open>useTreasury.ts\<close>, against the schema the subgraph serves,
  \<open>packages/subgraph/schema.graphql\<close>.

  \<^item> A field of an entity is a plain value (scalar or enum) or leads to one or many entities. Nullability does not
    matter for what may be selected.
  \<^item> A selection has the name of its field, the keys of its filter, the field it is ordered by and its
    sub-selections. Arguments that only limit or page the result are left out.
  \<^item> The node that serves the schema derives the fields of a query from the entity types. Their names are an
    argument \<open>roots\<close>; \<open>entityRoots\<close> lists the documented ones that the client uses. The node is the argument \<open>serve\<close>:
    \<open>None\<close> is an error, which the hooks ask the client library to ignore.
  \<^item> \<open>valid\<close> is the rule for selections: a field must be of its type, a plain field has no sub-selections, any other
    has some; filters and orders name fields. \<open>ghosts\<close> lists the paths that break it.

  The lemmas show that \<open>ghosts\<close> finds exactly the broken rules, and which queries fit the schema.
\<close>

section \<open>Selections and their rule\<close>

datatype fieldType = Plain | To string | ToMany string

type_synonym fields = "(string \<times> fieldType) list"

datatype condition = On string | Within string "condition list"

datatype selection = Sel string "condition list" "string option" "selection list"

type_synonym query = "selection list"

abbreviation leaf :: "string \<Rightarrow> selection" where
  "leaf f \<equiv> Sel f [] None []"

abbreviation node :: "string \<Rightarrow> selection list \<Rightarrow> selection" where
  "node f subs \<equiv> Sel f [] None subs"

definition fieldsOf :: "(string \<times> fields) list \<Rightarrow> string \<Rightarrow> fields" where
  "fieldsOf types t = (case map_of types t of None \<Rightarrow> [] | Some fs \<Rightarrow> fs)"

text \<open>A filter names a field, or looks into the entity a field leads to, under its name with an underscore.\<close>

fun condition_ok :: "(string \<times> fields) list \<Rightarrow> string \<Rightarrow> condition \<Rightarrow> bool" where
  "condition_ok types t (On k) = (map_of (fieldsOf types t) k \<noteq> None)"
| "condition_ok types t (Within k cs) =
     (k \<noteq> [] \<and> last k = CHR ''_'' \<and>
      (case map_of (fieldsOf types t) (butlast k) of
         Some (To u) \<Rightarrow> list_all (condition_ok types u) cs
       | Some (ToMany u) \<Rightarrow> list_all (condition_ok types u) cs
       | _ \<Rightarrow> False))"

definition order_ok :: "(string \<times> fields) list \<Rightarrow> string \<Rightarrow> string option \<Rightarrow> bool" where
  "order_ok types t ob = (case ob of None \<Rightarrow> True | Some f \<Rightarrow> map_of (fieldsOf types t) f \<noteq> None)"

fun valid :: "(string \<times> fields) list \<Rightarrow> (string \<rightharpoonup> fieldType) \<Rightarrow> selection \<Rightarrow> bool" where
  "valid types fs (Sel f cs ob subs) =
     (case fs f of
        None \<Rightarrow> False
      | Some Plain \<Rightarrow> subs = [] \<and> cs = [] \<and> ob = None
      | Some (To t) \<Rightarrow> subs \<noteq> [] \<and> cs = [] \<and> ob = None \<and> list_all (valid types (map_of (fieldsOf types t))) subs
      | Some (ToMany t) \<Rightarrow>
          subs \<noteq> [] \<and> list_all (condition_ok types t) cs \<and> order_ok types t ob
          \<and> list_all (valid types (map_of (fieldsOf types t))) subs)"

text \<open>The paths that break the rule; a filter or an order is shown as a step of its own.\<close>

fun conditionKey :: "condition \<Rightarrow> string" where
  "conditionKey (On k) = k"
| "conditionKey (Within k _) = k"

definition argumentGhosts :: "(string \<times> fields) list \<Rightarrow> string \<Rightarrow> condition list \<Rightarrow> string option \<Rightarrow> string list list" where
  "argumentGhosts types t cs ob =
     map (\<lambda>c. [''where'', conditionKey c]) (filter (\<lambda>c. \<not> condition_ok types t c) cs)
     @ (if order_ok types t ob then [] else [[''orderBy'', the ob]])"

fun ghosts :: "(string \<times> fields) list \<Rightarrow> (string \<rightharpoonup> fieldType) \<Rightarrow> selection \<Rightarrow> string list list" where
  "ghosts types fs (Sel f cs ob subs) =
     (case fs f of
        None \<Rightarrow> [[f]]
      | Some Plain \<Rightarrow> if subs = [] \<and> cs = [] \<and> ob = None then [] else [[f]]
      | Some (To t) \<Rightarrow>
          if subs = [] \<or> cs \<noteq> [] \<or> ob \<noteq> None then [[f]]
          else map ((#) f) (concat (map (ghosts types (map_of (fieldsOf types t))) subs))
      | Some (ToMany t) \<Rightarrow>
          if subs = [] then [[f]]
          else map ((#) f) (argumentGhosts types t cs ob @ concat (map (ghosts types (map_of (fieldsOf types t))) subs)))"

section \<open>The schema\<close>

definition GlobalStats_fields :: fields where
  "GlobalStats_fields =
     [(''id'', Plain), (''totalModules'', Plain), (''activeModules'', Plain), (''totalOrganizations'', Plain),
      (''activeOrganizations'', Plain), (''totalMembers'', Plain), (''totalCampaigns'', Plain),
      (''activeCampaigns'', Plain), (''totalRaised'', Plain), (''totalProposals'', Plain),
      (''activeProposals'', Plain), (''totalVotes'', Plain), (''totalProfiles'', Plain),
      (''verifiedProfiles'', Plain), (''totalAchievements'', Plain), (''totalTokenTransfers'', Plain),
      (''totalTreasuryTransactions'', Plain), (''updatedAt'', Plain)]"

definition SubgraphIndexingStatus_fields :: fields where
  "SubgraphIndexingStatus_fields =
     [(''id'', Plain), (''currentBlock'', Plain), (''latestBlock'', Plain), (''isFullySynced'', Plain),
      (''totalBlocks'', Plain), (''blocksRemaining'', Plain), (''syncPercentage'', Plain),
      (''blocksPerSecond'', Plain), (''estimatedTimeToSync'', Plain), (''lastUpdatedAt'', Plain),
      (''lastUpdatedBlock'', Plain), (''hasErrors'', Plain), (''lastError'', Plain), (''errorCount'', Plain)]"

definition BlockInfo_fields :: fields where
  "BlockInfo_fields =
     [(''id'', Plain), (''number'', Plain), (''timestamp'', Plain), (''hash'', Plain),
      (''processedAt'', Plain), (''transactionCount'', Plain), (''eventCount'', Plain),
      (''organizationEvents'', Plain), (''campaignEvents'', Plain), (''proposalEvents'', Plain),
      (''profileEvents'', Plain), (''stakingEvents'', Plain)]"

definition Module_fields :: fields where
  "Module_fields =
     [(''id'', Plain), (''address'', Plain), (''admin'', Plain), (''enabled'', Plain), (''version'', Plain),
      (''registeredAt'', Plain), (''updatedAt'', Plain), (''registrations'', ToMany ''ModuleRegistration''),
      (''upgrades'', ToMany ''ModuleUpgrade'')]"

definition ModuleRegistration_fields :: fields where
  "ModuleRegistration_fields =
     [(''id'', Plain), (''module'', To ''Module''), (''address'', Plain), (''admin'', Plain),
      (''timestamp'', Plain), (''blockNumber'', Plain), (''transaction'', To ''Transaction'')]"

definition ModuleUpgrade_fields :: fields where
  "ModuleUpgrade_fields =
     [(''id'', Plain), (''module'', To ''Module''), (''oldAddress'', Plain), (''newAddress'', Plain),
      (''timestamp'', Plain), (''blockNumber'', Plain), (''transaction'', To ''Transaction'')]"

definition TokenTransfer_fields :: fields where
  "TokenTransfer_fields =
     [(''id'', Plain), (''from'', Plain), (''to'', Plain), (''token'', Plain), (''amount'', Plain),
      (''timestamp'', Plain), (''blockNumber'', Plain), (''transaction'', To ''Transaction'')]"

definition Treasury_fields :: fields where
  "Treasury_fields =
     [(''id'', Plain), (''organization'', To ''Organization''), (''address'', Plain), (''createdAt'', Plain),
      (''lastActivityAt'', Plain), (''transactions'', ToMany ''TreasuryTransaction''),
      (''totalDeposits'', Plain), (''totalSpent'', Plain)]"

definition TreasuryTransaction_fields :: fields where
  "TreasuryTransaction_fields =
     [(''id'', Plain), (''treasury'', To ''Treasury''), (''token'', Plain), (''from'', Plain), (''to'', Plain),
      (''amount'', Plain), (''purpose'', Plain), (''timestamp'', Plain), (''transactionType'', Plain),
      (''spender'', Plain), (''blockNumber'', Plain), (''transaction'', To ''Transaction'')]"

definition OrganizationStake_fields :: fields where
  "OrganizationStake_fields =
     [(''id'', Plain), (''organizationId'', Plain), (''staker'', To ''User''), (''amount'', Plain),
      (''stakedAt'', Plain), (''active'', Plain), (''organization'', To ''Organization''),
      (''blockNumber'', Plain), (''transaction'', To ''Transaction'')]"

definition UserStake_fields :: fields where
  "UserStake_fields =
     [(''id'', Plain), (''user'', To ''User''), (''purpose'', Plain), (''amount'', Plain),
      (''stakedAt'', Plain), (''lastClaimTime'', Plain), (''preferredStrategy'', Plain),
      (''pendingRewards'', Plain), (''blockNumber'', Plain), (''transaction'', To ''Transaction'')]"

definition UnstakeRequest_fields :: fields where
  "UnstakeRequest_fields =
     [(''id'', Plain), (''user'', To ''User''), (''purpose'', Plain), (''amount'', Plain),
      (''requestTime'', Plain), (''strategy'', Plain), (''processed'', Plain), (''blockNumber'', Plain),
      (''transaction'', To ''Transaction'')]"

definition StakingPool_fields :: fields where
  "StakingPool_fields =
     [(''id'', Plain), (''purpose'', Plain), (''totalStaked'', Plain), (''rewardRate'', Plain),
      (''totalRewardsDistributed'', Plain), (''active'', Plain)]"

definition Organization_fields :: fields where
  "Organization_fields =
     [(''id'', Plain), (''name'', Plain), (''metadataURI'', Plain), (''creator'', To ''User''),
      (''prime'', Plain), (''treasury'', To ''Treasury''), (''treasuryAddress'', Plain), (''orgType'', Plain),
      (''accessModel'', Plain), (''feeModel'', Plain), (''memberLimit'', Plain), (''memberCount'', Plain),
      (''totalCampaigns'', Plain), (''totalProposals'', Plain), (''membershipFee'', Plain),
      (''gameStakeRequired'', Plain), (''state'', Plain), (''createdAt'', Plain), (''updatedAt'', Plain),
      (''members'', ToMany ''Member''), (''campaigns'', ToMany ''Campaign''),
      (''proposals'', ToMany ''Proposal''), (''stake'', To ''OrganizationStake''), (''blockNumber'', Plain),
      (''transaction'', To ''Transaction'')]"

definition Member_fields :: fields where
  "Member_fields =
     [(''id'', Plain), (''organization'', To ''Organization''), (''user'', To ''User''), (''state'', Plain),
      (''tier'', Plain), (''joinedAt'', Plain), (''reputation'', Plain), (''stake'', Plain),
      (''blockNumber'', Plain), (''transaction'', To ''Transaction'')]"

definition User_fields :: fields where
  "User_fields =
     [(''id'', Plain), (''address'', Plain), (''totalOrganizations'', Plain), (''totalMemberships'', Plain),
      (''totalContributions'', Plain), (''totalProposals'', Plain), (''totalVotes'', Plain),
      (''firstSeenAt'', Plain), (''lastActiveAt'', Plain), (''organizations'', ToMany ''Organization''),
      (''memberships'', ToMany ''Member''), (''campaigns'', ToMany ''Campaign''),
      (''proposals'', ToMany ''Proposal''), (''votes'', ToMany ''Vote''), (''stakes'', ToMany ''UserStake''),
      (''organizationStakes'', ToMany ''OrganizationStake''), (''unstakeRequests'', ToMany ''UnstakeRequest'')]"

definition Campaign_fields :: fields where
  "Campaign_fields =
     [(''id'', Plain), (''organization'', To ''Organization''), (''creator'', To ''User''), (''title'', Plain),
      (''description'', Plain), (''metadataURI'', Plain), (''flowType'', Plain), (''state'', Plain),
      (''paymentToken'', Plain), (''target'', Plain), (''min'', Plain), (''max'', Plain), (''raised'', Plain),
      (''contributorCount'', Plain), (''startTime'', Plain), (''endTime'', Plain), (''createdAt'', Plain),
      (''updatedAt'', Plain), (''contributions'', ToMany ''Contribution''), (''blockNumber'', Plain),
      (''transaction'', To ''Transaction'')]"

definition Contribution_fields :: fields where
  "Contribution_fields =
     [(''id'', Plain), (''campaign'', To ''Campaign''), (''contributor'', To ''User''), (''amount'', Plain),
      (''timestamp'', Plain), (''blockNumber'', Plain), (''transaction'', To ''Transaction'')]"

definition Proposal_fields :: fields where
  "Proposal_fields =
     [(''id'', Plain), (''hierarchicalId'', Plain), (''organization'', To ''Organization''),
      (''creator'', To ''User''), (''title'', Plain), (''description'', Plain), (''metadataURI'', Plain),
      (''proposalType'', Plain), (''votingType'', Plain), (''votingPower'', Plain), (''state'', Plain),
      (''startTime'', Plain), (''endTime'', Plain), (''executionTime'', Plain), (''forVotes'', Plain),
      (''againstVotes'', Plain), (''abstainVotes'', Plain), (''totalVotes'', Plain),
      (''quorumReached'', Plain), (''createdAt'', Plain), (''executedAt'', Plain), (''executor'', Plain),
      (''votes'', ToMany ''Vote''), (''blockNumber'', Plain), (''transaction'', To ''Transaction'')]"

definition Vote_fields :: fields where
  "Vote_fields =
     [(''id'', Plain), (''proposal'', To ''Proposal''), (''voter'', To ''User''), (''choice'', Plain),
      (''votingPower'', Plain), (''timestamp'', Plain), (''reason'', Plain), (''convictionTime'', Plain),
      (''convictionMultiplier'', Plain), (''blockNumber'', Plain), (''transaction'', To ''Transaction'')]"

definition Delegation_fields :: fields where
  "Delegation_fields =
     [(''id'', Plain), (''delegator'', To ''User''), (''delegatee'', To ''User''), (''amount'', Plain),
      (''timestamp'', Plain), (''blockNumber'', Plain), (''transaction'', To ''Transaction'')]"

definition Profile_fields :: fields where
  "Profile_fields =
     [(''id'', Plain), (''user'', To ''User''), (''organization'', To ''Organization''), (''metadata'', Plain),
      (''createdAt'', Plain), (''blockNumber'', Plain), (''transaction'', To ''Transaction'')]"

definition Achievement_fields :: fields where
  "Achievement_fields =
     [(''id'', Plain), (''user'', To ''User''), (''organization'', To ''Organization''),
      (''achievementType'', Plain), (''metadata'', Plain), (''earnedAt'', Plain), (''blockNumber'', Plain),
      (''transaction'', To ''Transaction'')]"

definition Feedback_fields :: fields where
  "Feedback_fields =
     [(''id'', Plain), (''from'', To ''User''), (''to'', To ''User''), (''organization'', To ''Organization''),
      (''rating'', Plain), (''comment'', Plain), (''timestamp'', Plain), (''blockNumber'', Plain),
      (''transaction'', To ''Transaction'')]"

definition ReputationEvent_fields :: fields where
  "ReputationEvent_fields =
     [(''id'', Plain), (''user'', To ''User''), (''organization'', To ''Organization''),
      (''eventType'', Plain), (''change'', Plain), (''timestamp'', Plain), (''blockNumber'', Plain),
      (''transaction'', To ''Transaction'')]"

definition NameClaim_fields :: fields where
  "NameClaim_fields =
     [(''id'', Plain), (''name'', Plain), (''profile'', To ''Profile''), (''owner'', Plain),
      (''stakeAmount'', Plain), (''stakeDuration'', Plain), (''claimedAt'', Plain), (''expiresAt'', Plain),
      (''isActive'', Plain), (''nameType'', Plain)]"

definition VotingDelegation_fields :: fields where
  "VotingDelegation_fields =
     [(''id'', Plain), (''organization'', To ''Organization''), (''delegator'', To ''Member''),
      (''delegatee'', To ''Member''), (''amount'', Plain), (''timestamp'', Plain), (''active'', Plain),
      (''blockNumber'', Plain), (''transaction'', To ''Transaction'')]"

definition Transaction_fields :: fields where
  "Transaction_fields =
     [(''id'', Plain), (''hash'', Plain), (''from'', Plain), (''to'', Plain), (''gasUsed'', Plain),
      (''gasPrice'', Plain), (''blockNumber'', Plain), (''timestamp'', Plain),
      (''moduleRegistrations'', ToMany ''ModuleRegistration''), (''moduleUpgrades'', ToMany ''ModuleUpgrade''),
      (''proposals'', ToMany ''Proposal''), (''votes'', ToMany ''Vote''), (''campaigns'', ToMany ''Campaign''),
      (''contributions'', ToMany ''Contribution''), (''delegations'', ToMany ''VotingDelegation''),
      (''reputationEvents'', ToMany ''ReputationEvent'')]"

definition schemaTypes :: "(string \<times> fields) list" where
  "schemaTypes =
     [(''GlobalStats'', GlobalStats_fields), (''SubgraphIndexingStatus'', SubgraphIndexingStatus_fields),
      (''BlockInfo'', BlockInfo_fields), (''Module'', Module_fields),
      (''ModuleRegistration'', ModuleRegistration_fields), (''ModuleUpgrade'', ModuleUpgrade_fields),
      (''TokenTransfer'', TokenTransfer_fields), (''Treasury'', Treasury_fields),
      (''TreasuryTransaction'', TreasuryTransaction_fields), (''OrganizationStake'', OrganizationStake_fields),
      (''UserStake'', UserStake_fields), (''UnstakeRequest'', UnstakeRequest_fields),
      (''StakingPool'', StakingPool_fields), (''Organization'', Organization_fields),
      (''Member'', Member_fields), (''User'', User_fields), (''Campaign'', Campaign_fields),
      (''Contribution'', Contribution_fields), (''Proposal'', Proposal_fields), (''Vote'', Vote_fields),
      (''Delegation'', Delegation_fields), (''Profile'', Profile_fields),
      (''Achievement'', Achievement_fields), (''Feedback'', Feedback_fields),
      (''ReputationEvent'', ReputationEvent_fields), (''NameClaim'', NameClaim_fields),
      (''VotingDelegation'', VotingDelegation_fields), (''Transaction'', Transaction_fields)]"

text \<open>The entity types under the names of their query fields.\<close>

definition entityRoots :: fields where
  "entityRoots =
     [(''organization'', To ''Organization''), (''organizations'', ToMany ''Organization''), (''campaign'', To ''Campaign''),
      (''campaigns'', ToMany ''Campaign''), (''proposal'', To ''Proposal''), (''proposals'', ToMany ''Proposal''),
      (''contributions'', ToMany ''Contribution''), (''votes'', ToMany ''Vote''), (''members'', ToMany ''Member''),
      (''user'', To ''User''), (''profile'', To ''Profile''), (''profiles'', ToMany ''Profile''),
      (''modules'', ToMany ''Module''), (''globalStats'', To ''GlobalStats''), (''stakingPools'', ToMany ''StakingPool''),
      (''userStakes'', ToMany ''UserStake''), (''subgraphIndexingStatus'', To ''SubgraphIndexingStatus''),
      (''blockInfos'', ToMany ''BlockInfo'')]"

section \<open>The queries\<close>

definition GET_ORGANIZATIONS :: query where
  "GET_ORGANIZATIONS =
     [Sel ''organizations'' [] (Some ''createdAt'') [
        leaf ''id'', leaf ''name'',
        node ''creator'' [
          leaf ''id'', leaf ''address''],
        leaf ''metadataURI'', leaf ''treasuryAddress'',
        node ''treasury'' [
          leaf ''id'', leaf ''address'', leaf ''totalDeposits'', leaf ''totalSpent''],
        leaf ''orgType'', leaf ''accessModel'', leaf ''feeModel'', leaf ''state'', leaf ''memberLimit'',
        leaf ''membershipFee'', leaf ''gameStakeRequired'', leaf ''memberCount'', leaf ''totalCampaigns'',
        leaf ''totalProposals'', leaf ''createdAt'', leaf ''updatedAt'', leaf ''blockNumber'',
        node ''transaction'' [
          leaf ''hash'']]]"

definition GET_ORGANIZATION_BY_ID :: query where
  "GET_ORGANIZATION_BY_ID =
     [node ''organization'' [
        leaf ''id'', leaf ''name'',
        node ''creator'' [
          leaf ''id'', leaf ''address''],
        leaf ''metadataURI'', leaf ''treasuryAddress'',
        node ''treasury'' [
          leaf ''id'', leaf ''address'', leaf ''totalDeposits'', leaf ''totalSpent''],
        leaf ''orgType'', leaf ''accessModel'', leaf ''feeModel'', leaf ''state'', leaf ''memberLimit'',
        leaf ''membershipFee'', leaf ''gameStakeRequired'', leaf ''memberCount'', leaf ''totalCampaigns'',
        leaf ''totalProposals'', leaf ''createdAt'', leaf ''updatedAt'', leaf ''blockNumber'',
        node ''transaction'' [
          leaf ''hash''],
        node ''members'' [
          leaf ''id'',
          node ''user'' [
            leaf ''id'', leaf ''address''],
          leaf ''state'', leaf ''joinedAt'', leaf ''reputation'', leaf ''stake''],
        node ''campaigns'' [
          leaf ''id'', leaf ''title'', leaf ''state'', leaf ''target'', leaf ''raised'', leaf ''createdAt''],
        node ''proposals'' [
          leaf ''id'', leaf ''hierarchicalId'', leaf ''title'', leaf ''state'', leaf ''createdAt'']]]"

definition GET_CAMPAIGNS :: query where
  "GET_CAMPAIGNS =
     [Sel ''campaigns'' [] (Some ''createdAt'') [
        leaf ''id'',
        node ''organization'' [
          leaf ''id'', leaf ''name''],
        node ''creator'' [
          leaf ''id'', leaf ''address''],
        leaf ''flowType'', leaf ''title'', leaf ''description'', leaf ''metadataURI'',
        leaf ''paymentToken'', leaf ''target'', leaf ''min'', leaf ''max'', leaf ''raised'',
        leaf ''contributorCount'', leaf ''state'', leaf ''startTime'', leaf ''endTime'', leaf ''createdAt'',
        leaf ''updatedAt'']]"

definition GET_CAMPAIGN_BY_ID :: query where
  "GET_CAMPAIGN_BY_ID =
     [node ''campaign'' [
        leaf ''id'',
        node ''organization'' [
          leaf ''id'', leaf ''name'',
          node ''creator'' [
            leaf ''id'', leaf ''address'']],
        node ''creator'' [
          leaf ''id'', leaf ''address''],
        leaf ''flowType'', leaf ''title'', leaf ''description'', leaf ''metadataURI'',
        leaf ''paymentToken'', leaf ''target'', leaf ''min'', leaf ''max'', leaf ''raised'',
        leaf ''contributorCount'', leaf ''state'', leaf ''startTime'', leaf ''endTime'', leaf ''createdAt'',
        leaf ''updatedAt'',
        node ''contributions'' [
          leaf ''id'',
          node ''contributor'' [
            leaf ''id'', leaf ''address''],
          leaf ''amount'', leaf ''timestamp'']]]"

definition GET_PROPOSALS :: query where
  "GET_PROPOSALS =
     [Sel ''proposals'' [] (Some ''createdAt'') [
        leaf ''id'', leaf ''hierarchicalId'',
        node ''organization'' [
          leaf ''id'', leaf ''name''],
        node ''creator'' [
          leaf ''id'', leaf ''address''],
        leaf ''title'', leaf ''description'', leaf ''proposalType'', leaf ''votingType'',
        leaf ''votingPower'', leaf ''state'', leaf ''startTime'', leaf ''endTime'', leaf ''forVotes'',
        leaf ''againstVotes'', leaf ''abstainVotes'', leaf ''totalVotes'', leaf ''quorumReached'',
        leaf ''createdAt'', leaf ''executedAt'']]"

definition GET_PROPOSAL_BY_ID :: query where
  "GET_PROPOSAL_BY_ID =
     [node ''proposal'' [
        leaf ''id'', leaf ''hierarchicalId'',
        node ''organization'' [
          leaf ''id'', leaf ''name'',
          node ''creator'' [
            leaf ''id'', leaf ''address'']],
        node ''creator'' [
          leaf ''id'', leaf ''address''],
        leaf ''title'', leaf ''description'', leaf ''metadataURI'', leaf ''proposalType'',
        leaf ''votingType'', leaf ''votingPower'', leaf ''state'', leaf ''startTime'', leaf ''endTime'',
        leaf ''executionTime'', leaf ''forVotes'', leaf ''againstVotes'', leaf ''abstainVotes'',
        leaf ''totalVotes'', leaf ''quorumReached'', leaf ''createdAt'', leaf ''executedAt'',
        leaf ''executor'',
        node ''votes'' [
          leaf ''id'',
          node ''voter'' [
            leaf ''id'', leaf ''address''],
          leaf ''support'', leaf ''votingPower'', leaf ''timestamp'']]]"

definition GET_STAKING_POOLS :: query where
  "GET_STAKING_POOLS =
     [Sel ''stakingPools'' [] (Some ''totalStaked'') [
        leaf ''id'', leaf ''purpose'', leaf ''totalStaked'', leaf ''rewardRate'',
        leaf ''totalRewardsDistributed'', leaf ''active'', leaf ''lastUpdateTime'', leaf ''stakersCount'',
        leaf ''averageStakeAmount'', leaf ''totalRewardsClaimed'']]"

definition GET_USER_STAKES :: query where
  "GET_USER_STAKES =
     [Sel ''userStakes'' [On ''user''] None [
        leaf ''id'', leaf ''user'',
        node ''pool'' [
          leaf ''id'', leaf ''purpose'', leaf ''rewardRate'', leaf ''active''],
        leaf ''amount'', leaf ''stakedAt'', leaf ''lastClaimTime'', leaf ''preferredStrategy'',
        leaf ''pendingRewards'', leaf ''totalRewardsClaimed'']]"

definition GET_STAKING_STATS :: query where
  "GET_STAKING_STATS =
     [node ''stakingStats'' [
        leaf ''id'', leaf ''totalStaked'', leaf ''totalRewardsDistributed'', leaf ''totalRewardsClaimed'',
        leaf ''totalSlashed'', leaf ''activeStakers'', leaf ''totalStakingPools'', leaf ''lastUpdated'']]"

definition GET_PROFILES :: query where
  "GET_PROFILES =
     [Sel ''profiles'' [] (Some ''createdAt'') [
        leaf ''id'',
        node ''organization'' [
          leaf ''id'', leaf ''name''],
        node ''user'' [
          leaf ''id'', leaf ''address''],
        leaf ''metadata'', leaf ''createdAt'']]"

definition GET_PROFILE_BY_ID :: query where
  "GET_PROFILE_BY_ID =
     [node ''profile'' [
        leaf ''id'',
        node ''organization'' [
          leaf ''id'', leaf ''name''],
        node ''user'' [
          leaf ''id'', leaf ''address''],
        leaf ''metadata'', leaf ''createdAt'']]"

definition GET_GLOBAL_STATS :: query where
  "GET_GLOBAL_STATS =
     [node ''globalStats'' [
        leaf ''id'', leaf ''totalModules'', leaf ''activeModules'', leaf ''totalOrganizations'',
        leaf ''activeOrganizations'', leaf ''totalMembers'', leaf ''totalCampaigns'',
        leaf ''activeCampaigns'', leaf ''totalRaised'', leaf ''totalProposals'', leaf ''activeProposals'',
        leaf ''totalVotes'', leaf ''totalProfiles'', leaf ''verifiedProfiles'', leaf ''totalAchievements'',
        leaf ''updatedAt'']]"

definition GET_MODULES :: query where
  "GET_MODULES =
     [node ''modules'' [
        leaf ''id'', leaf ''address'', leaf ''admin'', leaf ''enabled'', leaf ''version'',
        leaf ''updatedAt'']]"

definition GET_USER_ORGANIZATIONS :: query where
  "GET_USER_ORGANIZATIONS =
     [Sel ''members'' [On ''address''] None [
        leaf ''id'',
        node ''organization'' [
          leaf ''id'', leaf ''name'', leaf ''creator'', leaf ''memberCount'', leaf ''totalCampaigns'',
          leaf ''totalProposals'', leaf ''state'', leaf ''createdAt''],
        leaf ''state'', leaf ''role'', leaf ''joinedAt'']]"

definition CHECK_MEMBERSHIP :: query where
  "CHECK_MEMBERSHIP =
     [Sel ''members'' [On ''organization'', On ''address'', On ''state''] None [
        leaf ''id'', leaf ''state'', leaf ''role'', leaf ''joinedAt'']]"

definition GET_USER_CAMPAIGNS :: query where
  "GET_USER_CAMPAIGNS =
     [Sel ''campaigns'' [On ''creator''] (Some ''createdAt'') [
        leaf ''id'',
        node ''organization'' [
          leaf ''id'', leaf ''name''],
        leaf ''creator'', leaf ''flowType'', leaf ''title'', leaf ''description'', leaf ''target'',
        leaf ''deposit'', leaf ''raised'', leaf ''contributorCount'', leaf ''state'', leaf ''expiry'',
        leaf ''createdAt'', leaf ''updatedAt'']]"

definition GET_USER_CONTRIBUTIONS :: query where
  "GET_USER_CONTRIBUTIONS =
     [Sel ''contributions'' [Within ''contributor_'' [On ''address'']] (Some ''timestamp'') [
        leaf ''id'',
        node ''campaign'' [
          leaf ''id'', leaf ''title'',
          node ''organization'' [
            leaf ''id'', leaf ''name''],
          leaf ''state''],
        leaf ''amount'', leaf ''timestamp'', leaf ''rewardEligible'', leaf ''rewardReceived'']]"

definition GET_USER_VOTES :: query where
  "GET_USER_VOTES =
     [Sel ''votes'' [Within ''voter_'' [On ''address'']] (Some ''timestamp'') [
        leaf ''id'',
        node ''proposal'' [
          leaf ''id'', leaf ''title'',
          node ''organization'' [
            leaf ''id'', leaf ''name''],
          leaf ''state''],
        leaf ''support'', leaf ''votingPower'', leaf ''conviction'', leaf ''timestamp'']]"

definition GET_RECENT_ACTIVITIES :: query where
  "GET_RECENT_ACTIVITIES =
     [Sel ''organizations'' [] (Some ''createdAt'') [
        leaf ''id'', leaf ''name'', leaf ''creator'', leaf ''createdAt'', leaf ''blockNumber'',
        leaf ''transactionHash''],
      Sel ''campaigns'' [] (Some ''createdAt'') [
        leaf ''id'', leaf ''title'',
        node ''organization'' [
          leaf ''id'', leaf ''name''],
        leaf ''creator'', leaf ''target'', leaf ''createdAt'', leaf ''blockNumber'',
        leaf ''transactionHash''],
      Sel ''proposals'' [] (Some ''createdAt'') [
        leaf ''id'', leaf ''title'',
        node ''organization'' [
          leaf ''id'', leaf ''name''],
        node ''proposer'' [
          leaf ''id'', leaf ''address''],
        leaf ''createdAt'', leaf ''blockNumber'', leaf ''transactionHash''],
      Sel ''contributions'' [] (Some ''timestamp'') [
        leaf ''id'',
        node ''campaign'' [
          leaf ''id'', leaf ''title'',
          node ''organization'' [
            leaf ''id'', leaf ''name'']],
        node ''contributor'' [
          leaf ''id'', leaf ''address''],
        leaf ''amount'', leaf ''timestamp'', leaf ''blockNumber'', leaf ''transactionHash'']]"

definition GET_INDEXING_STATUS :: query where
  "GET_INDEXING_STATUS =
     [node ''subgraphIndexingStatus'' [
        leaf ''id'', leaf ''currentBlock'', leaf ''latestBlock'', leaf ''isFullySynced'',
        leaf ''totalBlocks'', leaf ''blocksRemaining'', leaf ''syncPercentage'', leaf ''blocksPerSecond'',
        leaf ''estimatedTimeToSync'', leaf ''lastUpdatedAt'', leaf ''lastUpdatedBlock'', leaf ''hasErrors'',
        leaf ''lastError'', leaf ''errorCount'']]"

definition GET_RECENT_BLOCKS :: query where
  "GET_RECENT_BLOCKS =
     [Sel ''blockInfos'' [] (Some ''number'') [
        leaf ''id'', leaf ''number'', leaf ''timestamp'', leaf ''hash'', leaf ''processedAt'',
        leaf ''transactionCount'', leaf ''eventCount'', leaf ''organizationEvents'',
        leaf ''campaignEvents'', leaf ''proposalEvents'', leaf ''profileEvents'', leaf ''stakingEvents'']]"

definition GET_INDEXING_METRICS :: query where
  "GET_INDEXING_METRICS =
     [node ''subgraphIndexingStatus'' [
        leaf ''id'', leaf ''currentBlock'', leaf ''latestBlock'', leaf ''isFullySynced'',
        leaf ''syncPercentage'', leaf ''blocksPerSecond'', leaf ''estimatedTimeToSync'', leaf ''hasErrors'',
        leaf ''lastError'', leaf ''lastUpdatedAt''],
      Sel ''blockInfos'' [] (Some ''number'') [
        leaf ''number'', leaf ''timestamp'', leaf ''eventCount'', leaf ''organizationEvents'',
        leaf ''campaignEvents'', leaf ''proposalEvents'', leaf ''profileEvents'', leaf ''stakingEvents'']]"

definition GET_USER_PROFILE :: query where
  "GET_USER_PROFILE =
     [node ''user'' [
        leaf ''id'', leaf ''address'', leaf ''totalOrganizations'', leaf ''totalContributions'',
        leaf ''totalProposals'', leaf ''totalVotes'', leaf ''firstSeenAt'', leaf ''lastActiveAt'',
        node ''memberships'' [
          leaf ''id'',
          node ''organization'' [
            leaf ''id'', leaf ''name'', leaf ''state''],
          leaf ''role'', leaf ''state'', leaf ''joinedAt'']]]"

definition GET_ALL_USER_MEMBERSHIPS :: query where
  "GET_ALL_USER_MEMBERSHIPS =
     [Sel ''members'' [On ''address'', On ''state''] None [
        leaf ''id'',
        node ''organization'' [
          leaf ''id'', leaf ''name'', leaf ''creator'', leaf ''memberCount'', leaf ''state'',
          leaf ''createdAt''],
        leaf ''role'', leaf ''state'', leaf ''joinedAt'']]"

definition GET_USER_ACTIVITY :: query where
  "GET_USER_ACTIVITY =
     [node ''user'' [
        leaf ''id'', leaf ''address'',
        Sel ''memberships'' [On ''state''] None [
          node ''organization'' [
            leaf ''id'', leaf ''name''],
          leaf ''role'', leaf ''joinedAt''],
        node ''contributions'' [
          leaf ''id'', leaf ''amount'',
          node ''campaign'' [
            leaf ''id'', leaf ''title'',
            node ''organization'' [
              leaf ''name'']]],
        node ''proposals'' [
          leaf ''id'', leaf ''title'', leaf ''state'',
          node ''organization'' [
            leaf ''name'']],
        node ''votes'' [
          leaf ''id'', leaf ''choice'',
          node ''proposal'' [
            leaf ''title'',
            node ''organization'' [
              leaf ''name'']]]]]"

definition GET_ORGANIZATION_WITH_USER_DETAILS :: query where
  "GET_ORGANIZATION_WITH_USER_DETAILS =
     [node ''organization'' [
        leaf ''id'', leaf ''name'', leaf ''creator'', leaf ''prime'', leaf ''metadataURI'',
        node ''treasury'' [
          leaf ''id'', leaf ''address'', leaf ''balance''],
        leaf ''orgType'', leaf ''accessModel'', leaf ''state'', leaf ''memberLimit'',
        leaf ''membershipFee'', leaf ''memberCount'', leaf ''totalCampaigns'', leaf ''totalProposals'',
        leaf ''createdAt'', leaf ''updatedAt'', leaf ''blockNumber'', leaf ''transactionHash'',
        node ''members'' [
          leaf ''id'',
          node ''user'' [
            leaf ''id'', leaf ''address'', leaf ''totalOrganizations'', leaf ''firstSeenAt''],
          leaf ''address'', leaf ''state'', leaf ''role'', leaf ''joinedAt'']]]"

definition GET_USER_PORTFOLIO :: query where
  "GET_USER_PORTFOLIO =
     [Sel ''members'' [On ''address''] None [
        leaf ''id'',
        node ''organization'' [
          leaf ''id'', leaf ''name''],
        node ''contributions'' [
          leaf ''id'', leaf ''amount'',
          node ''campaign'' [
            leaf ''id'', leaf ''title'']],
        node ''proposals'' [
          leaf ''id'', leaf ''title''],
        node ''votes'' [
          leaf ''id'', leaf ''choice'']]]"

definition GET_ORGANIZATION_TREASURY :: query where
  "GET_ORGANIZATION_TREASURY =
     [node ''organization'' [
        leaf ''id'', leaf ''name'', leaf ''treasury'', leaf ''treasuryBalance'',
        node ''campaigns'' [
          leaf ''id'', leaf ''raised'', leaf ''target'']]]"

definition allQueries :: "(string \<times> query) list" where
  "allQueries =
     [(''GET_ORGANIZATIONS'', GET_ORGANIZATIONS), (''GET_ORGANIZATION_BY_ID'', GET_ORGANIZATION_BY_ID),
      (''GET_CAMPAIGNS'', GET_CAMPAIGNS), (''GET_CAMPAIGN_BY_ID'', GET_CAMPAIGN_BY_ID),
      (''GET_PROPOSALS'', GET_PROPOSALS), (''GET_PROPOSAL_BY_ID'', GET_PROPOSAL_BY_ID),
      (''GET_STAKING_POOLS'', GET_STAKING_POOLS), (''GET_USER_STAKES'', GET_USER_STAKES),
      (''GET_STAKING_STATS'', GET_STAKING_STATS), (''GET_PROFILES'', GET_PROFILES),
      (''GET_PROFILE_BY_ID'', GET_PROFILE_BY_ID), (''GET_GLOBAL_STATS'', GET_GLOBAL_STATS),
      (''GET_MODULES'', GET_MODULES), (''GET_USER_ORGANIZATIONS'', GET_USER_ORGANIZATIONS),
      (''CHECK_MEMBERSHIP'', CHECK_MEMBERSHIP), (''GET_USER_CAMPAIGNS'', GET_USER_CAMPAIGNS),
      (''GET_USER_CONTRIBUTIONS'', GET_USER_CONTRIBUTIONS), (''GET_USER_VOTES'', GET_USER_VOTES),
      (''GET_RECENT_ACTIVITIES'', GET_RECENT_ACTIVITIES), (''GET_INDEXING_STATUS'', GET_INDEXING_STATUS),
      (''GET_RECENT_BLOCKS'', GET_RECENT_BLOCKS), (''GET_INDEXING_METRICS'', GET_INDEXING_METRICS),
      (''GET_USER_PROFILE'', GET_USER_PROFILE), (''GET_ALL_USER_MEMBERSHIPS'', GET_ALL_USER_MEMBERSHIPS),
      (''GET_USER_ACTIVITY'', GET_USER_ACTIVITY),
      (''GET_ORGANIZATION_WITH_USER_DETAILS'', GET_ORGANIZATION_WITH_USER_DETAILS),
      (''GET_USER_PORTFOLIO'', GET_USER_PORTFOLIO), (''GET_ORGANIZATION_TREASURY'', GET_ORGANIZATION_TREASURY)]"
section \<open>Which queries fit the schema\<close>

definition query_valid :: "(string \<rightharpoonup> fieldType) \<Rightarrow> query \<Rightarrow> bool" where
  "query_valid roots q = list_all (valid schemaTypes roots) q"

definition query_ghosts :: "(string \<rightharpoonup> fieldType) \<Rightarrow> query \<Rightarrow> string list list" where
  "query_ghosts roots q = concat (map (ghosts schemaTypes roots) q)"

lemma argumentGhosts_Nil: "argumentGhosts types t cs ob = [] \<longleftrightarrow> list_all (condition_ok types t) cs \<and> order_ok types t ob"
  by (auto simp: argumentGhosts_def filter_empty_conv list_all_iff)

lemma ghosts_Nil: "ghosts types fs s = [] \<longleftrightarrow> valid types fs s"
proof (induction types fs s rule: ghosts.induct)
  case (1 types fs f cs ob subs)
  show ?case
  proof (cases "fs f")
    case (Some ft)
    then show ?thesis using 1 by (cases ft) (auto simp: argumentGhosts_Nil list_all_iff)
  qed simp
qed

lemma query_ghosts_Nil: "query_ghosts roots q = [] \<longleftrightarrow> query_valid roots q"
  by (simp add: query_ghosts_def query_valid_def list_all_iff ghosts_Nil)

text \<open>The ghost fields of each query, under the documented names of the query fields.\<close>

lemma unanswered:
  "(\<And>q. serve q \<noteq> None \<Longrightarrow> query_valid roots q) \<Longrightarrow> query_ghosts roots q \<noteq> [] \<Longrightarrow> serve q = None"
  using query_ghosts_Nil [of roots q] by blast

lemma ghosts_GET_ORGANIZATIONS: "query_ghosts (map_of entityRoots) GET_ORGANIZATIONS = []"
  by code_simp

lemma ghosts_GET_ORGANIZATION_BY_ID: "query_ghosts (map_of entityRoots) GET_ORGANIZATION_BY_ID = []"
  by code_simp

lemma ghosts_GET_CAMPAIGNS: "query_ghosts (map_of entityRoots) GET_CAMPAIGNS = []"
  by code_simp

lemma ghosts_GET_CAMPAIGN_BY_ID: "query_ghosts (map_of entityRoots) GET_CAMPAIGN_BY_ID = []"
  by code_simp

lemma ghosts_GET_PROPOSALS: "query_ghosts (map_of entityRoots) GET_PROPOSALS = []"
  by code_simp

lemma ghosts_GET_PROPOSAL_BY_ID:
  "query_ghosts (map_of entityRoots) GET_PROPOSAL_BY_ID =
     [[''proposal'', ''votes'', ''support'']]"
  by code_simp

lemma ghosts_GET_STAKING_POOLS:
  "query_ghosts (map_of entityRoots) GET_STAKING_POOLS =
     [[''stakingPools'', ''lastUpdateTime''], [''stakingPools'', ''stakersCount''],
      [''stakingPools'', ''averageStakeAmount''], [''stakingPools'', ''totalRewardsClaimed'']]"
  by code_simp

lemma ghosts_GET_USER_STAKES:
  "query_ghosts (map_of entityRoots) GET_USER_STAKES =
     [[''userStakes'', ''user''], [''userStakes'', ''pool''], [''userStakes'', ''totalRewardsClaimed'']]"
  by code_simp

lemma ghosts_GET_STAKING_STATS:
  "query_ghosts (map_of entityRoots) GET_STAKING_STATS =
     [[''stakingStats'']]"
  by code_simp

lemma ghosts_GET_PROFILES: "query_ghosts (map_of entityRoots) GET_PROFILES = []"
  by code_simp

lemma ghosts_GET_PROFILE_BY_ID: "query_ghosts (map_of entityRoots) GET_PROFILE_BY_ID = []"
  by code_simp

lemma ghosts_GET_GLOBAL_STATS: "query_ghosts (map_of entityRoots) GET_GLOBAL_STATS = []"
  by code_simp

lemma ghosts_GET_MODULES: "query_ghosts (map_of entityRoots) GET_MODULES = []"
  by code_simp

lemma ghosts_GET_USER_ORGANIZATIONS:
  "query_ghosts (map_of entityRoots) GET_USER_ORGANIZATIONS =
     [[''members'', ''where'', ''address''], [''members'', ''organization'', ''creator''],
      [''members'', ''role'']]"
  by code_simp

lemma ghosts_CHECK_MEMBERSHIP:
  "query_ghosts (map_of entityRoots) CHECK_MEMBERSHIP =
     [[''members'', ''where'', ''address''], [''members'', ''role'']]"
  by code_simp

lemma ghosts_GET_USER_CAMPAIGNS:
  "query_ghosts (map_of entityRoots) GET_USER_CAMPAIGNS =
     [[''campaigns'', ''creator''], [''campaigns'', ''deposit''], [''campaigns'', ''expiry'']]"
  by code_simp

lemma ghosts_GET_USER_CONTRIBUTIONS:
  "query_ghosts (map_of entityRoots) GET_USER_CONTRIBUTIONS =
     [[''contributions'', ''rewardEligible''], [''contributions'', ''rewardReceived'']]"
  by code_simp

lemma ghosts_GET_USER_VOTES:
  "query_ghosts (map_of entityRoots) GET_USER_VOTES =
     [[''votes'', ''support''], [''votes'', ''conviction'']]"
  by code_simp

lemma ghosts_GET_RECENT_ACTIVITIES:
  "query_ghosts (map_of entityRoots) GET_RECENT_ACTIVITIES =
     [[''organizations'', ''creator''], [''organizations'', ''transactionHash''], [''campaigns'', ''creator''],
      [''campaigns'', ''transactionHash''], [''proposals'', ''proposer''],
      [''proposals'', ''transactionHash''], [''contributions'', ''transactionHash'']]"
  by code_simp

lemma ghosts_GET_INDEXING_STATUS: "query_ghosts (map_of entityRoots) GET_INDEXING_STATUS = []"
  by code_simp

lemma ghosts_GET_RECENT_BLOCKS: "query_ghosts (map_of entityRoots) GET_RECENT_BLOCKS = []"
  by code_simp

lemma ghosts_GET_INDEXING_METRICS: "query_ghosts (map_of entityRoots) GET_INDEXING_METRICS = []"
  by code_simp

lemma ghosts_GET_USER_PROFILE:
  "query_ghosts (map_of entityRoots) GET_USER_PROFILE =
     [[''user'', ''memberships'', ''role'']]"
  by code_simp

lemma ghosts_GET_ALL_USER_MEMBERSHIPS:
  "query_ghosts (map_of entityRoots) GET_ALL_USER_MEMBERSHIPS =
     [[''members'', ''where'', ''address''], [''members'', ''organization'', ''creator''],
      [''members'', ''role'']]"
  by code_simp

lemma ghosts_GET_USER_ACTIVITY:
  "query_ghosts (map_of entityRoots) GET_USER_ACTIVITY =
     [[''user'', ''memberships'', ''role''], [''user'', ''contributions'']]"
  by code_simp

lemma ghosts_GET_ORGANIZATION_WITH_USER_DETAILS:
  "query_ghosts (map_of entityRoots) GET_ORGANIZATION_WITH_USER_DETAILS =
     [[''organization'', ''creator''], [''organization'', ''treasury'', ''balance''],
      [''organization'', ''transactionHash''], [''organization'', ''members'', ''address''],
      [''organization'', ''members'', ''role'']]"
  by code_simp

lemma ghosts_GET_USER_PORTFOLIO:
  "query_ghosts (map_of entityRoots) GET_USER_PORTFOLIO =
     [[''members'', ''where'', ''address''], [''members'', ''contributions''], [''members'', ''proposals''],
      [''members'', ''votes'']]"
  by code_simp

lemma ghosts_GET_ORGANIZATION_TREASURY:
  "query_ghosts (map_of entityRoots) GET_ORGANIZATION_TREASURY =
     [[''organization'', ''treasury''], [''organization'', ''treasuryBalance'']]"
  by code_simp

lemmas ghosts_of_queries =
  ghosts_GET_ORGANIZATIONS ghosts_GET_ORGANIZATION_BY_ID ghosts_GET_CAMPAIGNS ghosts_GET_CAMPAIGN_BY_ID
  ghosts_GET_PROPOSALS ghosts_GET_PROPOSAL_BY_ID ghosts_GET_STAKING_POOLS ghosts_GET_USER_STAKES
  ghosts_GET_STAKING_STATS ghosts_GET_PROFILES ghosts_GET_PROFILE_BY_ID ghosts_GET_GLOBAL_STATS
  ghosts_GET_MODULES ghosts_GET_USER_ORGANIZATIONS ghosts_CHECK_MEMBERSHIP ghosts_GET_USER_CAMPAIGNS
  ghosts_GET_USER_CONTRIBUTIONS ghosts_GET_USER_VOTES ghosts_GET_RECENT_ACTIVITIES
  ghosts_GET_INDEXING_STATUS ghosts_GET_RECENT_BLOCKS ghosts_GET_INDEXING_METRICS ghosts_GET_USER_PROFILE
  ghosts_GET_ALL_USER_MEMBERSHIPS ghosts_GET_USER_ACTIVITY ghosts_GET_ORGANIZATION_WITH_USER_DETAILS
  ghosts_GET_USER_PORTFOLIO ghosts_GET_ORGANIZATION_TREASURY

text \<open>
  Which queries fit the schema: of the twenty-eight queries of the client twelve select only what the
  schema has. The other sixteen select fields that the types do not have, filter by such fields, or select a linked
  entity without saying which of its fields; the theorem lists each of these paths.
\<close>

theorem queries_against_schema:
  assumes "roots = map_of entityRoots"
  shows "map (\<lambda>(name, q). (name, query_ghosts roots q)) allQueries =
     [(''GET_ORGANIZATIONS'', []),
      (''GET_ORGANIZATION_BY_ID'', []),
      (''GET_CAMPAIGNS'', []),
      (''GET_CAMPAIGN_BY_ID'', []),
      (''GET_PROPOSALS'', []),
      (''GET_PROPOSAL_BY_ID'', [[''proposal'', ''votes'', ''support'']]),
      (''GET_STAKING_POOLS'', [[''stakingPools'', ''lastUpdateTime''], [''stakingPools'', ''stakersCount''], [''stakingPools'', ''averageStakeAmount''], [''stakingPools'', ''totalRewardsClaimed'']]),
      (''GET_USER_STAKES'', [[''userStakes'', ''user''], [''userStakes'', ''pool''], [''userStakes'', ''totalRewardsClaimed'']]),
      (''GET_STAKING_STATS'', [[''stakingStats'']]),
      (''GET_PROFILES'', []),
      (''GET_PROFILE_BY_ID'', []),
      (''GET_GLOBAL_STATS'', []),
      (''GET_MODULES'', []),
      (''GET_USER_ORGANIZATIONS'', [[''members'', ''where'', ''address''], [''members'', ''organization'', ''creator''], [''members'', ''role'']]),
      (''CHECK_MEMBERSHIP'', [[''members'', ''where'', ''address''], [''members'', ''role'']]),
      (''GET_USER_CAMPAIGNS'', [[''campaigns'', ''creator''], [''campaigns'', ''deposit''], [''campaigns'', ''expiry'']]),
      (''GET_USER_CONTRIBUTIONS'', [[''contributions'', ''rewardEligible''], [''contributions'', ''rewardReceived'']]),
      (''GET_USER_VOTES'', [[''votes'', ''support''], [''votes'', ''conviction'']]),
      (''GET_RECENT_ACTIVITIES'', [[''organizations'', ''creator''], [''organizations'', ''transactionHash''], [''campaigns'', ''creator''], [''campaigns'', ''transactionHash''], [''proposals'', ''proposer''], [''proposals'', ''transactionHash''], [''contributions'', ''transactionHash'']]),
      (''GET_INDEXING_STATUS'', []),
      (''GET_RECENT_BLOCKS'', []),
      (''GET_INDEXING_METRICS'', []),
      (''GET_USER_PROFILE'', [[''user'', ''memberships'', ''role'']]),
      (''GET_ALL_USER_MEMBERSHIPS'', [[''members'', ''where'', ''address''], [''members'', ''organization'', ''creator''], [''members'', ''role'']]),
      (''GET_USER_ACTIVITY'', [[''user'', ''memberships'', ''role''], [''user'', ''contributions'']]),
      (''GET_ORGANIZATION_WITH_USER_DETAILS'', [[''organization'', ''creator''], [''organization'', ''treasury'', ''balance''], [''organization'', ''transactionHash''], [''organization'', ''members'', ''address''], [''organization'', ''members'', ''role'']]),
      (''GET_USER_PORTFOLIO'', [[''members'', ''where'', ''address''], [''members'', ''contributions''], [''members'', ''proposals''], [''members'', ''votes'']]),
      (''GET_ORGANIZATION_TREASURY'', [[''organization'', ''treasury''], [''organization'', ''treasuryBalance'']])]"
  unfolding assms by (simp add: allQueries_def ghosts_of_queries)

theorem queries_against_schema_witness:
  "map_of entityRoots ''stakingPools'' = Some (ToMany ''StakingPool'')
   \<and> map (\<lambda>(name, q). (name, query_ghosts (map_of entityRoots) q)) allQueries ! 8 = (''GET_STAKING_STATS'', [[''stakingStats'']])"
  using queries_against_schema [OF refl] by (simp add: entityRoots_def)

text \<open>
  Most queries are never answered: a node that answers only queries that fit the schema it serves, as
  the specification of the query language demands, answers at most these twelve; every hook on one of
  the others runs on its fallback.
\<close>

theorem answered_queries:
  assumes "roots = map_of entityRoots"
    and only_valid: "\<And>q. serve q \<noteq> None \<Longrightarrow> query_valid roots q"
    and "(name, q) \<in> set allQueries" and "serve q \<noteq> None"
  shows "name \<in> set
     [''GET_ORGANIZATIONS'', ''GET_ORGANIZATION_BY_ID'', ''GET_CAMPAIGNS'', ''GET_CAMPAIGN_BY_ID'',
      ''GET_PROPOSALS'', ''GET_PROFILES'', ''GET_PROFILE_BY_ID'', ''GET_GLOBAL_STATS'', ''GET_MODULES'',
      ''GET_INDEXING_STATUS'', ''GET_RECENT_BLOCKS'', ''GET_INDEXING_METRICS'']"
proof -
  have "query_ghosts (map_of entityRoots) q = []" using only_valid [OF assms(4)] by (simp add: query_ghosts_Nil assms(1))
  moreover have "name \<in> set [''GET_ORGANIZATIONS'', ''GET_ORGANIZATION_BY_ID'', ''GET_CAMPAIGNS'', ''GET_CAMPAIGN_BY_ID'',
      ''GET_PROPOSALS'', ''GET_PROFILES'', ''GET_PROFILE_BY_ID'', ''GET_GLOBAL_STATS'', ''GET_MODULES'',
      ''GET_INDEXING_STATUS'', ''GET_RECENT_BLOCKS'', ''GET_INDEXING_METRICS''] \<or> query_ghosts (map_of entityRoots) q \<noteq> []"
    using assms(3) unfolding allQueries_def by (simp, elim disjE; simp add: ghosts_of_queries)
  ultimately show ?thesis by blast
qed

theorem answered_queries_witness:
  "(if query_valid (map_of entityRoots) GET_MODULES then Some ''data'' else None) \<noteq> None
   \<and> ''GET_MODULES'' \<in> set
     [''GET_ORGANIZATIONS'', ''GET_ORGANIZATION_BY_ID'', ''GET_CAMPAIGNS'', ''GET_CAMPAIGN_BY_ID'',
      ''GET_PROPOSALS'', ''GET_PROFILES'', ''GET_PROFILE_BY_ID'', ''GET_GLOBAL_STATS'', ''GET_MODULES'',
      ''GET_INDEXING_STATUS'', ''GET_RECENT_BLOCKS'', ''GET_INDEXING_METRICS'']"
proof -
  have v: "(if query_valid (map_of entityRoots) GET_MODULES then Some ''data'' else None) \<noteq> None"
    using ghosts_GET_MODULES by (simp add: query_ghosts_Nil)
  have m: "(''GET_MODULES'', GET_MODULES) \<in> set allQueries" by (simp add: allQueries_def)
  have ok: "\<And>q. (if query_valid (map_of entityRoots) q then Some ''data'' else None) \<noteq> None \<Longrightarrow> query_valid (map_of entityRoots) q"
    by (simp split: if_splits)
  show ?thesis
    using v answered_queries [where serve = "\<lambda>q. if query_valid (map_of entityRoots) q then Some ''data'' else None", OF refl ok m v]
    by blast
qed

end
