(* ===== verification/Staking_Client.thy ===== *)
theory Staking_Client
  imports Client_Data Queries
begin

text \<open>
  The staking page of the web client, \<open>packages/frontend/src/hooks/useStakingPools.ts\<close>.

  \<^item> Answers and numbers are those of \<open>Client_Data\<close>. \<open>BigInt\<close> of a text is written out; \<open>parseFloat\<close> is an
    argument, and a rate is the text of its number.
  \<^item> \<open>parseEther\<close> of the client library is an argument. \<open>stake\<close> calls \<open>handleApproval\<close> of \<open>Approval\<close>; a
    contract call is recorded with its arguments, the pool number as the text it is read from.

  The lemmas show that amounts of the subgraph survive the conversion, that the page never shows pools of
  the subgraph, which amounts a stake approves and spends, and how the totals add up.
\<close>

section \<open>Reading numbers\<close>

definition allDigits :: "string \<Rightarrow> bool" where
  "allDigits s \<longleftrightarrow> s \<noteq> [] \<and> list_all digit_char s"

text \<open>\<open>BigInt(text)\<close> for a trimmed text; \<open>None\<close> is a syntax error.\<close>

definition radixDigits :: "nat \<Rightarrow> string \<Rightarrow> int option" where
  "radixDigits r s =
     (if s \<noteq> [] \<and> list_all (\<lambda>c. case hexval c of None \<Rightarrow> False | Some d \<Rightarrow> d < r) s
      then Some (foldl (\<lambda>a c. int r * a + int (the (hexval c))) 0 s) else None)"

definition bigIntText :: "string \<Rightarrow> int option" where
  "bigIntText s =
     (if s = [] then Some 0
      else if take 2 s = ''0x'' \<or> take 2 s = ''0X'' then radixDigits 16 (drop 2 s)
      else if take 2 s = ''0o'' \<or> take 2 s = ''0O'' then radixDigits 8 (drop 2 s)
      else if take 2 s = ''0b'' \<or> take 2 s = ''0B'' then radixDigits 2 (drop 2 s)
      else if hd s = CHR ''-'' then (if allDigits (tl s) then Some (- bigIntOf (tl s)) else None)
      else if hd s = CHR ''+'' then (if allDigits (tl s) then Some (bigIntOf (tl s)) else None)
      else if allDigits s then Some (bigIntOf s) else None)"

definition staking_safeBigInt :: "json option \<Rightarrow> string \<Rightarrow> int" where
  "staking_safeBigInt value fallback =
     (if value = None \<or> value = Some JNull \<or> value = Some (JStr []) then bigIntOf fallback
      else
        (let stringValue = trim (templateText value)
         in if stringValue = [] \<or> stringValue = ''null'' \<or> stringValue = ''undefined'' then bigIntOf fallback
            else case bigIntText stringValue of Some n \<Rightarrow> n | None \<Rightarrow> bigIntOf fallback))"

section \<open>Pools, stakes and statistics\<close>

record clientPool =
  cp_id :: "json option"
  cp_purpose :: "json option"
  cp_totalStaked :: int
  cp_rewardRate :: string
  cp_totalRewardsDistributed :: int
  cp_active :: bool
  cp_lastUpdateTime :: int
  cp_stakersCount :: int
  cp_averageStakeAmount :: int
  cp_totalRewardsClaimed :: int
  cp_apy :: string

definition transformPool :: "(json option \<Rightarrow> string) \<Rightarrow> int \<Rightarrow> json \<Rightarrow> clientPool" where
  "transformPool parseFloatOr0 now pool =
     \<lparr>cp_id = field pool ''id'', cp_purpose = or_else (field pool ''purpose'') (Some (JStr ''General Staking'')),
      cp_totalStaked = staking_safeBigInt (field pool ''totalStaked'') ''0'',
      cp_rewardRate = parseFloatOr0 (field pool ''rewardRate''),
      cp_totalRewardsDistributed = staking_safeBigInt (field pool ''totalRewardsDistributed'') ''0'',
      cp_active = (field pool ''active'' \<noteq> Some (JBool False)),
      cp_lastUpdateTime = parseIntOr (field pool ''lastUpdateTime'') now,
      cp_stakersCount = parseIntOr (field pool ''stakersCount'') 0,
      cp_averageStakeAmount = staking_safeBigInt (field pool ''averageStakeAmount'') ''0'',
      cp_totalRewardsClaimed = staking_safeBigInt (field pool ''totalRewardsClaimed'') ''0'',
      cp_apy = parseFloatOr0 (field pool ''rewardRate'')\<rparr>"

text \<open>The pools made up for development, from the total supply of the token.\<close>

definition madeUpPool ::
  "(string \<Rightarrow> int) \<Rightarrow> int option \<Rightarrow> int \<Rightarrow> string \<Rightarrow> string \<Rightarrow> int \<Rightarrow> string \<Rightarrow> string \<Rightarrow> string \<Rightarrow> int \<Rightarrow> string \<Rightarrow> string \<Rightarrow> string
     \<Rightarrow> clientPool" where
  "madeUpPool parseEther supply now i purpose share dflt rate distributed stakers average claimed apy =
     \<lparr>cp_id = Some (JStr i), cp_purpose = Some (JStr purpose),
      cp_totalStaked = (case supply of Some n \<Rightarrow> if n = 0 then parseEther dflt else n div share | None \<Rightarrow> parseEther dflt),
      cp_rewardRate = rate, cp_totalRewardsDistributed = parseEther distributed, cp_active = True, cp_lastUpdateTime = now,
      cp_stakersCount = stakers, cp_averageStakeAmount = parseEther average, cp_totalRewardsClaimed = parseEther claimed,
      cp_apy = apy\<rparr>"

definition contractPoolsData :: "(string \<Rightarrow> int) \<Rightarrow> int option \<Rightarrow> int \<Rightarrow> clientPool list" where
  "contractPoolsData parseEther supply now =
     [madeUpPool parseEther supply now ''1'' ''Governance Staking'' 10 ''100000'' ''12'' ''5000'' 25 ''4000'' ''4500'' ''12.5'',
      madeUpPool parseEther supply now ''2'' ''Liquidity Provision'' 20 ''50000'' ''18'' ''7500'' 18 ''2777'' ''6800'' ''18.7'',
      madeUpPool parseEther supply now ''3'' ''Validator Staking'' 4 ''250000'' ''8'' ''12000'' 8 ''31250'' ''11000'' ''8.2'']"

definition stakingPools :: "(json option \<Rightarrow> string) \<Rightarrow> int \<Rightarrow> json option \<Rightarrow> clientPool list \<Rightarrow> clientPool list" where
  "stakingPools parseFloatOr0 now poolsData contractPools =
     mapArray poolsData ''stakingPools'' (transformPool parseFloatOr0 now) contractPools"

record clientStake =
  cs_id :: "json option"
  cs_user :: "json option"
  cs_poolId :: "json option"
  cs_poolPurpose :: "json option"
  cs_poolRate :: string
  cs_poolActive :: "json option"
  cs_amount :: int
  cs_stakedAt :: int
  cs_lastClaimTime :: int
  cs_preferredStrategy :: "json option"
  cs_pendingRewards :: int
  cs_totalRewardsClaimed :: int

text \<open>A stake whose pool is missing or null makes the mapping, and so the hook, throw (\<open>None\<close>).\<close>

definition transformStake :: "(json option \<Rightarrow> string) \<Rightarrow> json \<Rightarrow> clientStake option" where
  "transformStake parseFloatText stake =
     (case field stake ''pool'' of
        None \<Rightarrow> None
      | Some JNull \<Rightarrow> None
      | Some pool \<Rightarrow>
          Some
            \<lparr>cs_id = field stake ''id'', cs_user = field stake ''user'', cs_poolId = field pool ''id'', cs_poolPurpose = field pool ''purpose'',
             cs_poolRate = parseFloatText (field pool ''rewardRate''), cs_poolActive = field pool ''active'',
             cs_amount = staking_safeBigInt (field stake ''amount'') ''0'', cs_stakedAt = parseIntOr (field stake ''stakedAt'') 0,
             cs_lastClaimTime = parseIntOr (field stake ''lastClaimTime'') 0,
             cs_preferredStrategy = or_else (field stake ''preferredStrategy'') (Some (JStr ''COMPOUND'')),
             cs_pendingRewards = staking_safeBigInt (field stake ''pendingRewards'') ''0'',
             cs_totalRewardsClaimed = staking_safeBigInt (field stake ''totalRewardsClaimed'') ''0''\<rparr>)"

definition userStakes :: "(json option \<Rightarrow> string) \<Rightarrow> json option \<Rightarrow> clientStake list option" where
  "userStakes parseFloatText userStakesData =
     (case answerArray userStakesData ''userStakes'' of
        None \<Rightarrow> Some []
      | Some stakes \<Rightarrow> those (map (transformStake parseFloatText) stakes))"

record clientStats =
  gs_totalStaked :: int
  gs_totalRewardsDistributed :: int
  gs_totalRewardsClaimed :: int
  gs_totalSlashed :: int
  gs_activeStakers :: int
  gs_totalStakingPools :: int
  gs_lastUpdated :: int

definition stakingStats :: "int \<Rightarrow> json option \<Rightarrow> clientPool list \<Rightarrow> clientStats" where
  "stakingStats now statsData pools =
     (let stats = Option.bind statsData (\<lambda>d. field d ''stakingStats'') in
      if jsonTruthy stats then
        (let s = the stats in
         \<lparr>gs_totalStaked = staking_safeBigInt (field s ''totalStaked'') ''0'',
          gs_totalRewardsDistributed = staking_safeBigInt (field s ''totalRewardsDistributed'') ''0'',
          gs_totalRewardsClaimed = staking_safeBigInt (field s ''totalRewardsClaimed'') ''0'',
          gs_totalSlashed = staking_safeBigInt (field s ''totalSlashed'') ''0'',
          gs_activeStakers = parseIntOr (field s ''activeStakers'') 0,
          gs_totalStakingPools = parseIntOr (field s ''totalStakingPools'') 0,
          gs_lastUpdated = parseIntOr (field s ''lastUpdated'') now\<rparr>)
      else
        \<lparr>gs_totalStaked = foldl (\<lambda>sum pool. sum + cp_totalStaked pool) 0 pools,
         gs_totalRewardsDistributed = foldl (\<lambda>sum pool. sum + cp_totalRewardsDistributed pool) 0 pools,
         gs_totalRewardsClaimed = foldl (\<lambda>sum pool. sum + cp_totalRewardsClaimed pool) 0 pools,
         gs_totalSlashed = 0, gs_activeStakers = sumNumbers cp_stakersCount pools,
         gs_totalStakingPools = int (length pools), gs_lastUpdated = now\<rparr>)"

section \<open>Totals and lookups\<close>

definition getTotalUserStaked :: "clientStake list \<Rightarrow> int" where
  "getTotalUserStaked stakes = foldl (\<lambda>sum stake. sum + cs_amount stake) 0 stakes"

definition getTotalUserRewards :: "clientStake list \<Rightarrow> int" where
  "getTotalUserRewards stakes = foldl (\<lambda>sum stake. sum + cs_totalRewardsClaimed stake) 0 stakes"

definition getTotalPendingRewards :: "clientStake list \<Rightarrow> int" where
  "getTotalPendingRewards stakes = foldl (\<lambda>sum stake. sum + cs_pendingRewards stake) 0 stakes"

definition activeStakes :: "clientStake list \<Rightarrow> nat" where
  "activeStakes stakes = length (filter (\<lambda>stake. 0 < cs_amount stake) stakes)"

definition getPoolById :: "clientPool list \<Rightarrow> string \<Rightarrow> clientPool option" where
  "getPoolById pools poolId = find (\<lambda>pool. cp_id pool = Some (JStr poolId)) pools"

definition getUserStakeInPool :: "clientStake list \<Rightarrow> string \<Rightarrow> clientStake option" where
  "getUserStakeInPool stakes poolId = find (\<lambda>stake. cs_poolId stake = Some (JStr poolId)) stakes"

definition isUserStakedInPool :: "clientStake list \<Rightarrow> string \<Rightarrow> bool" where
  "isUserStakedInPool stakes poolId =
     list_ex (\<lambda>stake. cs_poolId stake = Some (JStr poolId) \<and> 0 < cs_amount stake) stakes"

section \<open>Contract calls\<close>

datatype stakingCall = StakeCall string int | RequestUnstake string int | ClaimRewards string

record stakingEnv =
  se_isConnected :: bool
  se_staking :: string
  se_approval :: approvalEnv

definition staking_ready :: "stakingEnv \<Rightarrow> bool" where
  "staking_ready env \<longleftrightarrow> se_isConnected env \<and> nonempty (ae_address (se_approval env))"

text \<open>The calls sent and the result: nothing when the approval is pending.\<close>

definition stake ::
  "(string \<Rightarrow> string + int) \<Rightarrow> stakingEnv \<Rightarrow> string \<Rightarrow> string \<Rightarrow> tokenApprovalParams approvalState
     \<Rightarrow> (string + stakingCall list) \<times> tokenApprovalParams approvalState" where
  "stake parseEther env poolId amount s =
     (if \<not> staking_ready env then (Inl ''Wallet not connected'', s)
      else
        case handleApproval (se_approval env)
               \<lparr>tp_token = GameT, tp_spender = se_staking env, tp_amount = AStr amount, tp_purpose = Some ''staking''\<rparr> s of
          (Inl e, s) \<Rightarrow> (Inl e, s)
        | (Inr False, s) \<Rightarrow> (Inr [], s)
        | (Inr True, s) \<Rightarrow>
            (case parseEther amount of
               Inl e \<Rightarrow> (Inl e, s)
             | Inr wei \<Rightarrow> (Inr [StakeCall poolId wei], s)))"

definition unstake :: "(string \<Rightarrow> string + int) \<Rightarrow> stakingEnv \<Rightarrow> string \<Rightarrow> string \<Rightarrow> string + stakingCall list" where
  "unstake parseEther env poolId amount =
     (if \<not> staking_ready env then Inl ''Wallet not connected''
      else case parseEther amount of Inl e \<Rightarrow> Inl e | Inr wei \<Rightarrow> Inr [RequestUnstake poolId wei])"

definition claimReward :: "stakingEnv \<Rightarrow> string \<Rightarrow> string + stakingCall list" where
  "claimReward env poolId = (if \<not> staking_ready env then Inl ''Wallet not connected'' else Inr [ClaimRewards poolId])"

section \<open>Amounts of the subgraph survive\<close>

lemma bigIntText_show: "bigIntText (show_int n) = Some n"
proof (cases "n < 0")
  case True
  have "allDigits (show_nat (nat (- n)))" by (simp add: allDigits_def show_nat_digits_all)
  then show ?thesis using True by (simp add: bigIntText_def show_int_def bigIntOf_def)
next
  case False
  let ?s = "show_nat (nat n)"
  have d: "allDigits ?s" by (simp add: allDigits_def show_nat_digits_all)
  have "hd ?s \<in> set ?s" by simp
  then have "digit_char (hd ?s)" using show_nat_digits_all [of "nat n"] by (auto simp: list_all_iff)
  then have "hd ?s \<noteq> CHR ''-''" "hd ?s \<noteq> CHR ''+''" by (auto simp: digit_char_def)
  then show ?thesis using False d digit_prefix [OF show_nat_digits_all, of _ "nat n"]
    by (simp add: bigIntText_def show_int_def bigIntOf_def)
qed

lemma safeBigInt_show: "staking_safeBigInt (Some (JStr (show_int n))) f = n"
  by (simp add: staking_safeBigInt_def templateText_def trim_plain show_int_plain bigIntText_show Let_def)

lemma those_stakes_total:
  "map_option getTotalUserStaked (those (map (\<lambda>k. transformStake pf (JObj [(''pool'', JObj p), (''amount'', JStr (show_int k))])) ks))
     = Some (sum_list ks)"
proof -
  have "\<exists>xs. those (map (\<lambda>k. transformStake pf (JObj [(''pool'', JObj p), (''amount'', JStr (show_int k))])) ks) = Some xs \<and> map cs_amount xs = ks"
    by (induction ks) (auto simp: transformStake_def safeBigInt_show)
  then show ?thesis by (auto simp: getTotalUserStaked_def foldl_sum)
qed

text \<open>
  Amounts of the subgraph survive: every integer, written in decimal as the subgraph sends it, is read back unchanged, and
  the totals of the page over pools and stakes read that way are the sums of those integers; a stake without its pool makes the hook throw.
\<close>

theorem staking_amounts_survive:
  "staking_safeBigInt (Some (JStr (show_int n))) ''0'' = n
   \<and> gs_totalStaked (stakingStats now None (map (\<lambda>k. transformPool pf now (JObj [(''totalStaked'', JStr (show_int k))])) ks)) = sum_list ks
   \<and> map_option getTotalUserStaked (userStakes pf
        (Some (JObj [(''userStakes'', JArr (map (\<lambda>k. JObj [(''pool'', JObj p), (''amount'', JStr (show_int k))]) ks))]))) = Some (sum_list ks)
   \<and> userStakes pf (Some (JObj [(''userStakes'', JArr (js @ JObj [(''amount'', JStr (show_int n))] # js'))])) = None"
proof -
  have "those (map f (xs @ x # ys)) = None" if "f x = None" for f :: "json \<Rightarrow> clientStake option" and x xs ys
    using that by (induction xs) (auto split: option.splits)
  then show ?thesis using those_stakes_total [of pf p ks]
    by (simp add: stakingStats_def foldl_sum transformPool_def userStakes_def answerArray_def transformStake_def safeBigInt_show comp_def Let_def
        del: map_append)
qed

section \<open>The page never shows the pools of the subgraph\<close>

text \<open>
  C28. The staking page shows made-up pools: with a node that answers only queries that fit the schema it serves, the
  pools are those made up for development, the user has no stakes, and the statistics are the totals
  of the made-up pools, whatever is staked.
\<close>

theorem staking_page_made_up:
  assumes "roots = map_of entityRoots"
    and only_valid: "\<And>q. serve q \<noteq> None \<Longrightarrow> query_valid roots q"
    and "pools = stakingPools pf now (serve GET_STAKING_POOLS) (contractPoolsData parseEther supply now)"
  shows "pools = contractPoolsData parseEther supply now \<and> userStakes pf (serve GET_USER_STAKES) = Some []
     \<and> gs_totalStaked (stakingStats now (serve GET_STAKING_STATS) pools) = sum_list (map cp_totalStaked pools)
     \<and> gs_totalStakingPools (stakingStats now (serve GET_STAKING_STATS) pools) = 3"
proof -
  have s: "serve GET_STAKING_POOLS = None" "serve GET_USER_STAKES = None" "serve GET_STAKING_STATS = None"
    by (rule unanswered [OF only_valid], assumption, simp add: assms(1) ghosts_of_queries)+
  then have p: "pools = contractPoolsData parseEther supply now" using assms(3) by (simp add: stakingPools_def)
  have "length (contractPoolsData parseEther supply now) = 3" by (simp add: contractPoolsData_def)
  then show ?thesis using s by (simp add: p userStakes_def answerArray_def stakingStats_def foldl_sum Let_def)
qed

theorem staking_page_made_up_witness:
  "(let serve = (\<lambda>q. if query_valid (map_of entityRoots) q then Some (JObj []) else None)
    in (\<forall>q. serve q \<noteq> None \<longrightarrow> query_valid (map_of entityRoots) q)
       \<and> userStakes (\<lambda>_. ''0'') (serve GET_USER_STAKES) = Some [])"
proof -
  let ?serve = "\<lambda>q. if query_valid (map_of entityRoots) q then Some (JObj []) else None"
  have ok: "\<And>q. ?serve q \<noteq> None \<Longrightarrow> query_valid (map_of entityRoots) q" by (simp split: if_splits)
  show ?thesis using staking_page_made_up [where serve = ?serve, OF refl ok refl, of "\<lambda>_. ''0''" 0 "\<lambda>_. 0" None] ok
    unfolding Let_def by blast
qed

section \<open>What a stake approves and what it spends\<close>

text \<open>
  C29. A stake spends more than it makes sure of: for a whole number of tokens typed without a decimal
  point, the approval is asked, and checked, for that number of base units, while the contract call stakes \<open>10 ^ 18\<close> times as
  much. With an allowance of that number of base units the call goes out; without, an approval of that
  number is sent and no stake follows.
\<close>

theorem stake_exceeds_approval:
  assumes "w \<noteq> []" "list_all digit_char w" "0 < bigIntOf w" and "parseEther w = Inr (bigIntOf w * 10 ^ 18)"
    and "staking_ready env" "se_staking env \<noteq> []" "ta_GAME_TOKEN (ae_contracts (se_approval env)) \<noteq> []" "ae_client (se_approval env)"
    and "ae_approve (se_approval env) = Inr ()"
    and "ae_allowance (se_approval env) (ta_GAME_TOKEN (ae_contracts (se_approval env))) (se_staking env) = Inr allowance"
  shows "if bigIntOf w \<le> allowance then stake parseEther env poolId w s = (Inr [StakeCall poolId (bigIntOf w * 10 ^ 18)], s)
     else fst (stake parseEther env poolId w s) = Inr []
       \<and> (\<exists>nonce. ApproveWrite (ta_GAME_TOKEN (ae_contracts (se_approval env))) (se_staking env) (bigIntOf w) nonce
            \<in> set (as_effects (snd (stake parseEther env poolId w s))))"
proof -
  let ?p = "\<lparr>tp_token = GameT, tp_spender = se_staking env, tp_amount = AStr w, tp_purpose = Some ''staking''\<rparr>"
  have a: "safeBigInt (AStr w) ''0'' = bigIntOf w" using assms(1, 2) by (rule safeBigInt_digits)
  have n: "checkApprovalNeeded (se_approval env) GameT (se_staking env) (AStr w) \<longleftrightarrow> allowance < bigIntOf w"
    using assms a by (simp add: checkApprovalNeeded_iff getTokenAddress_def staking_ready_def)
  show ?thesis
  proof (cases "bigIntOf w \<le> allowance")
    case True
    then have "handleApproval (se_approval env) ?p s = (Inr True, s)" using n by (simp add: handleApproval_def)
    then show ?thesis using True assms(4, 5) by (simp add: stake_def)
  next
    case False
    then show ?thesis using n assms(3, 5-9) a
      by (auto simp: stake_def handleApproval_def requestApproval_def getTokenAddress_def staking_ready_def emit_def Let_def split: sum.split)
  qed
qed

definition stakingExample :: stakingEnv where
  "stakingExample =
     \<lparr>se_isConnected = True, se_staking = ''0x5'',
      se_approval = \<lparr>ae_address = Some ''0xa'', ae_contracts = \<lparr>ta_GAME_TOKEN = ''0x6'', ta_USDC_TOKEN = ''0x7''\<rparr>, ae_client = True,
        ae_allowance = (\<lambda>_ _. Inr 10), ae_txCount = Inr 0, ae_approve = Inr ()\<rparr>\<rparr>"

theorem stake_exceeds_approval_witness:
  "staking_ready stakingExample
   \<and> stake (\<lambda>t. Inr (bigIntOf t * 10 ^ 18)) stakingExample ''1'' ''5'' \<lparr>as_pending = None, as_effects = []\<rparr>
     = (Inr [StakeCall ''1'' (5 * 10 ^ 18)], \<lparr>as_pending = None, as_effects = []\<rparr>)"
proof -
  have w: "list_all digit_char ''5''" "bigIntOf ''5'' = 5" by (simp_all add: digit_char_def bigIntOf_def read_nat_def)
  have r: "staking_ready stakingExample" by (simp add: staking_ready_def stakingExample_def nonempty_def)
  show ?thesis
    using r w stake_exceeds_approval [of "''5''" "\<lambda>t. Inr (bigIntOf t * 10 ^ 18)" stakingExample 10 "''1''" "\<lparr>as_pending = None, as_effects = []\<rparr>"]
    by (simp add: stakingExample_def)
qed

text \<open>
  The lookups of the page agree: a user counts as staked in a pool only if the page finds a stake of the user
  in it, and then it counts an active one.
\<close>

theorem staked_pool_has_stake:
  assumes "isUserStakedInPool stakes poolId"
  shows "getUserStakeInPool stakes poolId \<noteq> None \<and> 0 < activeStakes stakes"
proof -
  obtain st where st: "st \<in> set stakes" "cs_poolId st = Some (JStr poolId)" "0 < cs_amount st"
    using assms by (auto simp: isUserStakedInPool_def list_ex_iff)
  then have "getUserStakeInPool stakes poolId \<noteq> None" by (auto simp: getUserStakeInPool_def find_None_iff)
  moreover have "filter (\<lambda>stake. 0 < cs_amount stake) stakes \<noteq> []" using st by (auto simp: filter_empty_conv)
  ultimately show ?thesis by (simp add: activeStakes_def)
qed

end
