(* ===== verification/Proposals_Client.thy ===== *)
theory Proposals_Client
  imports Client_Data Queries Signal
begin

text \<open>
  The governance pages of the web client, \<open>packages/frontend/src/hooks/useProposals.ts\<close>.

  \<^item> A proposal of the list is read from JSON; reading a property of a missing object throws, which is \<open>None\<close>.
  \<^item> \<open>castVote\<close> is asynchronous: it is cut at its \<open>await\<close>s, and \<open>voteState\<close> keeps the calls that wait for the bundler or for the nonce. The state
    updates between two \<open>await\<close>s take effect together. \<open>writeContract\<close> of the wallet library returns at once and never throws; its
    failures are reported to the hook later, as is the receipt.
  \<^item> \<open>createProposal\<close> and the other calls have one \<open>await\<close> after another and no state of their own; they are functions of what the wallet
    answers. They use \<open>handleApproval\<close> of \<open>Approval\<close>.

  The lemmas show that every accepted vote is sent exactly once, that an error of the smart account is never shown, which labels the
  enums of the subgraph get, and, with \<open>Signal\<close>, that no indexed proposal can be voted on.
\<close>

section \<open>Proposals\<close>

record clientProposal =
  pp_id :: "json option"
  pp_title :: "json option"
  pp_description :: "json option"
  pp_orgId :: "json option"
  pp_orgName :: "json option"
  pp_proposerId :: "json option"
  pp_proposerAddress :: "json option"
  pp_proposalType :: "json option"
  pp_votingType :: "json option"
  pp_state :: "json option"
  pp_startTime :: "int option"
  pp_endTime :: "int option"
  pp_votesFor :: "int option"
  pp_votesAgainst :: "int option"
  pp_votesAbstain :: "int option"
  pp_totalVotes :: "int option"
  pp_quorum :: "int option"
  pp_threshold :: "int option"
  pp_createdAt :: "int option"
  pp_updatedAt :: "int option"
  pp_convictionSupported :: "json option"
  pp_delegationSupported :: "json option"

text \<open>\<open>prop.title || \<dots>\<close>: the fallback reads the id, which must be a text.\<close>

definition titleOr :: "json \<Rightarrow> json option option" where
  "titleOr prop =
     (if jsonTruthy (field prop ''title'') then Some (field prop ''title'')
      else case field prop ''id'' of
             Some (JStr i) \<Rightarrow> Some (Some (JStr (''Proposal '' @ take 8 i)))
           | _ \<Rightarrow> None)"

definition descriptionOr :: "json \<Rightarrow> json option option" where
  "descriptionOr prop =
     (if jsonTruthy (field prop ''description'') then Some (field prop ''description'')
      else map_option (\<lambda>name. Some (JStr (''Governance proposal for '' @ templateText name)))
             (readProp (field prop ''organization'') ''name''))"

definition transformProposal :: "int \<Rightarrow> json \<Rightarrow> clientProposal option" where
  "transformProposal now prop =
     (let organization = field prop ''organization''; creator = field prop ''creator''
      in case (titleOr prop, descriptionOr prop, readProp organization ''id'', readProp organization ''name'',
               readProp creator ''id'', readProp creator ''address'') of
           (Some title, Some description, Some orgId, Some orgName, Some proposerId, Some proposerAddress) \<Rightarrow>
             Some
               \<lparr>pp_id = field prop ''id'', pp_title = title, pp_description = description, pp_orgId = orgId, pp_orgName = orgName,
                pp_proposerId = proposerId, pp_proposerAddress = proposerAddress,
                pp_proposalType = or_else (field prop ''proposalType'') (Some (JStr ''SIMPLE'')),
                pp_votingType = or_else (field prop ''votingType'') (Some (JStr ''SIMPLE'')),
                pp_state = or_else (field prop ''state'') (Some (JStr ''PENDING'')),
                pp_startTime = Some (parseIntOr (field prop ''startTime'') 0),
                pp_endTime = Some (parseIntOr (field prop ''endTime'') 0),
                pp_votesFor = Some (parseIntOr (field prop ''forVotes'') 0),
                pp_votesAgainst = Some (parseIntOr (field prop ''againstVotes'') 0),
                pp_votesAbstain = Some (parseIntOr (field prop ''abstainVotes'') 0),
                pp_totalVotes = Some (parseIntOr (field prop ''totalVotes'') 0), pp_quorum = None, pp_threshold = None,
                pp_createdAt = Some (parseIntOr (field prop ''createdAt'') now),
                pp_updatedAt = Some (parseIntOr (field prop ''updatedAt'') now),
                pp_convictionSupported = or_else (field prop ''convictionSupported'') (Some (JBool True)),
                pp_delegationSupported = or_else (field prop ''delegationSupported'') (Some (JBool True))\<rparr>
         | _ \<Rightarrow> None)"

text \<open>The list of the hook; \<open>None\<close> when the transformation of one proposal throws.\<close>

definition clientProposals :: "int \<Rightarrow> json option \<Rightarrow> clientProposal list option" where
  "clientProposals now data = those (mapArray data ''proposals'' (transformProposal now) [])"

definition filteredProposals :: "string option \<Rightarrow> clientProposal list \<Rightarrow> clientProposal list" where
  "filteredProposals organizationId ps =
     (if nonempty organizationId then filter (\<lambda>p. pp_orgId p = Some (JStr (the organizationId))) ps else ps)"

definition userVotes :: "json option \<Rightarrow> json list" where
  "userVotes userVotesData = (case answerArray userVotesData ''votes'' of Some vs \<Rightarrow> vs | None \<Rightarrow> [])"

record proposalStats =
  ps_totalProposals :: nat
  ps_activeProposals :: nat
  ps_userVotes :: nat
  ps_executionRate :: int

definition proposalStatistics :: "clientProposal list \<Rightarrow> json list \<Rightarrow> proposalStats" where
  "proposalStatistics ps cast =
     (let count = length ps; active = length (filter (\<lambda>p. pp_state p = Some (JStr ''ACTIVE'')) ps);
          executed = length (filter (\<lambda>p. pp_state p = Some (JStr ''EXECUTED'')) ps)
      in \<lparr>ps_totalProposals = count, ps_activeProposals = active, ps_userVotes = length cast,
          ps_executionRate = (if 0 < count then percentOf (int executed) (int count) else 0)\<rparr>)"

text \<open>The page of one proposal; \<open>useProposal\<close> has no fallbacks but an empty proposal.\<close>

definition emptyProposal :: "string \<Rightarrow> clientProposal" where
  "emptyProposal proposalId =
     \<lparr>pp_id = Some (JStr proposalId), pp_title = Some (JStr []), pp_description = Some (JStr []), pp_orgId = Some (JStr []),
      pp_orgName = Some (JStr []), pp_proposerId = Some (JStr []), pp_proposerAddress = Some (JStr []),
      pp_proposalType = Some (JStr ''SIMPLE''), pp_votingType = Some (JStr ''SIMPLE''), pp_state = Some (JStr ''PENDING''),
      pp_startTime = Some 0, pp_endTime = Some 0, pp_votesFor = Some 0, pp_votesAgainst = Some 0, pp_votesAbstain = Some 0,
      pp_totalVotes = Some 0, pp_quorum = None, pp_threshold = None, pp_createdAt = Some 0, pp_updatedAt = Some 0,
      pp_convictionSupported = Some (JBool True), pp_delegationSupported = Some (JBool True)\<rparr>"

definition useProposal :: "json option \<Rightarrow> string \<Rightarrow> clientProposal option" where
  "useProposal data proposalId =
     (let q = Option.bind data (\<lambda>d. field d ''proposal'')
      in if \<not> jsonTruthy q then Some (emptyProposal proposalId)
         else
           (let j = the q; creator = field j ''creator''; organization = field j ''organization'';
                ofOrg = (\<lambda>k. Option.bind organization (\<lambda>x. field x k))
            in case (readProp creator ''id'', readProp creator ''address'') of
                 (Some proposerId, Some proposerAddress) \<Rightarrow>
                   Some
                     \<lparr>pp_id = field j ''id'', pp_title = field j ''title'', pp_description = field j ''description'',
                      pp_orgId = ofOrg ''id'', pp_orgName = ofOrg ''name'', pp_proposerId = proposerId,
                      pp_proposerAddress = proposerAddress, pp_proposalType = field j ''proposalType'',
                      pp_votingType = field j ''votingType'', pp_state = field j ''state'',
                      pp_startTime = parseIntNum (field j ''startTime''), pp_endTime = parseIntNum (field j ''endTime''),
                      pp_votesFor = parseIntNum (field j ''forVotes''), pp_votesAgainst = parseIntNum (field j ''againstVotes''),
                      pp_votesAbstain = Some (parseIntOr (field j ''abstainVotes'') 0),
                      pp_totalVotes = parseIntNum (field j ''totalVotes''), pp_quorum = parseIntNum (field j ''quorum''),
                      pp_threshold = parseIntNum (field j ''threshold''), pp_createdAt = parseIntNum (field j ''createdAt''),
                      pp_updatedAt = parseIntNum (field j ''updatedAt''), pp_convictionSupported = Some (JBool True),
                      pp_delegationSupported = Some (JBool True)\<rparr>
               | _ \<Rightarrow> None))"

section \<open>Labels and predicates\<close>

definition getProposalTypeString :: "string option \<Rightarrow> string" where
  "getProposalTypeString proposalType =
     (let t = map_option toUpperCase proposalType
      in if t = Some ''SIMPLE'' then ''Simple'' else if t = Some ''WEIGHTED'' then ''Weighted''
         else if t = Some ''QUADRATIC'' then ''Quadratic'' else if t = Some ''RANKED'' then ''Ranked Choice'' else ''Simple'')"

definition getVotingTypeString :: "string option \<Rightarrow> string" where
  "getVotingTypeString votingType =
     (let t = map_option toUpperCase votingType
      in if t = Some ''SIMPLE'' then ''Simple'' else if t = Some ''CONVICTION'' then ''Conviction''
         else if t = Some ''RANKED'' then ''Ranked'' else ''Simple'')"

definition proposal_getStateString :: "string option \<Rightarrow> string" where
  "proposal_getStateString state =
     (let t = map_option toUpperCase state
      in if t = Some ''PENDING'' then ''Pending'' else if t = Some ''ACTIVE'' then ''Active''
         else if t = Some ''CANCELLED'' then ''Cancelled'' else if t = Some ''DEFEATED'' then ''Defeated''
         else if t = Some ''SUCCEEDED'' then ''Succeeded'' else if t = Some ''QUEUED'' then ''Queued''
         else if t = Some ''EXPIRED'' then ''Expired'' else if t = Some ''EXECUTED'' then ''Executed'' else ''Pending'')"

text \<open>A comparison with NaN is false.\<close>

definition proposal_isActive :: "int \<Rightarrow> clientProposal \<Rightarrow> bool" where
  "proposal_isActive now p \<longleftrightarrow>
     pp_state p = Some (JStr ''ACTIVE'') \<and> (case pp_endTime p of None \<Rightarrow> False | Some t \<Rightarrow> now < t)"

definition getTimeRemaining :: "int \<Rightarrow> clientProposal \<Rightarrow> string" where
  "getTimeRemaining now p = remainingText now (pp_endTime p)"

text \<open>\<open>some\<close> stops at the first hit; a vote without its proposal throws.\<close>

fun hasUserVoted :: "json list \<Rightarrow> string \<Rightarrow> bool option" where
  "hasUserVoted [] proposalId = Some False"
| "hasUserVoted (v # vs) proposalId =
     (case readProp (field v ''proposal'') ''id'' of
        None \<Rightarrow> None
      | Some i \<Rightarrow> if i = Some (JStr proposalId) then Some True else hasUserVoted vs proposalId)"

record signalEnv =
  sg_isConnected :: bool
  sg_signal :: string
  sg_smart :: "(string + string) option"
  sg_approval :: approvalEnv

definition signal_connected :: "signalEnv \<Rightarrow> bool" where
  "signal_connected env \<longleftrightarrow> sg_isConnected env \<and> nonempty (ae_address (sg_approval env))"

definition canUserVote :: "int \<Rightarrow> signalEnv \<Rightarrow> clientProposal list \<Rightarrow> json list \<Rightarrow> string \<Rightarrow> bool option" where
  "canUserVote now env ps cast proposalId =
     (if \<not> signal_connected env then Some False
      else case find (\<lambda>p. pp_id p = Some (JStr proposalId)) ps of
             None \<Rightarrow> Some False
           | Some p \<Rightarrow>
               if \<not> proposal_isActive now p then Some False
               else map_option Not (hasUserVoted cast proposalId))"

definition getVotingPowerForProposal :: "signalEnv \<Rightarrow> string \<Rightarrow> int" where
  "getVotingPowerForProposal env proposalId = (if \<not> signal_connected env then 0 else 1)"

section \<open>Voting\<close>

datatype signalCall =
    CastVote string int string
  | CastVoteWithConviction string int int string
  | CreateProposal string string string string int int int int string string
  | DelegateVotingPower string int
  | UndelegateVotingPower string int

record voteState =
  vs_smartHash :: "string option"
  vs_submitting :: bool
  vs_smartError :: "string option"
  vs_bundler :: "signalCall list"
  vs_nonce :: "signalCall list"
  vs_sent :: "(sender \<times> signalCall) list"
  vs_toasts :: "hookEffect list"
  vs_refetches :: nat

definition newVoteState :: voteState where
  "newVoteState =
     \<lparr>vs_smartHash = None, vs_submitting = False, vs_smartError = None, vs_bundler = [], vs_nonce = [], vs_sent = [],
      vs_toasts = [], vs_refetches = 0\<rparr>"

definition resetVoteState :: "voteState \<Rightarrow> voteState" where
  "resetVoteState s = s\<lparr>vs_smartHash := None, vs_smartError := None, vs_submitting := False\<rparr>"

definition notConnected :: string where
  "notConnected = ''Wallet not connected''"

definition notDeployed :: string where
  "notDeployed = ''Signal contract not deployed on this network. Switch to a supported chain (chainId 31337 / 80002 / 137).''"

definition signal_missing :: "signalEnv \<Rightarrow> bool" where
  "signal_missing env \<longleftrightarrow> sg_signal env = [] \<or> sg_signal env = ZERO"

text \<open>Up to the first \<open>await\<close>: the call to the bundler is made before it is awaited.\<close>

definition castVote :: "signalEnv \<Rightarrow> string \<Rightarrow> int \<Rightarrow> string option \<Rightarrow> voteState \<Rightarrow> (string + unit) \<times> voteState" where
  "castVote env proposalId choice reason s =
     (if \<not> signal_connected env then (Inl notConnected, s)
      else if signal_missing env then (Inl notDeployed, s)
      else
        (let s = resetVoteState s; call = CastVote proposalId choice (or_empty reason)
         in if sg_smart env \<noteq> None then
              (Inr (), s\<lparr>vs_submitting := True, vs_bundler := vs_bundler s @ [call], vs_sent := vs_sent s @ [(SmartAccount, call)]\<rparr>)
            else (Inr (), s\<lparr>vs_nonce := vs_nonce s @ [call]\<rparr>)))"

definition bundlerAnswer :: "nat \<Rightarrow> string + string \<Rightarrow> voteState \<Rightarrow> voteState" where
  "bundlerAnswer i r s =
     (if i < length (vs_bundler s) then
        (let s = s\<lparr>vs_bundler := dropNth i (vs_bundler s)\<rparr>
         in case r of
              Inr hash \<Rightarrow> s\<lparr>vs_smartHash := Some hash, vs_submitting := False\<rparr>
            | Inl e \<Rightarrow> resetVoteState (s\<lparr>vs_smartError := Some e\<rparr>))
      else s)"

definition nonceAnswer :: "nat \<Rightarrow> string + int \<Rightarrow> voteState \<Rightarrow> voteState" where
  "nonceAnswer i r s =
     (if i < length (vs_nonce s) then
        s\<lparr>vs_nonce := dropNth i (vs_nonce s), vs_sent := vs_sent s @ [(Wallet (nonceOr r), vs_nonce s ! i)]\<rparr>
      else s)"

text \<open>The effects: two on success (one refetches again after three seconds), one on an error, one timeout while a vote is pending.\<close>

definition onVoteSuccess :: "voteState \<Rightarrow> voteState" where
  "onVoteSuccess s =
     resetVoteState (s\<lparr>vs_refetches := vs_refetches s + 2, vs_toasts := vs_toasts s @ [ToastSuccess ''Vote cast successfully!'']\<rparr>)"

definition onVoteError :: "bool \<Rightarrow> voteState \<Rightarrow> voteState" where
  "onVoteError voteError s =
     (if voteError \<or> vs_smartError s \<noteq> None
      then s\<lparr>vs_toasts := vs_toasts s @ [ToastError ''Failed to cast vote. Please try again.'']\<rparr> else s)"

definition onVoteTimeout :: "bool \<Rightarrow> voteState \<Rightarrow> voteState" where
  "onVoteTimeout walletBusy s = (if walletBusy \<or> vs_submitting s then resetVoteState s else s)"

datatype voteEvent =
    Cast signalEnv string int "string option"
  | BundlerAnswer nat "string + string"
  | NonceAnswer nat "string + int"
  | VoteSuccess
  | VoteErrors bool
  | VoteTimeout bool

fun voteStep :: "voteEvent \<Rightarrow> voteState \<Rightarrow> voteState" where
  "voteStep (Cast env i choice reason) s = snd (castVote env i choice reason s)"
| "voteStep (BundlerAnswer i r) s = bundlerAnswer i r s"
| "voteStep (NonceAnswer i r) s = nonceAnswer i r s"
| "voteStep VoteSuccess s = onVoteSuccess s"
| "voteStep (VoteErrors b) s = onVoteError b s"
| "voteStep (VoteTimeout b) s = onVoteTimeout b s"

section \<open>Other calls\<close>

record proposalData =
  pd_organizationId :: string
  pd_title :: string
  pd_description :: string
  pd_proposalType :: int
  pd_votingType :: int
  pd_votingPeriod :: int
  pd_gameDeposit :: "string option"

definition proposalArgs :: "proposalData \<Rightarrow> signalCall" where
  "proposalArgs d =
     CreateProposal (toContractId (pd_organizationId d)) (pd_title d) (pd_description d) [] (pd_proposalType d) (pd_votingType d) 1
       (pd_votingPeriod d) ''0x'' ZERO"

text \<open>The transactions sent, or the error thrown; nothing is sent while an approval is pending.\<close>

definition sendSignal :: "signalEnv \<Rightarrow> signalCall \<Rightarrow> string + (sender \<times> signalCall) list" where
  "sendSignal env call =
     (case sg_smart env of
        Some (Inl e) \<Rightarrow> Inl e
      | Some (Inr _) \<Rightarrow> Inr [(SmartAccount, call)]
      | None \<Rightarrow> Inr [(Wallet (nonceOr (getNextNonce (sg_approval env))), call)])"

definition createProposal ::
  "signalEnv \<Rightarrow> proposalData \<Rightarrow> tokenApprovalParams approvalState
     \<Rightarrow> (string + (sender \<times> signalCall) list) \<times> tokenApprovalParams approvalState" where
  "createProposal env d s =
     (if \<not> signal_connected env then (Inl notConnected, s)
      else if nonempty (pd_gameDeposit d) \<and> parseFloatPositive (the (pd_gameDeposit d)) then
        (case handleApproval (sg_approval env)
                \<lparr>tp_token = GameT, tp_spender = sg_signal env, tp_amount = AStr (the (pd_gameDeposit d)),
                 tp_purpose = Some ''proposal creation''\<rparr> s of
           (Inl e, s) \<Rightarrow> (Inl e, s)
         | (Inr False, s) \<Rightarrow> (Inr [], s)
         | (Inr True, s) \<Rightarrow> (sendSignal env (proposalArgs d), s))
      else (sendSignal env (proposalArgs d), s))"

text \<open>\<open>createProposalV2\<close> has the same body but for the text it logs on an error.\<close>

definition createProposalV2 ::
  "signalEnv \<Rightarrow> proposalData \<Rightarrow> tokenApprovalParams approvalState
     \<Rightarrow> (string + (sender \<times> signalCall) list) \<times> tokenApprovalParams approvalState" where
  "createProposalV2 env d s = createProposal env d s"

definition walletSignal :: "signalEnv \<Rightarrow> signalCall \<Rightarrow> (sender \<times> signalCall) list" where
  "walletSignal env call = [(Wallet (nonceOr (getNextNonce (sg_approval env))), call)]"

definition castVoteWithConviction ::
  "signalEnv \<Rightarrow> string \<Rightarrow> int \<Rightarrow> int \<Rightarrow> string option \<Rightarrow> string + (sender \<times> signalCall) list" where
  "castVoteWithConviction env proposalId choice convictionTime reason =
     (if \<not> signal_connected env then Inl notConnected
      else if signal_missing env then Inl notDeployed
      else Inr (walletSignal env (CastVoteWithConviction proposalId choice convictionTime (or_empty reason))))"

definition delegateVotingPower :: "signalEnv \<Rightarrow> string \<Rightarrow> int \<Rightarrow> string + (sender \<times> signalCall) list" where
  "delegateVotingPower env delegatee amount =
     (if \<not> signal_connected env then Inl notConnected else Inr (walletSignal env (DelegateVotingPower delegatee amount)))"

definition undelegateVotingPower :: "signalEnv \<Rightarrow> string \<Rightarrow> int \<Rightarrow> string + (sender \<times> signalCall) list" where
  "undelegateVotingPower env delegatee amount =
     (if \<not> signal_connected env then Inl notConnected else Inr (walletSignal env (UndelegateVotingPower delegatee amount)))"

section \<open>Every accepted vote is sent once\<close>

fun acceptedVote :: "voteEvent \<Rightarrow> signalCall list" where
  "acceptedVote (Cast env i choice reason) =
     (if signal_connected env \<and> \<not> signal_missing env then [CastVote i choice (or_empty reason)] else [])"
| "acceptedVote _ = []"

lemma resetVoteState_fields [simp]:
  "vs_sent (resetVoteState s) = vs_sent s" "vs_nonce (resetVoteState s) = vs_nonce s" "vs_smartError (resetVoteState s) = None"
  "vs_toasts (resetVoteState s) = vs_toasts s"
  by (simp_all add: resetVoteState_def)

lemmas vote_defs = castVote_def bundlerAnswer_def nonceAnswer_def onVoteSuccess_def onVoteError_def onVoteTimeout_def Let_def

definition votesKnown :: "voteState \<Rightarrow> signalCall multiset" where
  "votesKnown s = mset (map snd (vs_sent s)) + mset (vs_nonce s)"

lemma voteStep_known: "votesKnown (voteStep e s) = votesKnown s + mset (acceptedVote e)"
  by (cases e) (auto simp: votesKnown_def vote_defs mset_dropNth split: sum.split)

interpretation voting: sends_once voteStep votesKnown acceptedVote
  by unfold_locales (rule voteStep_known)

lemma voteStep_error: "vs_smartError s = None \<Longrightarrow> vs_smartError (voteStep e s) = None"
  by (cases e) (auto simp: vote_defs split: sum.split)

lemma voteRun_error: "vs_smartError s = None \<Longrightarrow> vs_smartError (fold voteStep es s) = None"
  by (induction es arbitrary: s) (simp_all add: voteStep_error)

text \<open>
  C12. Every accepted vote is sent exactly once: along every interleaving of votes, answers of the bundler, nonces, receipts, errors and timeouts,
  the transactions sent and the votes that still wait for a nonce are together exactly the votes that
  passed the checks, with their proposal, choice and reason.
\<close>

theorem votes_sent_once:
  "(let s = fold voteStep es newVoteState
    in mset (map snd (vs_sent s)) + mset (vs_nonce s) = mset (concat (map acceptedVote es)))"
  using voting.run_known [of es newVoteState] by (simp add: votesKnown_def newVoteState_def Let_def)

text \<open>
  C13. A failure of the smart account is never shown: whatever happens, the error state of the smart account is empty whenever the
  effects look at it, because the handler that sets it resets it at once; so an error message appears only for an
  error the wallet reported.
\<close>

theorem smart_vote_error_unseen:
  assumes "VoteErrors True \<notin> set es"
  shows "(let s = fold voteStep es newVoteState in vs_smartError s = None \<and> (\<forall>m. ToastError m \<notin> set (vs_toasts s)))"
proof -
  have "\<forall>m. ToastError m \<notin> set (vs_toasts (fold voteStep es s))"
    if "VoteErrors True \<notin> set es" "vs_smartError s = None" "\<forall>m. ToastError m \<notin> set (vs_toasts s)" for s
    using that
  proof (induction es arbitrary: s)
    case (Cons e es)
    have "\<forall>m. ToastError m \<notin> set (vs_toasts (voteStep e s))"
      using Cons.prems by (cases e) (auto simp: vote_defs split: sum.split)
    then show ?case using Cons.IH Cons.prems voteStep_error by simp
  qed simp
  from this [OF assms] voteRun_error [of newVoteState es] show ?thesis by (simp add: newVoteState_def)
qed

definition exampleSignalEnv :: signalEnv where
  "exampleSignalEnv =
     \<lparr>sg_isConnected = True, sg_signal = ''0x5'', sg_smart = Some (Inl ''rejected''),
      sg_approval = \<lparr>ae_address = Some ''0xa'', ae_contracts = \<lparr>ta_GAME_TOKEN = ''0x6'', ta_USDC_TOKEN = ''0x7''\<rparr>, ae_client = True,
        ae_allowance = (\<lambda>_ _. Inr 10), ae_txCount = Inr 0, ae_approve = Inr ()\<rparr>\<rparr>"

theorem smart_vote_error_unseen_witness:
  "(let s = fold voteStep [Cast exampleSignalEnv ''ABCD1234-P-EFGH5678'' 1 None, BundlerAnswer 0 (Inl ''rejected''), VoteErrors False] newVoteState
    in length (vs_sent s) = 1 \<and> vs_bundler s = [] \<and> (\<forall>m. ToastError m \<notin> set (vs_toasts s)))"
proof -
  let ?es = "[Cast exampleSignalEnv ''ABCD1234-P-EFGH5678'' 1 None, BundlerAnswer 0 (Inl ''rejected''), VoteErrors False]"
  have "VoteErrors True \<notin> set ?es" by simp
  from smart_vote_error_unseen [OF this] show ?thesis
    by (simp add: vote_defs exampleSignalEnv_def signal_connected_def signal_missing_def ZERO_def nonempty_def newVoteState_def dropNth_def
        resetVoteState_def Let_def)
qed

section \<open>What the pages show\<close>

text \<open>
  The labels do not tell the types apart: whatever type and voting type the contract emits, the client shows the proposal as
  simple and its voting as simple; and a cancelled proposal is shown as pending, because the enum of the
  subgraph spells the state differently.
\<close>

theorem proposal_labels_blind:
  "getProposalTypeString (Some (mapProposalType t)) = ''Simple'' \<and> getVotingTypeString (Some (mapVotingType v)) = ''Simple''
   \<and> proposal_getStateString (Some ''CANCELED'') = ''Pending''"
  by (simp add: getProposalTypeString_def getVotingTypeString_def proposal_getStateString_def mapProposalType_def mapVotingType_def
      toUpperCase_def upcase_def)

text \<open>What the node answers for a stored proposal, as far as the list needs it.\<close>

definition reportsProposal :: "json \<Rightarrow> proposal \<Rightarrow> bool" where
  "reportsProposal j p \<longleftrightarrow>
     field j ''id'' = Some (JStr (pro_id p)) \<and> field j ''title'' = Some (JStr (pro_title p))
     \<and> field j ''description'' = Some (JStr (pro_description p)) \<and> field j ''state'' = Some (JStr (pro_state p))
     \<and> field j ''endTime'' = Some (JStr (show_int (pro_endTime p))) \<and> field j ''totalVotes'' = Some (JStr (show_int (pro_totalVotes p)))
     \<and> (\<exists>c u. field j ''organization'' = Some (JObj c) \<and> field j ''creator'' = Some (JObj u))"

lemma transformProposal_reported:
  assumes "reportsProposal j p" and "pro_state p \<noteq> []"
  shows "\<exists>q. transformProposal now j = Some q \<and> pp_id q = Some (JStr (pro_id p)) \<and> pp_state q = Some (JStr (pro_state p))
     \<and> pp_endTime q = Some (toDouble (pro_endTime p)) \<and> pp_totalVotes q = Some (toDouble (pro_totalVotes p))"
  using assms by (auto simp: reportsProposal_def transformProposal_def titleOr_def descriptionOr_def readProp_def or_else_def Let_def)

lemma those_map_Some:
  "(\<And>x. x \<in> set xs \<Longrightarrow> \<exists>y. f x = Some y \<and> P y) \<Longrightarrow> \<exists>ys. those (map f xs) = Some ys \<and> length ys = length xs \<and> (\<forall>y\<in>set ys. P y)"
proof (induction xs)
  case (Cons x xs)
  then obtain y where "f x = Some y" "P y" by auto
  moreover obtain ys where "those (map f xs) = Some ys" "length ys = length xs" "\<forall>y\<in>set ys. P y" using Cons by auto
  ultimately show ?case by auto
qed simp

definition shownPending :: "clientProposal \<Rightarrow> bool" where
  "shownPending p \<longleftrightarrow> pp_state p = Some (JStr ''PENDING'') \<and> pp_totalVotes p = Some 0
     \<and> (\<exists>i. pp_id p = Some (JStr i) \<and> \<not> isHierarchicalId i)"

lemma untouched_not_hierarchicalId: "untouched k p \<Longrightarrow> \<not> isHierarchicalId k"
proof
  assume "untouched k p" "isHierarchicalId k"
  then obtain h i where "length h = 32" "k = toHex h @ ''-'' @ show_int i" "length k = 19"
    by (auto simp: untouched_def isHierarchicalId_def)
  then show False by (simp add: length_toHex)
qed

lemma reported_shownPending:
  assumes "untouched k p" and "reportsProposal j p"
  shows "\<exists>q. transformProposal now j = Some q \<and> shownPending q"
  using transformProposal_reported [OF assms(2), of now] assms(1) untouched_not_hierarchicalId [OF assms(1)]
  by (auto simp: untouched_def shownPending_def)

lemma canUserVote_pending:
  assumes "\<forall>p\<in>set ps. shownPending p"
  shows "canUserVote now env ps cast i = Some False"
proof (cases "find (\<lambda>p. pp_id p = Some (JStr i)) ps")
  case (Some p)
  then have "p \<in> set ps" by (auto simp: find_Some_iff)
  then show ?thesis using assms Some by (auto simp: canUserVote_def proposal_isActive_def shownPending_def)
qed (simp add: canUserVote_def)

lemma proposalStatistics_pending:
  assumes "\<forall>p\<in>set ps. shownPending p"
  shows "ps_activeProposals (proposalStatistics ps cast) = 0" "ps_executionRate (proposalStatistics ps cast) = 0"
proof -
  have f: "filter (\<lambda>p. pp_state p = Some (JStr x)) ps = []" if "x \<noteq> ''PENDING''" for x
    using assms that by (auto simp: filter_empty_conv shownPending_def)
  show "ps_activeProposals (proposalStatistics ps cast) = 0" "ps_executionRate (proposalStatistics ps cast) = 0"
    by (simp_all add: proposalStatistics_def f Let_def)
qed

definition exampleProposalCreated :: signal_event where
  "exampleProposalCreated =
     ProposalCreated (example_event\<lparr>ev_transaction := \<lparr>t_hash = replicate 32 1, t_from = [1], t_to = None, t_gasPrice = 3\<rparr>, ev_logIndex := 1\<rparr>)
       ''ABCD1234-P-EFGH5678'' example_org_id [1] ''Raid'' 0 0 0 9"

definition exampleProposalJson :: json where
  "exampleProposalJson =
     JObj [(''id'', JStr (toHex (replicate 32 1) @ ''-'' @ show_int 1)), (''title'', JStr ''Raid''), (''description'', JStr []), (''state'', JStr ''PENDING''),
       (''endTime'', JStr (show_int 9)), (''totalVotes'', JStr (show_int 0)), (''organization'', JObj []), (''creator'', JObj [])]"

lemma example_proposal_reported:
  "\<exists>s. run (signal_step (int_host (\<lambda>_. None))) [exampleProposalCreated] (empty_store :: int store) = Inr s
     \<and> (\<forall>j\<in>set [exampleProposalJson]. \<exists>k p. proposals s k = Some p \<and> reportsProposal j p)"
proof -
  let ?ev = "example_event\<lparr>ev_transaction := \<lparr>t_hash = replicate 32 1, t_from = [1], t_to = None, t_gasPrice = 3\<rparr>, ev_logIndex := 1\<rparr>"
  let ?e = "ProposalCreated ?ev ''ABCD1234-P-EFGH5678'' example_org_id [1] ''Raid'' 0 0 0 9"
  let ?H = "int_host (\<lambda>_. None)"
  obtain s where s: "signal_step ?H ?e (empty_store :: int store) = Inr s" using signal_step_total [of ?e] by fastforce
  then have p: "proposals s (proposalKey ?ev) = Some (newProposal ?ev ''ABCD1234-P-EFGH5678'' (org_key example_org_id) [1] ''Raid'' 0 0 0 9)"
    by (auto simp: signal_handlers entity_defs newProposal_def split: if_splits option.splits)
  have "reportsProposal exampleProposalJson (newProposal ?ev ''ABCD1234-P-EFGH5678'' (org_key example_org_id) [1] ''Raid'' 0 0 0 9)"
    by (simp add: reportsProposal_def newProposal_def proposalKey_def exampleProposalJson_def)
  with s p show ?thesis by (auto simp: exampleProposalCreated_def)
qed

text \<open>
  C11. No indexed proposal can be voted on in the client: after any Signal events with the ids the contract emits, a node that reports what is stored gives a
  list without errors in which every proposal is pending and without votes; none counts as active or executed, \<open>canUserVote\<close> is false for
  every id, and the id that \<open>castVote\<close> would send is not one of the hierarchical ids the contract knows.
\<close>

theorem no_proposal_votable:
  assumes "run (signal_step H) es (empty_store :: 'd store) = Inr s" and "list_all signal_wf es"
    and reported: "\<And>j. j \<in> set js \<Longrightarrow> \<exists>k p. proposals s k = Some p \<and> reportsProposal j p"
  shows "\<exists>ps. clientProposals now (Some (JObj [(''proposals'', JArr js)])) = Some ps \<and> length ps = length js
     \<and> (\<forall>p\<in>set ps. pp_state p = Some (JStr ''PENDING'') \<and> pp_totalVotes p = Some 0 \<and> (\<exists>i. pp_id p = Some (JStr i) \<and> \<not> isHierarchicalId i))
     \<and> ps_activeProposals (proposalStatistics (filteredProposals org ps) cast) = 0
     \<and> ps_executionRate (proposalStatistics (filteredProposals org ps) cast) = 0
     \<and> (\<forall>i. canUserVote now env ps cast i = Some False)"
proof -
  have u: "proposals_untouched s" by (rule run_untouched [OF assms(1, 2)]) (simp add: proposals_untouched_def)
  have "\<exists>q. transformProposal now j = Some q \<and> shownPending q" if "j \<in> set js" for j
    using reported [OF that] u reported_shownPending unfolding proposals_untouched_def by blast
  then obtain ps where ps: "those (map (transformProposal now) js) = Some ps" "length ps = length js" "\<forall>p\<in>set ps. shownPending p"
    using those_map_Some [of js "transformProposal now" shownPending] by blast
  then have "\<forall>p\<in>set (filteredProposals org ps). shownPending p" by (simp add: filteredProposals_def)
  then show ?thesis using ps proposalStatistics_pending canUserVote_pending [OF ps(3)]
    by (auto simp: clientProposals_def shownPending_def)
qed

theorem no_proposal_votable_witness:
  "\<exists>ps. clientProposals 5 (Some (JObj [(''proposals'', JArr [exampleProposalJson])])) = Some ps
     \<and> length ps = 1 \<and> (\<forall>i. canUserVote 5 exampleSignalEnv ps [] i = Some False)"
proof -
  obtain s where s: "run (signal_step (int_host (\<lambda>_. None))) [exampleProposalCreated] (empty_store :: int store) = Inr s"
      "\<And>j. j \<in> set [exampleProposalJson] \<Longrightarrow> \<exists>k p. proposals s k = Some p \<and> reportsProposal j p"
    using example_proposal_reported by blast
  have wf: "list_all signal_wf [exampleProposalCreated]" by (simp add: exampleProposalCreated_def)
  from no_proposal_votable [where js = "[exampleProposalJson]", OF s(1) wf s(2), of 5 None "[]" exampleSignalEnv] show ?thesis by auto
qed

text \<open>
  The page of a proposal is empty: a node that answers only queries that fit its schema never answers the query of that page, so it shows an empty
  pending proposal under the id of the address bar, whatever is stored.
\<close>

theorem proposal_page_empty:
  assumes only_valid: "\<And>q. serve q \<noteq> None \<Longrightarrow> query_valid (map_of entityRoots) q"
  shows "useProposal (serve GET_PROPOSAL_BY_ID) i = Some (emptyProposal i) \<and> userVotes (serve GET_USER_VOTES) = []"
proof -
  have "serve GET_PROPOSAL_BY_ID = None" "serve GET_USER_VOTES = None"
    by (rule unanswered [OF only_valid], assumption, simp add: ghosts_of_queries)+
  then show ?thesis by (simp add: useProposal_def userVotes_def)
qed

theorem proposal_page_empty_witness:
  "(let serve = (\<lambda>q. if query_valid (map_of entityRoots) q then Some (JObj []) else None)
    in (\<forall>q. serve q \<noteq> None \<longrightarrow> query_valid (map_of entityRoots) q)
       \<and> useProposal (serve GET_PROPOSAL_BY_ID) ''ABCD1234-P-EFGH5678'' = Some (emptyProposal ''ABCD1234-P-EFGH5678''))"
proof -
  let ?serve = "\<lambda>q. if query_valid (map_of entityRoots) q then Some (JObj []) else None"
  have ok: "\<And>q. ?serve q \<noteq> None \<Longrightarrow> query_valid (map_of entityRoots) q" by (simp split: if_splits)
  show ?thesis using proposal_page_empty [where serve = ?serve, OF ok] ok unfolding Let_def by blast
qed

end
