(* ===== verification/Campaigns_Client.thy ===== *)
theory Campaigns_Client
  imports Client_Data Queries Flow
begin

text \<open>
  The campaign pages of the web client, \<open>packages/frontend/src/hooks/useCampaigns.ts\<close>.

  \<^item> Campaigns are read from JSON, with the conversions of \<open>Client_Data\<close>.
  \<^item> Creating a campaign and contributing to one first call \<open>handleApproval\<close> of \<open>Approval\<close>, then send one transaction, through the smart account if
    there is one. The result is the list of transactions sent or the error thrown; messages go to the effects of the approval state, which the
    hook shares.

  \<open>getProgress\<close> and \<open>formatAmount\<close> compute with fractions of doubles and are not modelled. The lemmas show that no campaign is ever shown as
  active, that a contribution is covered by the allowance it checked, and which states of the subgraph the labels can tell.
\<close>

section \<open>Campaigns\<close>

record clientCampaign =
  ca_id :: "json option"
  ca_organization :: "json option"
  ca_creator :: "json option"
  ca_title :: "json option"
  ca_description :: "json option"
  ca_paymentToken :: "json option"
  ca_target :: "json option"
  ca_raised :: "json option"
  ca_contributorCount :: int
  ca_state :: "json option"
  ca_flowType :: "json option"
  ca_expiry :: "int option"
  ca_createdAt :: "int option"
  ca_updatedAt :: "int option"

definition transformCampaign :: "json \<Rightarrow> clientCampaign" where
  "transformCampaign campaign =
     \<lparr>ca_id = field campaign ''id'', ca_organization = field campaign ''organization'', ca_creator = field campaign ''creator'',
      ca_title = field campaign ''title'', ca_description = field campaign ''description'',
      ca_paymentToken = field campaign ''paymentToken'', ca_target = field campaign ''target'', ca_raised = field campaign ''raised'',
      ca_contributorCount = parseIntOr (field campaign ''contributorCount'') 0, ca_state = field campaign ''state'',
      ca_flowType = field campaign ''flowType'', ca_expiry = parseIntNum (field campaign ''expiry''),
      ca_createdAt = parseIntNum (field campaign ''createdAt''), ca_updatedAt = parseIntNum (field campaign ''updatedAt'')\<rparr>"

definition clientCampaigns :: "json option \<Rightarrow> clientCampaign list" where
  "clientCampaigns data = mapArray data ''campaigns'' transformCampaign []"

text \<open>The campaigns of the user come from another query and are transformed in the same way.\<close>

definition userCampaigns :: "json option \<Rightarrow> clientCampaign list" where
  "userCampaigns userCampaignsData = mapArray userCampaignsData ''campaigns'' transformCampaign []"

definition campaign_getFlowTypeString :: "string option \<Rightarrow> string" where
  "campaign_getFlowTypeString flowType =
     (let t = map_option toUpperCase flowType
      in if t = Some ''GRANT'' then ''Grant'' else if t = Some ''RAISE'' then ''Raise'' else if t = Some ''LEND'' then ''Lend''
         else if t = Some ''LOAN'' then ''Loan'' else if t = Some ''SHARE'' then ''Share'' else if t = Some ''POOL'' then ''Pool''
         else ''Grant'')"

definition campaign_getStateString :: "string option \<Rightarrow> string" where
  "campaign_getStateString state =
     (let t = map_option toUpperCase state
      in if t = Some ''CREATED'' then ''Created'' else if t = Some ''ACTIVE'' then ''Active'' else if t = Some ''PAUSED'' then ''Paused''
         else if t = Some ''SUCCEEDED'' then ''Succeeded'' else if t = Some ''FAILED'' then ''Failed''
         else if t = Some ''LOCKED'' then ''Locked'' else if t = Some ''FINALIZED'' then ''Finalized'' else ''Created'')"

definition campaign_isActive :: "int \<Rightarrow> clientCampaign \<Rightarrow> bool" where
  "campaign_isActive now campaign \<longleftrightarrow>
     ca_state campaign = Some (JStr ''ACTIVE'') \<and> (case ca_expiry campaign of None \<Rightarrow> False | Some t \<Rightarrow> now < t)"

definition timeRemaining :: "int \<Rightarrow> clientCampaign \<Rightarrow> string" where
  "timeRemaining now campaign = remainingText now (ca_expiry campaign)"

section \<open>Transactions\<close>

record createCampaignParams =
  cc_organizationId :: string
  cc_title :: string
  cc_description :: string
  cc_metadataURI :: "string option"
  cc_flowType :: int
  cc_paymentToken :: string
  cc_target :: string
  cc_min :: string
  cc_max :: string
  cc_duration :: int
  cc_autoFinalize :: bool
  cc_gameDeposit :: "string option"

datatype flowCall =
    CreateCampaign string string string string int string int int int int bool
  | Contribute string int string

record flowEnv =
  fe_isConnected :: bool
  fe_flow :: string
  fe_smart :: "(string + string) option"
  fe_approval :: approvalEnv

type_synonym flowResult = "(string + (sender \<times> flowCall) list) \<times> tokenApprovalParams approvalState"

definition flow_ready :: "flowEnv \<Rightarrow> bool" where
  "flow_ready env \<longleftrightarrow> fe_isConnected env \<and> fe_flow env \<noteq> []"

text \<open>After the loading message: the smart account if it is there, else the wallet, which never throws. An error is shown and thrown again.\<close>

definition sendFlow :: "flowEnv \<Rightarrow> string \<Rightarrow> string \<Rightarrow> flowCall \<Rightarrow> tokenApprovalParams approvalState \<Rightarrow> flowResult" where
  "sendFlow env loading failed call s =
     (let s = emit [ToastLoading loading] s
      in case fe_smart env of
           Some (Inl e) \<Rightarrow> (Inl e, emit [ToastError failed] s)
         | Some (Inr _) \<Rightarrow> (Inr [(SmartAccount, call)], s)
         | None \<Rightarrow> (Inr [(Wallet None, call)], s))"

definition notReady :: string where
  "notReady = ''Wallet not connected or contracts not loaded''"

definition campaignArgs :: "createCampaignParams \<Rightarrow> flowCall" where
  "campaignArgs p =
     CreateCampaign (toContractId (cc_organizationId p)) (cc_title p) (cc_description p) (or_empty (cc_metadataURI p)) (cc_flowType p)
       (cc_paymentToken p) (safeBigInt (AStr (cc_target p)) ''0'') (safeBigInt (AStr (cc_min p)) ''0'') (safeBigInt (AStr (cc_max p)) ''0'')
       (cc_duration p) (cc_autoFinalize p)"

definition handleCreateCampaign :: "flowEnv \<Rightarrow> createCampaignParams \<Rightarrow> tokenApprovalParams approvalState \<Rightarrow> flowResult" where
  "handleCreateCampaign env p s =
     (let failed = ''Failed to create campaign''; send = sendFlow env ''Creating campaign...'' failed (campaignArgs p)
      in if \<not> flow_ready env then (Inl notReady, s)
         else if nonempty (cc_gameDeposit p) \<and> parseFloatPositive (the (cc_gameDeposit p)) then
           (case handleApproval (fe_approval env)
                   \<lparr>tp_token = GameT, tp_spender = fe_flow env, tp_amount = AStr (the (cc_gameDeposit p)),
                    tp_purpose = Some ''campaign creation''\<rparr> s of
              (Inl e, s) \<Rightarrow> (Inl e, emit [ToastError failed] s)
            | (Inr False, s) \<Rightarrow> (Inr [], s)
            | (Inr True, s) \<Rightarrow> send s)
         else send s)"

definition handleContribute ::
  "flowEnv \<Rightarrow> string \<Rightarrow> string \<Rightarrow> approvalToken \<Rightarrow> tokenApprovalParams approvalState \<Rightarrow> flowResult" where
  "handleContribute env campaignId amount token s =
     (if \<not> flow_ready env then (Inl notReady, s)
      else
        case handleApproval (fe_approval env)
               \<lparr>tp_token = token, tp_spender = fe_flow env, tp_amount = AStr amount, tp_purpose = Some ''campaign contribution''\<rparr> s of
          (Inl e, s) \<Rightarrow> (Inl e, emit [ToastError ''Failed to contribute''] s)
        | (Inr False, s) \<Rightarrow> (Inr [], s)
        | (Inr True, s) \<Rightarrow>
            sendFlow env ''Contributing to campaign...'' ''Failed to contribute'' (Contribute campaignId (safeBigInt (AStr amount) ''0'') []) s)"

text \<open>The effects after a receipt: messages, and which of the two queries are sent again.\<close>

definition onCampaignSuccess :: "bool \<Rightarrow> string option \<Rightarrow> string \<Rightarrow> tokenApprovalParams approvalState \<Rightarrow> nat \<times> tokenApprovalParams approvalState" where
  "onCampaignSuccess success address message s =
     (if success then (if nonempty address then 2 else 1, emit [ToastDismiss, ToastSuccess message] s) else (0, s))"

section \<open>No campaign is shown as active\<close>

text \<open>The names a query selects of each entity, when it asks for one list.\<close>

fun selectedNames :: "query \<Rightarrow> string list" where
  "selectedNames [Sel _ _ _ subs] = map (\<lambda>s. case s of Sel f _ _ _ \<Rightarrow> f) subs"
| "selectedNames _ = []"

text \<open>
  C15. No campaign is ever shown as active: the hook reads the field \<open>expiry\<close>, which neither the schema has nor the query selects. With a node that answers
  with selected fields only, every campaign of the list has no expiry, none is active, whatever its state, and the time
  left is shown as \<open>NaNh\<close>; the campaigns of the user are none at all.
\<close>

theorem no_campaign_active:
  assumes only_valid: "\<And>q. serve q \<noteq> None \<Longrightarrow> query_valid (map_of entityRoots) q"
    and only_selected: "\<And>js j k. serve GET_CAMPAIGNS = Some (JObj [(''campaigns'', JArr js)]) \<Longrightarrow> j \<in> set js \<Longrightarrow> field j k \<noteq> None
       \<Longrightarrow> k \<in> set (selectedNames GET_CAMPAIGNS)"
    and shape: "serve GET_CAMPAIGNS \<noteq> None \<Longrightarrow> \<exists>js. serve GET_CAMPAIGNS = Some (JObj [(''campaigns'', JArr js)])"
  shows "list_all (\<lambda>c. ca_expiry c = None \<and> \<not> campaign_isActive now c \<and> timeRemaining now c = ''NaNh'') (clientCampaigns (serve GET_CAMPAIGNS))
     \<and> userCampaigns (serve GET_USER_CAMPAIGNS) = []"
proof -
  have "serve GET_USER_CAMPAIGNS = None" by (rule unanswered [OF only_valid], assumption, simp add: ghosts_of_queries)
  then have u: "userCampaigns (serve GET_USER_CAMPAIGNS) = []" by (simp add: userCampaigns_def)
  have n: "ca_expiry (transformCampaign j) = None" if "serve GET_CAMPAIGNS = Some (JObj [(''campaigns'', JArr js)])" "j \<in> set js" for j js
  proof -
    have "''expiry'' \<notin> set (selectedNames GET_CAMPAIGNS)" by (simp add: GET_CAMPAIGNS_def)
    then have "field j ''expiry'' = None" using only_selected [OF that, of "''expiry''"] by blast
    then show ?thesis by (simp add: transformCampaign_def)
  qed
  have "list_all (\<lambda>c. ca_expiry c = None) (clientCampaigns (serve GET_CAMPAIGNS))"
  proof (cases "serve GET_CAMPAIGNS")
    case None
    then show ?thesis by (simp add: clientCampaigns_def)
  next
    case (Some d)
    then obtain js where "serve GET_CAMPAIGNS = Some (JObj [(''campaigns'', JArr js)])" using shape by auto
    then show ?thesis using n by (auto simp: clientCampaigns_def list_all_iff)
  qed
  then show ?thesis using u by (auto simp: list_all_iff campaign_isActive_def timeRemaining_def remainingText_def)
qed

definition exampleServe :: "query \<Rightarrow> json option" where
  "exampleServe q =
     (if q = GET_CAMPAIGNS then Some (JObj [(''campaigns'', JArr [JObj [(''id'', JStr ''0x1''), (''state'', JStr ''ACTIVE'')]])]) else None)"

theorem no_campaign_active_witness:
  "length (clientCampaigns (exampleServe GET_CAMPAIGNS)) = 1
   \<and> list_all (\<lambda>c. \<not> campaign_isActive 5 c) (clientCampaigns (exampleServe GET_CAMPAIGNS))"
proof -
  have "query_valid (map_of entityRoots) GET_CAMPAIGNS" using ghosts_of_queries query_ghosts_Nil by blast
  then have v: "query_valid (map_of entityRoots) q" if "exampleServe q \<noteq> None" for q using that by (simp add: exampleServe_def split: if_splits)
  have sel: "{''id'', ''state''} \<subseteq> set (selectedNames GET_CAMPAIGNS)" by (simp add: GET_CAMPAIGNS_def)
  have sl: "k \<in> set (selectedNames GET_CAMPAIGNS)"
    if "exampleServe GET_CAMPAIGNS = Some (JObj [(''campaigns'', JArr js)])" "j \<in> set js" "field j k \<noteq> None" for js j k
    using sel that by (auto simp: exampleServe_def split: if_splits)
  have sh: "\<exists>js. exampleServe GET_CAMPAIGNS = Some (JObj [(''campaigns'', JArr js)])" by (simp add: exampleServe_def)
  have "list_all (\<lambda>c. ca_expiry c = None \<and> \<not> campaign_isActive 5 c \<and> timeRemaining 5 c = ''NaNh'') (clientCampaigns (exampleServe GET_CAMPAIGNS))"
    using no_campaign_active [of exampleServe 5] v sl sh by blast
  then show ?thesis by (simp add: clientCampaigns_def list_all_iff exampleServe_def)
qed

section \<open>Contributions are covered\<close>

lemma handleApproval_True: "handleApproval env p s = (Inr True, s') \<Longrightarrow> s' = s \<and> \<not> checkApprovalNeeded env (tp_token p) (tp_spender p) (tp_amount p)"
  by (auto simp: handleApproval_def split: if_splits prod.splits sum.splits)

lemma requestApproval_pending: "fst (requestApproval env p s) = Inr u \<Longrightarrow> as_pending (snd (requestApproval env p s)) = Some p"
  by (simp add: requestApproval_def Let_def split: if_splits sum.splits)

lemma handleApproval_False:
  "handleApproval env p s = (Inr False, s') \<Longrightarrow>
     as_pending s' = Some p \<and> checkApprovalNeeded env (tp_token p) (tp_spender p) (tp_amount p)"
  using requestApproval_pending [of env p s]
  by (cases "requestApproval env p s"; cases "fst (requestApproval env p s)") (simp_all add: handleApproval_def split: if_splits)

lemma sendFlow_sent:
  "sendFlow env l f call s = (Inr calls, s') \<Longrightarrow>
     calls = [(if fe_smart env = None then Wallet None else SmartAccount, call)] \<and> as_pending s' = as_pending s"
  by (auto simp: sendFlow_def Let_def emit_def split: option.splits sum.splits)

lemma not_checked_or_covered:
  assumes "\<not> checkApprovalNeeded env token spender amount" and "spender \<noteq> []"
  shows "safeBigInt amount ''0'' = 0 \<or> \<not> nonempty (ae_address env) \<or> getTokenAddress env token = []
     \<or> ae_client env \<and> (\<exists>allowance. ae_allowance env (getTokenAddress env token) spender = Inr allowance
          \<and> safeBigInt amount ''0'' \<le> allowance)"
  using assms by (auto simp: checkApprovalNeeded_def Let_def split: if_splits sum.splits)

text \<open>
  C14. What a contribution sends, whenever \<open>handleContribute\<close> returns without an error. Either no transaction is sent, because the allowance has to
  be raised first, and then the pending approval is the one this call asked for; or exactly one transaction is sent, through the smart account if there
  is one, it contributes the amount the approval hook computes from the input, and the pending approval is left alone. In the second case the
  amount is zero, or within the allowance read from the reachable chain, or nothing was checked: without a connected account or without an address
  of the token the contribution goes out unchecked.
\<close>

theorem contribution_covered:
  assumes "handleContribute env campaignId amount token s = (Inr calls, s')"
  shows "calls = [] \<and> checkApprovalNeeded (fe_approval env) token (fe_flow env) (AStr amount)
       \<and> as_pending s' = Some \<lparr>tp_token = token, tp_spender = fe_flow env, tp_amount = AStr amount, tp_purpose = Some ''campaign contribution''\<rparr>
     \<or> (\<exists>n. calls = [(if fe_smart env = None then Wallet None else SmartAccount, Contribute campaignId n [])] \<and> n = safeBigInt (AStr amount) ''0''
          \<and> as_pending s' = as_pending s
          \<and> (n = 0 \<or> \<not> nonempty (ae_address (fe_approval env)) \<or> getTokenAddress (fe_approval env) token = []
             \<or> ae_client (fe_approval env)
               \<and> (\<exists>allowance. ae_allowance (fe_approval env) (getTokenAddress (fe_approval env) token) (fe_flow env) = Inr allowance
                    \<and> n \<le> allowance)))"
proof -
  let ?p = "\<lparr>tp_token = token, tp_spender = fe_flow env, tp_amount = AStr amount, tp_purpose = Some ''campaign contribution''\<rparr>"
  have ready: "flow_ready env" using assms(1) by (auto simp: handleContribute_def split: if_splits)
  obtain r t where rt: "handleApproval (fe_approval env) ?p s = (r, t)" by fastforce
  show ?thesis
  proof (cases "r = Inr True")
    case True
    then have send: "sendFlow env ''Contributing to campaign...'' ''Failed to contribute'' (Contribute campaignId (safeBigInt (AStr amount) ''0'') []) t
        = (Inr calls, s')" using assms(1) ready rt by (simp add: handleContribute_def)
    have "t = s" and free: "\<not> checkApprovalNeeded (fe_approval env) token (fe_flow env) (AStr amount)"
      using handleApproval_True rt True by fastforce+
    have "fe_flow env \<noteq> []" using ready by (simp add: flow_ready_def)
    from not_checked_or_covered [OF free this] show ?thesis using sendFlow_sent [OF send] \<open>t = s\<close> by simp
  next
    case False
    then obtain "r = Inr False" "calls = []" "s' = t" using assms(1) ready rt
      by (cases r) (auto simp: handleContribute_def)
    then show ?thesis using handleApproval_False rt by fastforce
  qed
qed

definition exampleFlowEnv :: flowEnv where
  "exampleFlowEnv =
     \<lparr>fe_isConnected = True, fe_flow = ''0x8'', fe_smart = None,
      fe_approval = \<lparr>ae_address = Some ''0xa'', ae_contracts = \<lparr>ta_GAME_TOKEN = ''0x6'', ta_USDC_TOKEN = ''0x7''\<rparr>, ae_client = True,
        ae_allowance = (\<lambda>_ _. Inr 10), ae_txCount = Inr 0, ae_approve = Inr ()\<rparr>\<rparr>"

theorem contribution_covered_witness:
  "fst (handleContribute exampleFlowEnv ''0x1'' ''5'' UsdcT \<lparr>as_pending = None, as_effects = []\<rparr>) = Inr [(Wallet None, Contribute ''0x1'' 5 [])]
   \<and> (5 :: int) = safeBigInt (AStr ''5'') ''0''"
proof -
  let ?s = "\<lparr>as_pending = None, as_effects = []\<rparr> :: tokenApprovalParams approvalState"
  have five: "safeBigInt (AStr ''5'') ''0'' = 5"
    using safeBigInt_digits [of "''5''"] by (simp add: digit_char_def bigIntOf_def read_nat_def)
  have "\<not> checkApprovalNeeded (fe_approval exampleFlowEnv) UsdcT (fe_flow exampleFlowEnv) (AStr ''5'')"
    by (simp add: checkApprovalNeeded_iff five exampleFlowEnv_def getTokenAddress_def)
  then have h: "handleContribute exampleFlowEnv ''0x1'' ''5'' UsdcT ?s
      = (Inr [(Wallet None, Contribute ''0x1'' 5 [])], emit [ToastLoading ''Contributing to campaign...''] ?s)"
    by (simp add: handleContribute_def handleApproval_def sendFlow_def five flow_ready_def exampleFlowEnv_def)
  then show ?thesis using contribution_covered [OF h] five by (simp add: exampleFlowEnv_def nonempty_def getTokenAddress_def)
qed

section \<open>Labels\<close>

text \<open>
  The labels of campaigns: every flow type of the subgraph has its own label, and so has every state but one: a cancelled campaign is
  shown like one that was just created.
\<close>

theorem campaign_labels:
  "map (\<lambda>t. campaign_getFlowTypeString (Some (getFlowTypeString t))) [0, 1, 2, 3, 4, 5] = [''Grant'', ''Raise'', ''Lend'', ''Loan'', ''Share'', ''Pool'']
   \<and> map (\<lambda>t. campaign_getStateString (Some (getFlowStateString t))) [0, 1, 2, 3, 4] = [''Created'', ''Active'', ''Paused'', ''Finalized'', ''Created'']"
  by code_simp

end
