(* ===== verification/Organizations_Client.thy ===== *)
theory Organizations_Client
  imports Client_Data Queries Creation Control
begin

text \<open>
  The organization pages of the web client, \<open>packages/frontend/src/hooks/useOrganizations.ts\<close>.

  \<^item> Organizations are read from JSON. The membership fee is \<open>parseFloat(formatUnits(BigInt(fee), 18))\<close>, of which \<open>formatUnits\<close> belongs to the client library; the
    argument \<open>feeOf\<close> gives the text of that number.
  \<^item> \<open>createOrganization\<close> is cut at its \<open>await\<close>s, like \<open>castVote\<close>; \<open>organizationCall\<close> of \<open>Creation\<close> is its argument, so that \<open>createOrganizationWithApproval\<close> and this
    hook fit together. \<open>decodeEventLog\<close> and \<open>parseUnits\<close> of the client library are arguments.

  The lemmas show which states and access models survive the subgraph, that the id read from a receipt is the one the subgraph uses and
  the fallback is none, that every accepted creation is sent once, and that a failure of the smart account leaves the hook busy.
\<close>

section \<open>Organizations\<close>

record clientOrganization =
  co_id :: "json option"
  co_name :: "json option"
  co_creator :: "json option"
  co_metadataURI :: "json option"
  co_treasury :: "json option"
  co_accessModel :: int
  co_feeModel :: int
  co_memberLimit :: int
  co_memberCount :: int
  co_totalCampaigns :: int
  co_totalProposals :: int
  co_membershipFee :: string
  co_state :: int
  co_createdAt :: int

definition getAccessModelFromString :: "string option \<Rightarrow> int" where
  "getAccessModelFromString accessModel =
     (if \<not> nonempty accessModel then 0
      else
        (let m = toLowerCase (the accessModel)
         in if m = ''open'' then 0 else if m = ''voting'' then 1 else if m = ''invite'' then 2 else 0))"

definition getStateFromString :: "string option \<Rightarrow> int" where
  "getStateFromString state =
     (if \<not> nonempty state then 1
      else
        (let m = toLowerCase (the state)
         in if m = ''inactive'' then 0 else if m = ''active'' then 1 else if m = ''locked'' then 2 else 1))"

definition org_getStateString :: "int \<Rightarrow> string" where
  "org_getStateString state =
     (if state = 0 then ''Inactive'' else if state = 1 then ''Active'' else if state = 2 then ''Suspended'' else ''Unknown'')"

definition getAccessModelString :: "int \<Rightarrow> string" where
  "getAccessModelString accessModel =
     (if accessModel = 0 then ''Open'' else if accessModel = 1 then ''Voting Required'' else if accessModel = 2 then ''Invite Only''
      else ''Unknown'')"

text \<open>The value of a field that is a text, as the enums are.\<close>

definition textOf :: "json option \<Rightarrow> string option" where
  "textOf v = (case v of Some (JStr s) \<Rightarrow> Some s | _ \<Rightarrow> None)"

definition orgName :: "json \<Rightarrow> json option" where
  "orgName org = or_else (field org ''name'') (Some (JStr (''Organization '' @ templateText (field org ''id''))))"

definition orgTreasury :: "json \<Rightarrow> json option" where
  "orgTreasury org = or_else (Option.bind (field org ''treasury'') (\<lambda>t. field t ''address'')) (Some (JStr ZERO))"

definition transformOrganization :: "(json option \<Rightarrow> string) \<Rightarrow> int \<Rightarrow> json \<Rightarrow> clientOrganization" where
  "transformOrganization feeOf now org =
     \<lparr>co_id = field org ''id'', co_name = orgName org, co_creator = field org ''creator'', co_metadataURI = field org ''metadataURI'',
      co_treasury = orgTreasury org, co_accessModel = getAccessModelFromString (textOf (field org ''accessModel'')), co_feeModel = 0,
      co_memberLimit = parseIntOr (field org ''memberLimit'') 100, co_memberCount = parseIntOr (field org ''memberCount'') 0,
      co_totalCampaigns = parseIntOr (field org ''totalCampaigns'') 0, co_totalProposals = parseIntOr (field org ''totalProposals'') 0,
      co_membershipFee = (if jsonTruthy (field org ''membershipFee'') then feeOf (field org ''membershipFee'') else ''0''),
      co_state = getStateFromString (textOf (field org ''state'')), co_createdAt = parseIntOr (field org ''createdAt'') now\<rparr>"

definition clientOrganizations :: "(json option \<Rightarrow> string) \<Rightarrow> int \<Rightarrow> json option \<Rightarrow> clientOrganization list" where
  "clientOrganizations feeOf now orgsData = mapArray orgsData ''organizations'' (transformOrganization feeOf now) []"

text \<open>The organizations of the user, through its active memberships; a membership without its organization throws.\<close>

definition transformMembership :: "int \<Rightarrow> json \<Rightarrow> clientOrganization option" where
  "transformMembership now member =
     (case field member ''organization'' of
        None \<Rightarrow> None
      | Some JNull \<Rightarrow> None
      | Some org \<Rightarrow>
          Some
            ((transformOrganization (\<lambda>_. ''0'') now org)
              \<lparr>co_metadataURI := or_else (field org ''metadataURI'') (Some (JStr [])), co_membershipFee := ''0''\<rparr>))"

definition userOrganizations :: "int \<Rightarrow> json option \<Rightarrow> clientOrganization list option" where
  "userOrganizations now userOrgsData =
     (case answerArray userOrgsData ''members'' of
        None \<Rightarrow> Some []
      | Some members_ \<Rightarrow> those (map (transformMembership now) (filter (\<lambda>m. field m ''state'' = Some (JStr ''ACTIVE'')) members_)))"

record organizationStats =
  ot_totalOrganizations :: nat
  ot_totalMembers :: int
  ot_totalTreasuries :: nat
  ot_activeOrganizations :: nat
  ot_totalValue :: int

definition organizationStatistics :: "clientOrganization list \<Rightarrow> organizationStats" where
  "organizationStatistics orgs =
     \<lparr>ot_totalOrganizations = length orgs, ot_totalMembers = sumNumbers co_memberCount orgs, ot_totalTreasuries = length orgs,
      ot_activeOrganizations = length (filter (\<lambda>x. co_state x = 1) orgs), ot_totalValue = 0\<rparr>"

definition useOrganization :: "clientOrganization list \<Rightarrow> string option \<Rightarrow> clientOrganization option" where
  "useOrganization orgs organizationId =
     (if \<not> nonempty organizationId \<or> orgs = [] then None
      else find (\<lambda>x. co_id x = Some (JStr (the organizationId))) orgs)"

section \<open>The id of a new organization\<close>

definition fallbackId :: "string \<Rightarrow> string" where
  "fallbackId transactionHash = ''ORG_'' @ toUpperCase (take 8 (drop 2 transactionHash))"

text \<open>The effect after the receipt; the outer \<open>None\<close> is that of the two readers.\<close>

definition createdOrgId ::
  "(tx_log \<Rightarrow> (string option \<times> string option) option) \<Rightarrow> string \<Rightarrow> tx_log list \<Rightarrow> string \<Rightarrow> string option" where
  "createdOrgId decodeEventLog factory logs transactionHash =
     (if factory = [] then Some (fallbackId transactionHash)
      else
        case extractOrganizationIdFromLogs logs factory of
          None \<Rightarrow> None
        | Some orgId \<Rightarrow>
            (if nonempty orgId then orgId
             else
               case extractOrganizationIdFromLogsViem decodeEventLog logs of
                 None \<Rightarrow> None
               | Some orgId \<Rightarrow> if nonempty orgId then orgId else Some (fallbackId transactionHash)))"

section \<open>Creating an organization\<close>

datatype controlCall = CreateOrganization string string int int int int int int

record orgEnv =
  oe_isConnected :: bool
  oe_control :: string
  oe_smart :: bool

record orgSendState =
  os_smartHash :: "string option"
  os_submitting :: bool
  os_smartError :: "string option"
  os_bundler :: "controlCall list"
  os_nonce :: "controlCall list"
  os_sent :: "(sender \<times> controlCall) list"
  os_toasts :: "hookEffect list"

definition newOrgSendState :: orgSendState where
  "newOrgSendState =
     \<lparr>os_smartHash = None, os_submitting = False, os_smartError = None, os_bundler = [], os_nonce = [], os_sent = [], os_toasts = []\<rparr>"

definition resetCreateState :: "orgSendState \<Rightarrow> orgSendState" where
  "resetCreateState s = s\<lparr>os_smartHash := None, os_smartError := None, os_submitting := False\<rparr>"

definition orgArgs :: "(string \<Rightarrow> nat \<Rightarrow> string + int) \<Rightarrow> organizationCall \<Rightarrow> string + controlCall" where
  "orgArgs parseUnits p =
     (case game_safeBigInt parseUnits (AStr (oc_membershipFee p)) ''0'' of
        Inl e \<Rightarrow> Inl e
      | Inr fee \<Rightarrow>
          (case game_safeBigInt parseUnits (AStr (oc_gameStakeRequired p)) ''0'' of
             Inl e \<Rightarrow> Inl e
           | Inr st \<Rightarrow>
               Inr (CreateOrganization (oc_name p) (oc_metadataURI p) (oc_orgType p) (oc_accessModel p) (oc_feeModel p) (oc_memberLimit p)
                      fee st)))"

text \<open>Up to the first \<open>await\<close>; the arguments are computed before the state is reset.\<close>

definition createOrganization ::
  "(string \<Rightarrow> nat \<Rightarrow> string + int) \<Rightarrow> orgEnv \<Rightarrow> organizationCall \<Rightarrow> orgSendState \<Rightarrow> (string + unit) \<times> orgSendState" where
  "createOrganization parseUnits env p s =
     (if \<not> oe_isConnected env \<or> oe_control env = [] then (Inl ''Wallet not connected or contracts not loaded'', s)
      else
        case orgArgs parseUnits p of
          Inl e \<Rightarrow> (Inl e, s)
        | Inr call \<Rightarrow>
            (let s = resetCreateState s
             in if oe_smart env then
                  (Inr (), s\<lparr>os_submitting := True, os_toasts := os_toasts s @ [ToastLoading ''Creating organization...''],
                    os_bundler := os_bundler s @ [call], os_sent := os_sent s @ [(SmartAccount, call)]\<rparr>)
                else (Inr (), s\<lparr>os_nonce := os_nonce s @ [call]\<rparr>)))"

definition org_bundlerAnswer :: "nat \<Rightarrow> string + string \<Rightarrow> orgSendState \<Rightarrow> orgSendState" where
  "org_bundlerAnswer i r s =
     (if i < length (os_bundler s) then
        (let s = s\<lparr>os_bundler := dropNth i (os_bundler s)\<rparr>
         in case r of
              Inr hash \<Rightarrow> s\<lparr>os_smartHash := Some hash, os_submitting := False\<rparr>
            | Inl e \<Rightarrow> s\<lparr>os_smartError := Some e, os_toasts := os_toasts s @ [ToastError ''Failed to create organization'']\<rparr>)
      else s)"

definition org_nonceAnswer :: "nat \<Rightarrow> string + int \<Rightarrow> orgSendState \<Rightarrow> orgSendState" where
  "org_nonceAnswer i r s =
     (if i < length (os_nonce s) then
        s\<lparr>os_nonce := dropNth i (os_nonce s), os_sent := os_sent s @ [(Wallet (nonceOr r), os_nonce s ! i)],
          os_toasts := os_toasts s @ [ToastLoading ''Creating organization...'']\<rparr>
      else s)"

text \<open>The effect of a receipt resets a second later.\<close>

definition onOrgSuccess :: "orgSendState \<Rightarrow> orgSendState" where
  "onOrgSuccess s = s\<lparr>os_toasts := os_toasts s @ [ToastDismiss, ToastSuccess ''Organization created successfully!'']\<rparr>"

datatype orgEvent =
    StartCreate "string \<Rightarrow> nat \<Rightarrow> string + int" orgEnv organizationCall
  | OrgBundler nat "string + string"
  | OrgNonce nat "string + int"
  | OrgSuccess
  | OrgResetTimer

fun orgStep :: "orgEvent \<Rightarrow> orgSendState \<Rightarrow> orgSendState" where
  "orgStep (StartCreate pu env p) s = snd (createOrganization pu env p s)"
| "orgStep (OrgBundler i r) s = org_bundlerAnswer i r s"
| "orgStep (OrgNonce i r) s = org_nonceAnswer i r s"
| "orgStep OrgSuccess s = onOrgSuccess s"
| "orgStep OrgResetTimer s = resetCreateState s"

definition org_isCreating :: "bool \<Rightarrow> bool \<Rightarrow> orgSendState \<Rightarrow> bool" where
  "org_isCreating walletPending confirming s \<longleftrightarrow> walletPending \<or> os_submitting s \<or> confirming"

definition joinOrganization :: "string \<Rightarrow> string + unit" where
  "joinOrganization organizationId = Inl ''Organization joining needs to be implemented through the Membership contract''"

section \<open>Every accepted creation is sent once\<close>

fun acceptedCreation :: "orgEvent \<Rightarrow> controlCall list" where
  "acceptedCreation (StartCreate pu env p) =
     (if oe_isConnected env \<and> oe_control env \<noteq> [] then (case orgArgs pu p of Inl _ \<Rightarrow> [] | Inr call \<Rightarrow> [call]) else [])"
| "acceptedCreation _ = []"

definition creationsKnown :: "orgSendState \<Rightarrow> controlCall multiset" where
  "creationsKnown s = mset (map snd (os_sent s)) + mset (os_nonce s)"

lemmas org_defs = createOrganization_def org_bundlerAnswer_def org_nonceAnswer_def onOrgSuccess_def resetCreateState_def Let_def

interpretation org_creation: sends_once orgStep creationsKnown acceptedCreation
proof
  show "creationsKnown (orgStep e s) = creationsKnown s + mset (acceptedCreation e)" for e s
    by (cases e) (auto simp: creationsKnown_def org_defs mset_dropNth split: sum.split)
qed

text \<open>
  Every accepted creation is sent exactly once: along every interleaving of creations, answers of the bundler, nonces, receipts and resets, the
  transactions sent and the creations that still wait for a nonce are together exactly the creations that passed the
  checks, with the fee and the stake converted by \<open>parseTokenAmount\<close>.
\<close>

theorem creations_sent_once:
  "(let s = fold orgStep es newOrgSendState
    in mset (map snd (os_sent s)) + mset (os_nonce s) = mset (concat (map acceptedCreation es)))"
  using org_creation.run_known [of es newOrgSendState] by (simp add: creationsKnown_def newOrgSendState_def Let_def)

text \<open>The events that can end the submission through the smart account: a hash from the bundler, the timer, and a start that goes to the wallet.\<close>

fun may_end_submission :: "orgEvent \<Rightarrow> bool" where
  "may_end_submission (StartCreate _ env _) \<longleftrightarrow> \<not> oe_smart env"
| "may_end_submission (OrgBundler _ r) \<longleftrightarrow> (case r of Inl _ \<Rightarrow> False | Inr _ \<Rightarrow> True)"
| "may_end_submission (OrgNonce _ _) \<longleftrightarrow> False"
| "may_end_submission OrgSuccess \<longleftrightarrow> False"
| "may_end_submission OrgResetTimer \<longleftrightarrow> True"

lemma submitting_step: "os_submitting s \<Longrightarrow> \<not> may_end_submission e \<Longrightarrow> os_submitting (orgStep e s)"
  by (cases e) (auto simp: org_defs split: sum.split)

lemma submitting_run: "os_submitting s \<Longrightarrow> list_all (\<lambda>e. \<not> may_end_submission e) es \<Longrightarrow> os_submitting (fold orgStep es s)"
  by (induction es arbitrary: s) (simp_all add: submitting_step)

lemma submission_ends_iff:
  assumes "os_submitting s"
  shows "\<not> os_submitting (orgStep e s) \<longleftrightarrow> may_end_submission e
     \<and> (case e of StartCreate _ _ _ \<Rightarrow> acceptedCreation e \<noteq> [] | OrgBundler i _ \<Rightarrow> i < length (os_bundler s) | _ \<Rightarrow> True)"
  using assms by (cases e) (auto simp: org_defs split: sum.split)

text \<open>
  C17. A failure of the smart account leaves the hook busy. Take any state of the hook, earlier creations that still wait for the bundler included, and an
  accepted creation through the smart account in it. The hook reports that it is creating through all further events, failures of the
  bundler, nonces, receipts and creations through the smart account, as long as none of them is a hash from the bundler (for
  this or any other creation), the timer of a success, or a start through the wallet. When the bundler then rejects any of the creations that wait, its error is
  shown and the hook still reports that it is creating; and the next event ends that report exactly if it is a hash for a waiting creation, the timer,
  or an accepted start through the wallet.
\<close>

theorem smart_creation_stays_busy:
  assumes "oe_isConnected env" "oe_control env \<noteq> []" "oe_smart env" "orgArgs pu p = Inr call"
    and "list_all (\<lambda>ev. \<not> may_end_submission ev) es" and "s' = fold orgStep (StartCreate pu env p # es) s"
  shows "org_isCreating False False s'
     \<and> (i < length (os_bundler s') \<longrightarrow>
          org_isCreating False False (orgStep (OrgBundler i (Inl e)) s') \<and> os_smartError (orgStep (OrgBundler i (Inl e)) s') = Some e)
     \<and> (\<not> org_isCreating False False (orgStep ev s') \<longleftrightarrow> may_end_submission ev
          \<and> (case ev of StartCreate _ _ _ \<Rightarrow> acceptedCreation ev \<noteq> [] | OrgBundler i _ \<Rightarrow> i < length (os_bundler s') | _ \<Rightarrow> True))"
proof -
  have "os_submitting (orgStep (StartCreate pu env p) s)" using assms(1-4) by (simp add: org_defs)
  then have busy: "os_submitting s'" using submitting_run assms(5,6) by simp
  moreover have "i < length (os_bundler s') \<Longrightarrow> os_smartError (orgStep (OrgBundler i (Inl e)) s') = Some e"
    by (simp add: org_defs)
  moreover have "os_submitting (orgStep (OrgBundler i (Inl e)) s')" by (rule submitting_step [OF busy]) simp
  ultimately show ?thesis using submission_ends_iff [OF busy, of ev] by (simp add: org_isCreating_def)
qed

definition exampleOrgCall :: organizationCall where
  "exampleOrgCall =
     \<lparr>oc_name = ''Guild'', oc_metadataURI = [], oc_orgType = 0, oc_accessModel = 0, oc_feeModel = 0, oc_memberLimit = 10, oc_membershipFee = [],
      oc_gameStakeRequired = []\<rparr>"

text \<open>Two creations through the smart account; the bundler rejects the second, then the first.\<close>

theorem smart_creation_stays_busy_witness:
  "let start = StartCreate (\<lambda>_ _. Inr 0) \<lparr>oe_isConnected = True, oe_control = ''0x9'', oe_smart = True\<rparr> exampleOrgCall;
       s' = fold orgStep [start, start, OrgBundler 1 (Inl ''rejected''), OrgSuccess] newOrgSendState
   in org_isCreating False False (orgStep (OrgBundler 0 (Inl ''too late'')) s')
      \<and> os_smartError (orgStep (OrgBundler 0 (Inl ''too late'')) s') = Some ''too late''"
proof -
  let ?env = "\<lparr>oe_isConnected = True, oe_control = ''0x9'', oe_smart = True\<rparr>"
  let ?start = "StartCreate (\<lambda>_ _. Inr 0) ?env exampleOrgCall"
  let ?es = "[?start, OrgBundler 1 (Inl ''rejected''), OrgSuccess]"
  have args: "orgArgs (\<lambda>_ _. Inr 0) exampleOrgCall = Inr (CreateOrganization ''Guild'' [] 0 0 0 10 0 0)"
    by (simp add: orgArgs_def exampleOrgCall_def game_safeBigInt_def parseTokenAmount_def trim_def)
  have e: "oe_isConnected ?env" "oe_control ?env \<noteq> []" "oe_smart ?env" "list_all (\<lambda>ev. \<not> may_end_submission ev) ?es" by simp_all
  have "0 < length (os_bundler (fold orgStep (?start # ?es) newOrgSendState))"
    by (simp add: args org_defs newOrgSendState_def dropNth_def)
  then show ?thesis
    using smart_creation_stays_busy [OF e(1-3) args e(4) refl, of newOrgSendState 0 "''too late''" OrgSuccess] by (simp add: Let_def)
qed

section \<open>What survives the subgraph\<close>

text \<open>
  States and access models through the subgraph: written by the mapping of \<open>control.ts\<close> and read by the client, access models and the states inactive, active
  and locked come back as the numbers of the contract; a dissolved organization comes back as active.
\<close>

theorem organization_enums_through_subgraph:
  "map (\<lambda>n. getAccessModelFromString (Some (mapAccessModel n))) [0, 1, 2] = [0, 1, 2]
   \<and> map (\<lambda>n. getStateFromString (Some (mapOrgState n))) [0, 1, 2, 3] = [0, 1, 2, 1]
   \<and> org_getStateString (getStateFromString (Some (mapOrgState 3))) = ''Active''"
  by code_simp

text \<open>
  C16. The id of a new organization is the subgraph's: for a receipt with a log of the factory in the form of the creation event the client shows exactly the id under
  which the subgraph stores the organization. Without such a log, and if the client library decodes none, it shows a made-up id, which is the id of no
  organization of the subgraph.
\<close>

theorem created_id_is_subgraph_id:
  assumes "factory \<noteq> []" and "list_all (\<lambda>l. log_address l \<noteq> None \<and> \<not> createdLog factory l) pre"
  shows "(createdLog factory l \<and> log_topics l = Some [sig, toHex (b @ pad), t2, t3] \<and> length b = 8 \<longrightarrow>
      (\<exists>i. getOrganizationIdString b = Inr i \<and> createdOrgId decode factory (pre @ l # post) h = Some i))
   \<and> (list_all (\<lambda>l. decode l = None) pre \<and> length h = 66 \<longrightarrow>
      (\<exists>i. createdOrgId decode factory pre h = Some i \<and> (\<forall>b. length b = 8 \<longrightarrow> getOrganizationIdString b \<noteq> Inr i)))"
proof (intro conjI impI)
  assume l: "createdLog factory l \<and> log_topics l = Some [sig, toHex (b @ pad), t2, t3] \<and> length b = 8"
  have "findCreatedLog (pre @ l # post) factory = Inr (Some l)"
    using assms(2) l by (simp only: findCreatedLog_skip findCreatedLog_hit)
  then have "extractOrganizationIdFromLogs (pre @ l # post) factory = Some (Some (map fromCharCode b))"
    using l take_toHex [of b pad] by (simp add: extractOrganizationIdFromLogs_def bytes8ToAlphanumericString_toHex)
  moreover have "map fromCharCode b \<noteq> []" using l by auto
  ultimately show "\<exists>i. getOrganizationIdString b = Inr i \<and> createdOrgId decode factory (pre @ l # post) h = Some i"
    using l assms(1) by (simp add: createdOrgId_def nonempty_def getOrganizationIdString_bytes8)
next
  assume d: "list_all (\<lambda>l. decode l = None) pre \<and> length h = 66"
  have "findCreatedLog pre factory = Inr None" using findCreatedLog_skip [OF assms(2), of "[]"] by simp
  then have "extractOrganizationIdFromLogs pre factory = Some None" by (simp add: extractOrganizationIdFromLogs_def)
  moreover have "extractOrganizationIdFromLogsViem decode pre = Some None" using d by (induction pre) auto
  ultimately have "createdOrgId decode factory pre h = Some (fallbackId h)" using assms(1) by (simp add: createdOrgId_def nonempty_def)
  moreover have "getOrganizationIdString b \<noteq> Inr (fallbackId h)" if "length b = 8" for b
  proof
    assume "getOrganizationIdString b = Inr (fallbackId h)"
    then have "map fromCharCode b = fallbackId h" using that by (simp add: getOrganizationIdString_bytes8)
    then have "length (fallbackId h) = 8" using that length_map [of fromCharCode b] by simp
    then show False using d by (simp add: fallbackId_def toUpperCase_def)
  qed
  ultimately show "\<exists>i. createdOrgId decode factory pre h = Some i \<and> (\<forall>b. length b = 8 \<longrightarrow> getOrganizationIdString b \<noteq> Inr i)" by blast
qed

theorem created_id_is_subgraph_id_witness:
  "(\<exists>i. getOrganizationIdString [90, 81, 57, 71, 56, 69, 65, 90] = Inr i
      \<and> createdOrgId (\<lambda>_. None) ''0xbb'' ([\<lparr>log_address = Some ''0xaa'', log_topics = None\<rparr>] @
        \<lparr>log_address = Some ''0xBB'', log_topics = Some [[], toHex ([90, 81, 57, 71, 56, 69, 65, 90] @ [0, 0]), [], []]\<rparr> # []) (replicate 66 CHR ''0'') = Some i)
   \<and> (\<exists>i. createdOrgId (\<lambda>_. None) ''0xbb'' [\<lparr>log_address = Some ''0xaa'', log_topics = None\<rparr>] (replicate 66 CHR ''0'') = Some i)"
proof -
  let ?l = "\<lparr>log_address = Some ''0xBB'', log_topics = Some [[], toHex ([90, 81, 57, 71, 56, 69, 65, 90] @ [0, 0]), [], []]\<rparr>"
  have low: "toLowerCase ''0xBB'' = ''0xbb''" "toLowerCase ''0xbb'' = ''0xbb''" "toLowerCase ''0xaa'' = ''0xaa''" by code_simp+
  have pre: "list_all (\<lambda>l. log_address l \<noteq> None \<and> \<not> createdLog ''0xbb'' l) [\<lparr>log_address = Some ''0xaa'', log_topics = None\<rparr>]"
    by (simp add: createdLog_def)
  have l: "createdLog ''0xbb'' ?l" by (simp add: createdLog_def low)
  have "''0xbb'' \<noteq> ([] :: string)" by simp
  from created_id_is_subgraph_id [OF this pre, of ?l "[]" "[90, 81, 57, 71, 56, 69, 65, 90]" "[0, 0]" "[]" "[]" "\<lambda>_. None" "[]" "replicate 66 CHR ''0''"] l
  show ?thesis by (auto simp del: append.simps)
qed

end
