(* ===== verification/Addresses.thy ===== *)
theory Addresses
  imports Client_Data Proposals_Client
begin

text \<open>
  Which contracts the client talks to: \<open>packages/shared/src/deployments.ts\<close>, \<open>addresses.ts\<close>, \<open>chains.ts\<close> and \<open>config.ts\<close>, and
  \<open>packages/frontend/src/lib/contracts.ts\<close>, \<open>lib/web3.ts\<close>, \<open>hooks/useContracts.ts\<close> and \<open>hooks/useGameDAO.ts\<close>.

  \<^item> An object keyed by chain id is a function of the id; reading a missing key throws where the code throws. \<open>process.env\<close> is the argument
    \<open>env\<close>.
  \<^item> The ids of the chains that the wallet library defines are the argument \<open>cids\<close>.

  The lemmas show on which chains the client has contracts, when the environment matters, and what that means for a vote.
\<close>

section \<open>The shared package\<close>

record contractDeployment =
  cd_address :: string
  cd_deployBlock :: int
  cd_txHash :: "string option"
  cd_gasUsed :: "string option"

record deploymentManifest =
  dm_network :: string
  dm_chainId :: int
  dm_deployedAt :: "string option"
  dm_deployer :: "string option"
  dm_contracts :: "(string \<times> contractDeployment) list"

definition localContracts :: "(string \<times> contractDeployment) list" where
  "localContracts =
     [(''GameToken'', \<lparr>cd_address = ''0x5FbDB2315678afecb367f032d93F642f64180aa3'', cd_deployBlock = 1,
         cd_txHash = Some ''0xe48f92c60a2d22a1c469bc44d5521dfd163779b5dbef356528b4497bf4d8b795'', cd_gasUsed = Some ''1860230''\<rparr>),
      (''MockUSDC'', \<lparr>cd_address = ''0xe7f1725E7734CE288F8367e1Bb143E90bb3F0512'', cd_deployBlock = 2,
         cd_txHash = Some ''0xd63c2f99c699a03fbb2525d505e347b8a9564c356cb3e01fc241d7bcadd4b7ea'', cd_gasUsed = Some ''1529988''\<rparr>),
      (''Staking'', \<lparr>cd_address = ''0x9fE46736679d2D9a65F0992F2272dE9f3c7fa6e0'', cd_deployBlock = 3,
         cd_txHash = Some ''0x1dd98d418d31a516700b12fc8742238e82d5c6f5faee37cebb92f4707dd81af0'', cd_gasUsed = Some ''4009707''\<rparr>),
      (''Registry'', \<lparr>cd_address = ''0xCf7Ed3AccA5a467e9e704C703E8D87F634fB0Fc9'', cd_deployBlock = 4,
         cd_txHash = Some ''0xd3a0a88a8ce34c1e3f69e110f95215472fba83bae460f849dfc1fe27f1740d4b'', cd_gasUsed = Some ''2166087''\<rparr>),
      (''Identity'', \<lparr>cd_address = ''0xDc64a140Aa3E981100a9becA4E685f962f0cF6C9'', cd_deployBlock = 5,
         cd_txHash = Some ''0x26cbcec263336db5e3f3a657d6c9e4326c2a58d3e654cc948a7dcfa222039d6f'', cd_gasUsed = Some ''3640148''\<rparr>),
      (''Membership'', \<lparr>cd_address = ''0x5FC8d32690cc91D4c39d9d3abcBD16989F875707'', cd_deployBlock = 6,
         cd_txHash = Some ''0x587aabddc8257b881a8e2efbb2490f931a1ffee7d91948628cbc3bd02438136a'', cd_gasUsed = Some ''3786766''\<rparr>),
      (''Control'', \<lparr>cd_address = ''0x0165878A594ca255338adfa4d48449f69242Eb8F'', cd_deployBlock = 7,
         cd_txHash = Some ''0xcbd10908934fc253006ae7c13fd8809670176d0db7cb91637dc249138481dd72'', cd_gasUsed = Some ''3041768''\<rparr>),
      (''Factory'', \<lparr>cd_address = ''0xa513E6E4b8f2a923D98304ec87F64353C4D5C853'', cd_deployBlock = 8,
         cd_txHash = Some ''0x898f141e198f169c95c7e49eb5b40c9c158ff07f6302d9abeffa87ad6a475aa0'', cd_gasUsed = Some ''4722128''\<rparr>),
      (''Flow'', \<lparr>cd_address = ''0x2279B7A0a67DB372996a5FaB50D91eAA73d2eBe6'', cd_deployBlock = 9,
         cd_txHash = Some ''0xc3ca4bf1cef21578a8c3023ba6da2892e9f405e4dcb9b7b6370d8fb8472a591e'', cd_gasUsed = Some ''5311924''\<rparr>),
      (''Signal'', \<lparr>cd_address = ''0x8A791620dd6260079BF849Dc5567aDC3F2FdC318'', cd_deployBlock = 10,
         cd_txHash = Some ''0x7d2ffdf3526a717ce350efbf8605980b1fa9e0d4e19f297c467b0eedc7253a00'', cd_gasUsed = Some ''5089868''\<rparr>),
      (''Sense'', \<lparr>cd_address = ''0x610178dA211FEF7D417bC0e6FeD39F05609AD788'', cd_deployBlock = 11,
         cd_txHash = Some ''0xcbb6d75befe733e09609df7aad8056ad2ae8bb7dfc24056dfdcdc719906ada20'', cd_gasUsed = Some ''2991878''\<rparr>),
      (''StakingRewards'', \<lparr>cd_address = ''0xc3e53F4d16Ae77Db1c982e75a937B9f60FE63690'', cd_deployBlock = 32,
         cd_txHash = Some ''0x11814a34f01703fc7dbafcdaa765c7815307e3d703ef6b34fff2a11b8ec71fd1'', cd_gasUsed = Some ''4009707''\<rparr>)]"

definition DEPLOYMENTS :: "int \<Rightarrow> deploymentManifest option" where
  "DEPLOYMENTS chainId =
     (if chainId = 137 then
        Some \<lparr>dm_network = ''polygon'', dm_chainId = 137, dm_deployedAt = None, dm_deployer = None, dm_contracts = []\<rparr>
      else if chainId = 31337 then
        Some \<lparr>dm_network = ''localhost'', dm_chainId = 31337, dm_deployedAt = Some ''2026-04-29T10:37:45.682Z'',
          dm_deployer = Some ''0xf39Fd6e51aad88F6F4ce6aB8827279cffFb92266'', dm_contracts = localContracts\<rparr>
      else if chainId = 80002 then
        Some \<lparr>dm_network = ''amoy'', dm_chainId = 80002, dm_deployedAt = None, dm_deployer = None, dm_contracts = []\<rparr>
      else None)"

definition getDeployment :: "int \<Rightarrow> string + deploymentManifest" where
  "getDeployment chainId =
     (case DEPLOYMENTS chainId of None \<Rightarrow> Inl (''No deployment manifest for chain '' @ show_int chainId) | Some d \<Rightarrow> Inr d)"

record chainConfig =
  ch_chainId :: int
  ch_name :: string
  ch_displayName :: string
  ch_rpcDefault :: string
  ch_explorer :: "string option"
  ch_verifyApi :: "string option"
  ch_currency :: "string \<times> string \<times> nat"
  ch_isTestnet :: bool

definition CHAINS :: "(int \<times> chainConfig) list" where
  "CHAINS =
     [(31337, \<lparr>ch_chainId = 31337, ch_name = ''localhost'', ch_displayName = ''Hardhat Local'', ch_rpcDefault = ''http://127.0.0.1:8545'',
         ch_explorer = None, ch_verifyApi = None, ch_currency = (''Ether'', ''ETH'', 18), ch_isTestnet = True\<rparr>),
      (80002, \<lparr>ch_chainId = 80002, ch_name = ''amoy'', ch_displayName = ''Polygon Amoy'',
         ch_rpcDefault = ''https://rpc-amoy.polygon.technology'', ch_explorer = Some ''https://amoy.polygonscan.com'',
         ch_verifyApi = Some ''https://api-amoy.polygonscan.com/api'', ch_currency = (''POL'', ''POL'', 18), ch_isTestnet = True\<rparr>),
      (137, \<lparr>ch_chainId = 137, ch_name = ''polygon'', ch_displayName = ''Polygon'', ch_rpcDefault = ''https://polygon-rpc.com'',
         ch_explorer = Some ''https://polygonscan.com'', ch_verifyApi = Some ''https://api.polygonscan.com/api'',
         ch_currency = (''POL'', ''POL'', 18), ch_isTestnet = False\<rparr>)]"

definition getChain :: "int \<Rightarrow> string + chainConfig" where
  "getChain chainId = (case map_of CHAINS chainId of None \<Rightarrow> Inl (''Unsupported chain: '' @ show_int chainId) | Some c \<Rightarrow> Inr c)"

definition getConfig :: "int \<Rightarrow> string + chainConfig \<times> deploymentManifest" where
  "getConfig chainId =
     (case getChain chainId of
        Inl e \<Rightarrow> Inl e
      | Inr c \<Rightarrow> (case getDeployment chainId of Inl e \<Rightarrow> Inl e | Inr d \<Rightarrow> Inr (c, d)))"

definition isChainSupported :: "int \<Rightarrow> bool" where
  "isChainSupported chainId \<longleftrightarrow> map_of CHAINS chainId \<noteq> None"

definition listSupportedChains :: "chainConfig list" where
  "listSupportedChains = sort_key ch_chainId (map snd CHAINS)"

definition notDeployedOn :: "int \<Rightarrow> string \<Rightarrow> string" where
  "notDeployedOn chainId name = ''Contract '' @ name @ '' not deployed on chain '' @ show_int chainId"

definition getContractAddressByName :: "int \<Rightarrow> string \<Rightarrow> string + string" where
  "getContractAddressByName chainId name =
     (case getDeployment chainId of
        Inl e \<Rightarrow> Inl e
      | Inr d \<Rightarrow>
          (case map_of (dm_contracts d) name of
             None \<Rightarrow> Inl (notDeployedOn chainId name)
           | Some c \<Rightarrow> if cd_address c = [] then Inl (notDeployedOn chainId name) else Inr (cd_address c)))"

definition getContractDeployment :: "int \<Rightarrow> string \<Rightarrow> string + contractDeployment" where
  "getContractDeployment chainId name =
     (case getDeployment chainId of
        Inl e \<Rightarrow> Inl e
      | Inr d \<Rightarrow> (case map_of (dm_contracts d) name of None \<Rightarrow> Inl (notDeployedOn chainId name) | Some c \<Rightarrow> Inr c))"

text \<open>The addresses of all contracts; \<open>NetworkAddresses\<close> of the shared package and \<open>ContractAddresses\<close> of the client have the same fields.\<close>

record contractAddresses =
  REGISTRY :: string
  CONTROL :: string
  FACTORY :: string
  FLOW :: string
  SIGNAL :: string
  SENSE :: string
  IDENTITY :: string
  MEMBERSHIP :: string
  STAKING :: string
  TREASURY :: string
  GAME_TOKEN :: string
  USDC_TOKEN :: string

definition EMPTY_ADDRESSES :: contractAddresses where
  "EMPTY_ADDRESSES =
     \<lparr>REGISTRY = [], CONTROL = [], FACTORY = [], FLOW = [], SIGNAL = [], SENSE = [], IDENTITY = [], MEMBERSHIP = [],
      STAKING = [], TREASURY = [], GAME_TOKEN = [], USDC_TOKEN = []\<rparr>"

definition pick :: "(string \<times> contractDeployment) list \<Rightarrow> string \<Rightarrow> string" where
  "pick c name = (case map_of c name of None \<Rightarrow> [] | Some d \<Rightarrow> cd_address d)"

definition flatten :: "int \<Rightarrow> contractAddresses" where
  "flatten chainId =
     (case DEPLOYMENTS chainId of
        None \<Rightarrow> EMPTY_ADDRESSES
      | Some d \<Rightarrow>
          (let c = dm_contracts d in
           \<lparr>REGISTRY = pick c ''Registry'', CONTROL = pick c ''Control'', FACTORY = pick c ''Factory'',
           FLOW = pick c ''Flow'', SIGNAL = pick c ''Signal'', SENSE = pick c ''Sense'',
           IDENTITY = pick c ''Identity'', MEMBERSHIP = pick c ''Membership'', STAKING = pick c ''Staking'',
           TREASURY = [], GAME_TOKEN = pick c ''GameToken'', USDC_TOKEN = pick c ''MockUSDC''\<rparr>))"

text \<open>The chain 42 shares the local manifest.\<close>

definition getAddressesForNetwork :: "int \<Rightarrow> string + contractAddresses" where
  "getAddressesForNetwork chainId =
     (if chainId = 31337 \<or> chainId = 42 then Inr (flatten 31337)
      else if chainId = 80002 then Inr (flatten 80002)
      else if chainId = 137 then Inr (flatten 137)
      else Inl (''Unsupported network: '' @ show_int chainId))"

section \<open>The client\<close>

definition DEFAULT_ADDRESSES :: contractAddresses where
  "DEFAULT_ADDRESSES =
     \<lparr>REGISTRY = ZERO, CONTROL = ZERO, FACTORY = ZERO, FLOW = ZERO, SIGNAL = ZERO, SENSE = ZERO, IDENTITY = ZERO,
      MEMBERSHIP = ZERO, STAKING = ZERO, TREASURY = ZERO, GAME_TOKEN = ZERO, USDC_TOKEN = ZERO\<rparr>"

definition LOCALHOST_ADDRESSES :: contractAddresses where
  "LOCALHOST_ADDRESSES =
     \<lparr>REGISTRY = ''0xCf7Ed3AccA5a467e9e704C703E8D87F634fB0Fc9'',
      CONTROL = ''0x0165878A594ca255338adfa4d48449f69242Eb8F'',
      FACTORY = ''0xa513E6E4b8f2a923D98304ec87F64353C4D5C853'',
      FLOW = ''0x2279B7A0a67DB372996a5FaB50D91eAA73d2eBe6'', SIGNAL = ''0x8A791620dd6260079BF849Dc5567aDC3F2FdC318'',
      SENSE = ''0x610178dA211FEF7D417bC0e6FeD39F05609AD788'',
      IDENTITY = ''0xDc64a140Aa3E981100a9becA4E685f962f0cF6C9'',
      MEMBERSHIP = ''0x5FC8d32690cc91D4c39d9d3abcBD16989F875707'',
      STAKING = ''0x9fE46736679d2D9a65F0992F2272dE9f3c7fa6e0'',
      TREASURY = ''0xa513E6E4b8f2a923D98304ec87F64353C4D5C853'',
      GAME_TOKEN = ''0x5FbDB2315678afecb367f032d93F642f64180aa3'',
      USDC_TOKEN = ''0xe7f1725E7734CE288F8367e1Bb143E90bb3F0512''\<rparr>"

definition envSuffix :: "int \<Rightarrow> string" where
  "envSuffix chainId =
     (if chainId = 31337 then ''_LOCAL'' else if chainId = 11155111 then ''_SEPOLIA'' else if chainId = 1 then ''_MAINNET''
      else if chainId = 137 then ''_POLYGON'' else if chainId = 42161 then ''_ARBITRUM'' else ''_LOCAL'')"

definition envAddress :: "(string \<Rightarrow> string option) \<Rightarrow> int \<Rightarrow> string \<Rightarrow> string" where
  "envAddress env chainId name =
     (case js_or (env (''NEXT_PUBLIC_'' @ name @ ''_ADDRESS'' @ envSuffix chainId)) (Some ZERO) of None \<Rightarrow> [] | Some a \<Rightarrow> a)"

definition getContractAddressesFromEnv :: "(string \<Rightarrow> string option) \<Rightarrow> int \<Rightarrow> contractAddresses" where
  "getContractAddressesFromEnv env chainId =
     (let a = envAddress env chainId in
      \<lparr>REGISTRY = a ''REGISTRY'', CONTROL = a ''CONTROL'', FACTORY = a ''FACTORY'', FLOW = a ''FLOW'',
      SIGNAL = a ''SIGNAL'', SENSE = a ''SENSE'', IDENTITY = a ''IDENTITY'', MEMBERSHIP = a ''MEMBERSHIP'',
      STAKING = a ''STAKING'', TREASURY = a ''TREASURY'', GAME_TOKEN = a ''GAME_TOKEN'',
      USDC_TOKEN = a ''USDC_TOKEN''\<rparr>)"

text \<open>\<open>x !== dflt ? x : dflt\<close> is \<open>x\<close>; the code spells it out for every field.\<close>

definition orDefault :: "string \<Rightarrow> string \<Rightarrow> string" where
  "orDefault a dflt = (if a \<noteq> dflt then a else dflt)"

definition mergeAddresses :: "contractAddresses \<Rightarrow> contractAddresses" where
  "mergeAddresses e =
     \<lparr>REGISTRY = orDefault (REGISTRY e) (REGISTRY DEFAULT_ADDRESSES),
      CONTROL = orDefault (CONTROL e) (CONTROL DEFAULT_ADDRESSES),
      FACTORY = orDefault (FACTORY e) (FACTORY DEFAULT_ADDRESSES),
      FLOW = orDefault (FLOW e) (FLOW DEFAULT_ADDRESSES), SIGNAL = orDefault (SIGNAL e) (SIGNAL DEFAULT_ADDRESSES),
      SENSE = orDefault (SENSE e) (SENSE DEFAULT_ADDRESSES),
      IDENTITY = orDefault (IDENTITY e) (IDENTITY DEFAULT_ADDRESSES),
      MEMBERSHIP = orDefault (MEMBERSHIP e) (MEMBERSHIP DEFAULT_ADDRESSES),
      STAKING = orDefault (STAKING e) (STAKING DEFAULT_ADDRESSES),
      TREASURY = orDefault (TREASURY e) (TREASURY DEFAULT_ADDRESSES),
      GAME_TOKEN = orDefault (GAME_TOKEN e) (GAME_TOKEN DEFAULT_ADDRESSES),
      USDC_TOKEN = orDefault (USDC_TOKEN e) (USDC_TOKEN DEFAULT_ADDRESSES)\<rparr>"

definition getContractAddresses :: "(string \<Rightarrow> string option) \<Rightarrow> int \<Rightarrow> contractAddresses" where
  "getContractAddresses env chainId =
     (case getAddressesForNetwork chainId of
        Inr shared \<Rightarrow> shared\<lparr>TREASURY := FACTORY shared\<rparr>
      | Inl _ \<Rightarrow>
          if chainId = 31337 then LOCALHOST_ADDRESSES
          else mergeAddresses (getContractAddressesFromEnv env chainId))"

definition requiredContracts :: "(contractAddresses \<Rightarrow> string) list" where
  "requiredContracts = [REGISTRY, CONTROL, FLOW, SIGNAL, SENSE, IDENTITY, MEMBERSHIP, STAKING, GAME_TOKEN]"

definition validateContractAddresses :: "contractAddresses \<Rightarrow> bool" where
  "validateContractAddresses addresses \<longleftrightarrow> list_all (\<lambda>c. \<not> (c addresses = [] \<or> c addresses = c DEFAULT_ADDRESSES)) requiredContracts"

definition useContractsValid :: "(string \<Rightarrow> string option) \<Rightarrow> int \<Rightarrow> bool" where
  "useContractsValid env chainId \<longleftrightarrow>
     list_all (\<lambda>c. let address = c (getContractAddresses env chainId) in address \<noteq> [] \<and> address \<noteq> ZERO) requiredContracts"

text \<open>The addresses kept for reference, with those of networks without a deployment.\<close>

definition LOCAL_ADDRESSES :: contractAddresses where
  "LOCAL_ADDRESSES =
     \<lparr>REGISTRY = ''0x9fE46736679d2D9a65F0992F2272dE9f3c7fa6e0'',
      CONTROL = ''0x8A791620dd6260079BF849Dc5567aDC3F2FdC318'', FACTORY = ZERO,
      FLOW = ''0xDc64a140Aa3E981100a9becA4E685f962f0cF6C9'', SIGNAL = ''0x0DCd1Bf9A1b36cE34237eEaFef220932846BCD82'',
      SENSE = ''0xa513E6E4b8f2a923D98304ec87F64353C4D5C853'',
      IDENTITY = ''0xa513E6E4b8f2a923D98304ec87F64353C4D5C853'',
      MEMBERSHIP = ''0x0165878A594ca255338adfa4d48449f69242Eb8F'',
      STAKING = ''0xc5a5C42992dECbae36851359345FE25997F5C42d'', TREASURY = ZERO,
      GAME_TOKEN = ''0x5FbDB2315678afecb367f032d93F642f64180aa3'',
      USDC_TOKEN = ''0xe7f1725E7734CE288F8367e1Bb143E90bb3F0512''\<rparr>"

definition getAddressesByNetwork :: "int \<Rightarrow> contractAddresses" where
  "getAddressesByNetwork chainId =
     (if chainId = 31337 then LOCAL_ADDRESSES
      else if chainId = 11155111 \<or> chainId = 1 \<or> chainId = 137 \<or> chainId = 42161 then DEFAULT_ADDRESSES else LOCAL_ADDRESSES)"

definition blockSuffix :: "int \<Rightarrow> string option" where
  "blockSuffix chainId =
     (if chainId = 31337 then Some ''_LOCAL'' else if chainId = 11155111 then Some ''_SEPOLIA'' else if chainId = 1 then Some ''_MAINNET''
      else if chainId = 137 then Some ''_POLYGON'' else if chainId = 42161 then Some ''_ARBITRUM''
      else if chainId = 1946 then Some ''_SONEIUM_TESTNET'' else if chainId = 1868 then Some ''_SONEIUM'' else None)"

definition blockContracts :: "string list" where
  "blockContracts = [''REGISTRY'', ''CONTROL'', ''FLOW'', ''SIGNAL'', ''SENSE'']"

text \<open>The block numbers of a chain; \<open>None\<close> as a value is NaN.\<close>

definition getDeploymentBlocksFromEnv :: "(string \<Rightarrow> string option) \<Rightarrow> int \<Rightarrow> (string \<times> int option) list" where
  "getDeploymentBlocksFromEnv env chainId =
     (case blockSuffix chainId of
        None \<Rightarrow> []
      | Some suffix \<Rightarrow>
          map (\<lambda>c. (c, parseIntNum (map_option JStr (js_or (env (''NEXT_PUBLIC_'' @ c @ ''_BLOCK'' @ suffix)) (Some ''0''))))) blockContracts)"

definition getDeploymentBlock :: "(string \<Rightarrow> string option) \<Rightarrow> int \<Rightarrow> string \<Rightarrow> int" where
  "getDeploymentBlock env chainId contract =
     (case map_of (getDeploymentBlocksFromEnv env chainId) contract of Some (Some n) \<Rightarrow> n | _ \<Rightarrow> 0)"

section \<open>Networks and the hook\<close>

record chainIds =
  ci_hardhat :: int
  ci_sepolia :: int
  ci_polygon :: int
  ci_mainnet :: int

record clientChain =
  cl_name :: string
  cl_blockExplorer :: string
  cl_subgraphUrl :: string
  cl_rpcUrl :: string

definition soneiumMinato_id :: int where "soneiumMinato_id = 1946"

definition soneium_id :: int where "soneium_id = 1868"

definition getChainConfig :: "chainIds \<Rightarrow> int \<Rightarrow> clientChain" where
  "getChainConfig cids chainId =
     (if chainId = ci_hardhat cids then
        \<lparr>cl_name = ''Local Hardhat'', cl_blockExplorer = ''http://localhost:8545'',
         cl_subgraphUrl = ''http://localhost:8000/subgraphs/name/gamedao/protocol'', cl_rpcUrl = ''http://127.0.0.1:8545''\<rparr>
      else if chainId = ci_sepolia cids then
        \<lparr>cl_name = ''Sepolia Testnet'', cl_blockExplorer = ''https://sepolia.etherscan.io'',
         cl_subgraphUrl = ''https://api.thegraph.com/subgraphs/name/gamedao/protocol-sepolia'',
         cl_rpcUrl = ''https://sepolia.infura.io/v3/YOUR_INFURA_KEY''\<rparr>
      else if chainId = soneiumMinato_id then
        \<lparr>cl_name = ''Soneium Minato Testnet'', cl_blockExplorer = ''https://explorer-testnet.soneium.org'',
         cl_subgraphUrl = ''https://api.thegraph.com/subgraphs/name/gamedao/protocol-soneium-testnet'',
         cl_rpcUrl = ''https://rpc.minato.soneium.org''\<rparr>
      else if chainId = ci_polygon cids then
        \<lparr>cl_name = ''Polygon'', cl_blockExplorer = ''https://polygonscan.com'',
         cl_subgraphUrl = ''https://api.thegraph.com/subgraphs/name/gamedao/protocol-polygon'', cl_rpcUrl = ''https://polygon-rpc.com''\<rparr>
      else if chainId = soneium_id then
        \<lparr>cl_name = ''Soneium'', cl_blockExplorer = ''https://explorer.soneium.org'',
         cl_subgraphUrl = ''https://api.thegraph.com/subgraphs/name/gamedao/protocol-soneium'', cl_rpcUrl = ''https://rpc.soneium.org''\<rparr>
      else if chainId = ci_mainnet cids then
        \<lparr>cl_name = ''Ethereum Mainnet'', cl_blockExplorer = ''https://etherscan.io'',
         cl_subgraphUrl = ''https://api.thegraph.com/subgraphs/name/gamedao/protocol'',
         cl_rpcUrl = ''https://mainnet.infura.io/v3/YOUR_INFURA_KEY''\<rparr>
      else \<lparr>cl_name = ''Unknown Network'', cl_blockExplorer = [], cl_subgraphUrl = [], cl_rpcUrl = []\<rparr>)"

definition supportedChains :: "chainIds \<Rightarrow> int list" where
  "supportedChains cids = [ci_hardhat cids, ci_sepolia cids, soneiumMinato_id, ci_polygon cids, soneium_id, ci_mainnet cids]"

definition isSupportedNetwork :: "chainIds \<Rightarrow> int \<Rightarrow> bool" where
  "isSupportedNetwork cids chainId \<longleftrightarrow> list_ex (\<lambda>i. i = chainId) (supportedChains cids)"

definition getPreferredNetwork :: "chainIds \<Rightarrow> string \<Rightarrow> int" where
  "getPreferredNetwork cids nodeEnv = (if nodeEnv = ''development'' then ci_hardhat cids else ci_mainnet cids)"

record gameDAO =
  gd_isConnected :: bool
  gd_isSupported :: bool
  gd_contracts :: contractAddresses
  gd_contractsValid :: bool
  gd_network :: clientChain
  gd_isLocal :: bool
  gd_isTestnet :: bool
  gd_isMainnet :: bool

definition useGameDAO :: "chainIds \<Rightarrow> (string \<Rightarrow> string option) \<Rightarrow> int \<Rightarrow> bool \<Rightarrow> gameDAO" where
  "useGameDAO cids env chainId isConnected =
     (let contracts = getContractAddresses env chainId; isSupported = isSupportedNetwork cids chainId
      in \<lparr>gd_isConnected = (isConnected \<and> isSupported), gd_isSupported = isSupported, gd_contracts = contracts,
          gd_contractsValid = validateContractAddresses contracts, gd_network = getChainConfig cids chainId,
          gd_isLocal = (chainId = 31337), gd_isTestnet = (chainId = 11155111), gd_isMainnet = (chainId = 1)\<rparr>)"

definition formatAddress :: "string \<Rightarrow> string" where
  "formatAddress addr = take 6 addr @ ''...'' @ drop (length addr - 4) addr"

section \<open>The shared tables\<close>

lemma pick_simps [simp]: "pick [] n = []" "pick (x # xs) n = (if fst x = n then cd_address (snd x) else pick xs n)"
  by (cases x, simp_all add: pick_def)

text \<open>
  The tables of the shared package fit together: a chain has a configuration exactly if it is supported, the list of supported chains is
  sorted, and the flat table of addresses has for every chain and contract the address the lookup by name returns, or nothing where it
  throws.
\<close>

theorem shared_tables_agree:
  "(\<exists>c. getConfig chainId = Inr c) = isChainSupported chainId \<and> sorted (map ch_chainId listSupportedChains)
   \<and> (case DEPLOYMENTS chainId of None \<Rightarrow> [] | Some d \<Rightarrow> pick (dm_contracts d) name)
     = (case getContractAddressByName chainId name of Inl _ \<Rightarrow> [] | Inr a \<Rightarrow> a)"
proof (intro conjI)
  show "(\<exists>c. getConfig chainId = Inr c) = isChainSupported chainId"
    by (simp add: getConfig_def getChain_def getDeployment_def isChainSupported_def CHAINS_def DEPLOYMENTS_def)
  show "sorted (map ch_chainId listSupportedChains)" by (simp add: listSupportedChains_def)
  show "(case DEPLOYMENTS chainId of None \<Rightarrow> [] | Some d \<Rightarrow> pick (dm_contracts d) name)
     = (case getContractAddressByName chainId name of Inl _ \<Rightarrow> [] | Inr a \<Rightarrow> a)"
    by (simp add: getContractAddressByName_def getDeployment_def pick_def split: option.split)
qed

section \<open>Where the client has contracts\<close>

lemma flatten_local: "flatten 31337 = LOCALHOST_ADDRESSES\<lparr>TREASURY := []\<rparr>"
  by (simp add: flatten_def DEPLOYMENTS_def localContracts_def LOCALHOST_ADDRESSES_def)

lemma flatten_other: "c = 137 \<or> c = 80002 \<Longrightarrow> flatten c = EMPTY_ADDRESSES"
  by (auto simp: flatten_def DEPLOYMENTS_def EMPTY_ADDRESSES_def)

lemma local_addresses: "c = 31337 \<or> c = 42 \<Longrightarrow> getContractAddresses env c = LOCALHOST_ADDRESSES"
  by (auto simp: getContractAddresses_def getAddressesForNetwork_def flatten_local) (simp_all add: LOCALHOST_ADDRESSES_def)

lemma empty_addresses: "c = 137 \<or> c = 80002 \<Longrightarrow> getContractAddresses env c = EMPTY_ADDRESSES"
  by (auto simp: getContractAddresses_def getAddressesForNetwork_def flatten_other) (simp_all add: EMPTY_ADDRESSES_def)

lemma orDefault_ZERO [simp]: "orDefault a a = a" "orDefault a ZERO = a"
  by (simp_all add: orDefault_def)

lemma env_addresses:
  "c \<notin> {31337, 42, 137, 80002} \<Longrightarrow> getContractAddresses env c = getContractAddressesFromEnv env c"
  by (simp add: getContractAddresses_def getAddressesForNetwork_def mergeAddresses_def getContractAddressesFromEnv_def DEFAULT_ADDRESSES_def Let_def)

lemma envAddress_nonempty: "envAddress env c n \<noteq> []"
  by (auto simp: envAddress_def js_or_def ZERO_def split: option.split)

definition requiredNames :: "string list" where
  "requiredNames = [''REGISTRY'', ''CONTROL'', ''FLOW'', ''SIGNAL'', ''SENSE'', ''IDENTITY'', ''MEMBERSHIP'', ''STAKING'', ''GAME_TOKEN'']"

text \<open>
  C31. Where the client has contracts: on the two local chains always, on Polygon and Amoy never, whatever the environment says, because the shared package answers
  with empty addresses first; on every other chain exactly if the environment sets each required contract. The hook's own check says the same.
\<close>

theorem contracts_valid_iff:
  "useContractsValid env c = validateContractAddresses (getContractAddresses env c)
   \<and> (useContractsValid env c \<longleftrightarrow>
        c = 31337 \<or> c = 42 \<or> c \<notin> {31337, 42, 137, 80002} \<and> list_all (\<lambda>n. envAddress env c n \<noteq> ZERO) requiredNames)"
proof
  have v: "validateContractAddresses a \<longleftrightarrow> list_all (\<lambda>f. f a \<noteq> [] \<and> f a \<noteq> ZERO) requiredContracts" for a
    by (simp add: validateContractAddresses_def requiredContracts_def DEFAULT_ADDRESSES_def)
  then show same: "useContractsValid env c = validateContractAddresses (getContractAddresses env c)" by (simp add: useContractsValid_def Let_def)
  consider "c = 31337 \<or> c = 42" | "c = 137 \<or> c = 80002" | "c \<notin> {31337, 42, 137, 80002}" by blast
  then show "useContractsValid env c \<longleftrightarrow>
     c = 31337 \<or> c = 42 \<or> c \<notin> {31337, 42, 137, 80002} \<and> list_all (\<lambda>n. envAddress env c n \<noteq> ZERO) requiredNames"
  proof cases
    case 1
    then have "useContractsValid env c" unfolding same by (simp add: local_addresses v requiredContracts_def LOCALHOST_ADDRESSES_def ZERO_def)
    then show ?thesis using 1 by blast
  next
    case 2
    then show ?thesis unfolding same by (auto simp: empty_addresses v requiredContracts_def EMPTY_ADDRESSES_def)
  next
    case 3
    then show ?thesis
      unfolding same by (simp add: env_addresses v requiredContracts_def requiredNames_def getContractAddressesFromEnv_def envAddress_nonempty Let_def)
  qed
qed

text \<open>
  The Soneium networks use the local environment: the client knows both chains and reads their block numbers from variables of
  their own, but takes the contract addresses from the variables of the local chain.
\<close>

theorem soneium_uses_local_environment:
  assumes "c = soneiumMinato_id \<or> c = soneium_id"
  shows "isSupportedNetwork cids c \<and> getContractAddresses env c = getContractAddressesFromEnv env 31337
     \<and> blockSuffix c \<noteq> blockSuffix 31337 \<and> blockSuffix c \<noteq> None"
  using assms
  by (auto simp: isSupportedNetwork_def supportedChains_def soneiumMinato_id_def soneium_id_def env_addresses getContractAddressesFromEnv_def
      envAddress_def envSuffix_def blockSuffix_def)

theorem soneium_uses_local_environment_witness:
  "getContractAddresses (\<lambda>n. if n = ''NEXT_PUBLIC_SIGNAL_ADDRESS_LOCAL'' then Some ''0x1'' else None) soneium_id
     = getContractAddressesFromEnv (\<lambda>n. if n = ''NEXT_PUBLIC_SIGNAL_ADDRESS_LOCAL'' then Some ''0x1'' else None) 31337"
  using soneium_uses_local_environment [of soneium_id] by simp

text \<open>
  C30. Without a configured environment a vote can only be cast on the local chain: on every other chain \<open>castVote\<close> fails, on a chain the client does not
  support, Amoy among them, as if no wallet were connected, on the others because the Signal contract is missing. The error message names Amoy and Polygon as
  chains to switch to.
\<close>

theorem vote_only_local:
  assumes "cids = \<lparr>ci_hardhat = 31337, ci_sepolia = 11155111, ci_polygon = 137, ci_mainnet = 1\<rparr>"
    and "g = useGameDAO cids (\<lambda>_. None) c wallet"
    and "sg_isConnected e = gd_isConnected g" "sg_signal e = SIGNAL (gd_contracts g)" "nonempty (ae_address (sg_approval e))"
  shows "fst (castVote e i choice reason s) =
     (if \<not> wallet \<or> c \<notin> {31337, 11155111, 1946, 137, 1868, 1} then Inl notConnected else if c = 31337 then Inr () else Inl notDeployed)"
proof -
  have conn: "signal_connected e \<longleftrightarrow> wallet \<and> c \<in> {31337, 11155111, 1946, 137, 1868, 1}"
    using assms by (auto simp: signal_connected_def useGameDAO_def Let_def isSupportedNetwork_def supportedChains_def soneiumMinato_id_def soneium_id_def)
  have sig: "sg_signal e = SIGNAL (getContractAddresses (\<lambda>_. None) c)" using assms by (simp add: useGameDAO_def Let_def)
  have miss: "signal_missing e \<longleftrightarrow> c \<noteq> 31337" if "c \<in> {31337, 11155111, 1946, 137, 1868, 1}"
  proof (cases "c = 31337 \<or> c = 137")
    case True
    then show ?thesis
      by (auto simp: signal_missing_def sig local_addresses empty_addresses LOCALHOST_ADDRESSES_def EMPTY_ADDRESSES_def ZERO_def)
  next
    case False
    then have "getContractAddresses (\<lambda>_. None) c = getContractAddressesFromEnv (\<lambda>_. None) c" using that by (intro env_addresses) auto
    then show ?thesis using False by (simp add: signal_missing_def sig getContractAddressesFromEnv_def envAddress_def js_or_def Let_def)
  qed
  show ?thesis
  proof (cases "signal_connected e")
    case True
    then show ?thesis using conn miss by (simp add: castVote_def Let_def)
  next
    case False
    then show ?thesis using conn by (auto simp: castVote_def)
  qed
qed

theorem vote_only_local_witness:
  "fst (castVote (exampleSignalEnv\<lparr>sg_isConnected := False, sg_signal := []\<rparr>) ''ABCD1234-P-EFGH5678'' 1 None newVoteState) = Inl notConnected"
proof -
  let ?cids = "\<lparr>ci_hardhat = 31337, ci_sepolia = 11155111, ci_polygon = 137, ci_mainnet = 1\<rparr>"
  let ?g = "useGameDAO ?cids (\<lambda>_. None) 80002 True" and ?e = "exampleSignalEnv\<lparr>sg_isConnected := False, sg_signal := []\<rparr>"
  have "sg_isConnected ?e = gd_isConnected ?g" "sg_signal ?e = SIGNAL (gd_contracts ?g)" "nonempty (ae_address (sg_approval ?e))"
    by (simp_all add: useGameDAO_def isSupportedNetwork_def supportedChains_def soneiumMinato_id_def soneium_id_def empty_addresses EMPTY_ADDRESSES_def
        exampleSignalEnv_def nonempty_def Let_def)
  from vote_only_local [OF refl refl this] show ?thesis by simp
qed

end
