(* ===== verification/Profiles_Client.thy ===== *)
theory Profiles_Client
  imports Client_Data Queries
begin

text \<open>
  The pages about users of the web client: \<open>packages/frontend/src/hooks/useReputation.ts\<close>, \<open>useUserProfile.ts\<close>, \<open>usePortfolio.ts\<close> and \<open>useTreasury.ts\<close>.

  \<^item> The answers are JSON or nothing. Reading a property of \<open>undefined\<close> throws; a hook that can throw has an outer \<open>option\<close>.
  \<^item> \<open>sort\<close> of the language is stable and sorts in place. \<open>useReputation\<close> sorts one array several times, so its functions return the array too.
  \<^item> An average is given as numerator and denominator.
  \<^item> The error state of a hook is an argument and part of the result.

  The lemmas show what the rankings contain, and that with the schema as it is the pages of a user are always empty.
\<close>

section \<open>Helpers of the language\<close>

datatype jsNumber = NumNaN | NumInf | NumNegInf | NumOf int

definition numberOf :: "int option \<Rightarrow> jsNumber" where
  "numberOf n = (case n of None \<Rightarrow> NumNaN | Some i \<Rightarrow> NumOf i)"

text \<open>\<open>Math.min(...xs)\<close> and \<open>Math.max(...xs)\<close>; \<open>None\<close> is NaN.\<close>

definition mathMin :: "int option list \<Rightarrow> jsNumber" where
  "mathMin xs = (case those xs of None \<Rightarrow> NumNaN | Some [] \<Rightarrow> NumInf | Some (n # ns) \<Rightarrow> NumOf (foldl min n ns))"

definition mathMax :: "int option list \<Rightarrow> jsNumber" where
  "mathMax xs = (case those xs of None \<Rightarrow> NumNaN | Some [] \<Rightarrow> NumNegInf | Some (n # ns) \<Rightarrow> NumOf (foldl max n ns))"

text \<open>\<open>find\<close> with a predicate that may throw; \<open>xs.slice(0, n)\<close>.\<close>

fun findJs :: "('a \<Rightarrow> bool option) \<Rightarrow> 'a list \<Rightarrow> 'a option option" where
  "findJs P [] = Some None"
| "findJs P (x # xs) = (case P x of None \<Rightarrow> None | Some b \<Rightarrow> if b then Some (Some x) else findJs P xs)"

definition sliceTo :: "int \<Rightarrow> 'a list \<Rightarrow> 'a list" where
  "sliceTo n xs = (if n < 0 then take (nat (int (length xs) + n)) xs else take (nat n) xs)"

definition arrayOr :: "json option \<Rightarrow> json list" where
  "arrayOr v = (case v of Some (JArr xs) \<Rightarrow> xs | _ \<Rightarrow> [])"

section \<open>Reputation\<close>

record clientProfile =
  cp_id :: "json option"
  cp_organization :: "json option"
  cp_owner :: "json option"
  cp_username :: "json option"
  cp_bio :: string
  cp_avatar :: string
  cp_website :: string
  cp_verificationLevel :: int
  cp_experience :: int
  cp_reputation :: int
  cp_trustScore :: int
  cp_convictionScore :: int
  cp_achievementCount :: int
  cp_feedbackCount :: int
  cp_positiveFeedbacks :: int
  cp_negativeFeedbacks :: int
  cp_createdAt :: int
  cp_updatedAt :: int

text \<open>Everything the subgraph does not have is a default.\<close>

definition plainProfile :: "json option \<Rightarrow> json option \<Rightarrow> json option \<Rightarrow> json option \<Rightarrow> int \<Rightarrow> clientProfile" where
  "plainProfile i org owner username createdAt =
     \<lparr>cp_id = i, cp_organization = org, cp_owner = owner, cp_username = username, cp_bio = [], cp_avatar = [], cp_website = [],
      cp_verificationLevel = 0, cp_experience = 0, cp_reputation = 0, cp_trustScore = 0, cp_convictionScore = 0,
      cp_achievementCount = 0, cp_feedbackCount = 0, cp_positiveFeedbacks = 0, cp_negativeFeedbacks = 0,
      cp_createdAt = createdAt, cp_updatedAt = createdAt\<rparr>"

definition transformProfile :: "json \<Rightarrow> clientProfile" where
  "transformProfile profile =
     plainProfile (field profile ''id'') (field profile ''organization'') (field profile ''user'') (field profile ''id'')
       (parseIntOr (field profile ''createdAt'') 0)"

definition clientProfiles :: "json option \<Rightarrow> clientProfile list" where
  "clientProfiles profilesData = mapArray profilesData ''profiles'' transformProfile []"

definition emptyProfile :: "string \<Rightarrow> clientProfile" where
  "emptyProfile address =
     plainProfile (Some (JStr [])) (Some (JObj [(''id'', JStr []), (''name'', JStr [])]))
       (Some (JObj [(''id'', JStr []), (''address'', JStr address)])) (Some (JStr [])) 0"

record reputationStats =
  rs_totalProfiles :: nat
  rs_totalExperience :: int
  rs_averageReputation :: "(int \<times> nat) option"
  rs_totalAchievements :: int
  rs_topPerformers :: "clientProfile list"
  rs_recentProfiles :: "clientProfile list"

definition byReputation :: "clientProfile list \<Rightarrow> clientProfile list" where
  "byReputation ps = sort_key (\<lambda>p. - cp_reputation p) ps"

definition byCreation :: "clientProfile list \<Rightarrow> clientProfile list" where
  "byCreation ps = sort_key (\<lambda>p. - cp_createdAt p) ps"

text \<open>The statistics, and the array as the two sorts leave it.\<close>

definition reputationStatistics :: "clientProfile list \<Rightarrow> reputationStats \<times> clientProfile list" where
  "reputationStatistics ps =
     (let total = length ps; top = byReputation ps; recent = byCreation top
      in (\<lparr>rs_totalProfiles = total, rs_totalExperience = sumNumbers cp_experience ps,
           rs_averageReputation = (if 0 < total then Some (sumNumbers cp_reputation ps, total) else None),
           rs_totalAchievements = sumNumbers cp_achievementCount ps, rs_topPerformers = take 10 top,
           rs_recentProfiles = take 10 recent\<rparr>, recent))"

text \<open>\<open>owner.address.toLowerCase()\<close>\<close>

definition lowerAddress :: "json option \<Rightarrow> string option" where
  "lowerAddress owner = (case readProp owner ''address'' of Some (Some (JStr s)) \<Rightarrow> Some (toLowerCase s) | _ \<Rightarrow> None)"

definition findOwner :: "string \<Rightarrow> clientProfile list \<Rightarrow> clientProfile option option" where
  "findOwner address ps = findJs (\<lambda>p. map_option (\<lambda>a. a = toLowerCase address) (lowerAddress (cp_owner p))) ps"

record reputationHook =
  rh_profiles :: "clientProfile list"
  rh_userProfile :: clientProfile
  rh_stats :: reputationStats

definition useReputation :: "json option \<Rightarrow> string option \<Rightarrow> reputationHook option" where
  "useReputation profilesData address =
     (let (stats, ps) = reputationStatistics (clientProfiles profilesData)
      in map_option (\<lambda>u. \<lparr>rh_profiles = ps, rh_userProfile = u, rh_stats = stats\<rparr>)
           (if nonempty address then
              map_option (\<lambda>p. case p of Some p \<Rightarrow> p | None \<Rightarrow> emptyProfile (the address)) (findOwner (the address) ps)
            else Some (emptyProfile [])))"

definition getTopProfiles :: "int \<Rightarrow> clientProfile list \<Rightarrow> clientProfile list \<times> clientProfile list" where
  "getTopProfiles limit ps = (let ranked = byReputation ps in (sliceTo limit ranked, ranked))"

section \<open>The profile of a user\<close>

record userReputation =
  ur_experience :: int
  ur_reputation :: int
  ur_trustScore :: int
  ur_convictionScore :: int
  ur_achievementCount :: int
  ur_feedbackCount :: int
  ur_positiveFeedbacks :: int
  ur_negativeFeedbacks :: int
  ur_verificationLevel :: string
  ur_hasProfile :: bool

text \<open>A membership passed on from the subgraph keeps its text as the time of joining, a transformed one has the number.\<close>

record clientMembership =
  cm_id :: "json option"
  cm_organization :: "json option"
  cm_role :: "json option"
  cm_state :: "json option"
  cm_joinedAt :: "json option + int option"

record userProfile =
  up_address :: "json option"
  up_totalOrganizations :: jsNumber
  up_totalContributions :: jsNumber
  up_totalProposals :: jsNumber
  up_totalVotes :: jsNumber
  up_firstSeenAt :: jsNumber
  up_lastActiveAt :: jsNumber
  up_reputation :: "userReputation option"
  up_memberships :: "clientMembership list"

definition reputationData :: "clientProfile \<Rightarrow> userReputation" where
  "reputationData p =
     \<lparr>ur_experience = cp_experience p, ur_reputation = cp_reputation p, ur_trustScore = cp_trustScore p,
      ur_convictionScore = cp_convictionScore p, ur_achievementCount = cp_achievementCount p, ur_feedbackCount = cp_feedbackCount p,
      ur_positiveFeedbacks = cp_positiveFeedbacks p, ur_negativeFeedbacks = cp_negativeFeedbacks p,
      ur_verificationLevel = show_int (cp_verificationLevel p), ur_hasProfile = jsonTruthy (cp_id p)\<rparr>"

definition passedMembership :: "json \<Rightarrow> clientMembership" where
  "passedMembership m =
     \<lparr>cm_id = field m ''id'', cm_organization = field m ''organization'', cm_role = field m ''role'', cm_state = field m ''state'',
      cm_joinedAt = Inl (field m ''joinedAt'')\<rparr>"

definition memberMembership :: "json \<Rightarrow> clientMembership" where
  "memberMembership m = (passedMembership m)\<lparr>cm_joinedAt := Inr (parseIntNum (field m ''joinedAt''))\<rparr>"

definition profileOfUser :: "userReputation option \<Rightarrow> json \<Rightarrow> userProfile" where
  "profileOfUser reputation user =
     (let number = (\<lambda>k. numberOf (parseIntNum (field user k)))
      in \<lparr>up_address = field user ''address'', up_totalOrganizations = number ''totalOrganizations'',
          up_totalContributions = number ''totalContributions'', up_totalProposals = number ''totalProposals'',
          up_totalVotes = number ''totalVotes'', up_firstSeenAt = number ''firstSeenAt'', up_lastActiveAt = number ''lastActiveAt'',
          up_reputation = reputation, up_memberships = map passedMembership (arrayOr (field user ''memberships''))\<rparr>)"

definition profileOfMembers :: "string option \<Rightarrow> userReputation option \<Rightarrow> json list \<Rightarrow> userProfile" where
  "profileOfMembers targetAddress reputation ms =
     (let joined = map (\<lambda>m. parseIntNum (field m ''joinedAt'')) ms
      in \<lparr>up_address = Some (JStr (or_empty targetAddress)), up_totalOrganizations = NumOf (int (length ms)),
          up_totalContributions = NumOf 0, up_totalProposals = NumOf 0, up_totalVotes = NumOf 0, up_firstSeenAt = mathMin joined,
          up_lastActiveAt = mathMax joined, up_reputation = reputation, up_memberships = map memberMembership ms\<rparr>)"

text \<open>\<open>Some None\<close> is null. The second query is skipped when the first has an answer; the code prefers the first anyway.\<close>

definition useUserProfile ::
  "string option \<Rightarrow> string option \<Rightarrow> json option \<Rightarrow> json option \<Rightarrow> clientProfile list \<Rightarrow> clientProfile \<Rightarrow> userProfile option option" where
  "useUserProfile userAddress address profileData membershipsData ps reputationProfile =
     (let targetAddress = js_or userAddress address
      in map_option
           (\<lambda>target.
             let reputation = map_option reputationData target; user = Option.bind profileData (\<lambda>d. field d ''user'')
             in if jsonTruthy user then Some (profileOfUser reputation (the user))
                else map_option (profileOfMembers targetAddress reputation) (answerArray membershipsData ''members''))
           (if nonempty targetAddress then findOwner (the targetAddress) ps else Some (Some reputationProfile)))"

definition activeMemberships :: "userProfile option \<Rightarrow> clientMembership list" where
  "activeMemberships p =
     (case p of None \<Rightarrow> [] | Some u \<Rightarrow> filter (\<lambda>m. cm_state m = Some (JStr ''ACTIVE'')) (up_memberships u))"

definition findMembership :: "string \<Rightarrow> clientMembership list \<Rightarrow> clientMembership option option" where
  "findMembership orgId ms = findJs (\<lambda>m. map_option (\<lambda>i. i = Some (JStr orgId)) (readProp (cm_organization m) ''id'')) ms"

definition isCreator :: "string \<Rightarrow> clientMembership list \<Rightarrow> bool option" where
  "isCreator orgId ms = map_option (\<lambda>m. Option.bind m cm_role = Some (JStr ''PRIME'')) (findMembership orgId ms)"

definition isMemberOf :: "string \<Rightarrow> clientMembership list \<Rightarrow> bool option" where
  "isMemberOf orgId ms = map_option (\<lambda>m. m \<noteq> None) (findMembership orgId ms)"

definition getMembershipRole :: "string \<Rightarrow> clientMembership list \<Rightarrow> json option option" where
  "getMembershipRole orgId ms = map_option (\<lambda>m. or_else (Option.bind m cm_role) (Some JNull)) (findMembership orgId ms)"

record userActivity =
  ua_memberships :: "json list"
  ua_contributions :: "json list"
  ua_proposals :: "json list"
  ua_votes :: "json list"

definition useUserActivity :: "json option \<Rightarrow> userActivity option" where
  "useUserActivity data =
     (let user = Option.bind data (\<lambda>d. field d ''user'')
      in if \<not> jsonTruthy user then None
         else
           (let list = (\<lambda>k. arrayOr (field (the user) k))
            in Some \<lparr>ua_memberships = list ''memberships'', ua_contributions = list ''contributions'', ua_proposals = list ''proposals'',
                     ua_votes = list ''votes''\<rparr>))"

record activityStats =
  as_activeOrganizations :: nat
  as_totalContributions :: nat
  as_totalProposals :: nat
  as_totalVotes :: nat
  as_leadershipRoles :: nat

definition activityStatistics :: "userActivity option \<Rightarrow> activityStats option" where
  "activityStatistics activity =
     map_option
       (\<lambda>a. \<lparr>as_activeOrganizations = length (ua_memberships a), as_totalContributions = length (ua_contributions a),
             as_totalProposals = length (ua_proposals a), as_totalVotes = length (ua_votes a),
             as_leadershipRoles = length (filter (\<lambda>m. field m ''role'' = Some (JStr ''PRIME'')) (ua_memberships a))\<rparr>)
       activity"

section \<open>Portfolio and treasury\<close>

record tokenBalance =
  tb_address :: string
  tb_symbol :: string
  tb_balance :: string
  tb_valueUSD :: int
  tb_decimals :: nat

record portfolioParticipation =
  pf_organizations :: nat
  pf_campaigns :: nat
  pf_proposals :: nat
  pf_votes :: nat

record portfolioData =
  pf_totalValueUSD :: int
  pf_change24h :: int
  pf_tokenCount :: nat
  pf_tokens :: "tokenBalance list"
  pf_participation :: portfolioParticipation

definition portfolioWith :: "portfolioParticipation \<Rightarrow> portfolioData" where
  "portfolioWith p = \<lparr>pf_totalValueUSD = 0, pf_change24h = 0, pf_tokenCount = 0, pf_tokens = [], pf_participation = p\<rparr>"

definition emptyPortfolio :: portfolioData where
  "emptyPortfolio = portfolioWith \<lparr>pf_organizations = 0, pf_campaigns = 0, pf_proposals = 0, pf_votes = 0\<rparr>"

text \<open>A membership without its organization throws; the set of ids counts each once.\<close>

definition participation :: "json list \<Rightarrow> portfolioParticipation option" where
  "participation ms =
     (let count = (\<lambda>k. sum_list (map (\<lambda>m. length (arrayOr (field m k))) ms))
      in map_option
           (\<lambda>ids. \<lparr>pf_organizations = length (remdups ids), pf_campaigns = count ''contributions'', pf_proposals = count ''proposals'',
                   pf_votes = count ''votes''\<rparr>)
           (those (map (\<lambda>m. readProp (field m ''organization'') ''id'') ms)))"

definition usePortfolio ::
  "string option \<Rightarrow> bool \<Rightarrow> json option \<Rightarrow> bool \<Rightarrow> string option \<Rightarrow> (portfolioData \<times> string option) option" where
  "usePortfolio address contractsValid data queryError error =
     (if \<not> nonempty address \<or> \<not> contractsValid then Some (emptyPortfolio, error)
      else if queryError \<and> \<not> jsonTruthy data then
        Some (emptyPortfolio, Some ''Unable to load portfolio data. Please check your connection.'')
      else
        case answerArray data ''members'' of
          Some (m # ms) \<Rightarrow> map_option (\<lambda>p. (portfolioWith p, error)) (participation (m # ms))
        | _ \<Rightarrow> Some (emptyPortfolio, error))"

record treasuryData =
  td_address :: "json option"
  td_totalValueUSD :: int
  td_change24h :: int
  td_tokenCount :: nat
  td_dailyLimit :: int
  td_todaySpent :: int
  td_tokens :: "tokenBalance list"

definition treasuryAt :: "json option \<Rightarrow> treasuryData" where
  "treasuryAt address =
     \<lparr>td_address = address, td_totalValueUSD = 0, td_change24h = 0, td_tokenCount = 0, td_dailyLimit = 0, td_todaySpent = 0,
      td_tokens = []\<rparr>"

definition emptyTreasury :: treasuryData where
  "emptyTreasury = treasuryAt (Some (JStr ZERO))"

definition useTreasury ::
  "bool \<Rightarrow> string option \<Rightarrow> json option \<Rightarrow> bool \<Rightarrow> bool \<Rightarrow> string option \<Rightarrow> treasuryData \<times> string option" where
  "useTreasury contractsValid organizationId data loading queryError error =
     (let org = Option.bind data (\<lambda>d. field d ''organization'')
      in if \<not> contractsValid \<or> \<not> nonempty organizationId then (emptyTreasury, error)
         else if queryError \<and> \<not> jsonTruthy data then
           (emptyTreasury, Some ''Unable to load treasury data. Please check your connection.'')
         else if jsonTruthy org then (treasuryAt (or_else (field (the org) ''treasury'') (Some (JStr ZERO))), error)
         else (emptyTreasury, if \<not> loading then Some ''Organization not found'' else error))"

section \<open>What the rankings contain\<close>

lemma clientProfiles_plain: "p \<in> set (clientProfiles data) \<Longrightarrow> cp_reputation p = 0"
  by (auto simp: clientProfiles_def mapArray_def transformProfile_def plainProfile_def split: option.splits)

lemma byReputation_id: "(\<And>p. p \<in> set ps \<Longrightarrow> cp_reputation p = 0) \<Longrightarrow> byReputation ps = ps"
  unfolding byReputation_def by (rule sort_key_id_if_sorted) (simp add: sorted_wrt_map sorted_wrt_iff_nth_less)

lemma byCreation_simps [simp]: "mset (byCreation ps) = mset ps" "set (byCreation ps) = set ps" "length (byCreation ps) = length ps"
  by (simp_all add: byCreation_def)

lemma byCreation_sorted: "sorted_wrt (\<lambda>p q. cp_createdAt q \<le> cp_createdAt p) (byCreation ps)"
  using sorted_sort_key [of "\<lambda>p. - cp_createdAt p" ps] by (simp add: byCreation_def sorted_wrt_map)

lemma useReputation_simps:
  assumes "useReputation data address = Some h"
  shows "rh_profiles h = byCreation (clientProfiles data)"
    and "rs_topPerformers (rh_stats h) = take 10 (clientProfiles data)"
    and "rs_recentProfiles (rh_stats h) = take 10 (byCreation (clientProfiles data))"
    and "nonempty address \<Longrightarrow> \<exists>r. findOwner (the address) (rh_profiles h) = Some r
           \<and> rh_userProfile h = (case r of Some p \<Rightarrow> p | None \<Rightarrow> emptyProfile (the address))"
  using assms byReputation_id [of "clientProfiles data"] clientProfiles_plain [of _ data]
  by (auto simp: useReputation_def reputationStatistics_def Let_def split: if_splits)

lemma findJs_first:
  assumes "findJs P xs = Some r" and "sorted_wrt R xs" and "\<And>x. R x x" and "x \<in> set xs" and "P x = Some True"
  shows "\<exists>y. r = Some y \<and> y \<in> set xs \<and> P y = Some True \<and> R y x"
  using assms
proof (induction xs)
  case (Cons a xs)
  show ?case
  proof (cases "P a = Some True")
    case True
    then show ?thesis using Cons.prems by auto
  next
    case False
    then show ?thesis using Cons by (auto split: option.splits if_splits)
  qed
qed simp

text \<open>
  C33. The reputation page ranks nothing: since every reputation it shows is the default 0, the top performers are the first ten profiles of the answer, in its
  order. The list it returns has the same profiles with the newest first, because the array is sorted in place; the recent profiles are its first ten, the
  function for top profiles returns the newest too, and the profile of a user is the newest of those with the user's address.
\<close>

theorem reputation_ranks_nothing:
  assumes "useReputation data address = Some h"
  shows "mset (rh_profiles h) = mset (clientProfiles data) \<and> sorted_wrt (\<lambda>p q. cp_createdAt q \<le> cp_createdAt p) (rh_profiles h)
     \<and> rs_topPerformers (rh_stats h) = take 10 (clientProfiles data)
     \<and> rs_recentProfiles (rh_stats h) = take 10 (rh_profiles h)
     \<and> getTopProfiles limit (rh_profiles h) = (sliceTo limit (rh_profiles h), rh_profiles h)
     \<and> (\<forall>p\<in>set (clientProfiles data). nonempty address \<and> lowerAddress (cp_owner p) = Some (toLowerCase (the address)) \<longrightarrow>
          rh_userProfile h \<in> set (clientProfiles data) \<and> lowerAddress (cp_owner (rh_userProfile h)) = Some (toLowerCase (the address))
          \<and> cp_createdAt p \<le> cp_createdAt (rh_userProfile h))"
proof (intro conjI ballI impI)
  note h = useReputation_simps [OF assms]
  have plain: "byReputation (rh_profiles h) = rh_profiles h" using clientProfiles_plain [of _ data] h(1) by (intro byReputation_id) simp
  show "mset (rh_profiles h) = mset (clientProfiles data)" "sorted_wrt (\<lambda>p q. cp_createdAt q \<le> cp_createdAt p) (rh_profiles h)"
    "rs_topPerformers (rh_stats h) = take 10 (clientProfiles data)" "rs_recentProfiles (rh_stats h) = take 10 (rh_profiles h)"
    "getTopProfiles limit (rh_profiles h) = (sliceTo limit (rh_profiles h), rh_profiles h)"
    using h(1-3) byCreation_sorted plain by (simp_all add: getTopProfiles_def Let_def)
  fix p assume p: "p \<in> set (clientProfiles data)"
    and a: "nonempty address \<and> lowerAddress (cp_owner p) = Some (toLowerCase (the address))"
  obtain r where r: "findOwner (the address) (rh_profiles h) = Some r"
      "rh_userProfile h = (case r of Some p \<Rightarrow> p | None \<Rightarrow> emptyProfile (the address))"
    using h(4) a by blast
  have "\<exists>y. r = Some y \<and> y \<in> set (rh_profiles h) \<and> map_option (\<lambda>b. b = toLowerCase (the address)) (lowerAddress (cp_owner y)) = Some True
      \<and> cp_createdAt p \<le> cp_createdAt y"
    by (rule findJs_first [OF r(1) [unfolded findOwner_def]]) (use p a h(1) byCreation_sorted in auto)
  then show "rh_userProfile h \<in> set (clientProfiles data)" "lowerAddress (cp_owner (rh_userProfile h)) = Some (toLowerCase (the address))"
    "cp_createdAt p \<le> cp_createdAt (rh_userProfile h)"
    using r(2) h(1) by auto
qed

definition exampleProfile :: "string \<Rightarrow> int \<Rightarrow> json" where
  "exampleProfile i t =
     JObj [(''id'', JStr i), (''organization'', JNull), (''user'', JObj [(''id'', JStr ''0xab''), (''address'', JStr ''0xAB'')]),
           (''createdAt'', JStr (show_int t))]"

theorem reputation_ranks_nothing_witness:
  "\<exists>h. useReputation (Some (JObj [(''profiles'', JArr [exampleProfile ''old'' 5, exampleProfile ''new'' 9])])) (Some ''0xAb'') = Some h
     \<and> map cp_createdAt (rs_topPerformers (rh_stats h)) = [5, 9] \<and> cp_createdAt (rh_userProfile h) = 9"
proof -
  let ?d = "Some (JObj [(''profiles'', JArr [exampleProfile ''old'' 5, exampleProfile ''new'' 9])])"
  have "toLowerCase ''0xAB'' = toLowerCase ''0xAb''" by code_simp
  then have own: "lowerAddress (cp_owner (transformProfile (exampleProfile i t))) = Some (toLowerCase ''0xAb'')" for i t
    by (simp add: transformProfile_def plainProfile_def exampleProfile_def lowerAddress_def readProp_def)
  have t: "cp_createdAt (transformProfile (exampleProfile i t)) = toDouble t" for i t
    by (simp add: transformProfile_def plainProfile_def exampleProfile_def)
  have ps: "clientProfiles ?d = [transformProfile (exampleProfile ''old'' 5), transformProfile (exampleProfile ''new'' 9)]"
    by (simp add: clientProfiles_def)
  have "findJs (\<lambda>p. map_option (\<lambda>a. a = toLowerCase ''0xAb'') (lowerAddress (cp_owner p))) qs \<noteq> None"
    if "set qs \<subseteq> set (clientProfiles ?d)" for qs
    using that by (induction qs) (auto simp: ps own)
  then have "useReputation ?d (Some ''0xAb'') \<noteq> None"
    by (auto simp: useReputation_def reputationStatistics_def findOwner_def Let_def byReputation_def nonempty_def)
  then obtain h where h: "useReputation ?d (Some ''0xAb'') = Some h" by auto
  note c = reputation_ranks_nothing [OF h]
  have top: "map cp_createdAt (rs_topPerformers (rh_stats h)) = [5, 9]" using c by (simp add: ps t)
  have "transformProfile (exampleProfile ''new'' 9) \<in> set (clientProfiles ?d)" by (simp add: ps)
  moreover have "nonempty (Some ''0xAb'') \<and> lowerAddress (cp_owner (transformProfile (exampleProfile ''new'' 9))) = Some (toLowerCase (the (Some ''0xAb'')))"
    by (simp only: own option.sel) (simp add: nonempty_def)
  ultimately have u: "rh_userProfile h \<in> set (clientProfiles ?d)" "toDouble 9 \<le> cp_createdAt (rh_userProfile h)"
    using c unfolding t [symmetric, of 9 "''new''"] by blast+
  have "cp_createdAt ` set (clientProfiles ?d) = {5, 9}" by (simp add: ps t)
  then have "cp_createdAt (rh_userProfile h) \<in> {5, 9}" using imageI [OF u(1), of cp_createdAt] by simp
  then have "cp_createdAt (rh_userProfile h) = 9" using u(2) by simp
  with h top show ?thesis by (intro exI [of _ h] conjI)
qed

section \<open>The pages of a user are empty\<close>

lemma findOwner_returns: "list_all (\<lambda>p. lowerAddress (cp_owner p) \<noteq> None) ps \<Longrightarrow> \<exists>r. findOwner a ps = Some r"
  by (induction ps) (auto simp: findOwner_def)

text \<open>
  C32. The pages about a user are always empty: with a node that answers only queries that fit its schema no user has a profile, memberships, roles or activity, whatever is
  stored; the portfolio counts nothing, and the treasury of every organization is the zero address with the error that the organization was not
  found.
\<close>

theorem user_pages_empty:
  assumes only_valid: "\<And>q. serve q \<noteq> None \<Longrightarrow> query_valid (map_of entityRoots) q"
    and owners: "list_all (\<lambda>p. lowerAddress (cp_owner p) \<noteq> None) ps"
  shows "useUserProfile user address (serve GET_USER_PROFILE) (serve GET_ALL_USER_MEMBERSHIPS) ps reputation = Some None
     \<and> isMemberOf orgId (activeMemberships None) = Some False \<and> isCreator orgId (activeMemberships None) = Some False
     \<and> activityStatistics (useUserActivity (serve GET_USER_ACTIVITY)) = None
     \<and> usePortfolio address ready (serve GET_USER_PORTFOLIO) False None = Some (emptyPortfolio, None)
     \<and> useTreasury True (Some (c # org)) (serve GET_ORGANIZATION_TREASURY) False False None = (emptyTreasury, Some ''Organization not found'')"
proof -
  have none: "serve GET_USER_PROFILE = None" "serve GET_ALL_USER_MEMBERSHIPS = None" "serve GET_USER_ACTIVITY = None"
    "serve GET_USER_PORTFOLIO = None" "serve GET_ORGANIZATION_TREASURY = None"
    by (rule unanswered [OF only_valid], assumption, simp add: ghosts_of_queries)+
  have "\<exists>r. (if nonempty t then findOwner (the t) ps else Some (Some reputation)) = Some r" for t
    using findOwner_returns [OF owners] by simp
  then obtain r where "(if nonempty (js_or user address) then findOwner (the (js_or user address)) ps else Some (Some reputation)) = Some r"
    by blast
  then show ?thesis
    by (simp add: none useUserProfile_def isMemberOf_def isCreator_def activeMemberships_def findMembership_def activityStatistics_def
        useUserActivity_def usePortfolio_def useTreasury_def nonempty_def Let_def)
qed

theorem user_pages_empty_witness:
  "let serve = (\<lambda>q. if query_valid (map_of entityRoots) q then Some (JObj []) else None)
   in serve GET_PROFILES \<noteq> None
      \<and> useTreasury True (Some ''ABCD1234'') (serve GET_ORGANIZATION_TREASURY) False False None = (emptyTreasury, Some ''Organization not found'')"
proof -
  let ?serve = "\<lambda>q. if query_valid (map_of entityRoots) q then Some (JObj []) else None"
  have ok: "\<And>q. ?serve q \<noteq> None \<Longrightarrow> query_valid (map_of entityRoots) q" by (simp split: if_splits)
  have "query_valid (map_of entityRoots) GET_PROFILES" using ghosts_of_queries query_ghosts_Nil by blast
  then show ?thesis using user_pages_empty [where serve = ?serve and ps = "[]" and c = "CHR ''A''" and org = "''BCD1234''", OF ok] by simp
qed

end
