(* ===== verification/Dashboard_Client.thy ===== *)
theory Dashboard_Client
  imports Organizations_Client Proposals_Client Profiles_Client Indexing
begin

text \<open>
  The overview pages of the web client: \<open>packages/frontend/src/hooks/useProtocolStats.ts\<close>, \<open>useIndexingStatus.ts\<close> and \<open>useOrganizationDetails.ts\<close>.

  \<^item> An answer has only what its query selects: \<open>answers\<close> states this for a whole answer, nested entities included.
  \<^item> A percentage of the indexing status is the text that \<open>parseFloat\<close> reads; the client only compares it with constants. The membership fee is the
    text of a number, as in \<open>Organizations_Client\<close>. The text of the total raised, a sum of doubles, is not modelled.

  The lemmas show which numbers of these pages can never be anything but 0, that the indexing status of the subgraph reads as unsynced and finished at once, and
  what the page of an organization shows for fields its query does not select.
\<close>

section \<open>Answers have what their query selects\<close>

fun answers :: "selection list \<Rightarrow> json \<Rightarrow> bool" where
  "answers subs (JObj fs) =
     list_all (\<lambda>(k, v). list_ex (\<lambda>s. case s of Sel f _ _ sub \<Rightarrow> f = k \<and> (sub = [] \<or> answers sub v)) subs) fs"
| "answers subs (JArr js) = list_all (answers subs) js"
| "answers subs _ = True"

lemma answers_field:
  assumes "answers subs j" and "field j k = Some v"
  shows "\<exists>c ob sub. Sel k c ob sub \<in> set subs \<and> (sub = [] \<or> answers sub v)"
proof (cases j)
  case (JObj fs)
  then have "(k, v) \<in> set fs" using assms(2) by (simp add: map_of_SomeD)
  moreover have "list_all (\<lambda>(k, v). list_ex (\<lambda>s. case s of Sel f _ _ sub \<Rightarrow> f = k \<and> (sub = [] \<or> answers sub v)) subs) fs"
    using assms(1) JObj by (simp only: answers.simps)
  ultimately obtain s where "s \<in> set subs" "case s of Sel f _ _ sub \<Rightarrow> f = k \<and> (sub = [] \<or> answers sub v)"
    unfolding list_all_iff list_ex_iff by blast
  moreover obtain f c ob sub where "s = Sel f c ob sub" by (cases s)
  ultimately show ?thesis by auto
qed (use assms(2) in simp_all)

lemma answers_unselected: "answers subs j \<Longrightarrow> (\<And>c ob sub. Sel k c ob sub \<notin> set subs) \<Longrightarrow> field j k = None"
  using answers_field by (metis option.exhaust)

section \<open>Protocol statistics\<close>

record protocolStats =
  gt_totalModules :: int
  gt_activeModules :: int
  gt_totalOrganizations :: nat
  gt_activeOrganizations :: nat
  gt_totalMembers :: int
  gt_totalCampaigns :: nat
  gt_activeCampaigns :: nat
  gt_totalProposals :: nat
  gt_activeProposals :: nat
  gt_totalVotes :: int
  gt_totalProfiles :: int
  gt_verifiedProfiles :: int
  gt_totalAchievements :: int
  gt_updatedAt :: int

definition answeredList :: "json option \<Rightarrow> string \<Rightarrow> json list" where
  "answeredList data key = (case answerArray data key of None \<Rightarrow> [] | Some xs \<Rightarrow> xs)"

definition activeCount :: "json list \<Rightarrow> nat" where
  "activeCount xs = length (filter (\<lambda>x. field x ''state'' = Some (JStr ''ACTIVE'')) xs)"

definition protocolStatistics :: "int \<Rightarrow> json option \<Rightarrow> json option \<Rightarrow> json option \<Rightarrow> protocolStats" where
  "protocolStatistics now orgsData campaignsData proposalsData =
     (let os = answeredList orgsData ''organizations''; cs = answeredList campaignsData ''campaigns''; ps = answeredList proposalsData ''proposals''
      in \<lparr>gt_totalModules = 5, gt_activeModules = 5, gt_totalOrganizations = length os, gt_activeOrganizations = activeCount os,
          gt_totalMembers = sumNumbers (\<lambda>x. parseIntOr (field x ''memberCount'') 0) os, gt_totalCampaigns = length cs,
          gt_activeCampaigns = activeCount cs, gt_totalProposals = length ps, gt_activeProposals = activeCount ps,
          gt_totalVotes = sumNumbers (\<lambda>x. parseIntOr (field x ''voteCount'') 0) ps, gt_totalProfiles = 0, gt_verifiedProfiles = 0,
          gt_totalAchievements = 0, gt_updatedAt = now\<rparr>)"

record recentActivity =
  ra_id :: "json option"
  ra_type :: "json option"
  ra_title :: "json option"
  ra_description :: "json option"
  ra_organization :: "json option"
  ra_creator :: "json option"
  ra_timestamp :: "int option"
  ra_blockNumber :: "int option"
  ra_transactionHash :: "json option"

definition transformActivity :: "json \<Rightarrow> recentActivity" where
  "transformActivity activity =
     (let f = field activity
      in \<lparr>ra_id = f ''id'', ra_type = f ''type'', ra_title = f ''title'', ra_description = f ''description'',
          ra_organization = f ''organization'', ra_creator = f ''creator'', ra_timestamp = parseIntNum (f ''timestamp''),
          ra_blockNumber = parseIntNum (f ''blockNumber''), ra_transactionHash = f ''transactionHash''\<rparr>)"

definition recentActivities :: "json option \<Rightarrow> recentActivity list" where
  "recentActivities activitiesData = mapArray activitiesData ''recentActivities'' transformActivity []"

section \<open>The indexing status\<close>

record clientIndexingStatus =
  xs_currentBlock :: "int option"
  xs_latestBlock :: "int option"
  xs_isFullySynced :: bool
  xs_totalBlocks :: "int option"
  xs_blocksRemaining :: "int option"
  xs_syncPercentage :: string
  xs_blocksPerSecond :: string
  xs_estimatedTimeToSync :: "int option"
  xs_lastUpdatedAt :: "int option"
  xs_lastUpdatedBlock :: "int option"
  xs_hasErrors :: bool
  xs_lastError :: "json option"
  xs_errorCount :: "int option"

text \<open>\<open>data?.subgraphIndexingStatus?.key || '0'\<close>\<close>

definition statusOr0 :: "json option \<Rightarrow> string \<Rightarrow> json option" where
  "statusOr0 data key =
     or_else (Option.bind (Option.bind data (\<lambda>d. field d ''subgraphIndexingStatus'')) (\<lambda>s. field s key)) (Some (JStr ''0''))"

definition statusField :: "json option \<Rightarrow> string \<Rightarrow> json option" where
  "statusField data key = Option.bind (Option.bind data (\<lambda>d. field d ''subgraphIndexingStatus'')) (\<lambda>s. field s key)"

definition useIndexingStatus :: "json option \<Rightarrow> clientIndexingStatus" where
  "useIndexingStatus data =
     (let int = (\<lambda>k. parseIntNum (statusOr0 data k))
      in \<lparr>xs_currentBlock = int ''currentBlock'', xs_latestBlock = int ''latestBlock'',
          xs_isFullySynced = jsonTruthy (statusField data ''isFullySynced''), xs_totalBlocks = int ''totalBlocks'',
          xs_blocksRemaining = int ''blocksRemaining'', xs_syncPercentage = templateText (statusOr0 data ''syncPercentage''),
          xs_blocksPerSecond = templateText (statusOr0 data ''blocksPerSecond''), xs_estimatedTimeToSync = int ''estimatedTimeToSync'',
          xs_lastUpdatedAt = int ''lastUpdatedAt'', xs_lastUpdatedBlock = int ''lastUpdatedBlock'',
          xs_hasErrors = jsonTruthy (statusField data ''hasErrors''), xs_lastError = or_else (statusField data ''lastError'') None,
          xs_errorCount = int ''errorCount''\<rparr>)"

definition metricsStatus :: "json option \<Rightarrow> clientIndexingStatus" where
  "metricsStatus data =
     (let int = (\<lambda>k. parseIntNum (statusOr0 data k))
      in (useIndexingStatus data)
           \<lparr>xs_totalBlocks := Some 0,
            xs_blocksRemaining := (case (int ''latestBlock'', int ''currentBlock'') of (Some l, Some c) \<Rightarrow> Some (toDouble (l - c)) | _ \<Rightarrow> None),
            xs_errorCount := Some 0\<rparr>)"

record clientBlock =
  cb_number :: "int option"
  cb_timestamp :: "int option"
  cb_eventCount :: "int option"
  cb_organizationEvents :: "int option"
  cb_campaignEvents :: "int option"
  cb_proposalEvents :: "int option"
  cb_profileEvents :: "int option"
  cb_stakingEvents :: "int option"

definition recentBlocks :: "json option \<Rightarrow> clientBlock list" where
  "recentBlocks data =
     mapArray data ''blockInfos''
       (\<lambda>b. let int = (\<lambda>k. parseIntNum (field b k))
             in \<lparr>cb_number = int ''number'', cb_timestamp = int ''timestamp'', cb_eventCount = int ''eventCount'',
                 cb_organizationEvents = int ''organizationEvents'', cb_campaignEvents = int ''campaignEvents'',
                 cb_proposalEvents = int ''proposalEvents'', cb_profileEvents = int ''profileEvents'',
                 cb_stakingEvents = int ''stakingEvents''\<rparr>) []"

text \<open>No comparison with NaN holds, and its parts are written as NaN.\<close>

definition formatTimeRemaining :: "int option \<Rightarrow> string" where
  "formatTimeRemaining seconds =
     (case seconds of
        None \<Rightarrow> ''NaNd NaNh''
      | Some s \<Rightarrow>
          if s \<le> 0 then ''Synced''
          else if s < 60 then show_int s @ ''s''
          else if s < 3600 then show_int (s div 60) @ ''m''
          else if s < 86400 then show_int (s div 3600) @ ''h '' @ show_int (s mod 3600 div 60) @ ''m''
          else show_int (s div 86400) @ ''d '' @ show_int (s mod 86400 div 3600) @ ''h'')"

definition getSyncStatusColor :: "string \<Rightarrow> bool \<Rightarrow> string" where
  "getSyncStatusColor percentage hasErrors =
     (if hasErrors then ''text-red-500''
      else if parseFloatAtLeast 99 percentage then ''text-green-500''
      else if parseFloatAtLeast 90 percentage then ''text-yellow-500'' else ''text-blue-500'')"

definition getSyncStatusText :: "clientIndexingStatus \<Rightarrow> string" where
  "getSyncStatusText status =
     (if xs_hasErrors status then ''Error''
      else if xs_isFullySynced status then ''Synced''
      else if parseFloatAtLeast 99 (xs_syncPercentage status) then ''Almost Synced''
      else if parseFloatAtLeast 90 (xs_syncPercentage status) then ''Nearly Synced''
      else if parseFloatAtLeast 50 (xs_syncPercentage status) then ''Syncing'' else ''Initial Sync'')"

section \<open>The page of an organization\<close>

record detailsMember =
  om_id :: "json option"
  om_address :: "json option"
  om_state :: "json option"
  om_role :: "json option"
  om_joinedAt :: int

record detailsCampaign =
  dc_id :: "json option"
  dc_title :: "json option"
  dc_state :: "json option"
  dc_target :: "json option"
  dc_raised :: "json option"
  dc_createdAt :: int

record detailsProposal =
  dp_id :: "json option"
  dp_title :: "json option"
  dp_state :: "json option"
  dp_createdAt :: int

record organizationDetails =
  od_id :: "json option"
  od_name :: "json option"
  od_creator :: "json option"
  od_prime :: "json option"
  od_metadataURI :: "json option"
  od_treasuryId :: "json option"
  od_treasuryAddress :: "json option"
  od_treasuryBalance :: "json option"
  od_orgType :: "json option"
  od_accessModel :: int
  od_state :: int
  od_memberLimit :: int
  od_membershipFee :: string
  od_memberCount :: int
  od_totalCampaigns :: int
  od_totalProposals :: int
  od_createdAt :: int
  od_updatedAt :: int
  od_blockNumber :: int
  od_transactionHash :: "json option"
  od_members :: "detailsMember list"
  od_campaigns :: "detailsCampaign list"
  od_proposals :: "detailsProposal list"

definition details_getAccessModelFromString :: "string option \<Rightarrow> int" where
  "details_getAccessModelFromString accessModel =
     (if accessModel = Some ''OPEN'' then 0 else if accessModel = Some ''VOTING'' then 1 else if accessModel = Some ''INVITE'' then 2 else 0)"

definition details_getStateFromString :: "string option \<Rightarrow> int" where
  "details_getStateFromString state =
     (if state = Some ''INACTIVE'' then 0 else if state = Some ''ACTIVE'' then 1 else if state = Some ''LOCKED'' then 2 else 0)"

definition optField :: "json option \<Rightarrow> string \<Rightarrow> json option" where
  "optField v k = Option.bind v (\<lambda>j. field j k)"

definition transformMember :: "int \<Rightarrow> json \<Rightarrow> detailsMember" where
  "transformMember now m =
     \<lparr>om_id = field m ''id'', om_address = or_else (or_else (optField (field m ''user'') ''address'') (field m ''address'')) (Some (JStr [])),
      om_state = field m ''state'', om_role = or_else (field m ''role'') (Some (JStr ''MEMBER'')),
      om_joinedAt = parseIntOr (field m ''joinedAt'') now\<rparr>"

definition detailsOf :: "(json option \<Rightarrow> string) \<Rightarrow> int \<Rightarrow> json \<Rightarrow> organizationDetails" where
  "detailsOf feeOf now org =
     (let f = field org; none = Some (JStr []); treasury = optField (f ''treasury''); creator = or_else (optField (f ''creator'') ''address'') (f ''creator'')
      in \<lparr>od_id = f ''id'', od_name = orgName org, od_creator = or_else creator none, od_prime = or_else (or_else (f ''prime'') creator) none,
          od_metadataURI = f ''metadataURI'', od_treasuryId = or_else (treasury ''id'') none,
          od_treasuryAddress = or_else (or_else (treasury ''address'') (f ''treasuryAddress'')) (Some (JStr ZERO)),
          od_treasuryBalance = or_else (or_else (treasury ''balance'') (treasury ''totalDeposits'')) (Some (JStr ''0'')),
          od_orgType = or_else (f ''orgType'') (Some (JStr ''INDIVIDUAL'')),
          od_accessModel = details_getAccessModelFromString (textOf (f ''accessModel'')),
          od_state = details_getStateFromString (textOf (f ''state'')), od_memberLimit = parseIntOr (f ''memberLimit'') 100,
          od_membershipFee = (if jsonTruthy (f ''membershipFee'') then feeOf (f ''membershipFee'') else ''0''),
          od_memberCount = parseIntOr (f ''memberCount'') 0, od_totalCampaigns = parseIntOr (f ''totalCampaigns'') 0,
          od_totalProposals = parseIntOr (f ''totalProposals'') 0, od_createdAt = parseIntOr (f ''createdAt'') now,
          od_updatedAt = parseIntOr (f ''updatedAt'') now, od_blockNumber = parseIntOr (f ''blockNumber'') 0,
          od_transactionHash = or_else (optField (f ''transaction'') ''hash'') none,
          od_members = map (transformMember now) (arrayOr (f ''members'')),
          od_campaigns = map (\<lambda>c. \<lparr>dc_id = field c ''id'', dc_title = field c ''title'', dc_state = field c ''state'', dc_target = field c ''target'',
             dc_raised = field c ''raised'', dc_createdAt = parseIntOr (field c ''createdAt'') now\<rparr>) (arrayOr (f ''campaigns'')),
          od_proposals = map (\<lambda>p. \<lparr>dp_id = field p ''id'', dp_title = field p ''title'', dp_state = field p ''state'',
             dp_createdAt = parseIntOr (field p ''createdAt'') now\<rparr>) (arrayOr (f ''proposals''))\<rparr>)"

definition useOrganizationDetails :: "(json option \<Rightarrow> string) \<Rightarrow> int \<Rightarrow> json option \<Rightarrow> organizationDetails option" where
  "useOrganizationDetails feeOf now data =
     (let org = optField data ''organization'' in if jsonTruthy org then Some (detailsOf feeOf now (the org)) else None)"

definition activeMembers :: "organizationDetails option \<Rightarrow> detailsMember list" where
  "activeMembers organization =
     (case organization of None \<Rightarrow> [] | Some d \<Rightarrow> filter (\<lambda>m. om_state m = Some (JStr ''ACTIVE'')) (od_members d))"

definition actualMemberCount :: "organizationDetails option \<Rightarrow> nat" where
  "actualMemberCount organization = length (activeMembers organization)"

section \<open>Numbers that are always 0\<close>

lemma GET_PROPOSALS_answer:
  assumes "answers GET_PROPOSALS (JObj [(''proposals'', JArr js)])" and "j \<in> set js"
  shows "field j ''voteCount'' = None"
proof -
  obtain c ob sub where sel: "Sel ''proposals'' c ob sub \<in> set GET_PROPOSALS" "sub = [] \<or> answers sub (JArr js)"
    using answers_field [OF assms(1), of "''proposals''"] by auto
  have "answers sub j" using sel assms(2) by (auto simp: GET_PROPOSALS_def list_all_iff)
  then show ?thesis by (rule answers_unselected) (use sel(1) in \<open>auto simp: GET_PROPOSALS_def\<close>)
qed

lemma sumNumbers_0: "(\<And>x. x \<in> set xs \<Longrightarrow> f x = 0) \<Longrightarrow> sumNumbers f xs = 0"
proof -
  assume z: "\<And>x. x \<in> set xs \<Longrightarrow> f x = 0"
  have "foldl (\<lambda>sum x. toDouble (sum + f x)) 0 xs = 0" using z by (induction xs) simp_all
  then show ?thesis by (simp add: sumNumbers_def)
qed

lemma answeredList_simps [simp]: "answeredList None k = []" "answeredList (Some (JObj [(k, JArr xs)])) k = xs"
  by (simp_all add: answeredList_def)

text \<open>
  The dashboard counts no votes and no activity: after any Signal events with the ids the contract emits, from a node that answers only queries that fit its schema, with
  what they select and what is stored, the page shows every proposal of the answer, none of them active, no votes and no recent activity.
\<close>

theorem dashboard_counts_nothing:
  assumes "run (signal_step H) es (empty_store :: 'd store) = Inr s" and "list_all signal_wf es"
    and only_valid: "\<And>q. serve q \<noteq> None \<Longrightarrow> query_valid (map_of entityRoots) q"
    and answer: "serve GET_PROPOSALS = Some (JObj [(''proposals'', JArr js)])" "answers GET_PROPOSALS (JObj [(''proposals'', JArr js)])"
    and reported: "\<And>j. j \<in> set js \<Longrightarrow> \<exists>k p. proposals s k = Some p \<and> reportsProposal j p"
  shows "(let st = protocolStatistics now (serve GET_ORGANIZATIONS) (serve GET_CAMPAIGNS) (serve GET_PROPOSALS)
          in gt_totalProposals st = length js \<and> gt_activeProposals st = 0 \<and> gt_totalVotes st = 0)
     \<and> recentActivities (serve GET_RECENT_ACTIVITIES) = []"
proof -
  have "proposals_untouched s" by (rule run_untouched [OF assms(1, 2)]) (simp add: proposals_untouched_def)
  then have "field j ''state'' = Some (JStr ''PENDING'')" if "j \<in> set js" for j
    using reported [OF that] by (auto simp: proposals_untouched_def untouched_def reportsProposal_def)
  then have "activeCount js = 0" by (auto simp: activeCount_def filter_empty_conv)
  moreover have "sumNumbers (\<lambda>x. parseIntOr (field x ''voteCount'') 0) js = 0"
    using GET_PROPOSALS_answer [OF answer(2)] by (intro sumNumbers_0) (simp add: parseIntOr_def)
  moreover have "serve GET_RECENT_ACTIVITIES = None" by (rule unanswered [OF only_valid], assumption, simp add: ghosts_of_queries)
  ultimately show ?thesis by (simp add: protocolStatistics_def answer recentActivities_def Let_def)
qed

theorem dashboard_counts_nothing_witness:
  "let serve = (\<lambda>q. if q = GET_PROPOSALS then Some (JObj [(''proposals'', JArr [exampleProposalJson])]) else None)
   in gt_totalProposals (protocolStatistics 5 (serve GET_ORGANIZATIONS) (serve GET_CAMPAIGNS) (serve GET_PROPOSALS)) = 1
      \<and> gt_totalVotes (protocolStatistics 5 (serve GET_ORGANIZATIONS) (serve GET_CAMPAIGNS) (serve GET_PROPOSALS)) = 0"
proof -
  let ?serve = "\<lambda>q. if q = GET_PROPOSALS then Some (JObj [(''proposals'', JArr [exampleProposalJson])]) else None"
  obtain s where s: "run (signal_step (int_host (\<lambda>_. None))) [exampleProposalCreated] (empty_store :: int store) = Inr s"
      "\<And>j. j \<in> set [exampleProposalJson] \<Longrightarrow> \<exists>k p. proposals s k = Some p \<and> reportsProposal j p"
    using example_proposal_reported by blast
  have "query_valid (map_of entityRoots) GET_PROPOSALS" using ghosts_of_queries query_ghosts_Nil by blast
  then have v: "query_valid (map_of entityRoots) q" if "?serve q \<noteq> None" for q using that by (simp split: if_splits)
  have wf: "list_all signal_wf [exampleProposalCreated]" by (simp add: exampleProposalCreated_def)
  have a: "?serve GET_PROPOSALS = Some (JObj [(''proposals'', JArr [exampleProposalJson])])" by simp
  have b: "answers GET_PROPOSALS (JObj [(''proposals'', JArr [exampleProposalJson])])" by (simp add: GET_PROPOSALS_def exampleProposalJson_def)
  from dashboard_counts_nothing [where serve = ?serve and now = 5, OF s(1) wf v a b s(2)] show ?thesis by (simp add: Let_def)
qed

section \<open>Never synced, always finished\<close>

text \<open>A node that reports the status: integers and decimals are texts.\<close>

definition reportsStatus :: "json \<Rightarrow> 'd indexingStatus \<Rightarrow> bool" where
  "reportsStatus j st \<longleftrightarrow>
     field j ''currentBlock'' = Some (JStr (show_int (st_currentBlock st))) \<and> field j ''latestBlock'' = Some (JStr (show_int (st_latestBlock st)))
     \<and> field j ''isFullySynced'' = Some (JBool (st_isFullySynced st))
     \<and> field j ''blocksRemaining'' = Some (JStr (show_int (st_blocksRemaining st)))
     \<and> field j ''estimatedTimeToSync'' = Some (JStr (show_int (st_estimatedTimeToSync st)))"

lemma statusOr0_show:
  "statusField data k = Some (JStr (show_int n)) \<Longrightarrow> parseIntNum (statusOr0 data k) = Some (toDouble n)"
  using show_int_plain(2) [of n] by (simp add: statusOr0_def statusField_def or_else_def)

lemma no_speed:
  assumes "\<not> bd_gt H (bd_fromString H ''0'') (bd_fromString H ''0'')"
  shows "st_blocksPerSecond st = bd_fromString H ''0'' \<and> st_estimatedTimeToSync st = 0 \<Longrightarrow>
    st_blocksPerSecond (advanceIndexingStatus H b st) = bd_fromString H ''0'' \<and> st_estimatedTimeToSync (advanceIndexingStatus H b st) = 0"
  using assms by (auto simp: advanceIndexingStatus_def syncProgress_def Let_def)

lemma index_blocks_no_speed:
  assumes "\<not> bd_gt H (bd_fromString H ''0'') (bd_fromString H ''0'')" and "status_ok s" and "status_of s = Some st"
    and "st_blocksPerSecond st = bd_fromString H ''0'' \<and> st_estimatedTimeToSync st = 0"
  shows "\<exists>st'. status_of (index_blocks H bes s) = Some st' \<and> st_estimatedTimeToSync st' = 0"
  using assms(2-)
proof (induction bes arbitrary: s st)
  case (Cons be bes)
  obtain b e where be: "be = (b, e)" by (cases be)
  have "status_of (updateIndexingStatus H b e s) = Some (advanceIndexingStatus H b st)"
    using Cons.prems updateIndexingStatus_status [of s H b e] by simp
  from Cons.IH [OF updateIndexingStatus_ok [OF Cons.prems(1)] this no_speed [OF assms(1) Cons.prems(3)]] show ?case by (simp add: be)
qed simp

text \<open>
  C34. Never synced and always finished: after any non-empty sequence of indexed events the client shows the blocks the subgraph has seen, ten blocks behind the head; it never
  writes that the status is synced, but the time remaining is always written as synced, because nothing sets the speed it is computed from.
\<close>

theorem never_synced_always_finished:
  assumes "bes \<noteq> []" and "\<not> bd_gt H (bd_fromString H ''0'') (bd_fromString H ''0'')"
    and reported: "\<And>st. status_of (index_blocks H bes empty_store) = Some st \<Longrightarrow> reportsStatus j st"
  shows "let c = fold (\<lambda>(b, _) m. max m (b_number b)) bes 0; x = useIndexingStatus (Some (JObj [(''subgraphIndexingStatus'', j)]))
         in xs_currentBlock x = Some (toDouble c) \<and> xs_latestBlock x = Some (toDouble (c + 10)) \<and> xs_blocksRemaining x = Some 10
            \<and> \<not> xs_isFullySynced x \<and> getSyncStatusText x \<noteq> ''Synced'' \<and> formatTimeRemaining (xs_estimatedTimeToSync x) = ''Synced''"
proof -
  obtain b e bes' where bes: "bes = (b, e) # bes'" using assms(1) by (cases bes) auto
  let ?s = "updateIndexingStatus H b e empty_store"
  have ok0: "status_ok (empty_store :: 'a store)" by (simp add: status_ok_def status_of_def)
  have first: "status_of ?s = Some (advanceIndexingStatus H b (initialIndexingStatus H))"
    using updateIndexingStatus_status [OF ok0, of H b e] by (simp add: status_of_def)
  have "st_blocksPerSecond (advanceIndexingStatus H b (initialIndexingStatus H)) = bd_fromString H ''0''
      \<and> st_estimatedTimeToSync (advanceIndexingStatus H b (initialIndexingStatus H)) = 0"
    by (rule no_speed [OF assms(2)]) (simp add: initialIndexingStatus_def)
  from index_blocks_no_speed [OF assms(2) updateIndexingStatus_ok [OF ok0] first this, of bes']
  obtain st where st: "status_of (index_blocks H bes empty_store) = Some st" "st_estimatedTimeToSync st = 0" by (auto simp: bes)
  have props: "st_currentBlock st = fold (\<lambda>(b, _) m. max m (b_number b)) bes 0" "st_latestBlock st = st_currentBlock st + 10"
      "st_blocksRemaining st = 10" "\<not> st_isFullySynced st"
    using indexing_status_after_calls [OF assms(1), of H] st(1) by auto
  have j: "reportsStatus j st" by (rule reported [OF st(1)])
  then have f: "statusField (Some (JObj [(''subgraphIndexingStatus'', j)])) k = field j k" for k by (simp add: statusField_def)
  show ?thesis
    using j st(2) props statusOr0_show [of "Some (JObj [(''subgraphIndexingStatus'', j)])"]
    by (auto simp: useIndexingStatus_def reportsStatus_def f getSyncStatusText_def formatTimeRemaining_def Let_def)
qed

definition statusJson :: "'d indexingStatus \<Rightarrow> json" where
  "statusJson st =
     JObj [(''currentBlock'', JStr (show_int (st_currentBlock st))), (''latestBlock'', JStr (show_int (st_latestBlock st))),
           (''isFullySynced'', JBool (st_isFullySynced st)), (''blocksRemaining'', JStr (show_int (st_blocksRemaining st))),
           (''estimatedTimeToSync'', JStr (show_int (st_estimatedTimeToSync st)))]"

theorem never_synced_always_finished_witness:
  "\<exists>st. status_of (index_blocks (int_host (\<lambda>_. None)) [(ev_block example_event, ''MemberAdded'')] empty_store) = Some st
     \<and> xs_currentBlock (useIndexingStatus (Some (JObj [(''subgraphIndexingStatus'', statusJson st)]))) = Some 7
     \<and> formatTimeRemaining (xs_estimatedTimeToSync (useIndexingStatus (Some (JObj [(''subgraphIndexingStatus'', statusJson st)])))) = ''Synced''"
proof -
  let ?bes = "[(ev_block example_event, ''MemberAdded'')]" and ?H = "int_host (\<lambda>_. None)"
  have ok0: "status_ok (empty_store :: int store)" by (simp add: status_ok_def status_of_def)
  obtain st where st: "status_of (index_blocks ?H ?bes empty_store) = Some st" using updateIndexingStatus_status [OF ok0] by auto
  then have r: "reportsStatus (statusJson st) st'" if "status_of (index_blocks ?H ?bes empty_store) = Some st'" for st'
    using that by (simp add: reportsStatus_def statusJson_def)
  have "?bes \<noteq> []" "\<not> bd_gt ?H (bd_fromString ?H ''0'') (bd_fromString ?H ''0'')" by (simp_all add: int_host_def)
  from never_synced_always_finished [OF this r] have "xs_currentBlock (useIndexingStatus (Some (JObj [(''subgraphIndexingStatus'', statusJson st)]))) = Some 7
     \<and> formatTimeRemaining (xs_estimatedTimeToSync (useIndexingStatus (Some (JObj [(''subgraphIndexingStatus'', statusJson st)])))) = ''Synced''"
    by (simp add: Let_def example_event_def)
  with st show ?thesis by (intro exI [of _ st] conjI) simp_all
qed

section \<open>Fields the page of an organization does not ask for\<close>

lemma or_else_None [simp]: "or_else None b = b" by (simp add: or_else_def)

text \<open>
  The page of an organization shows its creator as its prime account, every member with the role \<open>MEMBER\<close>, and the deposits of its treasury as the balance, whatever is stored: the
  query selects neither prime nor role nor balance.
\<close>

theorem details_of_unselected_fields:
  assumes "answers GET_ORGANIZATION_BY_ID (JObj [(''organization'', org)])"
    and "useOrganizationDetails feeOf now (Some (JObj [(''organization'', org)])) = Some d"
  shows "od_prime d = od_creator d \<and> list_all (\<lambda>m. om_role m = Some (JStr ''MEMBER'')) (od_members d)
     \<and> od_treasuryBalance d = or_else (optField (field org ''treasury'') ''totalDeposits'') (Some (JStr ''0''))"
proof -
  have d: "d = detailsOf feeOf now org" using assms(2) by (simp add: useOrganizationDetails_def optField_def Let_def split: if_splits)
  obtain c ob sub where sel: "Sel ''organization'' c ob sub \<in> set GET_ORGANIZATION_BY_ID" "sub = [] \<or> answers sub org"
    using answers_field [OF assms(1), of "''organization''"] by auto
  then have org: "answers sub org" and sub: "sub \<noteq> []" by (auto simp: GET_ORGANIZATION_BY_ID_def)
  have prime: "field org ''prime'' = None" by (rule answers_unselected [OF org]) (use sel(1) in \<open>auto simp: GET_ORGANIZATION_BY_ID_def\<close>)
  have balance: "field t ''balance'' = None" if t: "field org ''treasury'' = Some t" for t
  proof -
    obtain c' ob' sub' where s: "Sel ''treasury'' c' ob' sub' \<in> set sub" "sub' = [] \<or> answers sub' t" using answers_field [OF org t] by blast
    then have "answers sub' t" using sel(1) by (auto simp: GET_ORGANIZATION_BY_ID_def)
    then show ?thesis by (rule answers_unselected) (use sel(1) s(1) in \<open>auto simp: GET_ORGANIZATION_BY_ID_def\<close>)
  qed
  have role: "field m ''role'' = None" if m: "m \<in> set (arrayOr (field org ''members''))" for m
  proof -
    have "v = Some (JArr (arrayOr v))" if "x \<in> set (arrayOr v)" for v and x :: json using that by (auto simp: arrayOr_def split: option.splits json.splits)
    from this [OF m] have "field org ''members'' = Some (JArr (arrayOr (field org ''members'')))" .
    then obtain ms where ms: "field org ''members'' = Some (JArr ms)" "m \<in> set ms" using m by blast
    obtain c' ob' sub' where s: "Sel ''members'' c' ob' sub' \<in> set sub" "sub' = [] \<or> answers sub' (JArr ms)"
      using answers_field [OF org ms(1)] by blast
    then have "answers sub' m" using sel(1) ms(2) by (auto simp: GET_ORGANIZATION_BY_ID_def list_all_iff)
    then show ?thesis by (rule answers_unselected) (use sel(1) s(1) in \<open>auto simp: GET_ORGANIZATION_BY_ID_def\<close>)
  qed
  show ?thesis
    using balance role by (cases "field org ''treasury''") (auto simp: d detailsOf_def prime optField_def transformMember_def list_all_iff Let_def)
qed

definition exampleOrganization :: json where
  "exampleOrganization =
     JObj [(''id'', JStr ''ABCD1234''), (''creator'', JObj [(''id'', JStr ''0xab''), (''address'', JStr ''0xab'')]),
           (''treasury'', JObj [(''id'', JStr ''0xcd''), (''totalDeposits'', JStr ''5'')]),
           (''members'', JArr [JObj [(''id'', JStr ''m1''), (''state'', JStr ''ACTIVE'')]])]"

theorem details_of_unselected_fields_witness:
  "\<exists>d. useOrganizationDetails (\<lambda>_. ''0'') 9 (Some (JObj [(''organization'', exampleOrganization)])) = Some d
     \<and> od_prime d = Some (JStr ''0xab'') \<and> od_treasuryBalance d = Some (JStr ''5'') \<and> actualMemberCount (Some d) = 1"
proof -
  have a: "answers GET_ORGANIZATION_BY_ID (JObj [(''organization'', exampleOrganization)])"
    by (simp add: GET_ORGANIZATION_BY_ID_def exampleOrganization_def)
  have "useOrganizationDetails (\<lambda>_. ''0'') 9 (Some (JObj [(''organization'', exampleOrganization)])) = Some (detailsOf (\<lambda>_. ''0'') 9 exampleOrganization)"
    by (simp add: useOrganizationDetails_def optField_def exampleOrganization_def)
  moreover from details_of_unselected_fields [OF a this]
  have "od_prime (detailsOf (\<lambda>_. ''0'') 9 exampleOrganization) = Some (JStr ''0xab'')"
    "od_treasuryBalance (detailsOf (\<lambda>_. ''0'') 9 exampleOrganization) = Some (JStr ''5'')"
    by (simp_all add: exampleOrganization_def detailsOf_def optField_def or_else_def Let_def)
  moreover have "actualMemberCount (Some (detailsOf (\<lambda>_. ''0'') 9 exampleOrganization)) = 1"
    by (simp add: actualMemberCount_def activeMembers_def exampleOrganization_def detailsOf_def transformMember_def arrayOr_def Let_def)
  ultimately show ?thesis by blast
qed

text \<open>
  A dissolved organization is active in the list of organizations and inactive on its own page.
\<close>

theorem dissolved_state_disagrees:
  "map (\<lambda>n. details_getStateFromString (Some (mapOrgState n))) [0, 1, 2, 3] = [0, 1, 2, 0]
   \<and> map (\<lambda>n. getStateFromString (Some (mapOrgState n))) [0, 1, 2, 3] = [0, 1, 2, 1]
   \<and> map (\<lambda>n. details_getAccessModelFromString (Some (mapAccessModel n))) [0, 1, 2] = [0, 1, 2]"
  by code_simp

end
