(* ===== verification/Spec2Isabelle.thy ===== *)
theory Spec2Isabelle
  imports Subgraph Sense Placeholder Logger Notifications Ipfs_Hooks Names Creation
    Staking_Client Proposals_Client Campaigns_Client Organizations_Client Addresses Profiles_Client
    Dashboard_Client
begin

text \<open>
  Verification of the TypeScript code of the GameDAO protocol: the subgraph that indexes the contracts,
  and the parts of the web client that have logic of their own.

  \<^bold>\<open>The program.\<close> The contracts of the protocol emit events. The subgraph (\<open>packages/subgraph\<close>) is a
  set of event handlers, one file per contract, that the indexing node calls in chain order; each loads
  entities from a store, changes them and saves them, and calls the helpers of \<open>utils/\<close>. The web client
  (\<open>packages/frontend\<close>) queries that store, shows entities under their ids, turns ids into contract
  arguments and reads the id of a new organization from the logs of its transaction.

  \<^bold>\<open>The subgraph.\<close> A handler of \<open>packages/subgraph/src/\<close> is a function from its event and the store to the
  next store or a halt (\<open>halt + store\<close>): reading past the end of a \<open>Bytes\<close> value and saving an entity
  without a required field stop the real indexer, and both are branches of the model. \<open>BigInt\<close> is \<open>int\<close>,
  \<open>Bytes\<close> a list of 8-bit words, an entity a record, the store a record with one map per entity class.
  \<open>BigDecimal\<close> and the contract call \<open>try_getOrganization\<close> belong to the host and are fields of a record
  of parameters. Loops are structural recursion; no handler needs fuel.

  \<^item> \<open>Prelude\<close>: results that may halt, the indexing loop \<open>run\<close>, sums over a store, and the interfaces
    \<open>entity_class\<close>, \<open>counted_indexer\<close> and \<open>indexer_refinement\<close> as locales. \<open>Encoding\<close>: bytes, hex and decimal
    strings, composite keys.
  \<^item> \<open>Entities\<close>: the classes of \<open>generated/schema.ts\<close> with \<open>load\<close> and \<open>save\<close>, and the store. \<open>entity_class\<close> is
    interpreted for every class.
  \<^item> \<open>Ids\<close>: \<open>utils/ids.ts\<close>. The id string of an organization is a lossless encoding of its bytes; users
    are stored under the hex form of their address.
  \<^item> \<open>Indexing\<close>: \<open>utils/indexing.ts\<close>. The block counters count calls; the status entity is never fully
    synced, because the head is assumed ten blocks ahead.
  \<^item> \<open>Control\<close>, \<open>Factory\<close>: \<open>control.ts\<close> and \<open>factory.ts\<close>. What creating an organization stores on every branch,
    the fallback branch that halts, and the counter of active organizations.
  \<^item> \<open>Membership\<close>: \<open>membership.ts\<close>. Along events of this contract the stored member counts refine its set of
    members; delegations and their removal.
  \<^item> \<open>Flow\<close>: \<open>flow.ts\<close>. What a campaign has raised, event by event: contributions minus refunds, in agreement
    with the contribution records, as long as a finalization carries the running total; an automatic finalization counts the last
    contribution twice.
  \<^item> \<open>Signal\<close>: \<open>signal.ts\<close>. Votes move exactly one tally of a proposal that is found; with the ids the
    contract emits none is found, so proposals never leave \<open>PENDING\<close>.
  \<^item> \<open>Staking\<close>: \<open>staking.ts\<close>. Stakes and pool totals against the account of the contract, which cannot be
    overdrawn: the index keeps the penalties that the contract takes.
  \<^item> \<open>Treasury\<close>: \<open>treasury.ts\<close>. Money movements are recorded and kept; the totals never change.
  \<^item> \<open>Registry\<close>: \<open>registry.ts\<close>. The index of modules is the abstract catalog of modules.
  \<^item> \<open>Tokens\<close>: \<open>gameToken.ts\<close>, \<open>mockGameToken.ts\<close>, \<open>mockUSDC.ts\<close>. References of transfer records, duplicate
    data sources, and the events that halt.
  \<^item> \<open>Identity\<close>, \<open>Sense\<close>: \<open>identity.ts\<close> and \<open>sense.ts\<close>. Users of profiles resolve; scores are the sums of
    their deltas. \<open>sense.ts\<close> uses profile fields the schema does not have, so it has its own store.
  \<^item> \<open>Subgraph\<close>: the dispatch of \<open>subgraph.yaml\<close>, one event type for all data sources, the lifting of
    the per-file lemmas to it, and the members of the contracts (\<open>census_step\<close>) beside it.
  \<^item> This theory: the properties of the whole subgraph. Users persist, organizations stay well-formed, the
    exact condition under which an event is indexed, member counts against the contracts, and two behaviours that need two mappings.

  \<^bold>\<open>The web client.\<close>

  \<^item> \<open>Frontend_Ids\<close>: \<open>lib/id-utils.ts\<close> and \<open>lib/hierarchical-id-utils.ts\<close>. Client and subgraph agree on the id
    of an organization; hierarchical ids are exactly the generated ones and can be taken apart; the id
    formats exclude each other. \<open>decodeEventLog\<close> of the client library is a parameter.
  \<^item> \<open>Placeholder\<close>: \<open>lib/placeholder.ts\<close>. The hash is FNV-1a, with the 32-bit conversions of the language
    written out; avatar addresses determine their seed.
  \<^item> \<open>Logger\<close>: \<open>lib/logger.ts\<close>. Module state, sharing of the category array, the bounded storage, filters and
    the CSV export. \<open>JSON.stringify\<close> of caller data and \<open>window.performance\<close> are parameters; console calls and
    requests are recorded outputs.
  \<^item> \<open>Approval\<close>: \<open>lib/tokenUtils.ts\<close>, \<open>lib/tokens.ts\<close> and the hooks \<open>useTokenApproval.ts\<close>, \<open>useGameTokenApproval.ts\<close>,
    \<open>useNonce.ts\<close>. How input becomes an amount, when an approval is sent, and the interface \<open>approval_flow\<close>
    that both hooks satisfy: no approval is confirmed that was not sent. \<open>parseUnits\<close> and the wallet are
    parameters.
  \<^item> \<open>Notifications\<close>: the hook \<open>useNotifications.ts\<close> with the order of its effects. The effects come to rest in
    three renders, which is the fuel of \<open>settle\<close>, in a state that is stated in full; what is shown, stored and lost.
  \<^item> \<open>Ipfs_Queue\<close>: the class \<open>IPFSRequestQueue\<close> of \<open>hooks/useIPFS.ts\<close> as a step relation over all interleavings of
    calls, timers and answers. The limits on concurrent requests, on the interval between them and on requests per
    minute hold, requests are neither lost nor answered twice, and the queue is never stuck; three runs
    show what clearing it and a back-off do wrong.
  \<^item> \<open>Ipfs\<close>: \<open>lib/ipfs.ts\<close>. Hashes and urls, uploads to Kubo or Pinata, downloads, the mock hash. What was
    uploaded is what is fetched; no rate limit of a download reaches the queue. The network and \<open>JSON.parse\<close> are
    parameters.
  \<^item> \<open>Ipfs_Hooks\<close>: the hooks of \<open>hooks/useIPFS.ts\<close>. Bounded retries, transparent caching of batches (the loop
    over batches is a partial function: it ends exactly for a positive batch size), the image shown in every
    case.
  \<^item> \<open>Names\<close>: \<open>hooks/useNameClaiming.ts\<close>. Names survive bytes8 and agree with the organization ids of
    \<open>Frontend_Ids\<close>.
  \<^item> \<open>Creation\<close>: \<open>hooks/useOrganizationCreation.ts\<close> and \<open>useProposalCreation.ts\<close>. The interface \<open>creation_hook\<close>, which
    both satisfy: at most one contract call per start; a whole creation with its uploads; the approval of \<open>Approval\<close> covers
    what the call takes.
  \<^item> \<open>Queries\<close>: \<open>lib/queries.ts\<close> and the queries of two hooks against \<open>subgraph/schema.graphql\<close>. Which fields do not exist,
    and so which queries a node refuses.
  \<^item> \<open>Client_Data\<close>: how the hooks read answers, with the numbers of the language rounded as doubles are.
  \<^item> \<open>Staking_Client\<close>: \<open>hooks/useStakingPools.ts\<close>. Amounts survive, the page never shows pools of the subgraph, and a stake
    exceeds the approval it checks.
  \<^item> \<open>Proposals_Client\<close>, \<open>Campaigns_Client\<close>, \<open>Organizations_Client\<close>: the hooks \<open>useProposals.ts\<close>, \<open>useCampaigns.ts\<close> and
    \<open>useOrganizations.ts\<close>. Together with the mappings: nothing can be voted on, no campaign is active, which states survive, which id a
    new organization gets. The interface \<open>sends_once\<close> of \<open>Client_Data\<close>: every accepted vote and creation is sent exactly once.
  \<^item> \<open>Addresses\<close>: the deployment tables of \<open>packages/shared/src/\<close> and \<open>lib/contracts.ts\<close>, \<open>lib/web3.ts\<close>, \<open>hooks/useContracts.ts\<close> and
    \<open>hooks/useGameDAO.ts\<close>. On which chains the client has contracts, and so where a vote can be cast.
  \<^item> \<open>Profiles_Client\<close>: the hooks \<open>useReputation.ts\<close>, \<open>useUserProfile.ts\<close>, \<open>usePortfolio.ts\<close> and \<open>useTreasury.ts\<close>. What the rankings
    contain, and that the pages about users are empty.
  \<^item> \<open>Dashboard_Client\<close>: the hooks \<open>useProtocolStats.ts\<close>, \<open>useIndexingStatus.ts\<close> and \<open>useOrganizationDetails.ts\<close>, and when an answer has only what its
    query selects. With the mappings: which numbers are always 0, and what the indexing status of \<open>Indexing\<close> reads as.

  \<^bold>\<open>Hypotheses.\<close> Theorems about runs hold for every order of events. Where a contract guarantees an order
  or a uniqueness (a member is added before it is removed, a stake is not overdrawn, the id of a proposal
  is the hierarchical one), this is a hypothesis or the abstract machine of a refinement, and a witness
  shows that it can hold.

  \<^bold>\<open>Not modelled.\<close> The Solidity contracts and the Rust packages are other languages. The generated contract
  bindings, ABIs, typechain output and constants are data or wrappers of the node's API; the
  parameters of an event are the arguments of its handler. The loaders of derived fields in the schema
  classes are not used by the mappings. The pages, components and other hooks of the client are rendering
  and network access; the display formatters of token amounts and file sizes and the check whether a stake
  is affordable use floating point. The files \<open>identity.ts\<close>
  and \<open>membership.ts\<close> at the root of the repository are not part of the subgraph and use a schema that is
  not there; deployment scripts and tests drive external processes.
\<close>

section \<open>The whole subgraph\<close>

text \<open>
  C2. Users are never lost and their history is never rewritten. Whatever events of whatever data
  sources are indexed, in any order, every user that was stored is still stored under the hex form of
  its address, with the same address and first-seen time, and none of its counters has gone down.
\<close>

theorem users_persist:
  assumes "run (subgraph_step H) es s = Inr s'" and "users_ok s" and "users s k = Some u"
  shows "users_ok s' \<and> (\<exists>v. users s' k = Some v \<and> u_address v = u_address u \<and> k = toHex (u_address v)
     \<and> u_firstSeenAt v = u_firstSeenAt u
     \<and> u_totalOrganizations u \<le> u_totalOrganizations v \<and> u_totalMemberships u \<le> u_totalMemberships v
     \<and> u_totalContributions u \<le> u_totalContributions v \<and> u_totalProposals u \<le> u_totalProposals v
     \<and> u_totalVotes u \<le> u_totalVotes v)"
proof -
  have ok: "users_ok s'" and le: "users_le s s'"
    using subgraph_run_users [OF assms(1)] assms(2) by (auto simp: users_step_def)
  from le assms(3) obtain v where v: "users s' k = Some v" "user_le u v" by (auto simp: users_le_def)
  moreover have "k = toHex (u_address v)" using ok v(1) by (simp add: users_ok_def)
  ultimately show ?thesis using ok by (auto simp: user_le_def)
qed

theorem users_persist_witness:
  "\<exists>(s' :: int store) v. run (subgraph_step (int_host (\<lambda>_. None)))
      [SignalEvent (VoteCast example_event ''ABCD1234-P-EFGH5678'' [5] 2 30 ''yes''),
       TokenEvent (GameTokenTransfer example_event [5] [6] 10)]
      (empty_store\<lparr>users := [toHex [5] \<mapsto> newUser (toHex [5]) [5] 1 1]\<rparr>) = Inr s'
     \<and> users s' (toHex [5]) = Some v \<and> u_firstSeenAt v = 1"
proof -
  let ?s = "(empty_store :: int store)\<lparr>users := [toHex [5] \<mapsto> newUser (toHex [5]) [5] 1 1]\<rparr>"
  let ?es = "[SignalEvent (VoteCast example_event ''ABCD1234-P-EFGH5678'' [5] 2 30 ''yes''),
       TokenEvent (GameTokenTransfer example_event [5] [6] 10)]"
  obtain s' where r: "run (subgraph_step (int_host (\<lambda>_. None))) ?es ?s = Inr s'" by simp
  have h: "users_ok ?s" "users ?s (toHex [5]) = Some (newUser (toHex [5]) [5] 1 1)" by (simp_all add: users_ok_def)
  from users_persist [OF r h] r show ?thesis by auto
qed

text \<open>
  C1. Organizations stay well-formed. From an empty store, after any events of any data sources,
  every stored organization stands under its own id, has its required prime account, and carries
  values of the schema's enums in state, access model, fee model and type.
\<close>

theorem organizations_stay_typed:
  assumes "run (subgraph_step H) es (empty_store :: 'd store) = Inr s'" and "organizations s' k = Some x"
  shows "org_id x = k \<and> org_prime x \<noteq> None \<and> org_state x \<in> OrganizationState
     \<and> org_accessModel x \<in> AccessModel \<and> org_feeModel x \<in> FeeModel \<and> org_orgType x \<in> OrgType"
proof -
  have "organizations_ok s'"
    by (rule run_invariant [OF _ assms(1), where I = organizations_ok])
      (use subgraph_step_orgs in \<open>auto simp: puts_typed_def organizations_ok_def [of empty_store]\<close>)
  then show ?thesis using assms(2) by (simp add: organizations_ok_def organization_typed_def)
qed

theorem organizations_stay_typed_witness:
  "\<exists>(s' :: int store) x. run (subgraph_step (int_host (\<lambda>_. None)))
      [FactoryEvent example_event example_org_id ''Guild'' ''ipfs'' [1] [6] 1000] empty_store = Inr s'
     \<and> organizations s' (org_key example_org_id) = Some x \<and> org_state x \<in> OrganizationState"
proof -
  let ?H = "int_host (\<lambda>_. None)" and ?e = "FactoryEvent example_event example_org_id ''Guild'' ''ipfs'' [1] [6] 1000"
  obtain s' where st: "subgraph_step ?H ?e (empty_store :: int store) = Inr s'"
    using factory_steps [of ?H example_event example_org_id "''Guild''" "''ipfs''" "[1]" "[6]" 1000 empty_store]
    by (auto simp: steps_def)
  then have r: "run (subgraph_step ?H) [?e] (empty_store :: int store) = Inr s'" by simp
  obtain x where x: "organizations s' (org_key example_org_id) = Some x"
    using handleFactoryOrganizationCreated_orgs st by fastforce
  from organizations_stay_typed [OF r x] r x show ?thesis by blast
qed

text \<open>
  C3. Exactly when an event stops the indexer. Every handler of every data source returns if the
  bytes8 ids of the event are not too short and, for the few events that need more, if the contract
  answers the read-back call of a new organization and the parties of a burn or of a mock-token
  event are known users; in every other case it halts.
\<close>

theorem indexer_returns_iff:
  "(\<exists>s'. subgraph_step H e s = Inr s') \<longleftrightarrow> list_all (\<lambda>b. 8 \<le> length b) (event_ids e) \<and> accepted H e s"
  using subgraph_steps_iff [of H e s] by (simp add: steps_def list_all_iff)

text \<open>
  C5. The member counts of the whole subgraph against the contracts. Take any sequence of events of all data sources that the contracts
  can emit (the factory creates an organization at most once and before it has members, membership adds only new members and
  removes only present ones, the Control contract emits no creation) and that does not halt the indexer. Afterwards every
  present member has a member entity, and the member count of every organization is the number of its present members, plus one if the
  factory created it: its creator is counted at the creation and again when the membership adds it.
\<close>

theorem member_count_refines_registry:
  assumes "run census_step es ({}, {}) = Inr (A, C)" and "run (subgraph_step H) es (empty_store :: 'd store) = Inr s"
  shows "(\<forall>org. length org = 8 \<longrightarrow> member_count s org = int (card {m. (org, m) \<in> A}) + (if org \<in> C then 1 else 0))
     \<and> (\<forall>org m. (org, m) \<in> A \<longrightarrow> members s (memberId org m) \<noteq> None)"
  using census_sim_run [OF membership_sim_empty assms] by (auto simp: membership_sim_def extra_def)

theorem member_count_refines_registry_witness:
  "\<exists>s :: int store. run (subgraph_step (int_host (\<lambda>_. None)))
      [FactoryEvent example_event example_org_id ''Guild'' ''ipfs'' [1] [6] 1000,
       MembershipEvent (MemberAdded example_event example_org_id [1] 0 5),
       TokenEvent (GameTokenTransfer example_event [5] [6] 10),
       MembershipEvent (MemberAdded example_event example_org_id [2] 1 6),
       MembershipEvent (MemberRemoved example_event example_org_id [1] 7)] empty_store = Inr s
     \<and> member_count s example_org_id = 2"
proof -
  let ?H = "int_host (\<lambda>_. None)"
  let ?es = "[FactoryEvent example_event example_org_id ''Guild'' ''ipfs'' [1] [6] 1000,
       MembershipEvent (MemberAdded example_event example_org_id [1] 0 5),
       TokenEvent (GameTokenTransfer example_event [5] [6] 10),
       MembershipEvent (MemberAdded example_event example_org_id [2] 1 6),
       MembershipEvent (MemberRemoved example_event example_org_id [1] 7)]"
  have c: "run census_step ?es ({}, {}) = Inr ({(example_org_id, [2])}, {example_org_id})"
    by (simp add: roster_step_def length_example_org_id) auto
  have "\<exists>s'. subgraph_step ?H e t = Inr s'" if "e \<in> set ?es" for e and t :: "int store"
    using that subgraph_steps_iff [of ?H e t] by (auto simp: steps_def length_example_org_id)
  then obtain s where s: "run (subgraph_step ?H) ?es (empty_store :: int store) = Inr s"
    using run_total [of ?es "subgraph_step ?H" empty_store] by blast
  have "{m. (example_org_id, m) \<in> {(example_org_id, [2 :: byte])}} = {[2]}" by auto
  with member_count_refines_registry [OF c s] have "member_count s example_org_id = 2"
    using length_example_org_id by fastforce
  with s show ?thesis by blast
qed

text \<open>
  Creating an organization through the factory counts its creator twice. The contract emits the
  factory event and then the membership event that adds the creator; after both the stored member
  count is two, while the organization has one member.
\<close>

theorem factory_creator_counted_twice:
  assumes "length org = 8" and "users_ok s" and "stats_keyed s" and "organizations_ok s"
  shows "\<exists>s' x. run (subgraph_step H) [FactoryEvent ev org n m c tr t, MembershipEvent (MemberAdded ev' org c tier t')] s = Inr s'
     \<and> organizations s' (org_key org) = Some x \<and> org_memberCount x = 2"
proof -
  obtain s1 where s1: "subgraph_step H (FactoryEvent ev org n m c tr t) s = Inr s1"
    using factory_steps [of H ev org n m c tr t s] assms(1) by (auto simp: steps_def)
  then have orgs: "organizations s1 = (organizations s)(org_key org \<mapsto>
       (syncWithChain (try_getOrganization H (ev_block ev) CONTROL_ADDRESS org)
         (factoryOrganization ev (org_key org) n m c tr t))\<lparr>org_treasury := Some (toHex tr)\<rparr>)"
    using handleFactoryOrganizationCreated_orgs by simp
  then have "orgs_keyed s1" using assms(4) by (simp add: orgs_keyed_def organizations_ok_def)
  moreover have "member_count s1 org = 1" by (simp add: member_count_def orgs)
  ultimately obtain s' x where "handleMemberAdded ev' org c tier t' s1 = Inr s'"
      "organizations s' = (organizations s1)(org_key org \<mapsto> x)" "org_memberCount x = 2"
    using handleMemberAdded_effect [OF assms(1), of s1 ev' c tier t'] by auto
  then show ?thesis using s1 by auto
qed

theorem factory_creator_counted_twice_witness:
  "\<exists>(s' :: int store) x. run (subgraph_step (int_host (\<lambda>_. None)))
      [FactoryEvent example_event example_org_id ''Guild'' ''ipfs'' [1] [6] 1000,
       MembershipEvent (MemberAdded example_event example_org_id [1] 0 1000)] empty_store = Inr s'
     \<and> organizations s' (org_key example_org_id) = Some x \<and> org_memberCount x = 2"
proof -
  have "organizations_ok (empty_store :: int store)" by (simp add: organizations_ok_def)
  from factory_creator_counted_twice [OF length_example_org_id users_ok_empty stats_keyed_empty this] show ?thesis by blast
qed

text \<open>
  A stake withdrawn through Control stays active. The staking mapping stores the stake of an
  organization under the hex form of its id, the control mapping looks for it under the ASCII form:
  after the organization has staked, the withdrawal event of the Control contract changes no stored
  stake, so the stake of the organization is still marked active.
\<close>

theorem withdrawn_stake_stays_active:
  assumes "length org = 8" and "\<And>k st. organizationStakes s k = Some st \<Longrightarrow> \<exists>b. length b = 8 \<and> k = toHex b"
  shows "\<exists>s' st. run (subgraph_step H) [StakingEvent (OrganizationStaked ev org u n t),
        ControlEvent (StakeWithdrawn ev' org u n t')] s = Inr s'
     \<and> organizationStakes s' (toHex org) = Some st \<and> os_active st \<and> os_amount st = n"
proof -
  let ?s1 = "handleOrganizationStaked ev org u n t s"
  have s1: "organizationStakes ?s1 (toHex org) = Some st \<Longrightarrow> os_active st \<and> os_amount st = n"
    "organizationStakes ?s1 (toHex org) \<noteq> None" for st
    by (auto simp: handleOrganizationStaked_def OrganizationStake_save_def Let_def)
  have "organizationStakes ?s1 (org_key org) = None"
  proof (rule ccontr)
    assume "organizationStakes ?s1 (org_key org) \<noteq> None"
    then obtain b where "length b = 8" and "org_key org = toHex b"
      using assms by (auto simp: handleOrganizationStaked_def OrganizationStake_save_def Let_def split: if_splits)
    then have "length (org_key org) = length (toHex b)" by simp
    then show False using assms(1) \<open>length b = 8\<close> by (simp add: length_toHex)
  qed
  moreover obtain s' where "handleStakeWithdrawn H ev' org u n t' ?s1 = Inr s'"
    using assms(1) by (auto simp: handleStakeWithdrawn_def getOrganizationIdString_eq Let_def)
  ultimately have "organizationStakes s' = organizationStakes ?s1"
    and "run (subgraph_step H) [StakingEvent (OrganizationStaked ev org u n t), ControlEvent (StakeWithdrawn ev' org u n t')] s = Inr s'"
    using assms(1) by (auto simp: handleStakeWithdrawn_def getOrganizationIdString_eq Let_def User_save_def split: option.splits)
  then show ?thesis using s1 by auto
qed

theorem withdrawn_stake_stays_active_witness:
  "\<exists>(s' :: int store) st. run (subgraph_step (int_host (\<lambda>_. None)))
      [StakingEvent (OrganizationStaked example_event example_org_id [1] 500 1000),
       ControlEvent (StakeWithdrawn example_event example_org_id [1] 500 2000)] empty_store = Inr s'
     \<and> organizationStakes s' (toHex example_org_id) = Some st \<and> os_active st"
proof -
  have none: "organizationStakes (empty_store :: int store) k = None" for k by simp
  show ?thesis
    using withdrawn_stake_stays_active [where s = "empty_store :: int store" and H = "int_host (\<lambda>_. None)"
        and org = example_org_id and ev = example_event and ev' = example_event and u = "[1]" and n = 500 and t = 1000 and t' = 2000]
      none by fastforce
qed

end
